(* ===== verification/Prelude.thy ===== *)
theory Prelude
  imports Main "HOL-Library.Sublist" "HOL-Library.Char_ord" "HOL-Library.List_Lexorder"
    "HOL-Library.Product_Lexorder"
begin

text \<open>
  Shared vocabulary of the development: Go's \<^verbatim>\<open>time.Time\<close> and \<^verbatim>\<open>time.Duration\<close>, Go strings,
  the few functions of Go's standard library that several components use, the ambient
  inputs of an operation (the clock and the outcome of the database call), and the
  relational operations that the SQL statements of the config store are written with.

  A time is the number of nanoseconds since Go's zero time, so \<^verbatim>\<open>t.IsZero()\<close> is
  \<open>t = 0\<close>, \<^verbatim>\<open>t.Add(d)\<close> is \<open>t + d\<close>, \<^verbatim>\<open>t.Before(u)\<close> is \<open>t < u\<close> and \<^verbatim>\<open>t.After(u)\<close> is \<open>u < t\<close>.
  A Go string is its list of bytes.
\<close>

named_theorems sql_simps \<open>rewrite rules for the relational operations\<close>
named_theorems cas_defs \<open>definitions of the fenced store updates\<close>

section \<open>Times, strings, ambient inputs\<close>

type_synonym gotime = int
type_synonym duration = int

abbreviation (input) IsZero :: "gotime \<Rightarrow> bool" where
  "IsZero t \<equiv> t = 0"

definition Second :: duration where
  "Second = 1000000000"

definition Minute :: duration where
  "Minute = 60 * Second"

definition Millisecond :: duration where
  "Millisecond = 1000000"

lemmas duration_defs = Second_def Minute_def Millisecond_def

text \<open>
  The two inputs a store call takes from outside the program: what \<^verbatim>\<open>time.Now()\<close> (or the
  database clock) returns, and whether the database reports an error for the statement
  or the transaction. A failed statement or transaction has no effect on the tables.
\<close>

record env =
  now :: gotime
  fault :: "string option"

section \<open>Go string functions\<close>

text \<open>
  The byte sequences \<^verbatim>\<open>unicode.IsSpace\<close> accepts, as UTF-8: the six ASCII blanks, U+0085,
  U+00A0, U+1680, U+2000 to U+200A, U+2028, U+2029, U+202F, U+205F and U+3000.
\<close>

definition go_space_runes :: "string list" where
  "go_space_runes =
     [[CHR 0x09], [CHR 0x0A], [CHR 0x0B], [CHR 0x0C], [CHR 0x0D], [CHR 0x20],
      [CHR 0xC2, CHR 0x85], [CHR 0xC2, CHR 0xA0], [CHR 0xE1, CHR 0x9A, CHR 0x80],
      [CHR 0xE2, CHR 0x80, CHR 0x80], [CHR 0xE2, CHR 0x80, CHR 0x81],
      [CHR 0xE2, CHR 0x80, CHR 0x82], [CHR 0xE2, CHR 0x80, CHR 0x83],
      [CHR 0xE2, CHR 0x80, CHR 0x84], [CHR 0xE2, CHR 0x80, CHR 0x85],
      [CHR 0xE2, CHR 0x80, CHR 0x86], [CHR 0xE2, CHR 0x80, CHR 0x87],
      [CHR 0xE2, CHR 0x80, CHR 0x88], [CHR 0xE2, CHR 0x80, CHR 0x89],
      [CHR 0xE2, CHR 0x80, CHR 0x8A], [CHR 0xE2, CHR 0x80, CHR 0xA8],
      [CHR 0xE2, CHR 0x80, CHR 0xA9], [CHR 0xE2, CHR 0x80, CHR 0xAF],
      [CHR 0xE2, CHR 0x81, CHR 0x9F], [CHR 0xE3, CHR 0x80, CHR 0x80]]"

text \<open>Drop leading occurrences of the given non-empty sequences, as long as one matches.\<close>

function trim_seqs :: "string list \<Rightarrow> string \<Rightarrow> string" where
  "trim_seqs seqs s =
     (case find (\<lambda>r. r \<noteq> [] \<and> prefix r s) seqs of
        None \<Rightarrow> s
      | Some r \<Rightarrow> trim_seqs seqs (drop (length r) s))"
  by pat_completeness auto
termination
  by (relation "measure (\<lambda>(seqs, s). length s)")
     (auto simp: find_Some_iff prefix_def)

declare trim_seqs.simps [simp del]

definition TrimSpace :: "string \<Rightarrow> string" where
  "TrimSpace s =
     rev (trim_seqs (map rev go_space_runes) (rev (trim_seqs go_space_runes s)))"

definition digit_char :: "nat \<Rightarrow> char" where
  "digit_char d = char_of (48 + d)"

fun digits10 :: "nat \<Rightarrow> string" where
  "digits10 n = (if n < 10 then [digit_char n] else digits10 (n div 10) @ [digit_char (n mod 10)])"

declare digits10.simps [simp del]

text \<open>The verb \<^verbatim>\<open>%d\<close> of Go's \<^verbatim>\<open>fmt\<close> on an integer.\<close>

definition itoa :: "int \<Rightarrow> string" where
  "itoa i = (if i < 0 then ''-'' @ digits10 (nat (- i)) else digits10 (nat i))"

lemma trim_seqs_Nil [simp]: "trim_seqs seqs [] = []"
  by (subst trim_seqs.simps) (auto split: option.splits simp: find_Some_iff)

lemma TrimSpace_Nil [simp]: "TrimSpace [] = []"
  by (simp add: TrimSpace_def)

lemma trim_seqs_suffix: "suffix (trim_seqs seqs s) s"
proof (induction seqs s rule: trim_seqs.induct)
  case (1 seqs s)
  show ?case
  proof (cases "find (\<lambda>r. r \<noteq> [] \<and> prefix r s) seqs")
    case None
    then show ?thesis by (simp add: trim_seqs.simps [of seqs s])
  next
    case (Some r)
    then have "suffix (trim_seqs seqs (drop (length r) s)) (drop (length r) s)"
      by (rule "1.IH")
    then have "suffix (trim_seqs seqs (drop (length r) s)) s"
      by (rule suffix_order.trans) (simp add: suffix_drop)
    with Some show ?thesis by (simp add: trim_seqs.simps [of seqs s])
  qed
qed

text \<open>A string is trimmed to nothing only if it consists of blanks; a string with a
  byte that starts and ends no blank rune is not.\<close>

lemma trim_seqs_keeps:
  assumes "c \<in> set s" and "\<forall>r \<in> set seqs. c \<notin> set r"
  shows "c \<in> set (trim_seqs seqs s)"
  using assms
proof (induction seqs s rule: trim_seqs.induct)
  case (1 seqs s)
  show ?case
  proof (cases "find (\<lambda>r. r \<noteq> [] \<and> prefix r s) seqs")
    case None
    with "1.prems" show ?thesis by (simp add: trim_seqs.simps [of seqs s])
  next
    case (Some r)
    then have r: "r \<in> set seqs" "prefix r s"
      by (auto simp: find_Some_iff)
    from r(2) obtain t where s: "s = r @ t" by (auto simp: prefix_def)
    with "1.prems" r(1) have "c \<in> set (drop (length r) s)" by auto
    from "1.IH" [OF Some this "1.prems"(2)] Some show ?thesis
      by (simp add: trim_seqs.simps [of seqs s])
  qed
qed

lemma TrimSpace_keeps:
  assumes "c \<in> set s" and "\<forall>r \<in> set go_space_runes. c \<notin> set r"
  shows "TrimSpace s \<noteq> []"
proof -
  from assms have "c \<in> set (trim_seqs go_space_runes s)" by (rule trim_seqs_keeps)
  then have "c \<in> set (trim_seqs (map rev go_space_runes) (rev (trim_seqs go_space_runes s)))"
    using assms(2) by (intro trim_seqs_keeps) auto
  then show ?thesis by (auto simp: TrimSpace_def)
qed

lemma digits10_not_Nil [simp]: "digits10 n \<noteq> []"
  by (subst digits10.simps) simp

section \<open>Relational operations\<close>

text \<open>
  A table is the list of its rows. \<open>sql_update\<close> is \<^verbatim>\<open>UPDATE .. SET f WHERE P\<close> and
  \<open>sql_delete\<close> is \<^verbatim>\<open>DELETE .. WHERE P\<close>; both also give the number of affected rows.
  \<open>sql_first\<close> is \<^verbatim>\<open>SELECT .. WHERE P ORDER BY key ASC LIMIT 1\<close>.
\<close>

definition sql_count :: "('r \<Rightarrow> bool) \<Rightarrow> 'r list \<Rightarrow> int" where
  "sql_count P rs = int (length (filter P rs))"

definition sql_update :: "('r \<Rightarrow> bool) \<Rightarrow> ('r \<Rightarrow> 'r) \<Rightarrow> 'r list \<Rightarrow> 'r list \<times> int" where
  "sql_update P f rs = (map (\<lambda>r. if P r then f r else r) rs, sql_count P rs)"

definition sql_delete :: "('r \<Rightarrow> bool) \<Rightarrow> 'r list \<Rightarrow> 'r list \<times> int" where
  "sql_delete P rs = (filter (\<lambda>r. \<not> P r) rs, sql_count P rs)"

definition sql_first :: "('r \<Rightarrow> 'k::linorder) \<Rightarrow> ('r \<Rightarrow> bool) \<Rightarrow> 'r list \<Rightarrow> 'r option" where
  "sql_first key P rs =
     (case filter P rs of [] \<Rightarrow> None | r # rs' \<Rightarrow> Some (arg_min_list key (r # rs')))"

definition sql_find :: "('r \<Rightarrow> bool) \<Rightarrow> 'r list \<Rightarrow> 'r option" where
  "sql_find P rs = find P rs"

lemma sql_count_nonneg [simp]: "0 \<le> sql_count P rs"
  by (simp add: sql_count_def)

lemma sql_count_Nil [simp]: "sql_count P [] = 0"
  by (simp add: sql_count_def)

lemma sql_count_Cons [simp]:
  "sql_count P (r # rs) = (if P r then 1 else 0) + sql_count P rs"
  by (simp add: sql_count_def)

lemma sql_count_append [simp]:
  "sql_count P (xs @ ys) = sql_count P xs + sql_count P ys"
  by (simp add: sql_count_def)

lemma sql_count_zero_iff [sql_simps]: "sql_count P rs = 0 \<longleftrightarrow> (\<forall>r \<in> set rs. \<not> P r)"
  by (simp add: sql_count_def filter_empty_conv)

lemma sql_count_pos_iff [sql_simps]: "0 < sql_count P rs \<longleftrightarrow> (\<exists>r \<in> set rs. P r)"
  using sql_count_zero_iff [of P rs] sql_count_nonneg [of P rs] by (auto simp: order_le_less)

lemma sql_count_mono: "(\<And>r. r \<in> set rs \<Longrightarrow> P r \<Longrightarrow> Q r) \<Longrightarrow> sql_count P rs \<le> sql_count Q rs"
  by (induction rs) auto

lemma sql_count_filter_le: "sql_count P (filter Q rs) \<le> sql_count P rs"
  by (induction rs) auto

lemma sql_count_map_le:
  "(\<And>r. r \<in> set rs \<Longrightarrow> P (f r) \<Longrightarrow> P r) \<Longrightarrow> sql_count P (map f rs) \<le> sql_count P rs"
  by (induction rs) auto

text \<open>Rewriting a single row, the one with a given key, raises a count by one at most.\<close>

lemma sql_count_map_one:
  assumes "distinct (map key rs)"
    and "\<And>r. r \<in> set rs \<Longrightarrow> key r \<noteq> k \<Longrightarrow> f r = r"
  shows "sql_count P (map f rs) \<le> sql_count P rs + 1"
  using assms
proof (induction rs)
  case Nil
  then show ?case by simp
next
  case (Cons a rs)
  show ?case
  proof (cases "key a = k")
    case True
    with Cons.prems(1) have "\<And>r. r \<in> set rs \<Longrightarrow> key r \<noteq> k" by (auto simp: rev_image_eqI)
    with Cons.prems(2) have "map f rs = rs" by (simp add: map_idI)
    then show ?thesis by simp
  next
    case False
    with Cons.prems have "f a = a" by simp
    moreover have "sql_count P (map f rs) \<le> sql_count P rs + 1"
      using Cons.prems by (intro Cons.IH) auto
    ultimately show ?thesis by simp
  qed
qed

lemma sql_first_None [sql_simps]: "sql_first key P rs = None \<longleftrightarrow> (\<forall>r \<in> set rs. \<not> P r)"
  by (cases "filter P rs") (auto simp: sql_first_def filter_empty_conv dest: filter_eq_ConsD)

lemma sql_first_SomeD:
  assumes "sql_first key P rs = Some r"
  shows "r \<in> set rs" and "P r" and "\<And>q. q \<in> set rs \<Longrightarrow> P q \<Longrightarrow> key r \<le> key q"
proof -
  from assms have ne: "filter P rs \<noteq> []" and r: "r = arg_min_list key (filter P rs)"
    by (auto simp: sql_first_def split: list.splits)
  have "r \<in> set (filter P rs)" unfolding r by (rule arg_min_list_in [OF ne])
  then show "r \<in> set rs" and "P r" by auto
  fix q assume "q \<in> set rs" "P q"
  then have "q \<in> set (filter P rs)" by simp
  then show "key r \<le> key q"
    using f_arg_min_list_f [OF ne, of key] by (simp add: r)
qed

lemma sql_first_iff_unique_key:
  assumes "inj_on key (set rs)"
  shows "sql_first key P rs = Some r \<longleftrightarrow>
    r \<in> set rs \<and> P r \<and> (\<forall>q \<in> set rs. P q \<longrightarrow> key r \<le> key q)"
proof
  assume "r \<in> set rs \<and> P r \<and> (\<forall>q \<in> set rs. P q \<longrightarrow> key r \<le> key q)"
  moreover from this obtain r' where r': "sql_first key P rs = Some r'"
    using sql_first_None [of key P rs] by fastforce
  ultimately have "key r = key r'" using sql_first_SomeD [OF r'] by (meson order_antisym)
  with assms r' show "sql_first key P rs = Some r"
    using \<open>r \<in> set rs \<and> _\<close> sql_first_SomeD(1) [OF r'] by (auto dest: inj_onD)
qed (use sql_first_SomeD [of key P rs] in blast)

lemma sql_find_SomeD:
  "sql_find P rs = Some r \<Longrightarrow> r \<in> set rs \<and> P r"
  by (auto simp: sql_find_def find_Some_iff)

lemma sql_find_None [sql_simps]: "sql_find P rs = None \<longleftrightarrow> (\<forall>r \<in> set rs. \<not> P r)"
  by (auto simp: sql_find_def find_None_iff)

text \<open>With a unique key, looking a present key up finds that row.\<close>

lemma sql_find_key [sql_simps]:
  assumes "distinct (map key rs)" and "r \<in> set rs"
  shows "sql_find (\<lambda>q. key q = key r) rs = Some r"
  using assms
  by (induction rs) (auto simp: sql_find_def rev_image_eqI)

lemma distinct_key_unique:
  assumes "distinct (map key rs)" "r \<in> set rs" "q \<in> set rs" "key r = key q"
  shows "r = q"
  using assms by (metis distinct_map inj_onD)

lemma sql_find_map:
  "(\<And>r. P (f r) = P r) \<Longrightarrow> sql_find P (map f rs) = map_option f (sql_find P rs)"
  by (induction rs) (auto simp: sql_find_def)

lemma map_key_update:
  "(\<And>r. key (f r) = key r) \<Longrightarrow> map key (fst (sql_update P f rs)) = map key rs"
  by (simp add: sql_update_def)

lemma sql_update_noop [sql_simps]:
  "(\<forall>r \<in> set rs. \<not> P r) \<Longrightarrow> sql_update P f rs = (rs, 0)"
  by (auto simp: sql_update_def sql_count_zero_iff intro!: map_idI)

text \<open>\<^verbatim>\<open>INSERT .. ON CONFLICT (key) DO UPDATE\<close>: \<open>merge\<close> is the update of the row in the way.\<close>

definition sql_upsert :: "('r \<Rightarrow> 'k) \<Rightarrow> ('r \<Rightarrow> 'r \<Rightarrow> 'r) \<Rightarrow> 'r \<Rightarrow> 'r list \<Rightarrow> 'r list" where
  "sql_upsert key merge r rs =
     (if key r \<in> key ` set rs then map (\<lambda>q. if key q = key r then merge r q else q) rs
      else rs @ [r])"

lemma sql_upsert_distinct:
  assumes "distinct (map key rs)" and "\<And>q. key (merge r q) = key q"
  shows "distinct (map key (sql_upsert key merge r rs))"
proof -
  have "map key (map (\<lambda>q. if key q = key r then merge r q else q) rs) = map key rs"
    using assms(2) by simp
  then show ?thesis using assms(1) by (auto simp: sql_upsert_def simp del: map_map)
qed

lemma sql_update_distinct:
  assumes "distinct (map key rs)" and "\<And>q. key (f q) = key q"
  shows "distinct (map key (fst (sql_update P f rs)))"
  using assms by (simp add: map_key_update)

lemma sql_delete_distinct:
  "distinct (map key rs) \<Longrightarrow> distinct (map key (fst (sql_delete P rs)))"
  by (simp add: sql_delete_def distinct_map_filter)

end
