(* ===== verification/Runtime_Models.thy ===== *)
theory Runtime_Models
  imports Prelude
begin

text \<open>
  The runtime coordination tables of the config store
  (\<^verbatim>\<open>controlplane/configstore/models.go\<close>): their row types, the enumerations of their state
  columns, the runtime schema as one record of tables, and the well-formedness of that
  schema (primary keys and unique indexes). A nullable column is an \<open>option\<close>; the owner
  column of \<^verbatim>\<open>worker_records\<close>, which the statements test with \<^verbatim>\<open>IS NULL\<close>, is read into a Go
  string, where SQL's NULL becomes the empty string (\<open>owner_string\<close>).
\<close>

section \<open>State columns\<close>

datatype ControlPlaneInstanceState =
    ControlPlaneInstanceStateActive
  | ControlPlaneInstanceStateDraining
  | ControlPlaneInstanceStateExpired

text \<open>Worker states are strings in the source; the last constructor stands for every string
  that is none of the nine constants.\<close>

datatype WorkerState =
    WorkerStateSpawning
  | WorkerStateIdle
  | WorkerStateReserved
  | WorkerStateActivating
  | WorkerStateHot
  | WorkerStateHotIdle
  | WorkerStateDraining
  | WorkerStateRetired
  | WorkerStateLost
  | WorkerStateOther string

datatype WorkerClaimMissReason =
    WorkerClaimMissReasonNone
  | WorkerClaimMissReasonNoIdle
  | WorkerClaimMissReasonOrgCap
  | WorkerClaimMissReasonGlobalCap
  | WorkerClaimMissReasonShuttingDown

datatype FlightSessionState =
    FlightSessionStateActive
  | FlightSessionStateReconnecting
  | FlightSessionStateExpired
  | FlightSessionStateClosed

section \<open>Rows\<close>

record ControlPlaneInstance =
  cp_ID :: string
  cp_PodName :: string
  cp_PodUID :: string
  cp_BootID :: string
  cp_State :: ControlPlaneInstanceState
  cp_StartedAt :: gotime
  cp_LastHeartbeatAt :: gotime
  cp_DrainingAt :: "gotime option"
  cp_ExpiredAt :: "gotime option"
  cp_CreatedAt :: gotime
  cp_UpdatedAt :: gotime

record WorkerRecord =
  wr_WorkerID :: int
  wr_PodName :: string
  wr_PodUID :: string
  wr_Image :: string
  wr_State :: WorkerState
  wr_OrgID :: string
  wr_OwnerCPInstanceID :: "string option"
  wr_OwnerEpoch :: int
  wr_ActivationStartedAt :: "gotime option"
  wr_LastHeartbeatAt :: gotime
  wr_RetireReason :: string
  wr_S3CredentialsExpiresAt :: "gotime option"
  wr_CreatedAt :: gotime
  wr_UpdatedAt :: gotime

record FlightSessionRecord =
  fs_SessionToken :: string
  fs_Username :: string
  fs_OrgID :: string
  fs_WorkerID :: int
  fs_OwnerEpoch :: int
  fs_CPInstanceID :: string
  fs_State :: FlightSessionState
  fs_ExpiresAt :: gotime
  fs_LastSeenAt :: gotime
  fs_CreatedAt :: gotime
  fs_UpdatedAt :: gotime

record OrgConnectionQueueEntry =
  oq_RequestID :: string
  oq_OrgID :: string
  oq_CPInstanceID :: string
  oq_PID :: int
  oq_Protocol :: string
  oq_EnqueuedAt :: gotime
  oq_ExpiresAt :: gotime
  oq_GrantedAt :: "gotime option"
  oq_CanceledAt :: "gotime option"
  oq_CreatedAt :: gotime
  oq_UpdatedAt :: gotime

record OrgConnectionLease =
  ol_LeaseID :: string
  ol_RequestID :: string
  ol_OrgID :: string
  ol_CPInstanceID :: string
  ol_PID :: int
  ol_Protocol :: string
  ol_AcquiredAt :: gotime
  ol_CreatedAt :: gotime
  ol_UpdatedAt :: gotime

record WarmCapacityMissBucket =
  mb_Scope :: string
  mb_Reason :: WorkerClaimMissReason
  mb_BucketStart :: gotime
  mb_Count :: int
  mb_UpdatedAt :: gotime

record WarmCapacityMissAggregate =
  ma_Scope :: string
  ma_Reason :: WorkerClaimMissReason
  ma_Count :: int

definition WarmCapacityMissBucketSize :: duration where
  "WarmCapacityMissBucketSize = 10 * Second"

section \<open>The runtime schema\<close>

record runtime_db =
  cp_instances :: "ControlPlaneInstance list"
  worker_records :: "WorkerRecord list"
  flight_session_records :: "FlightSessionRecord list"
  org_connection_queue :: "OrgConnectionQueueEntry list"
  org_connection_leases :: "OrgConnectionLease list"
  warm_capacity_miss_buckets :: "WarmCapacityMissBucket list"

definition empty_db :: runtime_db where
  "empty_db = \<lparr>cp_instances = [], worker_records = [], flight_session_records = [],
     org_connection_queue = [], org_connection_leases = [], warm_capacity_miss_buckets = []\<rparr>"

text \<open>What the store reports: the database's own error, or one of the errors the source
  declares or formats.\<close>

datatype store_error =
    DbError string
  | ErrWorkerOwnerEpochMismatch
  | ErrWorkerRecordUpsertFenceMiss
  | UnsupportedTerminalState WorkerState
  | RequiredField string
  | InvalidField string
  | UniqueViolation string
  | RecordNotFound

type_synonym 'a result = "store_error + 'a"

definition owner_string :: "WorkerRecord \<Rightarrow> string" where
  "owner_string r = (case wr_OwnerCPInstanceID r of None \<Rightarrow> [] | Some s \<Rightarrow> s)"

abbreviation bucket_key :: "WarmCapacityMissBucket \<Rightarrow> string \<times> WorkerClaimMissReason \<times> gotime" where
  "bucket_key b \<equiv> (mb_Scope b, mb_Reason b, mb_BucketStart b)"

definition worker_keys :: "WorkerRecord list \<Rightarrow> bool" where
  "worker_keys ws \<longleftrightarrow> distinct (map wr_WorkerID ws) \<and> distinct (map wr_PodName ws)"

definition wf_db :: "runtime_db \<Rightarrow> bool" where
  "wf_db db \<longleftrightarrow>
     distinct (map cp_ID (cp_instances db)) \<and>
     worker_keys (worker_records db) \<and>
     distinct (map fs_SessionToken (flight_session_records db)) \<and>
     distinct (map oq_RequestID (org_connection_queue db)) \<and>
     distinct (map ol_LeaseID (org_connection_leases db)) \<and>
     distinct (map ol_RequestID (org_connection_leases db)) \<and>
     distinct (map bucket_key (warm_capacity_miss_buckets db))"

lemma wf_db_empty [simp]: "wf_db empty_db"
  by (simp add: wf_db_def empty_db_def worker_keys_def)

definition worker_row :: "runtime_db \<Rightarrow> int \<Rightarrow> WorkerRecord option" where
  "worker_row db w = sql_find (\<lambda>r. wr_WorkerID r = w) (worker_records db)"

lemma worker_row_SomeD:
  "worker_row db w = Some r \<Longrightarrow> r \<in> set (worker_records db) \<and> wr_WorkerID r = w"
  unfolding worker_row_def by (drule sql_find_SomeD) simp

lemma worker_row_mem:
  assumes "worker_keys (worker_records db)" and "r \<in> set (worker_records db)"
  shows "worker_row db (wr_WorkerID r) = Some r"
  using assms sql_find_key [of wr_WorkerID "worker_records db" r]
  by (simp add: worker_row_def worker_keys_def)

lemma worker_row_unique:
  assumes "worker_keys (worker_records db)" and "r \<in> set (worker_records db)"
    and "worker_row db w = Some q" and "wr_WorkerID r = w"
  shows "r = q"
  using worker_row_mem [OF assms(1,2)] assms(3,4) by simp

end
