(* ===== verification/Worker_Store.thy ===== *)
theory Worker_Store
  imports Runtime_Models
begin

text \<open>
  The worker rows of the config store (\<^verbatim>\<open>controlplane/configstore/store.go\<close>): claims,
  take-over, slot creation under the capacity limits, the snapshot-fenced and the
  lease-fenced updates, and the listings the janitor and the credential scheduler read.
  Each operation takes the ambient \<open>env\<close> (the clock and the database's verdict on the
  statement or transaction) and the tables, and gives the tables and its result. One
  SQL statement, or one transaction, is one atomic step; \<^verbatim>\<open>FOR UPDATE SKIP LOCKED\<close> is
  the set of worker ids that concurrent transactions hold locked at that moment.
\<close>

section \<open>State sets\<close>

definition workerActiveStates :: "WorkerState list" where
  "workerActiveStates =
     [WorkerStateSpawning, WorkerStateIdle, WorkerStateReserved, WorkerStateActivating,
      WorkerStateHot, WorkerStateHotIdle, WorkerStateDraining]"

definition workerLostEligibleStates :: "WorkerState list" where
  "workerLostEligibleStates =
     [WorkerStateSpawning, WorkerStateIdle, WorkerStateReserved, WorkerStateActivating,
      WorkerStateHot, WorkerStateHotIdle]"

definition workerTerminalEligibleStates :: "WorkerState \<Rightarrow> WorkerState list" where
  "workerTerminalEligibleStates target =
     (if target = WorkerStateLost then workerLostEligibleStates else workerActiveStates)"

lemmas state_sets = workerActiveStates_def workerLostEligibleStates_def
  workerTerminalEligibleStates_def

section \<open>Counting and identifiers\<close>

definition countActiveWorkers :: "runtime_db \<Rightarrow> (WorkerRecord \<Rightarrow> bool) \<Rightarrow> int" where
  "countActiveWorkers db whr =
     sql_count (\<lambda>r. wr_State r \<in> set workerActiveStates \<and> whr r) (worker_records db)"

definition countNeutralWarmWorkers :: "runtime_db \<Rightarrow> int" where
  "countNeutralWarmWorkers db =
     sql_count (\<lambda>r. wr_OrgID r = [] \<and> wr_State r \<in> {WorkerStateIdle, WorkerStateSpawning})
       (worker_records db)"

definition countNeutralWarmWorkersForImage :: "runtime_db \<Rightarrow> string \<Rightarrow> int" where
  "countNeutralWarmWorkersForImage db image' =
     sql_count (\<lambda>r. wr_OrgID r = [] \<and> wr_Image r = image' \<and>
         wr_State r \<in> {WorkerStateIdle, WorkerStateSpawning})
       (worker_records db)"

text \<open>\<^verbatim>\<open>SELECT COALESCE(MAX(worker_id), 0) + 1\<close>\<close>

definition next_worker_id :: "runtime_db \<Rightarrow> int" where
  "next_worker_id db =
     (case map wr_WorkerID (worker_records db) of
        [] \<Rightarrow> 0 + 1
      | i # is \<Rightarrow> fold max is i + 1)"

section \<open>Statements on the worker table\<close>

text \<open>\<^verbatim>\<open>UPDATE worker_records SET f WHERE P\<close>, reporting whether a row was affected.\<close>

definition update_workers ::
  "env \<Rightarrow> (WorkerRecord \<Rightarrow> bool) \<Rightarrow> (WorkerRecord \<Rightarrow> WorkerRecord) \<Rightarrow> runtime_db \<Rightarrow>
   runtime_db \<times> bool result" where
  "update_workers e P f db =
     (case fault e of
        Some m \<Rightarrow> (db, Inl (DbError m))
      | None \<Rightarrow>
          let (rs, n) = sql_update P f (worker_records db)
          in (db\<lparr>worker_records := rs\<rparr>, Inr (n > 0)))"

definition lease_fence :: "int \<Rightarrow> string \<Rightarrow> int \<Rightarrow> WorkerRecord \<Rightarrow> bool" where
  "lease_fence workerID ownerCPInstanceID expectedOwnerEpoch r \<longleftrightarrow>
     wr_WorkerID r = workerID \<and> wr_OwnerCPInstanceID r = Some ownerCPInstanceID \<and>
     wr_OwnerEpoch r = expectedOwnerEpoch"

definition observed_fence :: "WorkerRecord \<Rightarrow> WorkerState list \<Rightarrow> WorkerRecord \<Rightarrow> bool" where
  "observed_fence obs eligible r \<longleftrightarrow>
     wr_WorkerID r = wr_WorkerID obs \<and> wr_State r = wr_State obs \<and>
     wr_OwnerEpoch r = wr_OwnerEpoch obs \<and>
     (wr_OwnerCPInstanceID r = Some (owner_string obs) \<or>
      owner_string obs = [] \<and> wr_OwnerCPInstanceID r = None) \<and>
     wr_State r \<in> set eligible \<and>
     (IsZero (wr_UpdatedAt obs) \<or> wr_UpdatedAt r \<le> wr_UpdatedAt obs)"

text \<open>Inserting a worker row: the primary key and the unique index on the pod name.\<close>

definition insert_worker :: "WorkerRecord \<Rightarrow> runtime_db \<Rightarrow> runtime_db result" where
  "insert_worker r db =
     (if wr_WorkerID r \<in> wr_WorkerID ` set (worker_records db) then Inl (UniqueViolation ''worker_id'')
      else if wr_PodName r \<in> wr_PodName ` set (worker_records db) then Inl (UniqueViolation ''pod_name'')
      else Inr (db\<lparr>worker_records := worker_records db @ [r]\<rparr>))"

definition UpsertWorkerRecord ::
  "env \<Rightarrow> WorkerRecord \<Rightarrow> runtime_db \<Rightarrow> runtime_db \<times> unit result" where
  "UpsertWorkerRecord e record0 db =
     (case fault e of
        Some m \<Rightarrow> (db, Inl (DbError m))
      | None \<Rightarrow>
          let protectedStates = [WorkerStateDraining, WorkerStateRetired, WorkerStateLost];
              record =
                record0\<lparr>
                  wr_OwnerCPInstanceID := Some (owner_string record0),
                  wr_CreatedAt := (if IsZero (wr_CreatedAt record0) then now e else wr_CreatedAt record0),
                  wr_UpdatedAt := (if IsZero (wr_UpdatedAt record0) then now e else wr_UpdatedAt record0)\<rparr>
          in (case worker_row db (wr_WorkerID record) of
                None \<Rightarrow>
                  (case insert_worker record db of
                     Inl err \<Rightarrow> (db, Inl err)
                   | Inr db' \<Rightarrow> (db', Inr ()))
              | Some r \<Rightarrow>
                  if wr_State r \<in> set protectedStates \<or>
                     \<not> (wr_OwnerEpoch record > wr_OwnerEpoch r \<or>
                        wr_OwnerEpoch record = wr_OwnerEpoch r \<and>
                        wr_OwnerCPInstanceID r = wr_OwnerCPInstanceID record)
                  then (db, Inl ErrWorkerRecordUpsertFenceMiss)
                  else if \<exists>q \<in> set (worker_records db).
                            wr_WorkerID q \<noteq> wr_WorkerID r \<and> wr_PodName q = wr_PodName record
                  then (db, Inl (UniqueViolation ''pod_name''))
                  else (db\<lparr>worker_records :=
                          fst (sql_update (\<lambda>q. wr_WorkerID q = wr_WorkerID record)
                            (\<lambda>q. q\<lparr>
                               wr_PodName := wr_PodName record,
                               wr_Image := wr_Image record,
                               wr_State := wr_State record,
                               wr_OrgID := wr_OrgID record,
                               wr_OwnerCPInstanceID := wr_OwnerCPInstanceID record,
                               wr_OwnerEpoch := wr_OwnerEpoch record,
                               wr_ActivationStartedAt := wr_ActivationStartedAt record,
                               wr_LastHeartbeatAt := wr_LastHeartbeatAt record,
                               wr_RetireReason := wr_RetireReason record,
                               wr_S3CredentialsExpiresAt := wr_S3CredentialsExpiresAt record,
                               wr_UpdatedAt := wr_UpdatedAt record\<rparr>)
                            (worker_records db))\<rparr>, Inr ())))"

definition ListWorkerRecordsByStatesBefore ::
  "env \<Rightarrow> WorkerState list \<Rightarrow> gotime \<Rightarrow> runtime_db \<Rightarrow> WorkerRecord list result" where
  "ListWorkerRecordsByStatesBefore e states updatedBefore db =
     (if states = [] then Inr []
      else case fault e of
        Some m \<Rightarrow> Inl (DbError m)
      | None \<Rightarrow> Inr (sort_key wr_WorkerID
          (filter (\<lambda>r. wr_State r \<in> set states \<and> wr_UpdatedAt r \<le> updatedBefore)
            (worker_records db))))"

definition GetWorkerRecord :: "env \<Rightarrow> int \<Rightarrow> runtime_db \<Rightarrow> WorkerRecord option result" where
  "GetWorkerRecord e workerID db =
     (case fault e of
        Some m \<Rightarrow> Inl (DbError m)
      | None \<Rightarrow> Inr (worker_row db workerID))"

section \<open>Claims and take-over\<close>

text \<open>The row update of a claim, followed by the read of the claimed row.\<close>

definition reserve_row ::
  "env \<Rightarrow> int \<Rightarrow> (WorkerRecord \<Rightarrow> WorkerRecord) \<Rightarrow> string \<Rightarrow> runtime_db \<Rightarrow> runtime_db" where
  "reserve_row e workerID setOrg ownerCPInstanceID db =
     db\<lparr>worker_records :=
       fst (sql_update (\<lambda>r. wr_WorkerID r = workerID)
         (\<lambda>r. setOrg r
            \<lparr>wr_State := WorkerStateReserved,
             wr_OwnerCPInstanceID := Some ownerCPInstanceID,
             wr_OwnerEpoch := wr_OwnerEpoch r + 1,
             wr_UpdatedAt := now e\<rparr>)
         (worker_records db))\<rparr>"

definition ClaimIdleWorker ::
  "env \<Rightarrow> int set \<Rightarrow> string \<Rightarrow> string \<Rightarrow> string \<Rightarrow> int \<Rightarrow> int \<Rightarrow> runtime_db \<Rightarrow>
   runtime_db \<times> (WorkerRecord option \<times> WorkerClaimMissReason) result" where
  "ClaimIdleWorker e locked ownerCPInstanceID orgID image' maxOrgWorkers maxGlobalWorkers db =
     (case fault e of
        Some m \<Rightarrow> (db, Inl (DbError m))
      | None \<Rightarrow>
          if maxOrgWorkers > 0 \<and> orgID \<noteq> [] \<and>
             countActiveWorkers db (\<lambda>r. wr_OrgID r = orgID) \<ge> maxOrgWorkers
          then (db, Inr (None, WorkerClaimMissReasonOrgCap))
          else (case sql_first wr_WorkerID
                       (\<lambda>r. wr_State r = WorkerStateIdle \<and> (image' \<noteq> [] \<longrightarrow> wr_Image r = image') \<and>
                            wr_WorkerID r \<notin> locked)
                       (worker_records db) of
                  None \<Rightarrow>
                    if maxGlobalWorkers > 0 \<and> countActiveWorkers db (\<lambda>r. True) \<ge> maxGlobalWorkers
                    then (db, Inr (None, WorkerClaimMissReasonGlobalCap))
                    else (db, Inr (None, WorkerClaimMissReasonNoIdle))
                | Some current \<Rightarrow>
                    let db' = reserve_row e (wr_WorkerID current) (\<lambda>r. r\<lparr>wr_OrgID := orgID\<rparr>)
                                ownerCPInstanceID db
                    in (case worker_row db' (wr_WorkerID current) of
                          None \<Rightarrow> (db, Inl RecordNotFound)
                        | Some claimed \<Rightarrow> (db', Inr (Some claimed, WorkerClaimMissReasonNone)))))"

definition ClaimHotIdleWorker ::
  "env \<Rightarrow> int set \<Rightarrow> string \<Rightarrow> string \<Rightarrow> int \<Rightarrow> runtime_db \<Rightarrow>
   runtime_db \<times> (WorkerRecord option \<times> WorkerClaimMissReason) result" where
  "ClaimHotIdleWorker e locked ownerCPInstanceID orgID maxOrgWorkers db =
     (case fault e of
        Some m \<Rightarrow> (db, Inl (DbError m))
      | None \<Rightarrow>
          if maxOrgWorkers > 0 \<and> orgID \<noteq> [] \<and>
             countActiveWorkers db (\<lambda>r. wr_OrgID r = orgID \<and> wr_State r \<noteq> WorkerStateHotIdle)
               \<ge> maxOrgWorkers
          then (db, Inr (None, WorkerClaimMissReasonOrgCap))
          else (case sql_first wr_WorkerID
                       (\<lambda>r. wr_State r = WorkerStateHotIdle \<and> wr_OrgID r = orgID \<and>
                            wr_WorkerID r \<notin> locked)
                       (worker_records db) of
                  None \<Rightarrow> (db, Inr (None, WorkerClaimMissReasonNoIdle))
                | Some current \<Rightarrow>
                    let db' = reserve_row e (wr_WorkerID current) (\<lambda>r. r) ownerCPInstanceID db
                    in (case worker_row db' (wr_WorkerID current) of
                          None \<Rightarrow> (db, Inl RecordNotFound)
                        | Some claimed \<Rightarrow> (db', Inr (Some claimed, WorkerClaimMissReasonNone)))))"

definition TakeOverWorker ::
  "env \<Rightarrow> int \<Rightarrow> string \<Rightarrow> string \<Rightarrow> int \<Rightarrow> runtime_db \<Rightarrow> runtime_db \<times> WorkerRecord option result" where
  "TakeOverWorker e workerID ownerCPInstanceID orgID expectedOwnerEpoch db =
     (case fault e of
        Some m \<Rightarrow> (db, Inl (DbError m))
      | None \<Rightarrow>
          (case worker_row db workerID of
             None \<Rightarrow> (db, Inr None)
           | Some current \<Rightarrow>
               if wr_OwnerEpoch current \<noteq> expectedOwnerEpoch then (db, Inl ErrWorkerOwnerEpochMismatch)
               else if wr_State current \<noteq> WorkerStateHot then (db, Inr None)
               else
                 let db' = reserve_row e (wr_WorkerID current) (\<lambda>r. r\<lparr>wr_OrgID := orgID\<rparr>)
                             ownerCPInstanceID db
                 in (case worker_row db' (wr_WorkerID current) of
                       None \<Rightarrow> (db, Inl RecordNotFound)
                     | Some claimed \<Rightarrow> (db', Inr (Some claimed)))))"

section \<open>Slot creation\<close>

definition spawning_record ::
  "env \<Rightarrow> int \<Rightarrow> string \<Rightarrow> string \<Rightarrow> string \<Rightarrow> string \<Rightarrow> int \<Rightarrow> WorkerRecord" where
  "spawning_record e workerID podNamePrefix image' orgID ownerCPInstanceID ownerEpoch =
     \<lparr>wr_WorkerID = workerID,
      wr_PodName = podNamePrefix @ ''-'' @ itoa workerID,
      wr_PodUID = [],
      wr_Image = image',
      wr_State = WorkerStateSpawning,
      wr_OrgID = orgID,
      wr_OwnerCPInstanceID = Some ownerCPInstanceID,
      wr_OwnerEpoch = ownerEpoch,
      wr_ActivationStartedAt = None,
      wr_LastHeartbeatAt = now e,
      wr_RetireReason = [],
      wr_S3CredentialsExpiresAt = None,
      wr_CreatedAt = now e,
      wr_UpdatedAt = now e\<rparr>"

definition create_slot :: "WorkerRecord \<Rightarrow> runtime_db \<Rightarrow> runtime_db \<times> WorkerRecord option result" where
  "create_slot r db =
     (case insert_worker r db of
        Inl err \<Rightarrow> (db, Inl err)
      | Inr db' \<Rightarrow> (db', Inr (Some r)))"

definition CreateSpawningWorkerSlot ::
  "env \<Rightarrow> string \<Rightarrow> string \<Rightarrow> string \<Rightarrow> int \<Rightarrow> string \<Rightarrow> int \<Rightarrow> int \<Rightarrow> runtime_db \<Rightarrow>
   runtime_db \<times> WorkerRecord option result" where
  "CreateSpawningWorkerSlot e ownerCPInstanceID orgID image' ownerEpoch podNamePrefix
       maxOrgWorkers maxGlobalWorkers db =
     (if TrimSpace podNamePrefix = [] then (db, Inl (RequiredField ''pod name prefix''))
      else case fault e of
        Some m \<Rightarrow> (db, Inl (DbError m))
      | None \<Rightarrow>
          if maxOrgWorkers > 0 \<and> orgID \<noteq> [] \<and>
             countActiveWorkers db (\<lambda>r. wr_OrgID r = orgID) \<ge> maxOrgWorkers
          then (db, Inr None)
          else if maxGlobalWorkers > 0 \<and> countActiveWorkers db (\<lambda>r. True) \<ge> maxGlobalWorkers
          then (db, Inr None)
          else create_slot
                 (spawning_record e (next_worker_id db) podNamePrefix image' orgID
                    ownerCPInstanceID ownerEpoch) db)"

definition CreateNeutralWarmWorkerSlotForImage ::
  "env \<Rightarrow> string \<Rightarrow> string \<Rightarrow> string \<Rightarrow> int \<Rightarrow> int \<Rightarrow> runtime_db \<Rightarrow>
   runtime_db \<times> WorkerRecord option result" where
  "CreateNeutralWarmWorkerSlotForImage e ownerCPInstanceID podNamePrefix image'
       perImageTarget maxGlobalWorkers db =
     (if TrimSpace podNamePrefix = [] then (db, Inl (RequiredField ''pod name prefix''))
      else if TrimSpace image' = [] then (db, Inl (RequiredField ''image''))
      else case fault e of
        Some m \<Rightarrow> (db, Inl (DbError m))
      | None \<Rightarrow>
          if perImageTarget > 0 \<and> countNeutralWarmWorkersForImage db image' \<ge> perImageTarget
          then (db, Inr None)
          else if maxGlobalWorkers > 0 \<and> countActiveWorkers db (\<lambda>r. True) \<ge> maxGlobalWorkers
          then (db, Inr None)
          else create_slot
                 (spawning_record e (next_worker_id db) podNamePrefix image' []
                    ownerCPInstanceID 0) db)"

definition CreateNeutralWarmWorkerSlot ::
  "env \<Rightarrow> string \<Rightarrow> string \<Rightarrow> string \<Rightarrow> int \<Rightarrow> int \<Rightarrow> runtime_db \<Rightarrow>
   runtime_db \<times> WorkerRecord option result" where
  "CreateNeutralWarmWorkerSlot e ownerCPInstanceID podNamePrefix image'
       targetWarmWorkers maxGlobalWorkers db =
     (if TrimSpace podNamePrefix = [] then (db, Inl (RequiredField ''pod name prefix''))
      else case fault e of
        Some m \<Rightarrow> (db, Inl (DbError m))
      | None \<Rightarrow>
          if targetWarmWorkers > 0 \<and> countNeutralWarmWorkers db \<ge> targetWarmWorkers
          then (db, Inr None)
          else if maxGlobalWorkers > 0 \<and> countActiveWorkers db (\<lambda>r. True) \<ge> maxGlobalWorkers
          then (db, Inr None)
          else create_slot
                 (spawning_record e (next_worker_id db) podNamePrefix image' []
                    ownerCPInstanceID 0) db)"

section \<open>Fenced updates\<close>

definition MarkWorkerTerminalIfCurrent ::
  "env \<Rightarrow> WorkerRecord option \<Rightarrow> WorkerState \<Rightarrow> string \<Rightarrow> runtime_db \<Rightarrow> runtime_db \<times> bool result" where
  "MarkWorkerTerminalIfCurrent e record targetState reason db =
     (case record of
        None \<Rightarrow> (db, Inr False)
      | Some obs \<Rightarrow>
          if targetState \<noteq> WorkerStateRetired \<and> targetState \<noteq> WorkerStateLost
          then (db, Inl (UnsupportedTerminalState targetState))
          else update_workers e (observed_fence obs (workerTerminalEligibleStates targetState))
                 (\<lambda>r. r\<lparr>wr_State := targetState, wr_RetireReason := reason, wr_UpdatedAt := now e\<rparr>)
                 db)"

definition RetireHotIdleWorker ::
  "env \<Rightarrow> WorkerRecord option \<Rightarrow> runtime_db \<Rightarrow> runtime_db \<times> bool result" where
  "RetireHotIdleWorker e record db =
     (case record of
        None \<Rightarrow> (db, Inr False)
      | Some obs \<Rightarrow>
          if wr_State obs \<noteq> WorkerStateHotIdle then (db, Inr False)
          else MarkWorkerTerminalIfCurrent e record WorkerStateRetired ''hot_idle_ttl_expired'' db)"

text \<open>\<^verbatim>\<open>NOT EXISTS (SELECT 1 FROM cp_instances AS cp WHERE cp.id = ? AND cp.state <> 'expired')\<close>\<close>

definition cp_not_live :: "runtime_db \<Rightarrow> string \<Rightarrow> bool" where
  "cp_not_live db cpID \<longleftrightarrow>
     \<not> (\<exists>cp \<in> set (cp_instances db).
          cp_ID cp = cpID \<and> cp_State cp \<noteq> ControlPlaneInstanceStateExpired)"

definition RetireOrphanWorker ::
  "env \<Rightarrow> WorkerRecord option \<Rightarrow> string \<Rightarrow> runtime_db \<Rightarrow> runtime_db \<times> bool result" where
  "RetireOrphanWorker e record reason db =
     (case record of
        None \<Rightarrow> (db, Inr False)
      | Some obs \<Rightarrow>
          update_workers e
            (\<lambda>r. observed_fence obs (workerTerminalEligibleStates WorkerStateRetired) r \<and>
                 (owner_string obs \<noteq> [] \<longrightarrow> cp_not_live db (owner_string obs)))
            (\<lambda>r. r\<lparr>wr_State := WorkerStateRetired, wr_RetireReason := reason, wr_UpdatedAt := now e\<rparr>)
            db)"

definition RetireIdleOrHotIdleWorker ::
  "env \<Rightarrow> WorkerRecord option \<Rightarrow> string \<Rightarrow> runtime_db \<Rightarrow> runtime_db \<times> bool result" where
  "RetireIdleOrHotIdleWorker e record reason db =
     (case record of
        None \<Rightarrow> (db, Inr False)
      | Some obs \<Rightarrow>
          if wr_State obs \<noteq> WorkerStateIdle \<and> wr_State obs \<noteq> WorkerStateHotIdle then (db, Inr False)
          else MarkWorkerTerminalIfCurrent e record WorkerStateRetired reason db)"

definition BumpWorkerEpoch ::
  "env \<Rightarrow> int \<Rightarrow> string \<Rightarrow> int \<Rightarrow> runtime_db \<Rightarrow> runtime_db \<times> int result" where
  "BumpWorkerEpoch e workerID ownerCPInstanceID expectedOwnerEpoch db =
     (case update_workers e (lease_fence workerID ownerCPInstanceID expectedOwnerEpoch)
             (\<lambda>r. r\<lparr>wr_OwnerEpoch := wr_OwnerEpoch r + 1, wr_UpdatedAt := now e\<rparr>) db of
        (db', Inl err) \<Rightarrow> (db, Inl err)
      | (db', Inr affected) \<Rightarrow>
          if \<not> affected then (db, Inl ErrWorkerOwnerEpochMismatch)
          else (case worker_row db' workerID of
                  None \<Rightarrow> (db, Inl RecordNotFound)
                | Some current \<Rightarrow> (db', Inr (wr_OwnerEpoch current))))"

definition MarkCredentialsRefreshed ::
  "env \<Rightarrow> int \<Rightarrow> string \<Rightarrow> int \<Rightarrow> gotime \<Rightarrow> runtime_db \<Rightarrow> runtime_db \<times> bool result" where
  "MarkCredentialsRefreshed e workerID ownerCPInstanceID expectedOwnerEpoch expiresAt =
     update_workers e (lease_fence workerID ownerCPInstanceID expectedOwnerEpoch)
       (\<lambda>r. r\<lparr>wr_S3CredentialsExpiresAt := Some expiresAt, wr_UpdatedAt := now e\<rparr>)"

definition MarkWorkerLostIfCurrentLease ::
  "env \<Rightarrow> int \<Rightarrow> string \<Rightarrow> int \<Rightarrow> string \<Rightarrow> runtime_db \<Rightarrow> runtime_db \<times> bool result" where
  "MarkWorkerLostIfCurrentLease e workerID ownerCPInstanceID expectedOwnerEpoch reason =
     (let lostEligibleStates =
            [WorkerStateSpawning, WorkerStateIdle, WorkerStateReserved, WorkerStateActivating,
             WorkerStateHot, WorkerStateHotIdle]
      in update_workers e
           (\<lambda>r. lease_fence workerID ownerCPInstanceID expectedOwnerEpoch r \<and>
                wr_State r \<in> set lostEligibleStates)
           (\<lambda>r. r\<lparr>wr_State := WorkerStateLost, wr_RetireReason := reason, wr_UpdatedAt := now e\<rparr>))"

definition MarkWorkerDraining ::
  "env \<Rightarrow> int \<Rightarrow> string \<Rightarrow> int \<Rightarrow> runtime_db \<Rightarrow> runtime_db \<times> bool result" where
  "MarkWorkerDraining e workerID ownerCPInstanceID expectedOwnerEpoch =
     (let drainableStates =
            [WorkerStateSpawning, WorkerStateIdle, WorkerStateReserved, WorkerStateActivating,
             WorkerStateHot, WorkerStateHotIdle]
      in update_workers e
           (\<lambda>r. lease_fence workerID ownerCPInstanceID expectedOwnerEpoch r \<and>
                wr_State r \<in> set drainableStates)
           (\<lambda>r. r\<lparr>wr_State := WorkerStateDraining, wr_UpdatedAt := now e\<rparr>))"

definition RetireDrainingWorker ::
  "env \<Rightarrow> int \<Rightarrow> string \<Rightarrow> int \<Rightarrow> string \<Rightarrow> runtime_db \<Rightarrow> runtime_db \<times> bool result" where
  "RetireDrainingWorker e workerID ownerCPInstanceID expectedOwnerEpoch reason =
     update_workers e
       (\<lambda>r. lease_fence workerID ownerCPInstanceID expectedOwnerEpoch r \<and>
            wr_State r = WorkerStateDraining)
       (\<lambda>r. r\<lparr>wr_State := WorkerStateRetired, wr_RetireReason := reason, wr_UpdatedAt := now e\<rparr>)"

section \<open>Listings\<close>

definition ListExpiredHotIdleWorkers :: "env \<Rightarrow> gotime \<Rightarrow> runtime_db \<Rightarrow> WorkerRecord list result" where
  "ListExpiredHotIdleWorkers e before db =
     (case fault e of
        Some m \<Rightarrow> Inl (DbError m)
      | None \<Rightarrow> Inr (filter (\<lambda>r. wr_State r = WorkerStateHotIdle \<and> wr_UpdatedAt r \<le> before)
                      (worker_records db)))"

text \<open>\<^verbatim>\<open>ORDER BY s3_credentials_expires_at ASC NULLS FIRST, worker_id ASC\<close>: the empty list sorts
  before every singleton.\<close>

definition ListWorkersDueForCredentialRefresh ::
  "env \<Rightarrow> string \<Rightarrow> gotime \<Rightarrow> runtime_db \<Rightarrow> WorkerRecord list result" where
  "ListWorkersDueForCredentialRefresh e ownerCPInstanceID cutoff db =
     (let credEligibleStates = [WorkerStateIdle, WorkerStateHot, WorkerStateHotIdle]
      in case fault e of
        Some m \<Rightarrow> Inl (DbError m)
      | None \<Rightarrow> Inr (sort_key
          (\<lambda>r. ((case wr_S3CredentialsExpiresAt r of None \<Rightarrow> [] | Some t \<Rightarrow> [t]), wr_WorkerID r))
          (filter (\<lambda>r. wr_OwnerCPInstanceID r = Some ownerCPInstanceID \<and>
                       wr_State r \<in> set credEligibleStates \<and>
                       wr_OrgID r \<noteq> [] \<and>
                       (case wr_S3CredentialsExpiresAt r of None \<Rightarrow> True | Some t \<Rightarrow> t \<le> cutoff))
            (worker_records db))))"

text \<open>The \<^verbatim>\<open>LEFT JOIN cp_instances AS cp ON cp.id = w.owner_cp_instance_id\<close> of a row.\<close>

definition owner_cp :: "runtime_db \<Rightarrow> WorkerRecord \<Rightarrow> ControlPlaneInstance option" where
  "owner_cp db r =
     (case wr_OwnerCPInstanceID r of
        None \<Rightarrow> None
      | Some o' \<Rightarrow> sql_find (\<lambda>cp. cp_ID cp = o') (cp_instances db))"

definition is_orphaned :: "runtime_db \<Rightarrow> gotime \<Rightarrow> WorkerRecord \<Rightarrow> bool" where
  "is_orphaned db before w \<longleftrightarrow>
     (case owner_cp db w of
        None \<Rightarrow> False
      | Some cp \<Rightarrow> cp_State cp = ControlPlaneInstanceStateExpired \<and>
          (case cp_ExpiredAt cp of None \<Rightarrow> False | Some t \<Rightarrow> t \<le> before)) \<or>
     (owner_string w = [] \<and> wr_LastHeartbeatAt w \<le> before) \<or>
     (owner_cp db w = None \<and> owner_string w \<noteq> [] \<and> wr_LastHeartbeatAt w \<le> before)"

definition ListOrphanedWorkers :: "env \<Rightarrow> gotime \<Rightarrow> runtime_db \<Rightarrow> WorkerRecord list result" where
  "ListOrphanedWorkers e before db =
     (let cleanupStates =
            [WorkerStateSpawning, WorkerStateIdle, WorkerStateReserved, WorkerStateActivating,
             WorkerStateHot, WorkerStateHotIdle, WorkerStateDraining];
          reclaimableSessionStates = [FlightSessionStateActive, FlightSessionStateReconnecting]
      in case fault e of
        Some m \<Rightarrow> Inl (DbError m)
      | None \<Rightarrow> Inr (sort_key wr_WorkerID
          (filter (\<lambda>w. wr_State w \<in> set cleanupStates \<and> is_orphaned db before w \<and>
                       \<not> (\<exists>f \<in> set (flight_session_records db).
                            fs_WorkerID f = wr_WorkerID w \<and> fs_State f \<in> set reclaimableSessionStates))
            (worker_records db))))"

definition ListStuckWorkers ::
  "env \<Rightarrow> gotime \<Rightarrow> gotime \<Rightarrow> runtime_db \<Rightarrow> WorkerRecord list result" where
  "ListStuckWorkers e spawningBefore activatingBefore db =
     (case fault e of
        Some m \<Rightarrow> Inl (DbError m)
      | None \<Rightarrow> Inr (filter
          (\<lambda>w. ((wr_State w = WorkerStateSpawning \<and> wr_UpdatedAt w \<le> spawningBefore) \<or>
                (wr_State w \<in> {WorkerStateReserved, WorkerStateActivating} \<and>
                 wr_UpdatedAt w \<le> activatingBefore)) \<and>
               (case owner_cp db w of
                  None \<Rightarrow> True
                | Some cp \<Rightarrow> cp_State cp \<noteq> ControlPlaneInstanceStateExpired))
          (worker_records db)))"

end
