(* ===== verification/Worker_Fencing.thy ===== *)
theory Worker_Fencing
  imports Worker_Store
begin

text \<open>
  What the store promises about a worker row over time. \<open>row_evolves\<close> is the contract of
  one row: its key stays, its owner epoch never decreases, its owner changes only together
  with a larger epoch, a terminal state (retired, lost) is final and a draining row can
  only become retired. Every operation of \<open>Worker_Store\<close> is shown to keep it, so it holds
  along every sequence of operations of all control planes (\<open>worker_step\<close>). Leases and
  snapshots are values of \<^verbatim>\<open>configstore/lifecycle_types.go\<close>; their fences are decided by it.
\<close>

section \<open>The contract of a row\<close>

definition terminal :: "WorkerState \<Rightarrow> bool" where
  "terminal s \<longleftrightarrow> s = WorkerStateRetired \<or> s = WorkerStateLost"

definition row_evolves :: "WorkerRecord \<Rightarrow> WorkerRecord \<Rightarrow> bool" where
  "row_evolves r r' \<longleftrightarrow>
     wr_WorkerID r' = wr_WorkerID r \<and>
     wr_OwnerEpoch r \<le> wr_OwnerEpoch r' \<and>
     (wr_OwnerEpoch r' = wr_OwnerEpoch r \<longrightarrow> wr_OwnerCPInstanceID r' = wr_OwnerCPInstanceID r) \<and>
     (terminal (wr_State r) \<longrightarrow> wr_State r' = wr_State r) \<and>
     (wr_State r = WorkerStateDraining \<longrightarrow> wr_State r' \<in> {WorkerStateDraining, WorkerStateRetired})"

definition db_evolves :: "runtime_db \<Rightarrow> runtime_db \<Rightarrow> bool" where
  "db_evolves db db' \<longleftrightarrow>
     (\<forall>w r. worker_row db w = Some r \<longrightarrow> (\<exists>r'. worker_row db' w = Some r' \<and> row_evolves r r'))"

lemma row_evolves_refl [simp]: "row_evolves r r"
  by (simp add: row_evolves_def)

lemma row_evolves_trans:
  "row_evolves a b \<Longrightarrow> row_evolves b c \<Longrightarrow> row_evolves a c"
  by (auto simp: row_evolves_def terminal_def)

lemma db_evolves_refl [simp]: "db_evolves db db"
  by (simp add: db_evolves_def)

lemma db_evolves_trans: "db_evolves a b \<Longrightarrow> db_evolves b c \<Longrightarrow> db_evolves a c"
  unfolding db_evolves_def by (meson row_evolves_trans)

lemma db_evolvesD:
  "db_evolves db db' \<Longrightarrow> worker_row db w = Some r \<Longrightarrow>
   \<exists>r'. worker_row db' w = Some r' \<and> row_evolves r r'"
  by (auto simp: db_evolves_def)

lemma db_evolves_frame: "worker_records db' = worker_records db \<Longrightarrow> db_evolves db db'"
  by (simp add: db_evolves_def worker_row_def)

section \<open>Row-wise updates\<close>

text \<open>An operation \<open>op\<close> on the tables is \<^emph>\<open>sound\<close> when it keeps the keys of the worker table
  and the contract of its rows.\<close>

definition sound_step :: "runtime_db \<Rightarrow> runtime_db \<Rightarrow> bool" where
  "sound_step db db' \<longleftrightarrow>
     (worker_keys (worker_records db) \<longrightarrow> worker_keys (worker_records db') \<and> db_evolves db db')"

lemma sound_step_refl [simp]: "sound_step db db"
  by (simp add: sound_step_def)

lemma sound_step_map:
  assumes "\<And>r. r \<in> set (worker_records db) \<Longrightarrow> row_evolves r (g r)"
    and "distinct (map wr_PodName (map g (worker_records db)))"
  shows "sound_step db (db\<lparr>worker_records := map g (worker_records db)\<rparr>)"
proof -
  have key: "wr_WorkerID (g r) = wr_WorkerID r" if "r \<in> set (worker_records db)" for r
    using assms(1) [OF that] by (simp add: row_evolves_def)
  then have ids: "map (wr_WorkerID \<circ> g) (worker_records db) = map wr_WorkerID (worker_records db)"
    by simp
  have "find (\<lambda>r. wr_WorkerID r = w) (map g rs) = map_option g (find (\<lambda>r. wr_WorkerID r = w) rs)"
    if "set rs \<subseteq> set (worker_records db)" for rs w
    using that by (induction rs) (auto simp: key)
  then have look: "worker_row (db\<lparr>worker_records := map g (worker_records db)\<rparr>) w =
      map_option g (worker_row db w)" for w
    by (simp add: worker_row_def sql_find_def)
  show ?thesis
    unfolding sound_step_def db_evolves_def worker_keys_def
    using assms(2) by (auto simp: look ids dest: worker_row_SomeD intro: assms(1))
qed

lemma sound_step_update:
  assumes "\<And>r. r \<in> set (worker_records db) \<Longrightarrow> P r \<Longrightarrow>
      row_evolves r (f r) \<and> wr_PodName (f r) = wr_PodName r"
  shows "sound_step db (db\<lparr>worker_records := fst (sql_update P f (worker_records db))\<rparr>)"
proof (cases "worker_keys (worker_records db)")
  case True
  have "map wr_PodName (map (\<lambda>r. if P r then f r else r) (worker_records db)) =
      map wr_PodName (worker_records db)"
    using assms by simp
  then show ?thesis
    using True assms unfolding sql_update_def
    by (auto simp: worker_keys_def simp del: map_map intro!: sound_step_map)
next
  case False
  then show ?thesis by (simp add: sound_step_def)
qed

text \<open>
  The interface of a fenced update: which rows it may touch and what it makes of them.
  The laws are that a touched row evolves and keeps its pod name; the rest follows.
\<close>

locale fenced_update =
  fixes P :: "WorkerRecord \<Rightarrow> bool" and f :: "WorkerRecord \<Rightarrow> WorkerRecord"
  assumes evolves: "P r \<Longrightarrow> row_evolves r (f r)"
    and keeps_pod: "P r \<Longrightarrow> wr_PodName (f r) = wr_PodName r"
begin

lemma update_sound: "sound_step db (fst (update_workers e P f db))"
  by (auto simp: update_workers_def Let_def case_prod_beta evolves keeps_pod
      split: option.splits intro!: sound_step_update)

lemma update_miss:
  assumes "fault e = None" and "\<And>r. r \<in> set (worker_records db) \<Longrightarrow> \<not> P r"
  shows "update_workers e P f db = (db, Inr False)"
  using assms by (simp add: update_workers_def sql_update_noop)

lemma update_hit_iff:
  "snd (update_workers e P f db) = Inr True \<longleftrightarrow>
     fault e = None \<and> (\<exists>r \<in> set (worker_records db). P r)"
  by (auto simp: update_workers_def sql_update_def sql_count_pos_iff split: option.splits)

lemma update_not_hit: "snd (update_workers e P f db) \<noteq> Inr True \<Longrightarrow> fst (update_workers e P f db) = db"
  by (auto simp: update_workers_def sql_update_def sql_count_pos_iff
      split: option.splits intro!: runtime_db.equality map_idI)

text \<open>A hit on a fence that names a worker rewrites that worker's row and no other.\<close>

lemma update_row:
  assumes "worker_keys (worker_records db)" and "fault e = None"
    and "worker_row db w = Some r"
  shows "worker_row (fst (update_workers e P f db)) w = Some (if P r then f r else r)"
proof -
  have "find (\<lambda>q. wr_WorkerID q = w) (map (\<lambda>r. if P r then f r else r) rs) =
      map_option (\<lambda>r. if P r then f r else r) (find (\<lambda>q. wr_WorkerID q = w) rs)" for rs
    using evolves by (induction rs) (auto simp: row_evolves_def)
  then show ?thesis
    using assms(2,3) by (simp add: update_workers_def sql_update_def worker_row_def sql_find_def)
qed

lemma update_hit_row:
  assumes "worker_keys (worker_records db)" and "update_workers e P f db = (db', Inr True)"
    and "\<And>r. P r \<Longrightarrow> wr_WorkerID r = w"
  shows "\<exists>r. worker_row db w = Some r \<and> P r \<and> worker_row db' w = Some (f r)"
proof -
  from update_hit_iff [of e db] assms(2) obtain r where
    "fault e = None" and r: "r \<in> set (worker_records db)" "P r" by auto
  with worker_row_mem [OF assms(1) r(1)] update_row [OF assms(1), of e w r] assms(2,3) show ?thesis
    by auto
qed

end

text \<open>The fenced updates of the store implement the interface.\<close>

interpretation terminal_cas: fenced_update
  "observed_fence obs (workerTerminalEligibleStates target)"
  "\<lambda>r. r\<lparr>wr_State := (if target = WorkerStateLost then WorkerStateLost else WorkerStateRetired),
     wr_RetireReason := reason, wr_UpdatedAt := t\<rparr>"
  for obs target reason t
  by unfold_locales
    (auto simp: observed_fence_def row_evolves_def terminal_def state_sets split: if_splits)

interpretation orphan_cas: fenced_update
  "\<lambda>r. observed_fence obs (workerTerminalEligibleStates WorkerStateRetired) r \<and> Q"
  "\<lambda>r. r\<lparr>wr_State := WorkerStateRetired, wr_RetireReason := reason, wr_UpdatedAt := t\<rparr>"
  for obs Q reason t
  by unfold_locales
    (auto simp: observed_fence_def row_evolves_def terminal_def state_sets split: if_splits)

interpretation bump_cas: fenced_update
  "lease_fence w own ep"
  "\<lambda>r. r\<lparr>wr_OwnerEpoch := wr_OwnerEpoch r + 1, wr_UpdatedAt := t\<rparr>"
  for w own ep t
  by unfold_locales (auto simp: row_evolves_def)

interpretation creds_cas: fenced_update
  "lease_fence w own ep"
  "\<lambda>r. r\<lparr>wr_S3CredentialsExpiresAt := Some x, wr_UpdatedAt := t\<rparr>"
  for w own ep x t
  by unfold_locales (auto simp: row_evolves_def)

interpretation lost_cas: fenced_update
  "\<lambda>r. lease_fence w own ep r \<and>
     wr_State r \<in> set [WorkerStateSpawning, WorkerStateIdle, WorkerStateReserved,
       WorkerStateActivating, WorkerStateHot, WorkerStateHotIdle]"
  "\<lambda>r. r\<lparr>wr_State := WorkerStateLost, wr_RetireReason := reason, wr_UpdatedAt := t\<rparr>"
  for w own ep reason t
  by unfold_locales (auto simp: row_evolves_def terminal_def)

interpretation drain_cas: fenced_update
  "\<lambda>r. lease_fence w own ep r \<and>
     wr_State r \<in> set [WorkerStateSpawning, WorkerStateIdle, WorkerStateReserved,
       WorkerStateActivating, WorkerStateHot, WorkerStateHotIdle]"
  "\<lambda>r. r\<lparr>wr_State := WorkerStateDraining, wr_UpdatedAt := t\<rparr>"
  for w own ep t
  by unfold_locales (auto simp: row_evolves_def terminal_def)

interpretation retire_draining_cas: fenced_update
  "\<lambda>r. lease_fence w own ep r \<and> wr_State r = WorkerStateDraining"
  "\<lambda>r. r\<lparr>wr_State := WorkerStateRetired, wr_RetireReason := reason, wr_UpdatedAt := t\<rparr>"
  for w own ep reason t
  by unfold_locales (auto simp: row_evolves_def terminal_def)

section \<open>Every operation keeps the contract\<close>

lemma reserve_row_sound:
  assumes "worker_row db w = Some r" and "\<not> terminal (wr_State r)"
    and "wr_State r \<noteq> WorkerStateDraining"
    and "\<And>q. wr_WorkerID (setOrg q) = wr_WorkerID q \<and> wr_PodName (setOrg q) = wr_PodName q"
  shows "sound_step db (reserve_row e w setOrg own db)"
proof (cases "worker_keys (worker_records db)")
  case True
  have "q = r" if "q \<in> set (worker_records db)" "wr_WorkerID q = w" for q
    using worker_row_unique [OF True that(1) assms(1) that(2)] .
  then show ?thesis
    unfolding reserve_row_def
    by (intro sound_step_update) (use assms(2,3,4) in \<open>auto simp: row_evolves_def\<close>)
qed (simp add: sound_step_def)

lemma reserve_row_lookup:
  assumes "worker_row db w = Some r" and "\<And>q. wr_WorkerID (setOrg q) = wr_WorkerID q"
  shows "worker_row (reserve_row e w setOrg own db) w =
    Some (setOrg r\<lparr>wr_State := WorkerStateReserved, wr_OwnerCPInstanceID := Some own,
      wr_OwnerEpoch := wr_OwnerEpoch r + 1, wr_UpdatedAt := now e\<rparr>)"
proof -
  have "find (\<lambda>q. wr_WorkerID q = w) (map (\<lambda>q. if wr_WorkerID q = w then g q else q) rs) =
      map_option g (find (\<lambda>q. wr_WorkerID q = w) rs)"
    if "\<And>q. wr_WorkerID (g q) = wr_WorkerID q" for rs and g :: "WorkerRecord \<Rightarrow> WorkerRecord"
    using that by (induction rs) auto
  from this [of "\<lambda>r. setOrg r\<lparr>wr_State := WorkerStateReserved, wr_OwnerCPInstanceID := Some own,
      wr_OwnerEpoch := wr_OwnerEpoch r + 1, wr_UpdatedAt := now e\<rparr>"] assms
  show ?thesis
    by (simp add: reserve_row_def sql_update_def worker_row_def sql_find_def)
qed

lemma sql_first_worker_row:
  assumes "worker_keys (worker_records db)" and "sql_first key P (worker_records db) = Some r"
  shows "worker_row db (wr_WorkerID r) = Some r"
  using assms sql_first_SomeD(1) [OF assms(2)] by (simp add: worker_row_mem)

lemma insert_worker_sound:
  assumes "insert_worker r db = Inr db'"
  shows "sound_step db db'"
proof -
  from assms have new: "wr_WorkerID r \<notin> wr_WorkerID ` set (worker_records db)"
    "wr_PodName r \<notin> wr_PodName ` set (worker_records db)"
    and db': "db' = db\<lparr>worker_records := worker_records db @ [r]\<rparr>"
    by (auto simp: insert_worker_def split: if_splits)
  have "find P (xs @ ys) = Some x" if "find P xs = Some x" for P x and xs ys :: "WorkerRecord list"
    using that by (induction xs) auto
  with new show ?thesis
    by (auto simp: sound_step_def worker_keys_def db_evolves_def db' worker_row_def sql_find_def)
qed

lemma create_slot_sound: "sound_step db (fst (create_slot r db))"
  by (auto simp: create_slot_def split: sum.splits dest: insert_worker_sound)

lemma first_reserve_sound:
  assumes "sql_first key P (worker_records db) = Some r"
    and "P r \<Longrightarrow> \<not> terminal (wr_State r) \<and> wr_State r \<noteq> WorkerStateDraining"
    and "\<And>q. wr_WorkerID (setOrg q) = wr_WorkerID q \<and> wr_PodName (setOrg q) = wr_PodName q"
  shows "sound_step db (reserve_row e (wr_WorkerID r) setOrg own db)"
proof (cases "worker_keys (worker_records db)")
  case True
  from sql_first_worker_row [OF True assms(1)] show ?thesis
    by (rule reserve_row_sound) (use assms(2,3) sql_first_SomeD(2) [OF assms(1)] in auto)
qed (simp add: sound_step_def)

lemma ClaimIdleWorker_sound: "sound_step db (fst (ClaimIdleWorker e lk own org img mo mg db))"
  by (auto simp: ClaimIdleWorker_def Let_def terminal_def split: option.splits
      intro: first_reserve_sound)

lemma ClaimHotIdleWorker_sound: "sound_step db (fst (ClaimHotIdleWorker e lk own org mo db))"
  by (auto simp: ClaimHotIdleWorker_def Let_def terminal_def split: option.splits
      intro: first_reserve_sound)

lemma TakeOverWorker_sound: "sound_step db (fst (TakeOverWorker e w own org ep db))"
  by (auto simp: TakeOverWorker_def Let_def terminal_def split: option.splits
      dest: worker_row_SomeD intro!: reserve_row_sound)

lemma Create_sound:
  "sound_step db (fst (CreateSpawningWorkerSlot e own org img ep pfx mo mg db))"
  "sound_step db (fst (CreateNeutralWarmWorkerSlotForImage e own pfx img n mg db))"
  "sound_step db (fst (CreateNeutralWarmWorkerSlot e own pfx img n mg db))"
  by (auto simp: CreateSpawningWorkerSlot_def CreateNeutralWarmWorkerSlotForImage_def
      CreateNeutralWarmWorkerSlot_def split: option.splits intro: create_slot_sound)

text \<open>The snapshot-fenced operations in terms of the interface.\<close>

lemma MarkWorkerTerminalIfCurrent_update:
  assumes "target = WorkerStateRetired \<or> target = WorkerStateLost"
  shows "MarkWorkerTerminalIfCurrent e (Some obs) target reason db =
    update_workers e (observed_fence obs (workerTerminalEligibleStates target))
      (\<lambda>r. r\<lparr>wr_State := (if target = WorkerStateLost then WorkerStateLost else WorkerStateRetired),
         wr_RetireReason := reason, wr_UpdatedAt := now e\<rparr>) db"
  using assms by (auto simp: MarkWorkerTerminalIfCurrent_def)

lemma MarkWorkerTerminalIfCurrent_sound:
  "sound_step db (fst (MarkWorkerTerminalIfCurrent e obs target reason db))"
proof (cases "obs = None \<or> target \<noteq> WorkerStateRetired \<and> target \<noteq> WorkerStateLost")
  case True
  then show ?thesis by (auto simp: MarkWorkerTerminalIfCurrent_def split: option.splits)
next
  case False
  then obtain y where obs: "obs = Some y"
    and t: "target = WorkerStateRetired \<or> target = WorkerStateLost" by auto
  show ?thesis
    unfolding obs MarkWorkerTerminalIfCurrent_update [OF t] by (rule terminal_cas.update_sound)
qed

lemma RetireOrphanWorker_sound: "sound_step db (fst (RetireOrphanWorker e obs reason db))"
  by (auto simp: RetireOrphanWorker_def split: option.splits intro: orphan_cas.update_sound)

lemma RetireIdle_sound:
  "sound_step db (fst (RetireHotIdleWorker e obs db))"
  "sound_step db (fst (RetireIdleOrHotIdleWorker e obs reason db))"
  by (auto simp: RetireHotIdleWorker_def RetireIdleOrHotIdleWorker_def split: option.splits
      intro: MarkWorkerTerminalIfCurrent_sound)

lemma BumpWorkerEpoch_sound: "sound_step db (fst (BumpWorkerEpoch e w own ep db))"
  using bump_cas.update_sound [of db e w own ep "now e"]
  by (auto simp: BumpWorkerEpoch_def split: prod.splits sum.splits option.splits)

lemma lease_cas_sound:
  "sound_step db (fst (MarkCredentialsRefreshed e w own ep x db))"
  "sound_step db (fst (MarkWorkerLostIfCurrentLease e w own ep reason db))"
  "sound_step db (fst (MarkWorkerDraining e w own ep db))"
  "sound_step db (fst (RetireDrainingWorker e w own ep reason db))"
  unfolding MarkCredentialsRefreshed_def MarkWorkerLostIfCurrentLease_def MarkWorkerDraining_def
    RetireDrainingWorker_def Let_def
  by (rule creds_cas.update_sound lost_cas.update_sound drain_cas.update_sound
      retire_draining_cas.update_sound)+

text \<open>The upsert may also change the pod name, but to one no other row has.\<close>

lemma distinct_map_update:
  assumes "distinct (map key rs)" and "distinct (map val rs)"
    and "\<And>q. q \<in> set rs \<Longrightarrow> key q \<noteq> k \<Longrightarrow> val q \<noteq> v"
    and "\<And>q. val (f q) = v"
  shows "distinct (map val (map (\<lambda>q. if key q = k then f q else q) rs))"
  using assms(1,2,3)
proof (induction rs)
  case (Cons a rs)
  let ?h = "\<lambda>q. if key q = k then f q else q"
  show ?case
  proof (cases "key a = k")
    case True
    with Cons.prems(1) have other: "key q \<noteq> k" if "q \<in> set rs" for q
      using that by (auto simp: rev_image_eqI)
    then have "map ?h rs = rs" by (simp add: map_idI)
    moreover have "v \<notin> val ` set rs" using other Cons.prems(3) by fastforce
    ultimately show ?thesis using True Cons.prems(2) assms(4) by simp
  next
    case False
    then have "val a \<noteq> v" using Cons.prems(3) by simp
    then have "val a \<noteq> val (?h q)" if "q \<in> set rs" for q
      using that Cons.prems(2) assms(4) by auto
    moreover have "distinct (map val (map ?h rs))"
      using Cons.prems by (intro Cons.IH) auto
    ultimately show ?thesis using False by auto
  qed
qed simp

lemma UpsertWorkerRecord_sound: "sound_step db (fst (UpsertWorkerRecord e rec db))"
proof (cases "worker_keys (worker_records db) \<and> fault e = None \<and>
    (\<exists>r. worker_row db (wr_WorkerID rec) = Some r) \<and> snd (UpsertWorkerRecord e rec db) = Inr ()")
  case False
  then show ?thesis
    by (auto simp: UpsertWorkerRecord_def Let_def sound_step_def split: option.splits sum.splits if_splits
        dest: insert_worker_sound [unfolded sound_step_def])
next
  case True
  then obtain r where k: "worker_keys (worker_records db)" and e: "fault e = None"
    and r: "worker_row db (wr_WorkerID rec) = Some r" and ok: "snd (UpsertWorkerRecord e rec db) = Inr ()"
    by blast
  define g where "g q = q\<lparr>
      wr_PodName := wr_PodName rec, wr_Image := wr_Image rec, wr_State := wr_State rec,
      wr_OrgID := wr_OrgID rec, wr_OwnerCPInstanceID := Some (owner_string rec),
      wr_OwnerEpoch := wr_OwnerEpoch rec, wr_ActivationStartedAt := wr_ActivationStartedAt rec,
      wr_LastHeartbeatAt := wr_LastHeartbeatAt rec, wr_RetireReason := wr_RetireReason rec,
      wr_S3CredentialsExpiresAt := wr_S3CredentialsExpiresAt rec,
      wr_UpdatedAt := (if IsZero (wr_UpdatedAt rec) then now e else wr_UpdatedAt rec)\<rparr>" for q :: WorkerRecord
  let ?h = "\<lambda>q. if wr_WorkerID q = wr_WorkerID rec then g q else q"
  from ok e r have res: "fst (UpsertWorkerRecord e rec db) = db\<lparr>worker_records := map ?h (worker_records db)\<rparr>"
    and st: "wr_State r \<notin> {WorkerStateDraining, WorkerStateRetired, WorkerStateLost}"
    and ep: "wr_OwnerEpoch rec > wr_OwnerEpoch r \<or>
      wr_OwnerEpoch rec = wr_OwnerEpoch r \<and> wr_OwnerCPInstanceID r = Some (owner_string rec)"
    and pod: "\<And>q. q \<in> set (worker_records db) \<Longrightarrow> wr_WorkerID q \<noteq> wr_WorkerID r \<Longrightarrow>
      wr_PodName q \<noteq> wr_PodName rec"
    by (auto simp: UpsertWorkerRecord_def Let_def sql_update_def g_def split: if_splits)
  have "row_evolves q (?h q)" if "q \<in> set (worker_records db)" for q
    using worker_row_unique [OF k that r] st ep by (auto simp: g_def row_evolves_def terminal_def)
  moreover have "distinct (map wr_PodName (map ?h (worker_records db)))"
    using k pod worker_row_SomeD [OF r]
    by (intro distinct_map_update [where v = "wr_PodName rec"]) (auto simp: worker_keys_def g_def)
  ultimately show ?thesis unfolding res by (rule sound_step_map)
qed

section \<open>Runs of the store\<close>

text \<open>One step of any control plane on the worker table, or a statement that does not touch
  it. The environment, the locked rows and every argument are arbitrary.\<close>

inductive worker_step :: "runtime_db \<Rightarrow> runtime_db \<Rightarrow> bool" where
  upsert: "worker_step db (fst (UpsertWorkerRecord e rec db))"
| claim_idle: "worker_step db (fst (ClaimIdleWorker e lk own org img mo mg db))"
| claim_hot_idle: "worker_step db (fst (ClaimHotIdleWorker e lk own org mo db))"
| take_over: "worker_step db (fst (TakeOverWorker e w own org ep db))"
| create: "worker_step db (fst (CreateSpawningWorkerSlot e own org img ep pfx mo mg db))"
| create_image: "worker_step db (fst (CreateNeutralWarmWorkerSlotForImage e own pfx img n mg db))"
| create_neutral: "worker_step db (fst (CreateNeutralWarmWorkerSlot e own pfx img n mg db))"
| mark_terminal: "worker_step db (fst (MarkWorkerTerminalIfCurrent e obs target reason db))"
| retire_hot_idle: "worker_step db (fst (RetireHotIdleWorker e obs db))"
| retire_orphan: "worker_step db (fst (RetireOrphanWorker e obs reason db))"
| retire_idle: "worker_step db (fst (RetireIdleOrHotIdleWorker e obs reason db))"
| bump: "worker_step db (fst (BumpWorkerEpoch e w own ep db))"
| creds: "worker_step db (fst (MarkCredentialsRefreshed e w own ep x db))"
| lost: "worker_step db (fst (MarkWorkerLostIfCurrentLease e w own ep reason db))"
| draining: "worker_step db (fst (MarkWorkerDraining e w own ep db))"
| retire_draining: "worker_step db (fst (RetireDrainingWorker e w own ep reason db))"
| other_tables: "worker_records db' = worker_records db \<Longrightarrow> worker_step db db'"

lemma sound_step_frame: "worker_records db' = worker_records db \<Longrightarrow> sound_step db db'"
  by (simp add: sound_step_def db_evolves_frame)

lemmas op_sound = UpsertWorkerRecord_sound ClaimIdleWorker_sound ClaimHotIdleWorker_sound
  TakeOverWorker_sound Create_sound MarkWorkerTerminalIfCurrent_sound RetireIdle_sound
  RetireOrphanWorker_sound BumpWorkerEpoch_sound lease_cas_sound sound_step_frame

lemma worker_step_sound: "worker_step db db' \<Longrightarrow> sound_step db db'"
  by (induction rule: worker_step.induct) (rule op_sound, assumption?)+

lemma worker_steps_sound:
  assumes "worker_step\<^sup>*\<^sup>* db db'" and "worker_keys (worker_records db)"
  shows "worker_keys (worker_records db') \<and> db_evolves db db'"
  using assms(1)
proof (induction rule: rtranclp_induct)
  case base
  with assms(2) show ?case by simp
next
  case (step y z)
  then show ?case
    using worker_step_sound [OF step.hyps(2)] by (auto simp: sound_step_def intro: db_evolves_trans)
qed

end
