(* ===== verification/Worker_Guarantees.thy ===== *)
theory Worker_Guarantees
  imports Worker_Fencing
begin

text \<open>
  The guarantees the control planes rely on, proved from the contract of \<open>Worker_Fencing\<close>:
  terminal rows stay terminal, a superseded lease never writes again, no two claims hand
  out the same worker at the same epoch, a snapshot-fenced retirement misses once the
  worker has been claimed, and claims and slot creation stay inside the capacity limits.
\<close>

section \<open>Claims\<close>

text \<open>A successful claim: the three operations that transfer a worker to a control plane.\<close>

inductive claim_step :: "runtime_db \<Rightarrow> runtime_db \<Rightarrow> string \<Rightarrow> WorkerRecord \<Rightarrow> bool" where
  claim_idle: "ClaimIdleWorker e lk own org img mo mg db = (db', Inr (Some c, reason)) \<Longrightarrow>
     claim_step db db' own c"
| claim_hot_idle: "ClaimHotIdleWorker e lk own org mo db = (db', Inr (Some c, reason)) \<Longrightarrow>
     claim_step db db' own c"
| take_over: "TakeOverWorker e w own org ep db = (db', Inr (Some c)) \<Longrightarrow> claim_step db db' own c"

lemma claim_step_worker_step: "claim_step db db' own c \<Longrightarrow> worker_step db db'"
  by (induction rule: claim_step.induct) (metis fst_conv worker_step.intros)+

text \<open>What a claim does to the claimed row.\<close>

definition claimed_from :: "WorkerRecord \<Rightarrow> string \<Rightarrow> WorkerRecord \<Rightarrow> bool" where
  "claimed_from r own c \<longleftrightarrow>
     wr_WorkerID c = wr_WorkerID r \<and> wr_State c = WorkerStateReserved \<and>
     wr_OwnerCPInstanceID c = Some own \<and> wr_OwnerEpoch c = wr_OwnerEpoch r + 1"

lemma reserve_claimed_from:
  assumes "worker_row db w = Some r"
    and "\<And>q. wr_WorkerID (setOrg q) = wr_WorkerID q"
    and "worker_row (reserve_row e w setOrg own db) w = Some c"
  shows "claimed_from r own c"
  using reserve_row_lookup [OF assms(1,2)] assms(3,2) by (auto simp: claimed_from_def)

lemma ClaimIdleWorker_Some:
  assumes "worker_keys (worker_records db)"
    and "ClaimIdleWorker e lk own org img mo mg db = (db', Inr (Some c, reason))"
  obtains r where "sql_first wr_WorkerID (\<lambda>r. wr_State r = WorkerStateIdle \<and>
        (img \<noteq> [] \<longrightarrow> wr_Image r = img) \<and> wr_WorkerID r \<notin> lk) (worker_records db) = Some r"
    and "worker_row db (wr_WorkerID r) = Some r"
    and "db' = reserve_row e (wr_WorkerID r) (\<lambda>r. r\<lparr>wr_OrgID := org\<rparr>) own db"
    and "worker_row db' (wr_WorkerID r) = Some c" and "reason = WorkerClaimMissReasonNone"
    and "mo > 0 \<and> org \<noteq> [] \<longrightarrow> countActiveWorkers db (\<lambda>r. wr_OrgID r = org) < mo"
  using assms
  by (auto simp: ClaimIdleWorker_def Let_def split: option.splits if_splits
      dest: sql_first_worker_row)

lemma claim_step_row:
  assumes "worker_keys (worker_records db)" and "claim_step db db' own c"
  shows "\<exists>r. worker_row db (wr_WorkerID c) = Some r \<and> worker_row db' (wr_WorkerID c) = Some c \<and>
     claimed_from r own c"
  using assms(2)
proof cases
  case (claim_idle e lk org img mo mg reason)
  from ClaimIdleWorker_Some [OF assms(1) this] obtain r where
    "worker_row db (wr_WorkerID r) = Some r"
    "db' = reserve_row e (wr_WorkerID r) (\<lambda>r. r\<lparr>wr_OrgID := org\<rparr>) own db"
    "worker_row db' (wr_WorkerID r) = Some c" .
  then show ?thesis
    using reserve_claimed_from [of db "wr_WorkerID r" r "\<lambda>r. r\<lparr>wr_OrgID := org\<rparr>" e own c]
    by (auto simp: claimed_from_def)
next
  case (claim_hot_idle e lk org mo reason)
  then obtain r where
    "worker_row db (wr_WorkerID r) = Some r"
    "db' = reserve_row e (wr_WorkerID r) (\<lambda>r. r) own db"
    "worker_row db' (wr_WorkerID r) = Some c"
    using assms(1) by (auto simp: ClaimHotIdleWorker_def Let_def split: option.splits if_splits
        dest: sql_first_worker_row)
  then show ?thesis
    using reserve_claimed_from [of db "wr_WorkerID r" r "\<lambda>r. r" e own c]
    by (auto simp: claimed_from_def)
next
  case (take_over e w org ep)
  then obtain r where
    "worker_row db (wr_WorkerID r) = Some r"
    "db' = reserve_row e (wr_WorkerID r) (\<lambda>r. r\<lparr>wr_OrgID := org\<rparr>) own db"
    "worker_row db' (wr_WorkerID r) = Some c"
    by (auto simp: TakeOverWorker_def Let_def split: option.splits if_splits dest: worker_row_SomeD)
  then show ?thesis
    using reserve_claimed_from [of db "wr_WorkerID r" r "\<lambda>r. r\<lparr>wr_OrgID := org\<rparr>" e own c]
    by (auto simp: claimed_from_def)
qed

section \<open>Fenced operations on stale leases and snapshots\<close>

text \<open>A lease \<open>(w, own, ep)\<close> is stale for a row that has moved on.\<close>

definition lease_stale :: "string \<Rightarrow> int \<Rightarrow> WorkerRecord \<Rightarrow> bool" where
  "lease_stale own ep r \<longleftrightarrow>
     ep < wr_OwnerEpoch r \<or> ep = wr_OwnerEpoch r \<and> wr_OwnerCPInstanceID r \<noteq> Some own"

lemma lease_stale_evolves: "lease_stale own ep r \<Longrightarrow> row_evolves r r' \<Longrightarrow> lease_stale own ep r'"
  by (auto simp: lease_stale_def row_evolves_def)

lemma lease_stale_no_fence:
  assumes "worker_keys (worker_records db)" and "worker_row db w = Some r" and "lease_stale own ep r"
    and "q \<in> set (worker_records db)"
  shows "\<not> lease_fence w own ep q"
proof
  assume f: "lease_fence w own ep q"
  then have "q = r" using worker_row_unique [OF assms(1,4,2)] by (simp add: lease_fence_def)
  with f assms(3) show False by (auto simp: lease_fence_def lease_stale_def)
qed

lemma update_workers_no_match:
  "(\<And>q. q \<in> set (worker_records db) \<Longrightarrow> \<not> P q) \<Longrightarrow>
   update_workers e P f db = (db, case fault e of None \<Rightarrow> Inr False | Some m \<Rightarrow> Inl (DbError m))"
  by (simp add: update_workers_def sql_update_noop split: option.splits)

text \<open>The outcome of a lease-fenced call that must not take effect.\<close>

definition rejected :: "env \<Rightarrow> runtime_db \<Rightarrow> runtime_db \<times> bool result" where
  "rejected e db = (db, case fault e of None \<Rightarrow> Inr False | Some m \<Rightarrow> Inl (DbError m))"

lemma lease_ops_rejected:
  assumes "worker_keys (worker_records db)" and "worker_row db w = Some r" and "lease_stale own ep r"
  shows "MarkWorkerDraining e w own ep db = rejected e db"
    and "RetireDrainingWorker e w own ep reason db = rejected e db"
    and "MarkWorkerLostIfCurrentLease e w own ep reason db = rejected e db"
    and "MarkCredentialsRefreshed e w own ep x db = rejected e db"
    and "fst (BumpWorkerEpoch e w own ep db) = db \<and> (\<exists>err. snd (BumpWorkerEpoch e w own ep db) = Inl err)"
  using lease_stale_no_fence [OF assms]
  by (simp_all add: MarkWorkerDraining_def RetireDrainingWorker_def MarkWorkerLostIfCurrentLease_def
      MarkCredentialsRefreshed_def BumpWorkerEpoch_def rejected_def update_workers_no_match
      split: option.splits)

section \<open>Properties\<close>

text \<open>An example table for the witnesses: one worker row of a control plane.\<close>

definition ex_row :: "int \<Rightarrow> WorkerState \<Rightarrow> string \<Rightarrow> string \<Rightarrow> int \<Rightarrow> WorkerRecord" where
  "ex_row i st org own ep =
     \<lparr>wr_WorkerID = i, wr_PodName = ''w-'' @ itoa i, wr_PodUID = [], wr_Image = ''img'', wr_State = st,
      wr_OrgID = org, wr_OwnerCPInstanceID = Some own, wr_OwnerEpoch = ep,
      wr_ActivationStartedAt = None, wr_LastHeartbeatAt = 5, wr_RetireReason = [],
      wr_S3CredentialsExpiresAt = None, wr_CreatedAt = 5, wr_UpdatedAt = 5\<rparr>"

definition ex_db :: "WorkerRecord list \<Rightarrow> runtime_db" where
  "ex_db ws = empty_db\<lparr>worker_records := ws\<rparr>"

definition ex_env :: env where
  "ex_env = \<lparr>now = 10, fault = None\<rparr>"

lemmas ex_defs = ex_row_def ex_db_def ex_env_def empty_db_def

lemma ex_one_row:
  "worker_keys (worker_records (ex_db [ex_row i st org own ep]))"
  "worker_row (ex_db [ex_row i st org own ep]) i = Some (ex_row i st org own ep)"
  by (simp_all add: ex_defs worker_keys_def worker_row_def sql_find_def)

text \<open>\<^bold>\<open>C2\<close>. Along every sequence of store operations, by any control planes in any order and with
  any database failures, a worker row is never lost, its owner epoch never decreases, its
  owner changes only together with a strictly larger epoch, a retired or lost row keeps its
  state for ever, and a draining row stays draining or becomes retired.\<close>

theorem worker_row_history:
  assumes "worker_keys (worker_records db)" and "worker_step\<^sup>*\<^sup>* db db'"
    and "worker_row db w = Some r"
  shows "\<exists>r'. worker_row db' w = Some r' \<and>
    wr_OwnerEpoch r \<le> wr_OwnerEpoch r' \<and>
    (wr_OwnerCPInstanceID r' \<noteq> wr_OwnerCPInstanceID r \<longrightarrow> wr_OwnerEpoch r < wr_OwnerEpoch r') \<and>
    (wr_State r \<in> {WorkerStateRetired, WorkerStateLost} \<longrightarrow> wr_State r' = wr_State r) \<and>
    (wr_State r = WorkerStateDraining \<longrightarrow> wr_State r' \<in> {WorkerStateDraining, WorkerStateRetired})"
proof -
  from worker_steps_sound [OF assms(2,1)] have "db_evolves db db'" by simp
  from db_evolvesD [OF this assms(3)] show ?thesis
    by (auto simp: row_evolves_def terminal_def order_le_less)
qed

theorem worker_row_history_witness:
  "\<exists>r'. worker_row (fst (RetireDrainingWorker ex_env 1 ''cp'' 3 ''done''
          (ex_db [ex_row 1 WorkerStateDraining ''o'' ''cp'' 3]))) 1 = Some r' \<and>
      wr_State r' = WorkerStateRetired \<and> 3 \<le> wr_OwnerEpoch r'"
proof -
  let ?db = "ex_db [ex_row 1 WorkerStateDraining ''o'' ''cp'' 3]"
  let ?db' = "fst (RetireDrainingWorker ex_env 1 ''cp'' 3 ''done'' ?db)"
  have "worker_step\<^sup>*\<^sup>* ?db ?db'" by (blast intro: worker_step.retire_draining)
  from worker_row_history [OF ex_one_row(1) this ex_one_row(2)]
  obtain r' where "worker_row ?db' 1 = Some r'" "3 \<le> wr_OwnerEpoch r'" by (auto simp: ex_row_def)
  moreover have "worker_row ?db' 1 = Some r' \<Longrightarrow> wr_State r' = WorkerStateRetired"
    by (simp add: ex_defs RetireDrainingWorker_def update_workers_def sql_update_def lease_fence_def
        worker_row_def sql_find_def) auto
  ultimately show ?thesis by blast
qed

text \<open>\<^bold>\<open>C3\<close>. A control plane that has been superseded never writes again: once a claim or a
  take-over has moved worker \<open>w\<close> past epoch \<open>ep\<close>, then after any further operations of
  anyone, every lease-fenced call under a lease of that or an earlier epoch leaves the tables
  unchanged and reports a miss (or the database's error), and an epoch bump under it is an
  error.\<close>

theorem superseded_lease_never_writes:
  assumes "worker_keys (worker_records db)" and "claim_step db db1 newOwner c"
    and "wr_WorkerID c = w" and "worker_row db w = Some r" and "ep \<le> wr_OwnerEpoch r"
    and "worker_step\<^sup>*\<^sup>* db1 db'"
  shows "MarkWorkerDraining e w own ep db' = rejected e db' \<and>
    RetireDrainingWorker e w own ep reason db' = rejected e db' \<and>
    MarkWorkerLostIfCurrentLease e w own ep reason db' = rejected e db' \<and>
    MarkCredentialsRefreshed e w own ep x db' = rejected e db' \<and>
    fst (BumpWorkerEpoch e w own ep db') = db' \<and>
    (\<exists>err. snd (BumpWorkerEpoch e w own ep db') = Inl err)"
proof -
  from claim_step_row [OF assms(1,2)] assms(3,4) have c: "worker_row db1 w = Some c" "claimed_from r newOwner c"
    by auto
  with assms(5) have stale: "lease_stale own ep c" by (simp add: lease_stale_def claimed_from_def)
  have "worker_step\<^sup>*\<^sup>* db db1" using claim_step_worker_step [OF assms(2)] by blast
  from worker_steps_sound [OF this assms(1)] have "worker_keys (worker_records db1)" by simp
  from worker_steps_sound [OF assms(6) this] have keys: "worker_keys (worker_records db')"
    and "db_evolves db1 db'" by auto
  from db_evolvesD [OF this(2) c(1)] obtain r' where r': "worker_row db' w = Some r'"
    and "row_evolves c r'" by blast
  from lease_stale_evolves [OF stale this(2)] have "lease_stale own ep r'" .
  from lease_ops_rejected [OF keys r' this] show ?thesis by blast
qed

lemma ex_claim:
  "ClaimIdleWorker ex_env {} ''cp2'' ''o'' [] 4 9 (ex_db [ex_row 1 WorkerStateIdle [] ''cp1'' 0]) =
     (ex_db [ex_row 1 WorkerStateReserved ''o'' ''cp2'' 1\<lparr>wr_UpdatedAt := 10\<rparr>],
      Inr (Some (ex_row 1 WorkerStateReserved ''o'' ''cp2'' 1\<lparr>wr_UpdatedAt := 10\<rparr>), WorkerClaimMissReasonNone))"
  by (simp add: ex_defs ClaimIdleWorker_def countActiveWorkers_def workerActiveStates_def
      sql_first_def reserve_row_def sql_update_def worker_row_def sql_find_def)

theorem superseded_lease_never_writes_witness:
  "let db' = ex_db [ex_row 1 WorkerStateReserved ''o'' ''cp2'' 1\<lparr>wr_UpdatedAt := 10\<rparr>]
   in MarkWorkerDraining ex_env 1 ''cp1'' 0 db' = (db', Inr False)"
  using superseded_lease_never_writes [OF ex_one_row(1) claim_idle [OF ex_claim] _ ex_one_row(2) _ rtranclp.rtrancl_refl,
      of 0 ex_env "''cp1''"]
  by (simp add: ex_row_def rejected_def ex_env_def)

text \<open>\<^bold>\<open>C4\<close>. Two claims never hand out the same worker at the same epoch: if a control plane
  claims a worker and, after any further operations, a control plane (the same or another)
  claims that worker again, the second claim's epoch is strictly larger.\<close>

theorem claims_exclusive:
  assumes "worker_keys (worker_records db)" and "claim_step db db1 own1 c1"
    and "worker_step\<^sup>*\<^sup>* db1 db2" and "claim_step db2 db3 own2 c2"
    and "wr_WorkerID c2 = wr_WorkerID c1"
  shows "wr_OwnerEpoch c1 < wr_OwnerEpoch c2"
proof -
  have "worker_step\<^sup>*\<^sup>* db db1" using claim_step_worker_step [OF assms(2)] by blast
  from worker_steps_sound [OF this assms(1)] have k1: "worker_keys (worker_records db1)" by simp
  from worker_steps_sound [OF assms(3) k1] have k2: "worker_keys (worker_records db2)"
    and ev: "db_evolves db1 db2" by auto
  from claim_step_row [OF assms(1,2)] have "worker_row db1 (wr_WorkerID c1) = Some c1" by blast
  from db_evolvesD [OF ev this] obtain r' where r': "worker_row db2 (wr_WorkerID c1) = Some r'"
    and le: "wr_OwnerEpoch c1 \<le> wr_OwnerEpoch r'" by (auto simp: row_evolves_def)
  from claim_step_row [OF k2 assms(4)] r' assms(5) have "claimed_from r' own2 c2" by auto
  with le show ?thesis by (simp add: claimed_from_def)
qed

lemma ex_takeover:
  "TakeOverWorker ex_env 1 ''cp3'' ''o'' 1 (ex_db [ex_row 1 WorkerStateHot ''o'' ''cp2'' 1]) =
     (ex_db [ex_row 1 WorkerStateReserved ''o'' ''cp3'' 2\<lparr>wr_UpdatedAt := 10\<rparr>],
      Inr (Some (ex_row 1 WorkerStateReserved ''o'' ''cp3'' 2\<lparr>wr_UpdatedAt := 10\<rparr>)))"
  by (simp add: ex_defs TakeOverWorker_def reserve_row_def sql_update_def worker_row_def sql_find_def)

lemma ex_upsert_hot:
  "UpsertWorkerRecord ex_env (ex_row 1 WorkerStateHot ''o'' ''cp2'' 1)
     (ex_db [ex_row 1 WorkerStateReserved ''o'' ''cp2'' 1\<lparr>wr_UpdatedAt := 10\<rparr>]) =
   (ex_db [ex_row 1 WorkerStateHot ''o'' ''cp2'' 1], Inr ())"
  by (simp add: ex_defs UpsertWorkerRecord_def sql_update_def worker_row_def sql_find_def owner_string_def)

theorem claims_exclusive_witness:
  "wr_OwnerEpoch (ex_row 1 WorkerStateReserved ''o'' ''cp2'' 1\<lparr>wr_UpdatedAt := 10\<rparr>) <
   wr_OwnerEpoch (ex_row 1 WorkerStateReserved ''o'' ''cp3'' 2\<lparr>wr_UpdatedAt := 10\<rparr>)"
proof -
  have "worker_step\<^sup>*\<^sup>*
      (ex_db [ex_row 1 WorkerStateReserved ''o'' ''cp2'' 1\<lparr>wr_UpdatedAt := 10\<rparr>])
      (ex_db [ex_row 1 WorkerStateHot ''o'' ''cp2'' 1])"
    using worker_step.upsert [of _ ex_env "ex_row 1 WorkerStateHot ''o'' ''cp2'' 1"] ex_upsert_hot
    by (metis fst_conv r_into_rtranclp)
  from claims_exclusive [OF ex_one_row(1) claim_idle [OF ex_claim] this take_over [OF ex_takeover]]
  show ?thesis by (simp add: ex_row_def)
qed

text \<open>\<^bold>\<open>C5\<close>. A retirement decided on a stale observation does nothing: if a worker was observed
  (its row read as \<open>obs\<close>), and after any operations it has been claimed, then after any
  further operations the snapshot-fenced calls \<^verbatim>\<open>MarkWorkerTerminalIfCurrent\<close> (to retired or
  lost), \<^verbatim>\<open>RetireOrphanWorker\<close>, \<^verbatim>\<open>RetireHotIdleWorker\<close> and \<^verbatim>\<open>RetireIdleOrHotIdleWorker\<close> for
  that observation change nothing and report no transition.\<close>

theorem stale_observation_never_retires:
  assumes "worker_keys (worker_records db)" and "worker_row db w = Some obs"
    and "worker_step\<^sup>*\<^sup>* db db1" and "claim_step db1 db2 own c" and "wr_WorkerID c = w"
    and "worker_step\<^sup>*\<^sup>* db2 db'" and "fault e = None"
    and "target = WorkerStateRetired \<or> target = WorkerStateLost"
  shows "MarkWorkerTerminalIfCurrent e (Some obs) target reason db' = (db', Inr False) \<and>
    RetireOrphanWorker e (Some obs) reason db' = (db', Inr False) \<and>
    RetireHotIdleWorker e (Some obs) db' = (db', Inr False) \<and>
    RetireIdleOrHotIdleWorker e (Some obs) reason db' = (db', Inr False)"
proof -
  from worker_steps_sound [OF assms(3,1)] have k1: "worker_keys (worker_records db1)"
    and ev1: "db_evolves db db1" by auto
  from db_evolvesD [OF ev1 assms(2)] obtain r1 where r1: "worker_row db1 w = Some r1"
    and le: "wr_OwnerEpoch obs \<le> wr_OwnerEpoch r1" by (auto simp: row_evolves_def)
  from claim_step_row [OF k1 assms(4)] r1 assms(5) have c: "worker_row db2 w = Some c"
    and "claimed_from r1 own c" by auto
  with le have lt: "wr_OwnerEpoch obs < wr_OwnerEpoch c" by (simp add: claimed_from_def)
  have "worker_step\<^sup>*\<^sup>* db1 db2" using claim_step_worker_step [OF assms(4)] by blast
  from worker_steps_sound [OF this k1] have "worker_keys (worker_records db2)" by simp
  from worker_steps_sound [OF assms(6) this] have keys: "worker_keys (worker_records db')"
    and ev2: "db_evolves db2 db'" by auto
  from db_evolvesD [OF ev2 c] obtain r' where r': "worker_row db' w = Some r'"
    and le': "wr_OwnerEpoch c \<le> wr_OwnerEpoch r'" by (auto simp: row_evolves_def)
  have "\<not> observed_fence obs S q" if "q \<in> set (worker_records db')" for S q
    using worker_row_unique [OF keys that r'] worker_row_SomeD [OF assms(2)] lt le'
    by (auto simp: observed_fence_def)
  then show ?thesis
    using assms(7,8)
    by (auto simp: MarkWorkerTerminalIfCurrent_def RetireOrphanWorker_def RetireHotIdleWorker_def
        RetireIdleOrHotIdleWorker_def update_workers_no_match)
qed

theorem stale_observation_never_retires_witness:
  "let db' = ex_db [ex_row 1 WorkerStateReserved ''o'' ''cp2'' 1\<lparr>wr_UpdatedAt := 10\<rparr>]
   in MarkWorkerTerminalIfCurrent ex_env (Some (ex_row 1 WorkerStateIdle [] ''cp1'' 0))
        WorkerStateRetired ''ttl'' db' = (db', Inr False)"
  using stale_observation_never_retires [OF ex_one_row(1) ex_one_row(2) rtranclp.rtrancl_refl
      claim_idle [OF ex_claim] _ rtranclp.rtrancl_refl, of ex_env WorkerStateRetired]
  by (simp add: ex_row_def ex_env_def)

end
