(* ===== verification/Worker_Capacity.thy ===== *)
theory Worker_Capacity
  imports Worker_Guarantees
begin

text \<open>
  The capacity limits: what a successful claim or slot creation leaves in the tables, for
  the limits per organisation, for the whole cluster and for the warm pool.
\<close>

section \<open>Capacity\<close>

lemma count_reserve:
  assumes "worker_keys (worker_records db)"
  shows "countActiveWorkers (reserve_row e w setOrg own db) Q \<le> countActiveWorkers db Q + 1"
  using assms unfolding countActiveWorkers_def reserve_row_def sql_update_def
  by (auto simp: worker_keys_def intro!: sql_count_map_one [where key = wr_WorkerID and k = w])

lemma fold_max_bounds: "(x::int) \<in> insert i (set is) \<Longrightarrow> x \<le> fold max is i"
  by (induction "is" arbitrary: i x) (auto intro: order_trans [OF max.cobounded1] order_trans [OF max.cobounded2])

lemma next_worker_id_fresh:
  "r \<in> set (worker_records db) \<Longrightarrow> wr_WorkerID r < next_worker_id db"
  using fold_max_bounds
  by (cases "map wr_WorkerID (worker_records db)") (force simp: next_worker_id_def)+

lemma create_slot_Some:
  assumes "create_slot r db = (db', Inr (Some r'))"
  shows "r' = r" and "worker_records db' = worker_records db @ [r]"
  using assms by (auto simp: create_slot_def insert_worker_def split: if_splits)

lemma count_create:
  assumes "create_slot r db = (db', Inr (Some r'))"
  shows "countActiveWorkers db' Q \<le> countActiveWorkers db Q + 1"
    and "countNeutralWarmWorkers db' \<le> countNeutralWarmWorkers db + 1"
    and "countNeutralWarmWorkersForImage db' img \<le> countNeutralWarmWorkersForImage db img + 1"
  using create_slot_Some [OF assms]
  by (simp_all add: countActiveWorkers_def countNeutralWarmWorkers_def countNeutralWarmWorkersForImage_def)



text \<open>What every successful slot creation has in common.\<close>

lemma create_spawning:
  assumes "create_slot (spawning_record e (next_worker_id db) pfx img org own ep) db = (db', Inr (Some r))"
  shows "worker_records db' = worker_records db @ [r]"
    and "\<forall>q \<in> set (worker_records db). wr_WorkerID q < wr_WorkerID r"
    and "wr_State r = WorkerStateSpawning \<and> wr_OrgID r = org \<and> wr_Image r = img \<and>
      wr_OwnerCPInstanceID r = Some own"
    and "countActiveWorkers db (\<lambda>q. True) < mg \<Longrightarrow> countActiveWorkers db' (\<lambda>q. True) \<le> mg"
    and "countActiveWorkers db (\<lambda>q. wr_OrgID q = o') < mo \<Longrightarrow> countActiveWorkers db' (\<lambda>q. wr_OrgID q = o') \<le> mo"
    and "countNeutralWarmWorkers db < n \<Longrightarrow> countNeutralWarmWorkers db' \<le> n"
    and "countNeutralWarmWorkersForImage db im < n \<Longrightarrow> countNeutralWarmWorkersForImage db' im \<le> n"
proof -
  note r = create_slot_Some [OF assms]
  show "worker_records db' = worker_records db @ [r]" using r by simp
  show "\<forall>q \<in> set (worker_records db). wr_WorkerID q < wr_WorkerID r"
    using r(1) next_worker_id_fresh [of _ db] by (simp add: spawning_record_def)
  show "wr_State r = WorkerStateSpawning \<and> wr_OrgID r = org \<and> wr_Image r = img \<and>
      wr_OwnerCPInstanceID r = Some own"
    using r(1) by (simp add: spawning_record_def)
  show "countActiveWorkers db (\<lambda>q. True) < mg \<Longrightarrow> countActiveWorkers db' (\<lambda>q. True) \<le> mg"
    using count_create(1) [OF assms, of "\<lambda>q. True"] by simp
  show "countActiveWorkers db (\<lambda>q. wr_OrgID q = o') < mo \<Longrightarrow> countActiveWorkers db' (\<lambda>q. wr_OrgID q = o') \<le> mo"
    using count_create(1) [OF assms, of "\<lambda>q. wr_OrgID q = o'"] by simp
  show "countNeutralWarmWorkers db < n \<Longrightarrow> countNeutralWarmWorkers db' \<le> n"
    using count_create(2) [OF assms] by simp
  show "countNeutralWarmWorkersForImage db im < n \<Longrightarrow> countNeutralWarmWorkersForImage db' im \<le> n"
    using count_create(3) [OF assms, of im] by simp
qed

lemma CreateSpawningWorkerSlot_Some:
  assumes "CreateSpawningWorkerSlot e own org img ep pfx mo mg db = (db', Inr (Some r))"
  shows "create_slot (spawning_record e (next_worker_id db) pfx img org own ep) db = (db', Inr (Some r))"
    and "0 < mg \<longrightarrow> countActiveWorkers db (\<lambda>q. True) < mg"
    and "0 < mo \<and> org \<noteq> [] \<longrightarrow> countActiveWorkers db (\<lambda>q. wr_OrgID q = org) < mo"
  using assms by (auto simp: CreateSpawningWorkerSlot_def split: option.splits if_splits)

lemma CreateNeutralWarmWorkerSlot_Some:
  assumes "CreateNeutralWarmWorkerSlot e own pfx img n mg db = (db', Inr (Some r))"
  shows "create_slot (spawning_record e (next_worker_id db) pfx img [] own 0) db = (db', Inr (Some r))"
    and "0 < mg \<longrightarrow> countActiveWorkers db (\<lambda>q. True) < mg"
    and "0 < n \<longrightarrow> countNeutralWarmWorkers db < n"
  using assms by (auto simp: CreateNeutralWarmWorkerSlot_def split: option.splits if_splits)

lemma CreateNeutralWarmWorkerSlotForImage_Some:
  assumes "CreateNeutralWarmWorkerSlotForImage e own pfx img n mg db = (db', Inr (Some r))"
  shows "create_slot (spawning_record e (next_worker_id db) pfx img [] own 0) db = (db', Inr (Some r))"
    and "0 < mg \<longrightarrow> countActiveWorkers db (\<lambda>q. True) < mg"
    and "0 < n \<longrightarrow> countNeutralWarmWorkersForImage db img < n"
  using assms by (auto simp: CreateNeutralWarmWorkerSlotForImage_def split: option.splits if_splits)

text \<open>\<^bold>\<open>C9\<close>. Slot creation stays inside every limit it is given and never reuses an id: a created
  row has an id larger than every existing one, is appended as a spawning row of the caller,
  and afterwards the active workers are at most the global limit, the organisation's at most
  its limit, and the neutral warm workers (of the image, for the per-image variant) at most
  the warm target.\<close>

theorem slot_creation_within_caps:
  "(CreateSpawningWorkerSlot e own org img ep pfx mo mg db = (db', Inr (Some r)) \<longrightarrow>
      worker_records db' = worker_records db @ [r] \<and>
      (\<forall>q \<in> set (worker_records db). wr_WorkerID q < wr_WorkerID r) \<and>
      wr_State r = WorkerStateSpawning \<and> wr_OrgID r = org \<and> wr_OwnerCPInstanceID r = Some own \<and>
      (0 < mg \<longrightarrow> countActiveWorkers db' (\<lambda>q. True) \<le> mg) \<and>
      (0 < mo \<and> org \<noteq> [] \<longrightarrow> countActiveWorkers db' (\<lambda>q. wr_OrgID q = org) \<le> mo)) \<and>
   (CreateNeutralWarmWorkerSlot e own pfx img n mg db = (db', Inr (Some r)) \<longrightarrow>
      worker_records db' = worker_records db @ [r] \<and>
      (\<forall>q \<in> set (worker_records db). wr_WorkerID q < wr_WorkerID r) \<and>
      wr_State r = WorkerStateSpawning \<and> wr_OrgID r = [] \<and> wr_OwnerCPInstanceID r = Some own \<and>
      (0 < mg \<longrightarrow> countActiveWorkers db' (\<lambda>q. True) \<le> mg) \<and>
      (0 < n \<longrightarrow> countNeutralWarmWorkers db' \<le> n)) \<and>
   (CreateNeutralWarmWorkerSlotForImage e own pfx img n mg db = (db', Inr (Some r)) \<longrightarrow>
      worker_records db' = worker_records db @ [r] \<and>
      (\<forall>q \<in> set (worker_records db). wr_WorkerID q < wr_WorkerID r) \<and>
      wr_State r = WorkerStateSpawning \<and> wr_OrgID r = [] \<and> wr_Image r = img \<and>
      wr_OwnerCPInstanceID r = Some own \<and>
      (0 < mg \<longrightarrow> countActiveWorkers db' (\<lambda>q. True) \<le> mg) \<and>
      (0 < n \<longrightarrow> countNeutralWarmWorkersForImage db' img \<le> n))"
  (is "(?A \<longrightarrow> ?P) \<and> (?B \<longrightarrow> ?Q) \<and> (?C \<longrightarrow> ?R)")
proof -
  have ?P if ?A
    using CreateSpawningWorkerSlot_Some [OF that]
      create_spawning [OF CreateSpawningWorkerSlot_Some(1) [OF that]] by simp
  moreover have ?Q if ?B
    using CreateNeutralWarmWorkerSlot_Some [OF that]
      create_spawning [OF CreateNeutralWarmWorkerSlot_Some(1) [OF that]] by simp
  moreover have ?R if ?C
    using CreateNeutralWarmWorkerSlotForImage_Some [OF that]
      create_spawning [OF CreateNeutralWarmWorkerSlotForImage_Some(1) [OF that]] by simp
  ultimately show ?thesis by blast
qed

theorem slot_creation_within_caps_witness:
  "countActiveWorkers (fst (CreateSpawningWorkerSlot ex_env ''cp'' ''o'' ''img'' 0 ''p'' 1 2
     (ex_db [ex_row 1 WorkerStateIdle [] ''cp1'' 0]))) (\<lambda>q. True) \<le> 2"
proof -
  have trim: "TrimSpace ''p'' \<noteq> []"
    by (rule TrimSpace_keeps [of "CHR ''p''"]) (simp_all add: go_space_runes_def)
  let ?r = "spawning_record ex_env 2 ''p'' ''img'' ''o'' ''cp'' 0"
  have "CreateSpawningWorkerSlot ex_env ''cp'' ''o'' ''img'' 0 ''p'' 1 2
      (ex_db [ex_row 1 WorkerStateIdle [] ''cp1'' 0]) =
    (ex_db [ex_row 1 WorkerStateIdle [] ''cp1'' 0, ?r], Inr (Some ?r))"
    by (simp add: ex_defs CreateSpawningWorkerSlot_def trim countActiveWorkers_def workerActiveStates_def)
      (simp add: create_slot_def insert_worker_def next_worker_id_def spawning_record_def)
  with slot_creation_within_caps [THEN conjunct1, THEN mp, OF this] show ?thesis by simp
qed

end
