(* ===== verification/Worker_Lifecycle.thy ===== *)
theory Worker_Lifecycle
  imports Worker_Guarantees
begin

text \<open>
  The typed lifecycle service (\<^verbatim>\<open>controlplane/worker_lifecycle.go\<close>) over the snapshot and
  lease types of \<^verbatim>\<open>configstore/lifecycle_types.go\<close>. The service calls its store through the
  Go interface \<^verbatim>\<open>workerLifecycleStore\<close>, a record of operations here, and schedules the
  deletion of a pod through \<^verbatim>\<open>WorkerPhysicalCleanup\<close>, recorded as the list of calls of
  \<^verbatim>\<open>DeleteWorkerArtifacts\<close>. The locale states what the interface promises; the config
  store implements it.
\<close>

section \<open>Snapshots, leases, outcomes\<close>

record WorkerSnapshot =
  snap_record :: WorkerRecord

record WorkerLease =
  lease_workerID :: int
  lease_ownerCPInstanceID :: string
  lease_ownerEpoch :: int

definition NewWorkerSnapshot :: "WorkerRecord \<Rightarrow> WorkerSnapshot" where
  "NewWorkerSnapshot record = \<lparr>snap_record = record\<rparr>"

definition NewWorkerLease :: "int \<Rightarrow> string \<Rightarrow> int \<Rightarrow> WorkerLease" where
  "NewWorkerLease workerID ownerCPInstanceID ownerEpoch =
     \<lparr>lease_workerID = workerID, lease_ownerCPInstanceID = ownerCPInstanceID,
      lease_ownerEpoch = ownerEpoch\<rparr>"

datatype TransitionOutcomeReason =
    TransitionOutcomeTransitioned
  | TransitionOutcomeFenceMissState
  | TransitionOutcomeFenceMissOwner
  | TransitionOutcomeFenceMissEpoch
  | TransitionOutcomeFenceMissUpdatedAt
  | TransitionOutcomeFenceMissCPRevived
  | TransitionOutcomeRowMissing
  | TransitionOutcomeStoreError

record TransitionOutcome =
  to_Transitioned :: bool
  to_PhysicalCleanupScheduled :: bool
  to_Reason :: TransitionOutcomeReason

text \<open>An outcome with the other fields at their zero values.\<close>

definition outcome :: "TransitionOutcomeReason \<Rightarrow> TransitionOutcome" where
  "outcome reason = \<lparr>to_Transitioned = False, to_PhysicalCleanupScheduled = False, to_Reason = reason\<rparr>"

text \<open>The errors of the service: its own two, or the store's.\<close>

datatype lifecycle_error =
    LifecycleNotConfigured
  | LifecycleUnsupported int WorkerState
  | LifecycleStore store_error

section \<open>The store interface\<close>

record 's workerLifecycleStore =
  st_MarkWorkerTerminalIfCurrent ::
    "env \<Rightarrow> WorkerRecord option \<Rightarrow> WorkerState \<Rightarrow> string \<Rightarrow> 's \<Rightarrow> 's \<times> bool result"
  st_RetireOrphanWorker :: "env \<Rightarrow> WorkerRecord option \<Rightarrow> string \<Rightarrow> 's \<Rightarrow> 's \<times> bool result"
  st_RetireIdleOrHotIdleWorker :: "env \<Rightarrow> WorkerRecord option \<Rightarrow> string \<Rightarrow> 's \<Rightarrow> 's \<times> bool result"
  st_MarkWorkerLostIfCurrentLease :: "env \<Rightarrow> int \<Rightarrow> string \<Rightarrow> int \<Rightarrow> string \<Rightarrow> 's \<Rightarrow> 's \<times> bool result"
  st_MarkWorkerDraining :: "env \<Rightarrow> int \<Rightarrow> string \<Rightarrow> int \<Rightarrow> 's \<Rightarrow> 's \<times> bool result"
  st_RetireDrainingWorker :: "env \<Rightarrow> int \<Rightarrow> string \<Rightarrow> int \<Rightarrow> string \<Rightarrow> 's \<Rightarrow> 's \<times> bool result"
  st_BumpWorkerEpoch :: "env \<Rightarrow> int \<Rightarrow> string \<Rightarrow> int \<Rightarrow> 's \<Rightarrow> 's \<times> int result"

text \<open>The config store as an implementation of the interface.\<close>

definition config_store :: "runtime_db workerLifecycleStore" where
  "config_store =
     \<lparr>st_MarkWorkerTerminalIfCurrent = MarkWorkerTerminalIfCurrent,
      st_RetireOrphanWorker = RetireOrphanWorker,
      st_RetireIdleOrHotIdleWorker = RetireIdleOrHotIdleWorker,
      st_MarkWorkerLostIfCurrentLease = MarkWorkerLostIfCurrentLease,
      st_MarkWorkerDraining = MarkWorkerDraining,
      st_RetireDrainingWorker = RetireDrainingWorker,
      st_BumpWorkerEpoch = BumpWorkerEpoch\<rparr>"

section \<open>The service\<close>

text \<open>The service: its store, and whether a cleanup is configured. The world is the store's
  state and the calls of \<^verbatim>\<open>DeleteWorkerArtifacts\<close> so far, the latest first.\<close>

record 's WorkerLifecycle =
  wl_store :: "'s workerLifecycleStore"
  wl_cleanup :: bool

type_synonym deletion = "int \<times> string \<times> string"
type_synonym 's world = "'s \<times> deletion list"

definition NewWorkerLifecycle :: "'s workerLifecycleStore \<Rightarrow> bool \<Rightarrow> 's WorkerLifecycle" where
  "NewWorkerLifecycle store cleanup = \<lparr>wl_store = store, wl_cleanup = cleanup\<rparr>"

definition scheduleCleanup ::
  "'s WorkerLifecycle \<Rightarrow> int \<Rightarrow> string \<Rightarrow> string \<Rightarrow> deletion list \<Rightarrow> deletion list" where
  "scheduleCleanup l workerID podName reason ds =
     (if \<not> wl_cleanup l then ds else (workerID, podName, reason) # ds)"

definition classifySnapshotMiss :: "WorkerSnapshot \<Rightarrow> TransitionOutcomeReason" where
  "classifySnapshotMiss snap = TransitionOutcomeFenceMissOwner"

type_synonym 's transition = "'s world \<Rightarrow> 's world \<times> TransitionOutcome \<times> lifecycle_error option"

definition RetireFromSnapshot ::
  "env \<Rightarrow> 's WorkerLifecycle option \<Rightarrow> WorkerSnapshot \<Rightarrow> WorkerState \<Rightarrow> string \<Rightarrow> 's transition" where
  "RetireFromSnapshot e lo snap target reason = (\<lambda>(s, ds).
     case lo of
       None \<Rightarrow> ((s, ds), outcome TransitionOutcomeStoreError, Some LifecycleNotConfigured)
     | Some l \<Rightarrow>
         if target \<noteq> WorkerStateRetired \<and> target \<noteq> WorkerStateLost
         then ((s, ds), outcome TransitionOutcomeStoreError,
               Some (LifecycleUnsupported (wr_WorkerID (snap_record snap)) target))
         else
           let record = snap_record snap in
           case st_MarkWorkerTerminalIfCurrent (wl_store l) e (Some record) target reason s of
             (s', Inl err) \<Rightarrow> ((s', ds), outcome TransitionOutcomeStoreError, Some (LifecycleStore err))
           | (s', Inr transitioned) \<Rightarrow>
               if \<not> transitioned then ((s', ds), outcome (classifySnapshotMiss snap), None)
               else ((s', scheduleCleanup l (wr_WorkerID record) (wr_PodName record) reason ds),
                     \<lparr>to_Transitioned = True, to_PhysicalCleanupScheduled = wl_cleanup l,
                      to_Reason = TransitionOutcomeTransitioned\<rparr>, None))"

definition RetireOrphanFromSnapshot ::
  "env \<Rightarrow> 's WorkerLifecycle option \<Rightarrow> WorkerSnapshot \<Rightarrow> string \<Rightarrow> 's transition" where
  "RetireOrphanFromSnapshot e lo snap reason = (\<lambda>(s, ds).
     case lo of
       None \<Rightarrow> ((s, ds), outcome TransitionOutcomeStoreError, Some LifecycleNotConfigured)
     | Some l \<Rightarrow>
         let record = snap_record snap in
         case st_RetireOrphanWorker (wl_store l) e (Some record) reason s of
           (s', Inl err) \<Rightarrow> ((s', ds), outcome TransitionOutcomeStoreError, Some (LifecycleStore err))
         | (s', Inr transitioned) \<Rightarrow>
             if \<not> transitioned then ((s', ds), outcome (classifySnapshotMiss snap), None)
             else ((s', scheduleCleanup l (wr_WorkerID record) (wr_PodName record) reason ds),
                   \<lparr>to_Transitioned = True, to_PhysicalCleanupScheduled = wl_cleanup l,
                    to_Reason = TransitionOutcomeTransitioned\<rparr>, None))"

definition RetireIdleVariantFromSnapshot ::
  "env \<Rightarrow> 's WorkerLifecycle option \<Rightarrow> WorkerSnapshot \<Rightarrow> string \<Rightarrow> 's transition" where
  "RetireIdleVariantFromSnapshot e lo snap reason = (\<lambda>(s, ds).
     case lo of
       None \<Rightarrow> ((s, ds), outcome TransitionOutcomeStoreError, Some LifecycleNotConfigured)
     | Some l \<Rightarrow>
         let record = snap_record snap in
         case st_RetireIdleOrHotIdleWorker (wl_store l) e (Some record) reason s of
           (s', Inl err) \<Rightarrow> ((s', ds), outcome TransitionOutcomeStoreError, Some (LifecycleStore err))
         | (s', Inr transitioned) \<Rightarrow>
             if \<not> transitioned
             then let miss = (if wr_State record \<noteq> WorkerStateIdle \<and> wr_State record \<noteq> WorkerStateHotIdle
                              then TransitionOutcomeFenceMissState else classifySnapshotMiss snap)
                  in ((s', ds), outcome miss, None)
             else ((s', scheduleCleanup l (wr_WorkerID record) (wr_PodName record) reason ds),
                   \<lparr>to_Transitioned = True, to_PhysicalCleanupScheduled = wl_cleanup l,
                    to_Reason = TransitionOutcomeTransitioned\<rparr>, None))"

definition MarkLostFromLease ::
  "env \<Rightarrow> 's WorkerLifecycle option \<Rightarrow> WorkerLease \<Rightarrow> string \<Rightarrow> 's transition" where
  "MarkLostFromLease e lo lease reason = (\<lambda>(s, ds).
     case lo of
       None \<Rightarrow> ((s, ds), outcome TransitionOutcomeStoreError, Some LifecycleNotConfigured)
     | Some l \<Rightarrow>
         case st_MarkWorkerLostIfCurrentLease (wl_store l) e (lease_workerID lease)
                (lease_ownerCPInstanceID lease) (lease_ownerEpoch lease) reason s of
           (s', Inl err) \<Rightarrow> ((s', ds), outcome TransitionOutcomeStoreError, Some (LifecycleStore err))
         | (s', Inr transitioned) \<Rightarrow>
             if \<not> transitioned then ((s', ds), outcome TransitionOutcomeFenceMissOwner, None)
             else ((s', ds), (outcome TransitionOutcomeTransitioned)\<lparr>to_Transitioned := True\<rparr>, None))"

definition Drain :: "env \<Rightarrow> 's WorkerLifecycle option \<Rightarrow> WorkerLease \<Rightarrow> 's transition" where
  "Drain e lo lease = (\<lambda>(s, ds).
     case lo of
       None \<Rightarrow> ((s, ds), outcome TransitionOutcomeStoreError, Some LifecycleNotConfigured)
     | Some l \<Rightarrow>
         case st_MarkWorkerDraining (wl_store l) e (lease_workerID lease)
                (lease_ownerCPInstanceID lease) (lease_ownerEpoch lease) s of
           (s', Inl err) \<Rightarrow> ((s', ds), outcome TransitionOutcomeStoreError, Some (LifecycleStore err))
         | (s', Inr transitioned) \<Rightarrow>
             if \<not> transitioned then ((s', ds), outcome TransitionOutcomeFenceMissOwner, None)
             else ((s', ds), (outcome TransitionOutcomeTransitioned)\<lparr>to_Transitioned := True\<rparr>, None))"

definition RetireDrained ::
  "env \<Rightarrow> 's WorkerLifecycle option \<Rightarrow> WorkerLease \<Rightarrow> string \<Rightarrow> 's transition" where
  "RetireDrained e lo lease reason = (\<lambda>(s, ds).
     case lo of
       None \<Rightarrow> ((s, ds), outcome TransitionOutcomeStoreError, Some LifecycleNotConfigured)
     | Some l \<Rightarrow>
         case st_RetireDrainingWorker (wl_store l) e (lease_workerID lease)
                (lease_ownerCPInstanceID lease) (lease_ownerEpoch lease) reason s of
           (s', Inl err) \<Rightarrow> ((s', ds), outcome TransitionOutcomeStoreError, Some (LifecycleStore err))
         | (s', Inr transitioned) \<Rightarrow>
             if \<not> transitioned then ((s', ds), outcome TransitionOutcomeFenceMissOwner, None)
             else ((s', ds), (outcome TransitionOutcomeTransitioned)\<lparr>to_Transitioned := True\<rparr>, None))"

definition RefreshLease ::
  "env \<Rightarrow> 's WorkerLifecycle option \<Rightarrow> WorkerLease \<Rightarrow> 's \<Rightarrow> 's \<times> (lifecycle_error + WorkerLease)" where
  "RefreshLease e lo lease s =
     (case lo of
        None \<Rightarrow> (s, Inl LifecycleNotConfigured)
      | Some l \<Rightarrow>
          case st_BumpWorkerEpoch (wl_store l) e (lease_workerID lease)
                 (lease_ownerCPInstanceID lease) (lease_ownerEpoch lease) s of
            (s', Inl err) \<Rightarrow> (s', Inl (LifecycleStore err))
          | (s', Inr newEpoch) \<Rightarrow>
              (s', Inr (NewWorkerLease (lease_workerID lease) (lease_ownerCPInstanceID lease) newEpoch)))"

section \<open>What the interface promises\<close>

lemmas transition_defs = RetireFromSnapshot_def RetireOrphanFromSnapshot_def
  RetireIdleVariantFromSnapshot_def MarkLostFromLease_def Drain_def RetireDrained_def

text \<open>A worker's row is in a terminal state; every deletion is of such a worker.\<close>

definition settled :: "('s \<Rightarrow> int \<Rightarrow> WorkerRecord option) \<Rightarrow> 's \<Rightarrow> int \<Rightarrow> bool" where
  "settled row s w \<longleftrightarrow> (\<exists>q. row s w = Some q \<and> terminal (wr_State q))"

definition deletions_settled :: "('s \<Rightarrow> int \<Rightarrow> WorkerRecord option) \<Rightarrow> 's world \<Rightarrow> bool" where
  "deletions_settled row wd \<longleftrightarrow> (\<forall>(w, pod, reason) \<in> set (snd wd). settled row (fst wd) w)"

text \<open>One step of a service, or of anyone else on the store (\<open>trans\<close>).\<close>

inductive lifecycle_step ::
  "'s WorkerLifecycle \<Rightarrow> ('s \<Rightarrow> 's \<Rightarrow> bool) \<Rightarrow> 's world \<Rightarrow> 's world \<Rightarrow> bool"
  for l and trans where
  retire: "lifecycle_step l trans wd (fst (RetireFromSnapshot e (Some l) snap target reason wd))"
| orphan: "lifecycle_step l trans wd (fst (RetireOrphanFromSnapshot e (Some l) snap reason wd))"
| idle: "lifecycle_step l trans wd (fst (RetireIdleVariantFromSnapshot e (Some l) snap reason wd))"
| lost: "lifecycle_step l trans wd (fst (MarkLostFromLease e (Some l) lease reason wd))"
| drain: "lifecycle_step l trans wd (fst (Drain e (Some l) lease wd))"
| drained: "lifecycle_step l trans wd (fst (RetireDrained e (Some l) lease reason wd))"
| refresh: "lifecycle_step l trans (s, ds) (fst (RefreshLease e (Some l) lease s), ds)"
| other: "trans s s' \<Longrightarrow> lifecycle_step l trans (s, ds) (s', ds)"

text \<open>
  The interface: every operation is a step of the store, such steps keep its invariant
  and its terminal rows, and a snapshot-fenced operation that reports a transition
  leaves the observed worker's row terminal.
\<close>

locale lifecycle_store =
  fixes st :: "'s workerLifecycleStore" and row :: "'s \<Rightarrow> int \<Rightarrow> WorkerRecord option"
    and inv :: "'s \<Rightarrow> bool" and trans :: "'s \<Rightarrow> 's \<Rightarrow> bool"
  assumes trans_inv: "trans s s' \<Longrightarrow> inv s \<Longrightarrow> inv s'"
    and trans_settled: "trans s s' \<Longrightarrow> inv s \<Longrightarrow> settled row s w \<Longrightarrow> settled row s' w"
    and ops_trans:
      "trans s (fst (st_MarkWorkerTerminalIfCurrent st e obs target reason s))"
      "trans s (fst (st_RetireOrphanWorker st e obs reason s))"
      "trans s (fst (st_RetireIdleOrHotIdleWorker st e obs reason s))"
      "trans s (fst (st_MarkWorkerLostIfCurrentLease st e w own ep reason s))"
      "trans s (fst (st_MarkWorkerDraining st e w own ep s))"
      "trans s (fst (st_RetireDrainingWorker st e w own ep reason s))"
      "trans s (fst (st_BumpWorkerEpoch st e w own ep s))"
    and ops_settle:
      "inv s \<Longrightarrow> st_MarkWorkerTerminalIfCurrent st e (Some r) target reason s = (s', Inr True) \<Longrightarrow>
        settled row s' (wr_WorkerID r)"
      "inv s \<Longrightarrow> st_RetireOrphanWorker st e (Some r) reason s = (s', Inr True) \<Longrightarrow>
        settled row s' (wr_WorkerID r)"
      "inv s \<Longrightarrow> st_RetireIdleOrHotIdleWorker st e (Some r) reason s = (s', Inr True) \<Longrightarrow>
        settled row s' (wr_WorkerID r)"
begin

text \<open>Every method either makes one store step and leaves the deletions, or makes one that
  settles the worker whose deletion it adds.\<close>

lemma snapshot_transition_cases:
  assumes "lifecycle_step l trans (s, ds) (s', ds')" and "wl_store l = st" and "inv s"
  shows "(trans s s' \<or> s' = s) \<and>
    (ds' = ds \<or> (\<exists>w pod reason. ds' = (w, pod, reason) # ds \<and> settled row s' w))"
  using assms(1)
proof cases
  case (retire e snap target reason)
  then show ?thesis
    using ops_trans(1) [of s e "Some (snap_record snap)" target reason] ops_settle(1) [OF assms(3)] assms(2)
    by (auto simp: RetireFromSnapshot_def Let_def scheduleCleanup_def split: if_splits prod.splits sum.splits)
next
  case (orphan e snap reason)
  then show ?thesis
    using ops_trans(2) [of s e "Some (snap_record snap)" reason] ops_settle(2) [OF assms(3)] assms(2)
    by (auto simp: RetireOrphanFromSnapshot_def Let_def scheduleCleanup_def
        split: if_splits prod.splits sum.splits)
next
  case (idle e snap reason)
  then show ?thesis
    using ops_trans(3) [of s e "Some (snap_record snap)" reason] ops_settle(3) [OF assms(3)] assms(2)
    by (auto simp: RetireIdleVariantFromSnapshot_def Let_def scheduleCleanup_def
        split: if_splits prod.splits sum.splits)
next
  case (lost e lease reason)
  then show ?thesis using ops_trans(4) assms(2)
    by (auto simp: MarkLostFromLease_def split: if_splits prod.splits sum.splits) (metis fst_conv)+
next
  case (drain e lease)
  then show ?thesis using ops_trans(5) assms(2)
    by (auto simp: Drain_def split: if_splits prod.splits sum.splits) (metis fst_conv)+
next
  case (drained e lease reason)
  then show ?thesis using ops_trans(6) assms(2)
    by (auto simp: RetireDrained_def split: if_splits prod.splits sum.splits) (metis fst_conv)+
next
  case (refresh e lease)
  then show ?thesis using ops_trans(7) assms(2)
    by (auto simp: RefreshLease_def split: if_splits prod.splits sum.splits) (metis fst_conv)+
qed simp

lemma step_keeps_settled:
  assumes "lifecycle_step l trans wd wd'" and "wl_store l = st"
    and "inv (fst wd)" and "deletions_settled row wd"
  shows "inv (fst wd') \<and> deletions_settled row wd'"
proof -
  obtain s ds s' ds' where wd: "wd = (s, ds)" "wd' = (s', ds')" by (cases wd, cases wd') auto
  note c = snapshot_transition_cases [OF assms(1) [unfolded wd] assms(2)]
  from assms(3) c wd have "inv s'" using trans_inv by fastforce
  moreover have "settled row s w \<Longrightarrow> settled row s' w" for w
    using assms(3) c wd trans_settled by fastforce
  ultimately show ?thesis
    using assms(3,4) c wd by (fastforce simp: deletions_settled_def)
qed

lemma run_keeps_settled:
  assumes "(lifecycle_step l trans)\<^sup>*\<^sup>* wd wd'" and "wl_store l = st"
    and "inv (fst wd)" and "deletions_settled row wd"
  shows "inv (fst wd') \<and> deletions_settled row wd'"
  using assms(1)
  by (induction rule: rtranclp_induct) (use assms(2-) step_keeps_settled in blast)+

end

section \<open>The config store implements the interface\<close>

lemma MarkWorkerTerminalIfCurrent_hit:
  assumes "worker_keys (worker_records db)"
    and "MarkWorkerTerminalIfCurrent e (Some obs) target reason db = (db', Inr True)"
  shows "\<exists>r. worker_row db (wr_WorkerID obs) = Some r \<and>
    observed_fence obs (workerTerminalEligibleStates target) r \<and> terminal target \<and>
    worker_row db' (wr_WorkerID obs) =
      Some (r\<lparr>wr_State := target, wr_RetireReason := reason, wr_UpdatedAt := now e\<rparr>)"
proof -
  from assms(2) have t: "target = WorkerStateRetired \<or> target = WorkerStateLost"
    by (auto simp: MarkWorkerTerminalIfCurrent_def split: if_splits)
  from terminal_cas.update_hit_row [OF assms(1) assms(2) [unfolded MarkWorkerTerminalIfCurrent_update [OF t]],
      of "wr_WorkerID obs"] t
  show ?thesis by (auto simp: observed_fence_def terminal_def)
qed

lemma RetireOrphanWorker_hit:
  assumes "worker_keys (worker_records db)"
    and "RetireOrphanWorker e (Some obs) reason db = (db', Inr True)"
  shows "\<exists>r. worker_row db (wr_WorkerID obs) = Some r \<and>
    observed_fence obs (workerTerminalEligibleStates WorkerStateRetired) r \<and>
    (owner_string obs \<noteq> [] \<longrightarrow> cp_not_live db (owner_string obs)) \<and>
    worker_row db' (wr_WorkerID obs) =
      Some (r\<lparr>wr_State := WorkerStateRetired, wr_RetireReason := reason, wr_UpdatedAt := now e\<rparr>)"
  using orphan_cas.update_hit_row [OF assms(1) assms(2) [unfolded RetireOrphanWorker_def option.case],
      of "wr_WorkerID obs"]
  by (auto simp: observed_fence_def)

lemma RetireIdleOrHotIdleWorker_hit:
  assumes "RetireIdleOrHotIdleWorker e (Some obs) reason db = (db', Inr True)"
  shows "MarkWorkerTerminalIfCurrent e (Some obs) WorkerStateRetired reason db = (db', Inr True)"
    and "wr_State obs = WorkerStateIdle \<or> wr_State obs = WorkerStateHotIdle"
  using assms by (auto simp: RetireIdleOrHotIdleWorker_def split: if_splits)

interpretation cs: lifecycle_store config_store worker_row "\<lambda>db. worker_keys (worker_records db)" worker_step
proof unfold_locales
  fix db db' :: runtime_db and w
  assume tr: "worker_step db db'" and k: "worker_keys (worker_records db)"
  from worker_step_sound [OF tr] k show "worker_keys (worker_records db')" by (simp add: sound_step_def)
  assume "settled worker_row db w"
  with worker_step_sound [OF tr] k show "settled worker_row db' w"
    by (fastforce simp: sound_step_def settled_def row_evolves_def dest: db_evolvesD)
qed (use MarkWorkerTerminalIfCurrent_hit RetireOrphanWorker_hit RetireIdleOrHotIdleWorker_hit in
    \<open>fastforce simp: config_store_def settled_def terminal_def intro: worker_step.intros\<close>)+

section \<open>Properties of the service\<close>

text \<open>\<^bold>\<open>C6\<close>. A pod is only ever deleted for a dead worker: whatever a service on the config store
  and all other control planes do, in any interleaving and with any database failures,
  every worker whose artifacts the service asked to delete has a durable row that is retired
  or lost, at that moment and for ever after.\<close>

theorem deleted_workers_are_terminal:
  assumes "worker_keys (worker_records db)" and "wl_store l = config_store"
    and "(lifecycle_step l worker_step)\<^sup>*\<^sup>* (db, []) (db', ds)" and "(w, pod, reason) \<in> set ds"
  shows "\<exists>r. worker_row db' w = Some r \<and> wr_State r \<in> {WorkerStateRetired, WorkerStateLost}"
  using cs.run_keeps_settled [OF assms(3,2)] assms(1,4)
  by (auto simp: deletions_settled_def settled_def terminal_def)

lemma ex_retire:
  "RetireFromSnapshot ex_env (Some (NewWorkerLifecycle config_store True))
     (NewWorkerSnapshot (ex_row 1 WorkerStateHotIdle ''o'' ''cp1'' 2)) WorkerStateRetired ''ttl''
     (ex_db [ex_row 1 WorkerStateHotIdle ''o'' ''cp1'' 2], []) =
   ((ex_db [ex_row 1 WorkerStateRetired ''o'' ''cp1'' 2\<lparr>wr_RetireReason := ''ttl'', wr_UpdatedAt := 10\<rparr>],
     [(1, ''w-'' @ itoa 1, ''ttl'')]),
    \<lparr>to_Transitioned = True, to_PhysicalCleanupScheduled = True,
     to_Reason = TransitionOutcomeTransitioned\<rparr>, None)"
  by (simp add: RetireFromSnapshot_def NewWorkerLifecycle_def NewWorkerSnapshot_def config_store_def
      scheduleCleanup_def MarkWorkerTerminalIfCurrent_def update_workers_def sql_update_def
      observed_fence_def owner_string_def state_sets ex_defs)

theorem deleted_workers_are_terminal_witness:
  "\<exists>r. worker_row (fst (fst (RetireFromSnapshot ex_env (Some (NewWorkerLifecycle config_store True))
     (NewWorkerSnapshot (ex_row 1 WorkerStateHotIdle ''o'' ''cp1'' 2)) WorkerStateRetired ''ttl''
     (ex_db [ex_row 1 WorkerStateHotIdle ''o'' ''cp1'' 2], [])))) 1 = Some r \<and>
     wr_State r \<in> {WorkerStateRetired, WorkerStateLost}"
proof -
  let ?l = "NewWorkerLifecycle config_store True"
  have "(lifecycle_step ?l worker_step)\<^sup>*\<^sup>*
      (ex_db [ex_row 1 WorkerStateHotIdle ''o'' ''cp1'' 2], [])
      (ex_db [ex_row 1 WorkerStateRetired ''o'' ''cp1'' 2\<lparr>wr_RetireReason := ''ttl'', wr_UpdatedAt := 10\<rparr>],
       [(1, ''w-'' @ itoa 1, ''ttl'')])"
    using lifecycle_step.retire [of ?l worker_step] ex_retire by (metis fst_conv r_into_rtranclp)
  from deleted_workers_are_terminal [OF ex_one_row(1) _ this] ex_retire show ?thesis
    by (simp add: NewWorkerLifecycle_def)
qed

text \<open>When a snapshot-fenced update on the config store takes effect, by its result.\<close>

lemma RetireOrphanWorker_cases:
  assumes "worker_keys (worker_records db)"
  shows "snd (RetireOrphanWorker e (Some obs) reason db) = Inr True \<longleftrightarrow>
      fault e = None \<and> (\<exists>r. worker_row db (wr_WorkerID obs) = Some r \<and>
        observed_fence obs (workerTerminalEligibleStates WorkerStateRetired) r \<and>
        (owner_string obs \<noteq> [] \<longrightarrow> cp_not_live db (owner_string obs)))"
    and "snd (RetireOrphanWorker e (Some obs) reason db) \<noteq> Inr True \<Longrightarrow>
      fst (RetireOrphanWorker e (Some obs) reason db) = db"
proof -
  let ?P = "\<lambda>r. observed_fence obs (workerTerminalEligibleStates WorkerStateRetired) r \<and>
    (owner_string obs \<noteq> [] \<longrightarrow> cp_not_live db (owner_string obs))"
  have "(\<exists>r \<in> set (worker_records db). ?P r) \<longleftrightarrow>
      (\<exists>r. worker_row db (wr_WorkerID obs) = Some r \<and> ?P r)" (is "?L \<longleftrightarrow> ?R")
  proof
    assume ?L
    then obtain r where r: "r \<in> set (worker_records db)" "?P r" by blast
    then have "wr_WorkerID r = wr_WorkerID obs" by (simp add: observed_fence_def)
    with worker_row_mem [OF assms r(1)] r(2) show ?R by auto
  qed (blast dest: worker_row_SomeD)
  then show "snd (RetireOrphanWorker e (Some obs) reason db) = Inr True \<longleftrightarrow>
      fault e = None \<and> (\<exists>r. worker_row db (wr_WorkerID obs) = Some r \<and> ?P r)"
    unfolding RetireOrphanWorker_def option.case orphan_cas.update_hit_iff by (rule arg_cong)
  show "snd (RetireOrphanWorker e (Some obs) reason db) \<noteq> Inr True \<Longrightarrow>
      fst (RetireOrphanWorker e (Some obs) reason db) = db"
    unfolding RetireOrphanWorker_def option.case by (rule orphan_cas.update_not_hit)
qed

text \<open>\<^bold>\<open>C11\<close>. Retiring an orphan reports a transition exactly when the statement succeeded, the
  worker's row still is as it was observed (same state, owner and epoch, not updated since)
  and its owner, if it has one, is no live control plane. Then the row is retired with the
  reason, and the pod's deletion is scheduled exactly when a cleanup is configured;
  otherwise neither the tables nor the deletions change.\<close>

theorem orphan_retire_exact:
  assumes "worker_keys (worker_records db)" and "wl_store l = config_store"
    and "RetireOrphanFromSnapshot e (Some l) snap reason (db, ds) = ((db', ds'), out, err)"
    and "obs = snap_record snap"
  shows "(to_Transitioned out \<longleftrightarrow>
      fault e = None \<and> (\<exists>r. worker_row db (wr_WorkerID obs) = Some r \<and>
        observed_fence obs (workerTerminalEligibleStates WorkerStateRetired) r) \<and>
      (owner_string obs \<noteq> [] \<longrightarrow> cp_not_live db (owner_string obs))) \<and>
    (to_Transitioned out \<longrightarrow>
      (\<exists>r. worker_row db' (wr_WorkerID obs) = Some r \<and> wr_State r = WorkerStateRetired \<and>
         wr_RetireReason r = reason) \<and>
      ds' = (if wl_cleanup l then [(wr_WorkerID obs, wr_PodName obs, reason)] else []) @ ds \<and>
      to_PhysicalCleanupScheduled out = wl_cleanup l \<and> err = None) \<and>
    (\<not> to_Transitioned out \<longrightarrow> db' = db \<and> ds' = ds \<and> (err = None \<longleftrightarrow> fault e = None))"
proof -
  obtain db1 res where res: "RetireOrphanWorker e (Some obs) reason db = (db1, res)" by fastforce
  have err: "fault e = None \<longleftrightarrow> (\<exists>b. res = Inr b)"
    using res by (auto simp: RetireOrphanWorker_def update_workers_def split: option.splits prod.splits)
  note cases = RetireOrphanWorker_cases [OF assms(1), of e obs reason, unfolded res snd_conv fst_conv]
  have st: "st_RetireOrphanWorker (wl_store l) = RetireOrphanWorker"
    using assms(2) by (simp add: config_store_def)
  show ?thesis
  proof (cases "res = Inr True")
    case True
    with res st assms(3,4) have o: "db' = db1" "to_Transitioned out"
      "ds' = (if wl_cleanup l then [(wr_WorkerID obs, wr_PodName obs, reason)] else []) @ ds"
      "to_PhysicalCleanupScheduled out = wl_cleanup l" "err = None"
      by (auto simp: RetireOrphanFromSnapshot_def scheduleCleanup_def Let_def)
    with True res have "RetireOrphanWorker e (Some obs) reason db = (db', Inr True)" by simp
    from RetireOrphanWorker_hit [OF assms(1) this] have
      "\<exists>r. worker_row db' (wr_WorkerID obs) = Some r \<and> wr_State r = WorkerStateRetired \<and>
         wr_RetireReason r = reason" by auto
    with o True cases(1) show ?thesis by auto
  next
    case False
    with res st assms(3,4) have "db' = db1" "ds' = ds"
      "\<not> to_Transitioned out" "err = None \<longleftrightarrow> (\<exists>b. res = Inr b)"
      by (auto simp: RetireOrphanFromSnapshot_def outcome_def Let_def split: sum.splits if_splits)
    with False cases err show ?thesis by auto
  qed
qed

theorem orphan_retire_exact_witness:
  "\<not> to_Transitioned (fst (snd (RetireOrphanFromSnapshot ex_env
       (Some (NewWorkerLifecycle config_store True))
       (NewWorkerSnapshot (ex_row 1 WorkerStateHot ''o'' ''cp1'' 2)) ''orphaned''
       (ex_db [ex_row 1 WorkerStateHot ''o'' ''cp2'' 3], []))))"
proof -
  let ?l = "NewWorkerLifecycle config_store True"
  let ?snap = "NewWorkerSnapshot (ex_row 1 WorkerStateHot ''o'' ''cp1'' 2)"
  let ?db = "ex_db [ex_row 1 WorkerStateHot ''o'' ''cp2'' 3]"
  obtain db' ds' out err where
    eq: "RetireOrphanFromSnapshot ex_env (Some ?l) ?snap ''orphaned'' (?db, []) = ((db', ds'), out, err)"
    by (metis prod.collapse)
  have "wl_store ?l = config_store" by (simp add: NewWorkerLifecycle_def)
  note exact = orphan_retire_exact [OF ex_one_row(1) this eq refl, THEN conjunct1]
  have "\<not> to_Transitioned out"
    unfolding exact by (simp add: NewWorkerSnapshot_def ex_one_row(2) observed_fence_def) (simp add: ex_defs
      worker_row_def sql_find_def)
  with eq show ?thesis by simp
qed

text \<open>A drain or a refresh that reports success, in terms of the rows.\<close>

lemma Drain_transitioned:
  assumes "worker_keys (worker_records db)" and "wl_store l = config_store"
    and "Drain e (Some l) lease (db, ds) = ((db1, ds1), out, err)" and "to_Transitioned out"
  shows "ds1 = ds \<and> (\<exists>r. worker_row db1 (lease_workerID lease) = Some r \<and>
    lease_fence (lease_workerID lease) (lease_ownerCPInstanceID lease) (lease_ownerEpoch lease) r \<and>
    wr_State r = WorkerStateDraining)"
proof -
  from assms(2-4) have "ds1 = ds"
    and "MarkWorkerDraining e (lease_workerID lease) (lease_ownerCPInstanceID lease)
      (lease_ownerEpoch lease) db = (db1, Inr True)"
    by (auto simp: Drain_def config_store_def outcome_def split: prod.splits sum.splits if_splits)
  with drain_cas.update_hit_row [OF assms(1) this(2) [unfolded MarkWorkerDraining_def Let_def],
      of "lease_workerID lease"]
  show ?thesis by (auto simp: lease_fence_def)
qed

text \<open>\<^bold>\<open>C7\<close>. A worker that its owner has put into draining is never handed out again: after any
  further operations of anyone its row is draining or retired, no claim or take-over
  returns it, and as long as it is draining and its epoch has not moved, retiring it under
  the draining lease succeeds.\<close>

theorem drained_never_claimed:
  assumes "worker_keys (worker_records db)" and "wl_store l = config_store"
    and "Drain e (Some l) lease (db, ds) = ((db1, ds1), out, err)" and "to_Transitioned out"
    and "worker_step\<^sup>*\<^sup>* db1 db2"
  shows "(\<exists>r. worker_row db2 (lease_workerID lease) = Some r \<and>
      wr_State r \<in> {WorkerStateDraining, WorkerStateRetired} \<and>
      (wr_State r = WorkerStateDraining \<and> wr_OwnerEpoch r = lease_ownerEpoch lease \<and> fault e' = None \<longrightarrow>
        to_Transitioned (fst (snd (RetireDrained e' (Some l) lease reason (db2, ds2)))))) \<and>
    (\<forall>db3 own c. claim_step db2 db3 own c \<longrightarrow> wr_WorkerID c \<noteq> lease_workerID lease)"
proof -
  let ?w = "lease_workerID lease" and ?own = "lease_ownerCPInstanceID lease"
  from Drain_transitioned [OF assms(1-4)] obtain r where r: "worker_row db1 ?w = Some r"
    "lease_fence ?w ?own (lease_ownerEpoch lease) r" "wr_State r = WorkerStateDraining" by blast
  have "worker_step db db1"
    using assms(2,3) worker_step.draining [of db e ?w ?own "lease_ownerEpoch lease"]
    by (auto simp: Drain_def config_store_def split: prod.splits sum.splits if_splits)
  with worker_step_sound assms(1) have "worker_keys (worker_records db1)" by (auto simp: sound_step_def)
  from worker_steps_sound [OF assms(5) this] have k2: "worker_keys (worker_records db2)"
    and "db_evolves db1 db2" by auto
  from db_evolvesD [OF this(2) r(1)] obtain q where q: "worker_row db2 ?w = Some q" and ev: "row_evolves r q"
    by blast
  from ev r(3) have st: "wr_State q \<in> {WorkerStateDraining, WorkerStateRetired}"
    by (auto simp: row_evolves_def)
  have retire: "to_Transitioned (fst (snd (RetireDrained e' (Some l) lease reason (db2, ds2))))"
    if "wr_State q = WorkerStateDraining" "wr_OwnerEpoch q = lease_ownerEpoch lease" "fault e' = None"
  proof -
    have "lease_fence ?w ?own (lease_ownerEpoch lease) q" using ev r(2) that by (auto simp: row_evolves_def lease_fence_def)
    with that worker_row_SomeD [OF q]
    have "snd (RetireDrainingWorker e' ?w ?own (lease_ownerEpoch lease) reason db2) = Inr True"
      unfolding RetireDrainingWorker_def retire_draining_cas.update_hit_iff by auto
    then show ?thesis
      using assms(2) by (auto simp: RetireDrained_def config_store_def split: prod.splits sum.splits)
  qed
  have "wr_WorkerID c \<noteq> ?w" if c: "claim_step db2 db3 own c" for db3 own c
  proof
    assume w: "wr_WorkerID c = ?w"
    with claim_step_row [OF k2 c] q have "worker_row db3 ?w = Some c" "wr_State c = WorkerStateReserved"
      by (auto simp: claimed_from_def)
    moreover have "db_evolves db2 db3"
      using worker_step_sound [OF claim_step_worker_step [OF c]] k2 by (simp add: sound_step_def)
    ultimately show False using db_evolvesD [of db2 db3, OF _ q] st by (auto simp: row_evolves_def terminal_def)
  qed
  with q st retire show ?thesis by (intro conjI exI [of _ q] allI impI) auto
qed

lemma ex_drain:
  "Drain ex_env (Some (NewWorkerLifecycle config_store True)) (NewWorkerLease 1 ''cp1'' 2)
     (ex_db [ex_row 1 WorkerStateHot ''o'' ''cp1'' 2], []) =
   ((ex_db [ex_row 1 WorkerStateDraining ''o'' ''cp1'' 2\<lparr>wr_UpdatedAt := 10\<rparr>], []),
    (outcome TransitionOutcomeTransitioned)\<lparr>to_Transitioned := True\<rparr>, None)"
  by (simp add: Drain_def NewWorkerLifecycle_def NewWorkerLease_def config_store_def
      MarkWorkerDraining_def update_workers_def sql_update_def lease_fence_def ex_defs)

theorem drained_never_claimed_witness:
  "to_Transitioned (fst (snd (RetireDrained ex_env (Some (NewWorkerLifecycle config_store True))
     (NewWorkerLease 1 ''cp1'' 2) ''shutdown''
     (ex_db [ex_row 1 WorkerStateDraining ''o'' ''cp1'' 2\<lparr>wr_UpdatedAt := 10\<rparr>], []))))"
proof -
  let ?r = "ex_row 1 WorkerStateDraining ''o'' ''cp1'' 2\<lparr>wr_UpdatedAt := 10\<rparr>"
  have "worker_row (ex_db [?r]) 1 = Some ?r" "wr_State ?r = WorkerStateDraining" "wr_OwnerEpoch ?r = 2"
    "fault ex_env = None" "lease_workerID (NewWorkerLease 1 ''cp1'' 2) = 1"
    "lease_ownerEpoch (NewWorkerLease 1 ''cp1'' 2) = 2"
    "wl_store (NewWorkerLifecycle config_store True) = config_store"
    by (simp_all add: ex_defs worker_row_def sql_find_def NewWorkerLease_def NewWorkerLifecycle_def)
  with drained_never_claimed [OF ex_one_row(1) _ ex_drain _ rtranclp.rtrancl_refl,
      of ex_env "''shutdown''" "[]", THEN conjunct1]
  show ?thesis by simp
qed



end
