(* ===== verification/Control_Plane_Store.thy ===== *)
theory Control_Plane_Store
  imports Worker_Store
begin

text \<open>
  The other runtime tables of the config store (\<^verbatim>\<open>controlplane/configstore/store.go\<close>):
  control-plane instances with their liveness, durable Flight sessions, the shared
  warm-capacity miss buckets, and the grouped worker counts. The conventions are those
  of the worker table. \<open>collate\<close> is the database's collation, as the key
  (\<^verbatim>\<open>strxfrm\<close>) by which it orders text.
\<close>

section \<open>Control-plane instances\<close>

text \<open>\<^verbatim>\<open>Create\<close> of the object mapper stamps the creation and update times that are zero.\<close>

definition UpsertControlPlaneInstance ::
  "env \<Rightarrow> ControlPlaneInstance \<Rightarrow> runtime_db \<Rightarrow> runtime_db \<times> unit result" where
  "UpsertControlPlaneInstance e inst0 db =
     (case fault e of
        Some m \<Rightarrow> (db, Inl (DbError m))
      | None \<Rightarrow>
          let inst =
                inst0\<lparr>
                  cp_CreatedAt := (if IsZero (cp_CreatedAt inst0) then now e else cp_CreatedAt inst0),
                  cp_UpdatedAt := (if IsZero (cp_UpdatedAt inst0) then now e else cp_UpdatedAt inst0)\<rparr>
          in (db\<lparr>cp_instances :=
                   sql_upsert cp_ID (\<lambda>new old. new\<lparr>cp_ID := cp_ID old, cp_CreatedAt := cp_CreatedAt old\<rparr>)
                     inst (cp_instances db)\<rparr>, Inr ()))"

definition GetControlPlaneInstance ::
  "env \<Rightarrow> string \<Rightarrow> runtime_db \<Rightarrow> ControlPlaneInstance result" where
  "GetControlPlaneInstance e id' db =
     (case fault e of
        Some m \<Rightarrow> Inl (DbError m)
      | None \<Rightarrow> (case sql_find (\<lambda>cp. cp_ID cp = id') (cp_instances db) of
                   None \<Rightarrow> Inl RecordNotFound
                 | Some cp \<Rightarrow> Inr cp))"

definition ListLiveControlPlaneInstanceIDs :: "env \<Rightarrow> runtime_db \<Rightarrow> string list result" where
  "ListLiveControlPlaneInstanceIDs e db =
     (case fault e of
        Some m \<Rightarrow> Inl (DbError m)
      | None \<Rightarrow> Inr (map cp_ID
          (filter (\<lambda>cp. cp_State cp \<noteq> ControlPlaneInstanceStateExpired) (cp_instances db))))"

text \<open>\<^verbatim>\<open>UPDATE cp_instances SET state = 'expired', expired_at = now, updated_at = now WHERE P\<close>\<close>

definition expire_instances ::
  "env \<Rightarrow> (ControlPlaneInstance \<Rightarrow> bool) \<Rightarrow> runtime_db \<Rightarrow> runtime_db \<times> int result" where
  "expire_instances e P db =
     (case fault e of
        Some m \<Rightarrow> (db, Inl (DbError m))
      | None \<Rightarrow>
          (case sql_update P
                  (\<lambda>cp. cp\<lparr>cp_State := ControlPlaneInstanceStateExpired,
                           cp_ExpiredAt := Some (now e), cp_UpdatedAt := now e\<rparr>)
                  (cp_instances db) of
             (rows, n) \<Rightarrow> (db\<lparr>cp_instances := rows\<rparr>, Inr n)))"

definition ExpireControlPlaneInstances ::
  "env \<Rightarrow> gotime \<Rightarrow> runtime_db \<Rightarrow> runtime_db \<times> int result" where
  "ExpireControlPlaneInstances e cutoff =
     expire_instances e
       (\<lambda>cp. cp_State cp \<noteq> ControlPlaneInstanceStateExpired \<and> cp_LastHeartbeatAt cp < cutoff)"

definition ExpireDrainingControlPlaneInstances ::
  "env \<Rightarrow> gotime \<Rightarrow> runtime_db \<Rightarrow> runtime_db \<times> int result" where
  "ExpireDrainingControlPlaneInstances e before =
     expire_instances e
       (\<lambda>cp. cp_State cp = ControlPlaneInstanceStateDraining \<and>
             (case cp_DrainingAt cp of None \<Rightarrow> False | Some t \<Rightarrow> t \<le> before))"

section \<open>Flight sessions\<close>

definition update_sessions ::
  "env \<Rightarrow> (FlightSessionRecord \<Rightarrow> bool) \<Rightarrow> (FlightSessionRecord \<Rightarrow> FlightSessionRecord) \<Rightarrow>
   runtime_db \<Rightarrow> runtime_db \<times> int result" where
  "update_sessions e P f db =
     (case fault e of
        Some m \<Rightarrow> (db, Inl (DbError m))
      | None \<Rightarrow>
          (case sql_update P f (flight_session_records db) of
             (rows, n) \<Rightarrow> (db\<lparr>flight_session_records := rows\<rparr>, Inr n)))"

definition ExpireFlightSessionRecords ::
  "env \<Rightarrow> gotime \<Rightarrow> runtime_db \<Rightarrow> runtime_db \<times> int result" where
  "ExpireFlightSessionRecords e before =
     update_sessions e
       (\<lambda>f. fs_State f \<notin> {FlightSessionStateExpired, FlightSessionStateClosed} \<and>
            fs_ExpiresAt f \<le> before)
       (\<lambda>f. f\<lparr>fs_State := FlightSessionStateExpired, fs_UpdatedAt := now e\<rparr>)"

definition UpsertFlightSessionRecord ::
  "env \<Rightarrow> FlightSessionRecord \<Rightarrow> runtime_db \<Rightarrow> runtime_db \<times> unit result" where
  "UpsertFlightSessionRecord e record0 db =
     (case fault e of
        Some m \<Rightarrow> (db, Inl (DbError m))
      | None \<Rightarrow>
          let record =
                record0\<lparr>
                  fs_CreatedAt := (if IsZero (fs_CreatedAt record0) then now e else fs_CreatedAt record0),
                  fs_UpdatedAt := (if IsZero (fs_UpdatedAt record0) then now e else fs_UpdatedAt record0)\<rparr>
          in (db\<lparr>flight_session_records :=
                   sql_upsert fs_SessionToken
                     (\<lambda>new old. new\<lparr>fs_SessionToken := fs_SessionToken old, fs_CreatedAt := fs_CreatedAt old\<rparr>)
                     record (flight_session_records db)\<rparr>, Inr ()))"

definition GetFlightSessionRecord ::
  "env \<Rightarrow> string \<Rightarrow> runtime_db \<Rightarrow> FlightSessionRecord option result" where
  "GetFlightSessionRecord e sessionToken db =
     (case fault e of
        Some m \<Rightarrow> Inl (DbError m)
      | None \<Rightarrow> Inr (sql_find (\<lambda>f. fs_SessionToken f = sessionToken) (flight_session_records db)))"

definition TouchFlightSessionRecord ::
  "env \<Rightarrow> string \<Rightarrow> gotime \<Rightarrow> runtime_db \<Rightarrow> runtime_db \<times> unit result" where
  "TouchFlightSessionRecord e sessionToken lastSeenAt db =
     (case update_sessions e (\<lambda>f. fs_SessionToken f = sessionToken)
             (\<lambda>f. f\<lparr>fs_LastSeenAt := lastSeenAt, fs_UpdatedAt := now e\<rparr>) db of
        (db', Inl err) \<Rightarrow> (db', Inl err)
      | (db', Inr n) \<Rightarrow> (db', Inr ()))"

definition CloseFlightSessionRecord ::
  "env \<Rightarrow> string \<Rightarrow> gotime \<Rightarrow> runtime_db \<Rightarrow> runtime_db \<times> unit result" where
  "CloseFlightSessionRecord e sessionToken closedAt db =
     (case update_sessions e (\<lambda>f. fs_SessionToken f = sessionToken)
             (\<lambda>f. f\<lparr>fs_State := FlightSessionStateClosed, fs_LastSeenAt := closedAt,
                    fs_UpdatedAt := now e\<rparr>) db of
        (db', Inl err) \<Rightarrow> (db', Inl err)
      | (db', Inr n) \<Rightarrow> (db', Inr ()))"

section \<open>Warm-capacity misses\<close>

text \<open>\<^verbatim>\<open>time.Truncate\<close>: down to a multiple of the duration since the zero time.\<close>

definition Truncate :: "gotime \<Rightarrow> duration \<Rightarrow> gotime" where
  "Truncate t d = (if d \<le> 0 then t else t - t mod d)"

definition reason_string :: "WorkerClaimMissReason \<Rightarrow> string" where
  "reason_string r =
     (case r of
        WorkerClaimMissReasonNone \<Rightarrow> []
      | WorkerClaimMissReasonNoIdle \<Rightarrow> ''no_idle''
      | WorkerClaimMissReasonOrgCap \<Rightarrow> ''org_cap''
      | WorkerClaimMissReasonGlobalCap \<Rightarrow> ''global_cap''
      | WorkerClaimMissReasonShuttingDown \<Rightarrow> ''shutting_down'')"

definition RecordWarmCapacityMiss ::
  "env \<Rightarrow> string \<Rightarrow> WorkerClaimMissReason \<Rightarrow> gotime \<Rightarrow> runtime_db \<Rightarrow> runtime_db \<times> unit result" where
  "RecordWarmCapacityMiss e scope0 reason now0 db =
     (let scope = TrimSpace scope0 in
      if scope = [] then (db, Inl (RequiredField ''scope''))
      else if reason = WorkerClaimMissReasonNone then (db, Inl (RequiredField ''reason''))
      else
        let now' = (if IsZero now0 then now e else now0);
            bucket = \<lparr>mb_Scope = scope, mb_Reason = reason,
                      mb_BucketStart = Truncate now' WarmCapacityMissBucketSize,
                      mb_Count = 1, mb_UpdatedAt = now'\<rparr>
        in case fault e of
          Some m \<Rightarrow> (db, Inl (DbError m))
        | None \<Rightarrow>
            (db\<lparr>warm_capacity_miss_buckets :=
                  sql_upsert bucket_key
                    (\<lambda>new old. old\<lparr>mb_Count := mb_Count old + mb_Count new, mb_UpdatedAt := now'\<rparr>)
                    bucket (warm_capacity_miss_buckets db)\<rparr>, Inr ()))"

text \<open>\<^verbatim>\<open>GROUP BY scope, reason\<close>: one group per distinct pair, in the order of the collation.\<close>

definition ListWarmCapacityMissesSince ::
  "env \<Rightarrow> (string \<Rightarrow> string) \<Rightarrow> gotime \<Rightarrow> WorkerClaimMissReason list \<Rightarrow> runtime_db \<Rightarrow>
   WarmCapacityMissAggregate list result" where
  "ListWarmCapacityMissesSince e collate since reasons db =
     (let reasonFilters = filter (\<lambda>r. r \<noteq> WorkerClaimMissReasonNone) reasons;
          sinceBucket = Truncate since WarmCapacityMissBucketSize;
          rows = filter (\<lambda>b. mb_BucketStart b \<ge> sinceBucket \<and>
                             (reasonFilters \<noteq> [] \<longrightarrow> mb_Reason b \<in> set reasonFilters))
                   (warm_capacity_miss_buckets db);
          groups = sort_key (\<lambda>(s, r). (collate s, collate (reason_string r)))
                     (remdups (map (\<lambda>b. (mb_Scope b, mb_Reason b)) rows))
      in case fault e of
        Some m \<Rightarrow> Inl (DbError m)
      | None \<Rightarrow> Inr (map
          (\<lambda>(s, r). \<lparr>ma_Scope = s, ma_Reason = r,
             ma_Count = sum_list (map mb_Count
               (filter (\<lambda>b. mb_Scope b = s \<and> mb_Reason b = r) rows))\<rparr>) groups))"

definition PruneWarmCapacityMissBuckets ::
  "env \<Rightarrow> gotime \<Rightarrow> runtime_db \<Rightarrow> runtime_db \<times> int result" where
  "PruneWarmCapacityMissBuckets e before db =
     (case fault e of
        Some m \<Rightarrow> (db, Inl (DbError m))
      | None \<Rightarrow>
          (case sql_delete (\<lambda>b. mb_BucketStart b < before) (warm_capacity_miss_buckets db) of
             (rows, n) \<Rightarrow> (db\<lparr>warm_capacity_miss_buckets := rows\<rparr>, Inr n)))"

record WarmCapacityWorkerStats =
  ws_Scope :: string
  ws_ReadyWorkers :: int
  ws_SpawningWorkers :: int

definition ListWarmCapacityWorkerStats ::
  "env \<Rightarrow> (string \<Rightarrow> string) \<Rightarrow> runtime_db \<Rightarrow> WarmCapacityWorkerStats list result" where
  "ListWarmCapacityWorkerStats e collate db =
     (let rows = filter (\<lambda>w. wr_OrgID w = [] \<and> wr_Image w \<noteq> [] \<and>
                             wr_State w \<in> {WorkerStateIdle, WorkerStateSpawning})
                   (worker_records db);
          images = sort_key (\<lambda>i. collate (''image:'' @ i)) (remdups (map wr_Image rows))
      in case fault e of
        Some m \<Rightarrow> Inl (DbError m)
      | None \<Rightarrow> Inr (map
          (\<lambda>i. \<lparr>ws_Scope = ''image:'' @ i,
                ws_ReadyWorkers = sql_count (\<lambda>w. wr_Image w = i \<and> wr_State w = WorkerStateIdle) rows,
                ws_SpawningWorkers =
                  sql_count (\<lambda>w. wr_Image w = i \<and> wr_State w = WorkerStateSpawning) rows\<rparr>) images))"

end
