(* ===== verification/Org_Connections.thy ===== *)
theory Org_Connections
  imports Control_Plane_Store
begin

text \<open>
  Cluster-wide admission of an organisation's connections
  (\<^verbatim>\<open>controlplane/configstore/org_connections.go\<close>): a queue of requests served first come
  first served, and the leases of the live sessions. \<^verbatim>\<open>tryAcquireOrgConnectionLeaseOnce\<close>
  reads the request's organisation before it takes that organisation's advisory lock; what
  other transactions commit in between is the argument \<open>interfere\<close>. The rest of the
  transaction runs under the lock and is one atomic step. The database clock is \<open>now e\<close>.
\<close>

section \<open>Operations\<close>

definition missingOwnerOrgConnectionLeaseGrace :: duration where
  "missingOwnerOrgConnectionLeaseGrace = 5 * Minute"

definition EnqueueOrgConnectionRequest ::
  "env \<Rightarrow> OrgConnectionQueueEntry option \<Rightarrow> runtime_db \<Rightarrow> runtime_db \<times> unit result" where
  "EnqueueOrgConnectionRequest e entry0 db =
     (case entry0 of
        None \<Rightarrow> (db, Inl (RequiredField ''org connection queue entry''))
      | Some entry \<Rightarrow>
          if TrimSpace (oq_RequestID entry) = [] then (db, Inl (RequiredField ''request id''))
          else if TrimSpace (oq_OrgID entry) = [] then (db, Inl (RequiredField ''org id''))
          else
            let enqueuedAt = (if IsZero (oq_EnqueuedAt entry) then now e else oq_EnqueuedAt entry) in
            if IsZero (oq_ExpiresAt entry) then (db, Inl (RequiredField ''request expiry''))
            else
              let ttl = oq_ExpiresAt entry - enqueuedAt in
              if ttl \<le> 0 then (db, Inl (InvalidField ''request expiry must be after enqueue time''))
              else case fault e of
                Some m \<Rightarrow> (db, Inl (DbError m))
              | None \<Rightarrow>
                  if oq_RequestID entry \<in> oq_RequestID ` set (org_connection_queue db)
                  then (db, Inl (UniqueViolation ''request_id''))
                  else (db\<lparr>org_connection_queue := org_connection_queue db @
                          [entry\<lparr>oq_EnqueuedAt := now e, oq_ExpiresAt := now e + ttl,
                             oq_CreatedAt := (if IsZero (oq_CreatedAt entry) then now e else oq_CreatedAt entry),
                             oq_UpdatedAt := (if IsZero (oq_UpdatedAt entry) then now e else oq_UpdatedAt entry)\<rparr>]\<rparr>,
                        Inr ()))"

definition orgIDForConnectionRequest :: "runtime_db \<Rightarrow> string \<Rightarrow> string option" where
  "orgIDForConnectionRequest db requestID =
     map_option oq_OrgID (sql_find (\<lambda>q. oq_RequestID q = requestID) (org_connection_queue db))"

definition lockOrgConnectionRequest :: "runtime_db \<Rightarrow> string \<Rightarrow> OrgConnectionQueueEntry option" where
  "lockOrgConnectionRequest db requestID =
     sql_find (\<lambda>q. oq_RequestID q = requestID) (org_connection_queue db)"

definition existingOrgConnectionLease :: "runtime_db \<Rightarrow> string \<Rightarrow> OrgConnectionLease option" where
  "existingOrgConnectionLease db requestID =
     sql_find (\<lambda>l. ol_RequestID l = requestID) (org_connection_leases db)"

text \<open>A request that waits: not granted, not cancelled, not expired.\<close>

definition pending :: "gotime \<Rightarrow> OrgConnectionQueueEntry \<Rightarrow> bool" where
  "pending t q \<longleftrightarrow> oq_GrantedAt q = None \<and> oq_CanceledAt q = None \<and> oq_ExpiresAt q > t"

definition isOrgConnectionQueueHead ::
  "(string \<Rightarrow> string) \<Rightarrow> runtime_db \<Rightarrow> OrgConnectionQueueEntry \<Rightarrow> gotime \<Rightarrow> bool" where
  "isOrgConnectionQueueHead collate db request t =
     (case sql_first (\<lambda>q. (oq_EnqueuedAt q, collate (oq_RequestID q)))
             (\<lambda>q. oq_OrgID q = oq_OrgID request \<and> pending t q) (org_connection_queue db) of
        None \<Rightarrow> False
      | Some head \<Rightarrow> oq_RequestID head = oq_RequestID request)"

definition createOrgConnectionLease ::
  "OrgConnectionQueueEntry \<Rightarrow> gotime \<Rightarrow> runtime_db \<Rightarrow> runtime_db \<times> OrgConnectionLease result" where
  "createOrgConnectionLease request t db =
     (let created = \<lparr>ol_LeaseID = oq_RequestID request, ol_RequestID = oq_RequestID request,
            ol_OrgID = oq_OrgID request, ol_CPInstanceID = oq_CPInstanceID request,
            ol_PID = oq_PID request, ol_Protocol = oq_Protocol request,
            ol_AcquiredAt = t, ol_CreatedAt = t, ol_UpdatedAt = t\<rparr>
      in if \<exists>l \<in> set (org_connection_leases db).
              ol_LeaseID l = ol_LeaseID created \<or> ol_RequestID l = ol_RequestID created
         then (db, Inl (UniqueViolation ''org_connection_leases''))
         else (db\<lparr>org_connection_leases := org_connection_leases db @ [created],
                 org_connection_queue :=
                   fst (sql_update (\<lambda>q. oq_RequestID q = oq_RequestID request)
                     (\<lambda>q. q\<lparr>oq_GrantedAt := Some t, oq_UpdatedAt := t\<rparr>) (org_connection_queue db))\<rparr>,
               Inr created))"

definition cleanupOrgConnectionRowsLocked :: "string \<Rightarrow> gotime \<Rightarrow> runtime_db \<Rightarrow> runtime_db" where
  "cleanupOrgConnectionRowsLocked orgID t db =
     (let queue = fst (sql_delete (\<lambda>q. oq_OrgID q = orgID \<and> oq_GrantedAt q = None \<and>
                          oq_CanceledAt q = None \<and> oq_ExpiresAt q \<le> t) (org_connection_queue db));
          leases1 = fst (sql_delete (\<lambda>l. ol_OrgID l = orgID \<and>
                           (\<exists>cp \<in> set (cp_instances db). cp_ID cp = ol_CPInstanceID l \<and>
                              cp_State cp = ControlPlaneInstanceStateExpired)) (org_connection_leases db));
          leases2 = fst (sql_delete (\<lambda>l. ol_OrgID l = orgID \<and>
                           ol_AcquiredAt l \<le> t - missingOwnerOrgConnectionLeaseGrace \<and>
                           \<not> (\<exists>cp \<in> set (cp_instances db). cp_ID cp = ol_CPInstanceID l)) leases1)
      in db\<lparr>org_connection_queue := queue, org_connection_leases := leases2\<rparr>)"

definition countActiveOrgConnectionLeases :: "runtime_db \<Rightarrow> string \<Rightarrow> int" where
  "countActiveOrgConnectionLeases db orgID =
     sql_count (\<lambda>l. ol_OrgID l = orgID \<and>
         (case sql_find (\<lambda>cp. cp_ID cp = ol_CPInstanceID l) (cp_instances db) of
            None \<Rightarrow> True
          | Some cp \<Rightarrow> cp_State cp \<noteq> ControlPlaneInstanceStateExpired))
       (org_connection_leases db)"

text \<open>The transaction from the advisory lock on: the lease if there is one, whether to retry
  with the request's present organisation; an error rolls back.\<close>

definition acquire_locked ::
  "env \<Rightarrow> (string \<Rightarrow> string) \<Rightarrow> string \<Rightarrow> string \<Rightarrow> int \<Rightarrow> runtime_db \<Rightarrow>
   runtime_db \<times> (OrgConnectionLease option \<times> bool) result" where
  "acquire_locked e collate orgID requestID maxConnections db =
     (let t = now e; db1 = cleanupOrgConnectionRowsLocked orgID t db in
      case lockOrgConnectionRequest db1 requestID of
        None \<Rightarrow> (db1, Inr (None, False))
      | Some request \<Rightarrow>
          if oq_OrgID request \<noteq> orgID then (db1, Inr (None, True))
          else case existingOrgConnectionLease db1 requestID of
            Some existing \<Rightarrow> (db1, Inr (Some existing, False))
          | None \<Rightarrow>
              if \<not> oq_ExpiresAt request > t \<or> oq_CanceledAt request \<noteq> None \<or> oq_GrantedAt request \<noteq> None
              then (db1, Inr (None, False))
              else if \<not> isOrgConnectionQueueHead collate db1 request t then (db1, Inr (None, False))
              else if maxConnections > 0 \<and> countActiveOrgConnectionLeases db1 orgID \<ge> maxConnections
              then (db1, Inr (None, False))
              else (case createOrgConnectionLease request t db1 of
                      (db2, Inl err) \<Rightarrow> (db, Inl err)
                    | (db2, Inr created) \<Rightarrow> (db2, Inr (Some created, False))))"

definition tryAcquireOrgConnectionLeaseOnce ::
  "env \<Rightarrow> (string \<Rightarrow> string) \<Rightarrow> (runtime_db \<Rightarrow> runtime_db) \<Rightarrow> string \<Rightarrow> int \<Rightarrow> runtime_db \<Rightarrow>
   runtime_db \<times> (OrgConnectionLease option \<times> bool) result" where
  "tryAcquireOrgConnectionLeaseOnce e collate interfere requestID maxConnections db =
     (case fault e of
        Some m \<Rightarrow> (interfere db, Inl (DbError m))
      | None \<Rightarrow>
          (case orgIDForConnectionRequest db requestID of
             None \<Rightarrow> (db, Inr (None, False))
           | Some orgID \<Rightarrow> acquire_locked e collate orgID requestID maxConnections (interfere db)))"

text \<open>The retry loop; attempt \<open>n\<close> has its own environment and interference. It has no bound
  in the source, so not returning is \<open>None\<close>.\<close>

partial_function (option) acquire_attempts ::
  "(nat \<Rightarrow> env) \<Rightarrow> (string \<Rightarrow> string) \<Rightarrow> (nat \<Rightarrow> runtime_db \<Rightarrow> runtime_db) \<Rightarrow> string \<Rightarrow> int \<Rightarrow> nat \<Rightarrow>
   runtime_db \<Rightarrow> (runtime_db \<times> OrgConnectionLease option result) option" where
  "acquire_attempts E collate interfere requestID maxConnections n db =
     (case tryAcquireOrgConnectionLeaseOnce (E n) collate (interfere n) requestID maxConnections db of
        (db', Inl err) \<Rightarrow> Some (db', Inl err)
      | (db', Inr (lease, retry)) \<Rightarrow>
          if retry then acquire_attempts E collate interfere requestID maxConnections (Suc n) db'
          else Some (db', Inr lease))"

definition TryAcquireOrgConnectionLease ::
  "(nat \<Rightarrow> env) \<Rightarrow> (string \<Rightarrow> string) \<Rightarrow> (nat \<Rightarrow> runtime_db \<Rightarrow> runtime_db) \<Rightarrow> string \<Rightarrow> int \<Rightarrow>
   runtime_db \<Rightarrow> (runtime_db \<times> OrgConnectionLease option result) option" where
  "TryAcquireOrgConnectionLease E collate interfere requestID maxConnections db =
     (if TrimSpace requestID = [] then Some (db, Inl (RequiredField ''request id''))
      else acquire_attempts E collate interfere requestID maxConnections 0 db)"

definition ReleaseOrgConnectionLease :: "env \<Rightarrow> string \<Rightarrow> runtime_db \<Rightarrow> runtime_db \<times> unit result" where
  "ReleaseOrgConnectionLease e leaseID db =
     (if TrimSpace leaseID = [] then (db, Inr ())
      else case fault e of
        Some m \<Rightarrow> (db, Inl (DbError m))
      | None \<Rightarrow>
          (db\<lparr>org_connection_leases := fst (sql_delete (\<lambda>l. ol_LeaseID l = leaseID) (org_connection_leases db)),
             org_connection_queue := fst (sql_delete (\<lambda>q. oq_RequestID q = leaseID) (org_connection_queue db))\<rparr>,
           Inr ()))"

definition CancelOrgConnectionRequest :: "env \<Rightarrow> string \<Rightarrow> runtime_db \<Rightarrow> runtime_db \<times> unit result" where
  "CancelOrgConnectionRequest e requestID db =
     (if TrimSpace requestID = [] then (db, Inr ())
      else case fault e of
        Some m \<Rightarrow> (db, Inl (DbError m))
      | None \<Rightarrow>
          (db\<lparr>org_connection_queue :=
                fst (sql_delete (\<lambda>q. oq_RequestID q = requestID \<and> oq_GrantedAt q = None \<and>
                       oq_CanceledAt q = None) (org_connection_queue db))\<rparr>, Inr ()))"

definition ActiveOrgConnectionLeaseCount :: "env \<Rightarrow> string \<Rightarrow> runtime_db \<Rightarrow> int result" where
  "ActiveOrgConnectionLeaseCount e orgID db =
     (case fault e of
        Some m \<Rightarrow> Inl (DbError m)
      | None \<Rightarrow> Inr (countActiveOrgConnectionLeases db orgID))"

end
