(* ===== verification/Org_Admission.thy ===== *)
theory Org_Admission
  imports Org_Connections
begin

text \<open>
  What the admission queue guarantees: the leases of an organisation never outnumber its
  limit, requests are served in the order of arrival, a request has at most one lease, and
  every lease belongs to a granted request. \<open>org_step\<close> is one atomic step of any control
  plane on the two tables, \<open>M\<close> the limit of each organisation.
\<close>

section \<open>Steps\<close>

inductive org_step :: "(string \<Rightarrow> int) \<Rightarrow> runtime_db \<Rightarrow> runtime_db \<Rightarrow> bool" for M where
  enqueue: "org_step M db (fst (EnqueueOrgConnectionRequest e entry db))"
| acquire: "0 < mx \<Longrightarrow> mx \<le> M org \<Longrightarrow> org_step M db (fst (acquire_locked e collate org rid mx db))"
| release: "org_step M db (fst (ReleaseOrgConnectionLease e leaseID db))"
| cancel: "org_step M db (fst (CancelOrgConnectionRequest e rid db))"
| other: "org_connection_leases db' = org_connection_leases db \<Longrightarrow>
    org_connection_queue db' = org_connection_queue db \<Longrightarrow> org_step M db db'"

definition lease_total :: "runtime_db \<Rightarrow> string \<Rightarrow> int" where
  "lease_total db org = sql_count (\<lambda>l. ol_OrgID l = org) (org_connection_leases db)"

text \<open>Every lease carries its request's id and its request is recorded as granted.\<close>

definition leases_granted :: "runtime_db \<Rightarrow> bool" where
  "leases_granted db \<longleftrightarrow>
     (\<forall>l \<in> set (org_connection_leases db). ol_LeaseID l = ol_RequestID l \<and>
        (\<exists>q \<in> set (org_connection_queue db). oq_RequestID q = ol_RequestID l \<and> oq_GrantedAt q \<noteq> None))"

definition conn_keys :: "runtime_db \<Rightarrow> bool" where
  "conn_keys db \<longleftrightarrow>
     distinct (map oq_RequestID (org_connection_queue db)) \<and>
     distinct (map ol_LeaseID (org_connection_leases db)) \<and>
     distinct (map ol_RequestID (org_connection_leases db))"

section \<open>The clean-up under the lock\<close>

lemma cleanup_sets:
  "set (org_connection_leases (cleanupOrgConnectionRowsLocked org t db)) \<subseteq> set (org_connection_leases db)"
  "set (org_connection_queue (cleanupOrgConnectionRowsLocked org t db)) \<subseteq> set (org_connection_queue db)"
  by (auto simp: cleanupOrgConnectionRowsLocked_def sql_delete_def)

lemma cleanup_cps [simp]: "cp_instances (cleanupOrgConnectionRowsLocked org t db) = cp_instances db"
  by (simp add: cleanupOrgConnectionRowsLocked_def Let_def)

lemma cleanup_queue:
  "q \<in> set (org_connection_queue (cleanupOrgConnectionRowsLocked org t db)) \<longleftrightarrow>
   q \<in> set (org_connection_queue db) \<and>
   \<not> (oq_OrgID q = org \<and> oq_GrantedAt q = None \<and> oq_CanceledAt q = None \<and> oq_ExpiresAt q \<le> t)"
  by (auto simp: cleanupOrgConnectionRowsLocked_def sql_delete_def)

lemma cleanup_total: "lease_total (cleanupOrgConnectionRowsLocked org t db) o' \<le> lease_total db o'"
  unfolding lease_total_def cleanupOrgConnectionRowsLocked_def sql_delete_def
  by (simp add: sql_count_filter_le)

text \<open>After the clean-up every remaining lease of the organisation counts as active, so the
  count of the active ones is the count of all.\<close>

lemma cleanup_active:
  "countActiveOrgConnectionLeases (cleanupOrgConnectionRowsLocked org t db) org =
   lease_total (cleanupOrgConnectionRowsLocked org t db) org"
proof -
  have "cp_State cp \<noteq> ControlPlaneInstanceStateExpired"
    if "l \<in> set (org_connection_leases (cleanupOrgConnectionRowsLocked org t db))" "ol_OrgID l = org"
      "sql_find (\<lambda>cp. cp_ID cp = ol_CPInstanceID l) (cp_instances db) = Some cp" for l cp
    using that sql_find_SomeD [OF that(3)]
    by (auto simp: cleanupOrgConnectionRowsLocked_def sql_delete_def)
  then show ?thesis
    unfolding countActiveOrgConnectionLeases_def lease_total_def sql_count_def
    by (auto intro!: arg_cong [where f = length] filter_cong split: option.splits)
qed

lemma cleanup_keys: "conn_keys db \<Longrightarrow> conn_keys (cleanupOrgConnectionRowsLocked org t db)"
  by (simp add: conn_keys_def cleanupOrgConnectionRowsLocked_def sql_delete_def distinct_map_filter)

lemma cleanup_granted:
  assumes "leases_granted db"
  shows "leases_granted (cleanupOrgConnectionRowsLocked org t db)"
  unfolding leases_granted_def
proof
  fix l
  assume "l \<in> set (org_connection_leases (cleanupOrgConnectionRowsLocked org t db))"
  then have "l \<in> set (org_connection_leases db)" using cleanup_sets(1) by blast
  with assms obtain q where "q \<in> set (org_connection_queue db)" "oq_RequestID q = ol_RequestID l"
    "oq_GrantedAt q \<noteq> None" "ol_LeaseID l = ol_RequestID l" by (auto simp: leases_granted_def)
  then show "ol_LeaseID l = ol_RequestID l \<and>
      (\<exists>q \<in> set (org_connection_queue (cleanupOrgConnectionRowsLocked org t db)).
         oq_RequestID q = ol_RequestID l \<and> oq_GrantedAt q \<noteq> None)"
    by (auto simp: cleanup_queue)
qed

section \<open>The grant\<close>

text \<open>The shape of \<open>acquire_locked\<close>: either it ends with the clean-up, or (on an error) with
  nothing, or it grants the request at the head of the queue.\<close>

lemma acquire_locked_cases:
  obtains
    (grant) request l where
      "acquire_locked e collate org rid mx db =
        (fst (createOrgConnectionLease request (now e) (cleanupOrgConnectionRowsLocked org (now e) db)),
         Inr (Some l, False))"
      "snd (createOrgConnectionLease request (now e) (cleanupOrgConnectionRowsLocked org (now e) db)) = Inr l"
      "lockOrgConnectionRequest (cleanupOrgConnectionRowsLocked org (now e) db) rid = Some request"
      "existingOrgConnectionLease (cleanupOrgConnectionRowsLocked org (now e) db) rid = None"
      "oq_OrgID request = org" "pending (now e) request"
      "isOrgConnectionQueueHead collate (cleanupOrgConnectionRowsLocked org (now e) db) request (now e)"
      "0 < mx \<longrightarrow> lease_total (cleanupOrgConnectionRowsLocked org (now e) db) org < mx"
  | (existing) l where
      "acquire_locked e collate org rid mx db = (cleanupOrgConnectionRowsLocked org (now e) db, Inr (Some l, False))"
      "existingOrgConnectionLease (cleanupOrgConnectionRowsLocked org (now e) db) rid = Some l"
  | (waiting) retry where
      "acquire_locked e collate org rid mx db = (cleanupOrgConnectionRowsLocked org (now e) db, Inr (None, retry))"
  | (failed) err where "acquire_locked e collate org rid mx db = (db, Inl err)"
proof (cases "lockOrgConnectionRequest (cleanupOrgConnectionRowsLocked org (now e) db) rid")
  case None
  then show ?thesis by (intro waiting [of False]) (simp add: acquire_locked_def)
next
  case (Some request)
  let ?c = "cleanupOrgConnectionRowsLocked org (now e) db"
  show ?thesis
  proof (cases "oq_OrgID request = org \<and> existingOrgConnectionLease ?c rid = None \<and>
      pending (now e) request \<and> isOrgConnectionQueueHead collate ?c request (now e) \<and>
      (0 < mx \<longrightarrow> lease_total ?c org < mx)")
    case False
    consider "oq_OrgID request \<noteq> org" | l where "oq_OrgID request = org" "existingOrgConnectionLease ?c rid = Some l"
      | "oq_OrgID request = org" "existingOrgConnectionLease ?c rid = None" by blast
    then show ?thesis
    proof cases
      case 1
      with Some show ?thesis by (intro waiting [of True]) (simp add: acquire_locked_def)
    next
      case (2 l)
      with Some show ?thesis by (intro existing [of l]) (simp_all add: acquire_locked_def)
    next
      case 3
      with Some False show ?thesis
        by (intro waiting [of False]) (auto simp: acquire_locked_def pending_def cleanup_active Let_def)
    qed
  next
    case True
    show ?thesis
    proof (cases "createOrgConnectionLease request (now e) ?c")
      case (Pair db2 res)
      show ?thesis
      proof (cases res)
        case (Inl err)
        with Pair True Some show ?thesis
          by (intro failed [of err]) (auto simp: acquire_locked_def pending_def cleanup_active Let_def)
      next
        case (Inr l)
        with Pair True Some show ?thesis
          by (intro grant [of request l]) (auto simp: acquire_locked_def pending_def cleanup_active Let_def)
      qed
    qed
  qed
qed

lemma createOrgConnectionLease_Inr:
  assumes "snd (createOrgConnectionLease request t db) = Inr l"
  shows "org_connection_leases (fst (createOrgConnectionLease request t db)) = org_connection_leases db @ [l]"
    and "org_connection_queue (fst (createOrgConnectionLease request t db)) =
      map (\<lambda>q. if oq_RequestID q = oq_RequestID request
               then q\<lparr>oq_GrantedAt := Some t, oq_UpdatedAt := t\<rparr> else q) (org_connection_queue db)"
    and "ol_LeaseID l = oq_RequestID request \<and> ol_RequestID l = oq_RequestID request \<and>
      ol_OrgID l = oq_OrgID request \<and> ol_CPInstanceID l = oq_CPInstanceID request \<and> ol_AcquiredAt l = t"
    and "\<forall>k \<in> set (org_connection_leases db). ol_LeaseID k \<noteq> ol_LeaseID l \<and> ol_RequestID k \<noteq> ol_RequestID l"
  using assms
  by (auto simp: createOrgConnectionLease_def Let_def sql_update_def split: if_splits)

lemma create_keys:
  assumes "snd (createOrgConnectionLease request t db) = Inr l" and "conn_keys db"
  shows "conn_keys (fst (createOrgConnectionLease request t db))"
proof -
  have "map oq_RequestID (org_connection_queue (fst (createOrgConnectionLease request t db))) =
      map oq_RequestID (org_connection_queue db)"
    unfolding createOrgConnectionLease_Inr(2) [OF assms(1)] by simp
  with assms(2) createOrgConnectionLease_Inr(1,4) [OF assms(1)] show ?thesis
    unfolding conn_keys_def by (auto simp del: map_map)
qed

lemma create_granted:
  assumes "snd (createOrgConnectionLease request t db) = Inr l" and "leases_granted db"
    and "request \<in> set (org_connection_queue db)"
  shows "leases_granted (fst (createOrgConnectionLease request t db))"
proof -
  define g where "g q = (if oq_RequestID q = oq_RequestID request
    then q\<lparr>oq_GrantedAt := Some t, oq_UpdatedAt := t\<rparr> else q)" for q :: OrgConnectionQueueEntry
  note new = createOrgConnectionLease_Inr [OF assms(1), folded g_def]
  have "\<exists>q \<in> set (org_connection_queue (fst (createOrgConnectionLease request t db))).
      oq_RequestID q = ol_RequestID k \<and> oq_GrantedAt q \<noteq> None"
    if k: "k \<in> set (org_connection_leases db @ [l])" for k
  proof (cases "k = l")
    case True
    then show ?thesis using new(2,3) assms(3) by (intro bexI [of _ "g request"]) (auto simp: g_def)
  next
    case False
    with k assms(2) obtain q where "q \<in> set (org_connection_queue db)" "oq_RequestID q = ol_RequestID k"
      "oq_GrantedAt q \<noteq> None" by (auto simp: leases_granted_def)
    then show ?thesis using new(2) by (intro bexI [of _ "g q"]) (auto simp: g_def)
  qed
  with assms(2) new(1,3) show ?thesis by (auto simp: leases_granted_def)
qed

section \<open>Invariants of runs\<close>

lemma Enqueue_frame:
  "org_connection_leases (fst (EnqueueOrgConnectionRequest e entry db)) = org_connection_leases db"
  "set (org_connection_queue db) \<subseteq> set (org_connection_queue (fst (EnqueueOrgConnectionRequest e entry db)))"
  "conn_keys db \<Longrightarrow> conn_keys (fst (EnqueueOrgConnectionRequest e entry db))"
  by (auto simp: EnqueueOrgConnectionRequest_def Let_def conn_keys_def split: option.splits)

lemma Release_frame:
  "set (org_connection_leases (fst (ReleaseOrgConnectionLease e i db))) \<subseteq> set (org_connection_leases db)"
  "lease_total (fst (ReleaseOrgConnectionLease e i db)) o' \<le> lease_total db o'"
  "conn_keys db \<Longrightarrow> conn_keys (fst (ReleaseOrgConnectionLease e i db))"
  by (auto simp: ReleaseOrgConnectionLease_def lease_total_def conn_keys_def
      sql_delete_def distinct_map_filter sql_count_filter_le split: option.splits)

lemma Release_granted:
  "leases_granted db \<Longrightarrow> leases_granted (fst (ReleaseOrgConnectionLease e i db))"
  by (cases "fault e") (auto simp: ReleaseOrgConnectionLease_def leases_granted_def sql_delete_def, metis+)

lemma Cancel_frame:
  "org_connection_leases (fst (CancelOrgConnectionRequest e i db)) = org_connection_leases db"
  "conn_keys db \<Longrightarrow> conn_keys (fst (CancelOrgConnectionRequest e i db))"
  "leases_granted db \<Longrightarrow> leases_granted (fst (CancelOrgConnectionRequest e i db))"
  by (auto simp: CancelOrgConnectionRequest_def conn_keys_def leases_granted_def
      sql_delete_def distinct_map_filter split: option.splits) blast

lemma acquire_total:
  assumes "0 < mx" and "mx \<le> M org" and "lease_total db o' \<le> M o'"
  shows "lease_total (fst (acquire_locked e collate org rid mx db)) o' \<le> M o'"
proof (rule acquire_locked_cases [of e collate org rid mx db], goal_cases)
  case (1 request l)
  then show ?thesis
    using createOrgConnectionLease_Inr(1,3) [OF 1(2)] assms order_trans [OF cleanup_total assms(3)]
    by (auto simp: lease_total_def)
qed (use assms(3) order_trans [OF cleanup_total] in auto)

lemma acquire_keys:
  assumes "conn_keys db"
  shows "conn_keys (fst (acquire_locked e collate org rid mx db))"
  by (rule acquire_locked_cases [of e collate org rid mx db])
    (use assms cleanup_keys create_keys in auto)

lemma acquire_granted:
  assumes "leases_granted db"
  shows "leases_granted (fst (acquire_locked e collate org rid mx db))"
proof (rule acquire_locked_cases [of e collate org rid mx db], goal_cases)
  case (1 request l)
  then show ?thesis
    using create_granted [OF 1(2) cleanup_granted [OF assms]] sql_find_SomeD
    by (fastforce simp: lockOrgConnectionRequest_def)
qed (use assms cleanup_granted in auto)

lemma org_step_invariant:
  assumes "org_step M db db'" and "\<forall>o'. lease_total db o' \<le> M o'"
    and "conn_keys db" and "leases_granted db"
  shows "(\<forall>o'. lease_total db' o' \<le> M o') \<and> conn_keys db' \<and> leases_granted db'"
  using assms
proof cases
  case (enqueue e entry)
  then show ?thesis
    using assms(2-4) Enqueue_frame
    by (fastforce simp: lease_total_def leases_granted_def)
next
  case (acquire mx org e collate rid)
  then show ?thesis using assms(2-4) acquire_total acquire_keys acquire_granted by auto
next
  case (release e leaseID)
  then show ?thesis using assms(2-4) Release_frame Release_granted order_trans by blast
next
  case (cancel e rid)
  then show ?thesis using assms(2-4) Cancel_frame by (simp add: lease_total_def)
next
  case other
  then show ?thesis using assms(2-4) by (simp add: lease_total_def conn_keys_def leases_granted_def)
qed

lemma org_steps_invariant:
  assumes "(org_step M)\<^sup>*\<^sup>* db db'" and "\<forall>o'. lease_total db o' \<le> M o'"
    and "conn_keys db" and "leases_granted db"
  shows "(\<forall>o'. lease_total db' o' \<le> M o') \<and> conn_keys db' \<and> leases_granted db'"
  using assms(1) by (induction rule: rtranclp_induct) (use assms(2-) org_step_invariant in blast)+

section \<open>Properties\<close>


text \<open>An example: one request of an organisation.\<close>

definition ex_request :: "string \<Rightarrow> gotime \<Rightarrow> OrgConnectionQueueEntry" where
  "ex_request rid t =
     \<lparr>oq_RequestID = rid, oq_OrgID = ''o'', oq_CPInstanceID = ''cp'', oq_PID = 7, oq_Protocol = ''pg'',
      oq_EnqueuedAt = t, oq_ExpiresAt = t + 60, oq_GrantedAt = None, oq_CanceledAt = None,
      oq_CreatedAt = t, oq_UpdatedAt = t\<rparr>"

definition ex_queue :: runtime_db where
  "ex_queue = empty_db\<lparr>org_connection_queue := [ex_request ''r1'' 1, ex_request ''r2'' 2]\<rparr>"


lemma queue_head_iff:
  assumes "inj collate" and "request \<in> set (org_connection_queue db)" and "pending t request"
    and "distinct (map oq_RequestID (org_connection_queue db))"
  shows "isOrgConnectionQueueHead collate db request t \<longleftrightarrow>
    (\<forall>q \<in> set (org_connection_queue db). oq_OrgID q = oq_OrgID request \<and> pending t q \<longrightarrow>
       (oq_EnqueuedAt request, collate (oq_RequestID request)) \<le> (oq_EnqueuedAt q, collate (oq_RequestID q)))"
    (is "?L \<longleftrightarrow> ?R")
proof -
  let ?key = "\<lambda>q. (oq_EnqueuedAt q, collate (oq_RequestID q))"
  let ?P = "\<lambda>q. oq_OrgID q = oq_OrgID request \<and> pending t q"
  obtain h where h: "sql_first ?key ?P (org_connection_queue db) = Some h"
    using assms(2,3) sql_first_None [of ?key ?P "org_connection_queue db"] by fastforce
  note min = sql_first_SomeD [OF h]
  from h have L: "?L \<longleftrightarrow> oq_RequestID h = oq_RequestID request"
    by (simp add: isOrgConnectionQueueHead_def)
  show ?thesis
  proof
    assume ?L
    then have "h = request" using distinct_key_unique [OF assms(4) min(1) assms(2)] L by simp
    with min(3) show ?R by blast
  next
    assume ?R
    with min(1,2) have "?key request \<le> ?key h" by blast
    with min(3) [OF assms(2)] assms(3) have "?key request = ?key h" by (auto intro: order_antisym)
    then have "oq_RequestID h = oq_RequestID request" using inj_eq [OF assms(1)] by simp
    then show ?L by (simp only: L)
  qed
qed

lemma acquire_grants:
  assumes "db1 = cleanupOrgConnectionRowsLocked org (now e) db"
    and "lockOrgConnectionRequest db1 rid = Some request" and "oq_OrgID request = org"
    and "existingOrgConnectionLease db1 rid = None" and "pending (now e) request"
    and "isOrgConnectionQueueHead collate db1 request (now e)"
    and "0 < mx \<longrightarrow> lease_total db1 org < mx"
    and "snd (createOrgConnectionLease request (now e) db1) = Inr l"
  shows "acquire_locked e collate org rid mx db =
    (fst (createOrgConnectionLease request (now e) db1), Inr (Some l, False))"
proof (cases "createOrgConnectionLease request (now e) db1")
  case (Pair db2 res)
  with assms(2-8) cleanup_active [of org "now e" db] show ?thesis
    by (auto simp: acquire_locked_def assms(1) [symmetric] pending_def Let_def)
qed

text \<open>\<^bold>\<open>C21\<close>. First come, first served, and no request waits without a reason: under the lock, a
  request without a lease is granted exactly when it is pending (not cancelled, granted or
  expired), no pending request of the organisation arrived before it, and, with a positive
  limit, the organisation's leases are below it. The grant appends one lease for the
  request and marks the request as granted. (\<open>inj collate\<close>: a deterministic collation
  orders different texts as different.)\<close>

theorem grant_iff_head_of_queue:
  assumes "conn_keys db" and "leases_granted db" and "inj collate"
    and "request \<in> set (org_connection_queue db)" and "oq_RequestID request = rid" and "oq_OrgID request = org"
    and "\<forall>l \<in> set (org_connection_leases db). ol_RequestID l \<noteq> rid"
    and "db1 = cleanupOrgConnectionRowsLocked org (now e) db"
  shows "((\<exists>db' l. acquire_locked e collate org rid mx db = (db', Inr (Some l, False))) \<longleftrightarrow>
      pending (now e) request \<and>
      (\<forall>q \<in> set (org_connection_queue db). oq_OrgID q = org \<and> pending (now e) q \<longrightarrow>
         (oq_EnqueuedAt request, collate rid) \<le> (oq_EnqueuedAt q, collate (oq_RequestID q))) \<and>
      (0 < mx \<longrightarrow> lease_total db1 org < mx)) \<and>
    (\<forall>db' l. acquire_locked e collate org rid mx db = (db', Inr (Some l, False)) \<longrightarrow>
      org_connection_leases db' = org_connection_leases db1 @ [l] \<and>
      ol_LeaseID l = rid \<and> ol_RequestID l = rid \<and> ol_OrgID l = org \<and> ol_AcquiredAt l = now e \<and>
      (\<forall>q \<in> set (org_connection_queue db'). oq_RequestID q = rid \<longrightarrow> oq_GrantedAt q = Some (now e)))"
proof -
  have k1: "conn_keys db1" and g1: "leases_granted db1"
    using assms(1,2,8) cleanup_keys cleanup_granted by auto
  have none: "existingOrgConnectionLease db1 rid = None"
    using assms(7,8) cleanup_sets(1) by (force simp: existingOrgConnectionLease_def sql_find_None)
  have pend: "oq_OrgID q = org \<and> pending (now e) q \<Longrightarrow>
      q \<in> set (org_connection_queue db1) \<longleftrightarrow> q \<in> set (org_connection_queue db)" for q
    by (auto simp: assms(8) cleanup_queue pending_def)
  have lock: "lockOrgConnectionRequest db1 rid = Some request" if "pending (now e) request"
    using that pend assms(4,5,6) k1 sql_find_key [of oq_RequestID "org_connection_queue db1" request]
    by (auto simp: lockOrgConnectionRequest_def conn_keys_def)
  have head: "isOrgConnectionQueueHead collate db1 request (now e) \<longleftrightarrow>
      (\<forall>q \<in> set (org_connection_queue db). oq_OrgID q = org \<and> pending (now e) q \<longrightarrow>
         (oq_EnqueuedAt request, collate rid) \<le> (oq_EnqueuedAt q, collate (oq_RequestID q)))"
    if "pending (now e) request"
    using queue_head_iff [OF assms(3) _ that, of db1] that pend assms(4-6) k1 by (auto simp: conn_keys_def)
  have create: "\<exists>l. snd (createOrgConnectionLease request (now e) db1) = Inr l"
    using none g1 assms(5) by (auto simp: createOrgConnectionLease_def Let_def existingOrgConnectionLease_def
        sql_find_None leases_granted_def)
  have yes: "\<exists>db' l. acquire_locked e collate org rid mx db = (db', Inr (Some l, False))"
    if "pending (now e) request" "isOrgConnectionQueueHead collate db1 request (now e)"
      "0 < mx \<longrightarrow> lease_total db1 org < mx"
    using acquire_grants [OF assms(8) lock [OF that(1)] assms(6) none that] create by blast
  show ?thesis
  proof (rule acquire_locked_cases [of e collate org rid mx db, folded assms(8)], goal_cases)
    case (1 r l)
    from sql_find_SomeD [OF 1(3) [unfolded lockOrgConnectionRequest_def]]
    have "r \<in> set (org_connection_queue db)" "oq_RequestID r = rid"
      using cleanup_sets(2) [of org "now e" db] assms(8) by auto
    then have r: "r = request"
      using distinct_key_unique [of oq_RequestID "org_connection_queue db" r request] assms(1,4,5)
      by (simp add: conn_keys_def)
    note new = createOrgConnectionLease_Inr [OF 1(2)]
    from new(2) r assms(5) have
      "\<forall>q \<in> set (org_connection_queue (fst (createOrgConnectionLease r (now e) db1))).
         oq_RequestID q = rid \<longrightarrow> oq_GrantedAt q = Some (now e)" by auto
    with 1 r head assms(5,6) new(1,3) show ?thesis by auto
  next
    case (2 l)
    with none show ?thesis by simp
  next
    case (3 retry)
    with yes head show ?thesis by simp blast
  next
    case (4 err)
    with yes head show ?thesis by simp blast
  qed
qed

theorem grant_iff_head_of_queue_witness:
  "(\<exists>db' l. acquire_locked \<lparr>now = 10, fault = None\<rparr> id ''o'' ''r1'' 1 ex_queue = (db', Inr (Some l, False))) \<and>
   \<not> (\<exists>db' l. acquire_locked \<lparr>now = 10, fault = None\<rparr> id ''o'' ''r2'' 1 ex_queue = (db', Inr (Some l, False)))"
proof -
  let ?e = "\<lparr>now = 10, fault = None\<rparr>" and ?r1 = "ex_request ''r1'' 1" and ?r2 = "ex_request ''r2'' 2"
  let ?db1 = "cleanupOrgConnectionRowsLocked ''o'' (now ?e) ex_queue"
  have k: "conn_keys ex_queue" "leases_granted ex_queue" "inj (id :: string \<Rightarrow> string)"
    by (simp_all add: ex_queue_def empty_db_def conn_keys_def leases_granted_def ex_request_def)
  have q: "set (org_connection_queue ex_queue) = {?r1, ?r2}" "org_connection_leases ex_queue = []"
    "lease_total ?db1 ''o'' = 0"
    by (simp_all add: ex_queue_def empty_db_def lease_total_def cleanupOrgConnectionRowsLocked_def sql_delete_def)
  have p: "pending 10 ?r1" "oq_RequestID ?r1 = ''r1''" "oq_RequestID ?r2 = ''r2''" "oq_OrgID ?r1 = ''o''"
    "oq_OrgID ?r2 = ''o''" "oq_EnqueuedAt ?r1 = 1" "oq_EnqueuedAt ?r2 = 2"
    by (simp_all add: ex_request_def pending_def)
  have mem: "?r1 \<in> set (org_connection_queue ex_queue)" "?r2 \<in> set (org_connection_queue ex_queue)"
    "\<forall>l \<in> set (org_connection_leases ex_queue). ol_RequestID l \<noteq> rid" for rid
    by (simp_all add: q)
  note grant = grant_iff_head_of_queue [OF k _ _ _ mem(3) refl, THEN conjunct1]
  show ?thesis
    unfolding grant [OF mem(1) p(2,4)] grant [OF mem(2) p(3,5)] q(1) using q(3) by (simp add: p)
qed

section \<open>The retry loop\<close>

text \<open>Without a change of the request's organisation the first attempt does not ask for another.\<close>

lemma acquire_no_retry:
  assumes "conn_keys db" and "\<forall>o'. orgIDForConnectionRequest db rid = Some o' \<longrightarrow> o' = org"
  shows "snd (acquire_locked e collate org rid mx db) \<noteq> Inr (lease, True)"
proof -
  let ?c = "cleanupOrgConnectionRowsLocked org (now e) db"
  have "oq_OrgID request = org" if "lockOrgConnectionRequest ?c rid = Some request" for request
  proof -
    from sql_find_SomeD [OF that [unfolded lockOrgConnectionRequest_def]] cleanup_sets(2)
    have "request \<in> set (org_connection_queue db)" "oq_RequestID request = rid" by auto
    with sql_find_key [of oq_RequestID "org_connection_queue db" request] assms show ?thesis
      by (simp add: orgIDForConnectionRequest_def conn_keys_def)
  qed
  then show ?thesis
    by (auto simp: acquire_locked_def Let_def split: option.splits prod.splits sum.splits)
qed

lemma acquire_lease_mem:
  assumes "acquire_locked e collate org rid mx db = (db', Inr (Some l, False))"
  shows "l \<in> set (org_connection_leases db') \<and> ol_RequestID l = rid"
proof (rule acquire_locked_cases [of e collate org rid mx db], goal_cases)
  case (1 request k)
  then show ?thesis
    using assms createOrgConnectionLease_Inr(1,3) [OF 1(2)]
      sql_find_SomeD [OF 1(3) [unfolded lockOrgConnectionRequest_def]] by auto
next
  case (2 k)
  then show ?thesis using assms sql_find_SomeD [OF 2(2) [unfolded existingOrgConnectionLease_def]] by auto
qed (use assms in auto)

lemma acquire_none:
  assumes "leases_granted db" and "acquire_locked e collate org rid mx db = (db', Inr (None, False))"
    and "l \<in> set (org_connection_leases db')"
  shows "ol_RequestID l \<noteq> rid"
proof -
  let ?c = "cleanupOrgConnectionRowsLocked org (now e) db"
  from assms(2) have "db' = ?c" "lockOrgConnectionRequest ?c rid = None \<or> existingOrgConnectionLease ?c rid = None"
    by (auto simp: acquire_locked_def Let_def split: option.splits prod.splits sum.splits if_splits)
  with cleanup_granted [OF assms(1), of org "now e"] assms(3) show ?thesis
    by (auto simp: lockOrgConnectionRequest_def existingOrgConnectionLease_def sql_find_None leases_granted_def)
qed

text \<open>\<^bold>\<open>C22\<close>. Acquiring returns, and what it returns is right: if what other transactions commit
  between reading the request's organisation and locking it keeps the keys and does not move
  the request to another organisation, the retry loop ends at its first attempt, a returned
  lease is in the table and is this request's, and without a lease no grant was made (a
  request whose row still exists is not recorded as leased).\<close>

theorem try_acquire_returns:
  assumes "conn_keys (I 0 db)" and "leases_granted (I 0 db)"
    and "\<forall>o'. orgIDForConnectionRequest (I 0 db) rid = Some o' \<longrightarrow> orgIDForConnectionRequest db rid = Some o'"
    and "TrimSpace rid \<noteq> []"
  shows "\<exists>db' res. TryAcquireOrgConnectionLease E collate I rid mx db = Some (db', res) \<and>
    (\<forall>l. res = Inr (Some l) \<longrightarrow> l \<in> set (org_connection_leases db') \<and> ol_RequestID l = rid) \<and>
    (res = Inr None \<and> orgIDForConnectionRequest db rid \<noteq> None \<longrightarrow>
       (\<forall>l \<in> set (org_connection_leases db'). ol_RequestID l \<noteq> rid)) \<and>
    ((\<exists>err. res = Inl err) \<longrightarrow> db' = I 0 db)"
proof (cases "fault (E 0)")
  case (Some m)
  with assms(4) show ?thesis
    by (simp add: TryAcquireOrgConnectionLease_def acquire_attempts.simps tryAcquireOrgConnectionLeaseOnce_def)
next
  case None
  show ?thesis
  proof (cases "orgIDForConnectionRequest db rid")
    case None
    with \<open>fault (E 0) = None\<close> assms(4) show ?thesis
      by (simp add: TryAcquireOrgConnectionLease_def acquire_attempts.simps tryAcquireOrgConnectionLeaseOnce_def)
  next
    case (Some org)
    obtain db' res where acq: "acquire_locked (E 0) collate org rid mx (I 0 db) = (db', res)" by fastforce
    have retry: "res \<noteq> Inr (lease, True)" for lease
      using acquire_no_retry [OF assms(1), of rid org "E 0" collate mx lease] assms(3) Some acq by auto
    have once: "TryAcquireOrgConnectionLease E collate I rid mx db = Some (db', map_sum id fst res)"
      using retry assms(4) Some None acq
      by (auto simp: TryAcquireOrgConnectionLease_def acquire_attempts.simps [of E]
          tryAcquireOrgConnectionLeaseOnce_def split: sum.splits)
    have err: "db' = I 0 db" if "res = Inl err" for err
      by (rule acquire_locked_cases [of "E 0" collate org rid mx "I 0 db"]) (use acq that in auto)
    have none: "ol_RequestID l \<noteq> rid" if "res = Inr (None, b)" "l \<in> set (org_connection_leases db')" for l b
      using acquire_none [OF assms(2)] acq that retry by (cases b) auto
    have some: "l \<in> set (org_connection_leases db') \<and> ol_RequestID l = rid" if "res = Inr (Some l, b)" for l b
      using acquire_lease_mem acq that retry by (cases b) auto
    show ?thesis unfolding once using none some err by (cases res) (auto, blast?)
  qed
qed

theorem try_acquire_returns_witness:
  "\<exists>db' l. TryAcquireOrgConnectionLease (\<lambda>_. \<lparr>now = 10, fault = None\<rparr>) id (\<lambda>_. id) ''r1'' 1 ex_queue =
     Some (db', Inr (Some l)) \<and> l \<in> set (org_connection_leases db') \<and> ol_RequestID l = ''r1''"
proof -
  let ?E = "\<lambda>_ :: nat. \<lparr>now = 10, fault = None\<rparr>"
  have trim: "TrimSpace ''r1'' \<noteq> []"
    by (rule TrimSpace_keeps [of "CHR ''r''"]) (simp_all add: go_space_runes_def)
  obtain db' l where run: "TryAcquireOrgConnectionLease ?E id (\<lambda>_. id) ''r1'' 1 ex_queue = Some (db', Inr (Some l))"
    by (simp add: TryAcquireOrgConnectionLease_def trim acquire_attempts.simps
        tryAcquireOrgConnectionLeaseOnce_def orgIDForConnectionRequest_def ex_queue_def empty_db_def
        ex_request_def sql_find_def acquire_locked_def cleanupOrgConnectionRowsLocked_def sql_delete_def
        lockOrgConnectionRequest_def existingOrgConnectionLease_def isOrgConnectionQueueHead_def sql_first_def
        pending_def countActiveOrgConnectionLeases_def createOrgConnectionLease_def Let_def sql_update_def)
  have "conn_keys ex_queue" "leases_granted ex_queue"
    by (simp_all add: ex_queue_def empty_db_def conn_keys_def leases_granted_def ex_request_def)
  with try_acquire_returns [of "\<lambda>_. id" ex_queue "''r1''" ?E id 1] trim run show ?thesis by simp
qed

end
