(* ===== verification/Connection_Limiter.thy ===== *)
theory Connection_Limiter
  imports Org_Admission
begin

text \<open>
  The limiter a session manager waits on (\<^verbatim>\<open>controlplane/connection_limiter.go\<close>): enqueue a
  request under a fresh id, poll for its lease until it is granted, the queue time is over
  or the caller gives up. The store is the Go interface \<^verbatim>\<open>runtimeOrgConnectionStore\<close>, a
  record of operations. What the loop observes in its \<open>i\<close>-th round (the clock, the limit,
  whether the caller's context ends the wait, and what other control planes do to the store
  before and after the attempt) is the \<open>i\<close>-th element of \<open>P\<close>.
\<close>

section \<open>The limiter\<close>

record 's runtimeOrgConnectionStore =
  oc_EnqueueOrgConnectionRequest :: "env \<Rightarrow> OrgConnectionQueueEntry option \<Rightarrow> 's \<Rightarrow> 's \<times> unit result"
  oc_TryAcquireOrgConnectionLease ::
    "(nat \<Rightarrow> env) \<Rightarrow> string \<Rightarrow> int \<Rightarrow> 's \<Rightarrow> ('s \<times> OrgConnectionLease option result) option"
  oc_ReleaseOrgConnectionLease :: "env \<Rightarrow> string \<Rightarrow> 's \<Rightarrow> 's \<times> unit result"
  oc_CancelOrgConnectionRequest :: "env \<Rightarrow> string \<Rightarrow> 's \<Rightarrow> 's \<times> unit result"

record 's runtimeOrgConnectionLimiter =
  lim_store :: "'s runtimeOrgConnectionStore option"
  lim_orgID :: string
  lim_cpInstanceID :: string
  lim_queueTTL :: duration
  lim_pollInterval :: duration

definition defaultOrgConnectionPollInterval :: duration where
  "defaultOrgConnectionPollInterval = 100 * Millisecond"

definition NewRuntimeOrgConnectionLimiter ::
  "'s runtimeOrgConnectionStore option \<Rightarrow> string \<Rightarrow> string \<Rightarrow> duration \<Rightarrow> 's runtimeOrgConnectionLimiter" where
  "NewRuntimeOrgConnectionLimiter store orgID cpInstanceID queueTTL =
     \<lparr>lim_store = store, lim_orgID = orgID, lim_cpInstanceID = cpInstanceID,
      lim_queueTTL = (if queueTTL \<le> 0 then 60 * Second else queueTTL),
      lim_pollInterval = defaultOrgConnectionPollInterval\<rparr>"

datatype context_error = Canceled | DeadlineExceeded

datatype acquire_error =
    ErrTooManyConnections
  | AcquireContext context_error
  | AcquireNewID
  | AcquireStore store_error

text \<open>\<^verbatim>\<open>(connectionLease, error)\<close>: neither, a lease by its id, or an error.\<close>

datatype acquire_result = NoLease | Lease string | AcquireError acquire_error

record 's round =
  rd_now :: gotime
  rd_max :: int
  rd_env :: "nat \<Rightarrow> env"
  rd_done :: "context_error option"
  rd_cancel :: env
  rd_before :: "'s \<Rightarrow> 's"
  rd_after :: "'s \<Rightarrow> 's"

text \<open>How long a round waits for the next.\<close>

definition poll_wait :: "'s runtimeOrgConnectionLimiter \<Rightarrow> gotime \<Rightarrow> gotime \<Rightarrow> duration" where
  "poll_wait l expiresAt t =
     (if 0 < expiresAt - t \<and> expiresAt - t < lim_pollInterval l then expiresAt - t
      else lim_pollInterval l)"

partial_function (option) acquire_loop ::
  "'s runtimeOrgConnectionStore \<Rightarrow> (nat \<Rightarrow> 's round) \<Rightarrow> string \<Rightarrow> gotime \<Rightarrow> nat \<Rightarrow> 's \<Rightarrow>
   ('s \<times> acquire_result) option" where
  "acquire_loop st P requestID expiresAt i s0 =
     (let s = rd_before (P i) s0 in
      if \<not> rd_now (P i) < expiresAt
      then Some (fst (oc_CancelOrgConnectionRequest st (rd_cancel (P i)) requestID s),
                 AcquireError ErrTooManyConnections)
      else
        case oc_TryAcquireOrgConnectionLease st (rd_env (P i)) requestID (rd_max (P i)) s of
          None \<Rightarrow> None
        | Some (s', res) \<Rightarrow>
            (case res of
               Inl err \<Rightarrow> Some (s', AcquireError (AcquireStore err))
             | Inr (Some lease) \<Rightarrow> Some (s', Lease (ol_LeaseID lease))
             | Inr None \<Rightarrow>
                 (case rd_done (P i) of
                    Some c \<Rightarrow>
                      Some (fst (oc_CancelOrgConnectionRequest st (rd_cancel (P i)) requestID
                                   (rd_after (P i) s')),
                            if c = DeadlineExceeded then AcquireError ErrTooManyConnections
                            else AcquireError (AcquireContext c))
                  | None \<Rightarrow> acquire_loop st P requestID expiresAt (Suc i) s')))"

text \<open>\<open>newID\<close> is what the random source gives, \<open>hasMax\<close> whether a limit function is passed,
  \<open>t0\<close> the clock at the start and \<open>e0\<close> the environment of the enqueue.\<close>

definition Acquire ::
  "'s runtimeOrgConnectionLimiter option \<Rightarrow> string option \<Rightarrow> gotime \<Rightarrow> env \<Rightarrow> (nat \<Rightarrow> 's round) \<Rightarrow>
   int \<Rightarrow> string \<Rightarrow> bool \<Rightarrow> 's \<Rightarrow> ('s \<times> acquire_result) option" where
  "Acquire lo newID t0 e0 P pid protocol hasMax s =
     (case lo of
        None \<Rightarrow> Some (s, NoLease)
      | Some l \<Rightarrow>
          (case lim_store l of
             None \<Rightarrow> Some (s, NoLease)
           | Some st \<Rightarrow>
               if \<not> hasMax then Some (s, NoLease)
               else case newID of
                 None \<Rightarrow> Some (s, AcquireError AcquireNewID)
               | Some requestID \<Rightarrow>
                   let expiresAt = t0 + lim_queueTTL l;
                       entry = \<lparr>oq_RequestID = requestID, oq_OrgID = lim_orgID l,
                         oq_CPInstanceID = lim_cpInstanceID l, oq_PID = pid, oq_Protocol = protocol,
                         oq_EnqueuedAt = t0, oq_ExpiresAt = expiresAt, oq_GrantedAt = None,
                         oq_CanceledAt = None, oq_CreatedAt = 0, oq_UpdatedAt = 0\<rparr>
                   in (case oc_EnqueueOrgConnectionRequest st e0 (Some entry) s of
                         (s', Inl err) \<Rightarrow> Some (s', AcquireError (AcquireStore err))
                       | (s', Inr _) \<Rightarrow> acquire_loop st P requestID expiresAt 0 s')))"

definition lease_Release ::
  "env \<Rightarrow> ('s runtimeOrgConnectionStore option \<times> string) option \<Rightarrow> 's \<Rightarrow> 's \<times> unit result" where
  "lease_Release e lo s =
     (case lo of
        None \<Rightarrow> (s, Inr ())
      | Some (sto, leaseID) \<Rightarrow>
          (case sto of None \<Rightarrow> (s, Inr ()) | Some st \<Rightarrow> oc_ReleaseOrgConnectionLease st e leaseID s))"

section \<open>What the limiter relies on\<close>

text \<open>What the loop leaves behind: the lease it reports, or neither lease nor (unless the store
  failed) a waiting request.\<close>

definition settled_result ::
  "('s \<Rightarrow> bool) \<Rightarrow> ('s \<Rightarrow> bool) \<Rightarrow> string \<Rightarrow> (nat \<Rightarrow> 's round) \<Rightarrow> 's \<Rightarrow> acquire_result \<Rightarrow> bool" where
  "settled_result waiting leased rid P s r \<longleftrightarrow>
     r = Lease rid \<and> leased s \<or>
     (\<exists>x. r = AcquireError x) \<and> \<not> leased s \<and>
     ((\<forall>j. fault (rd_cancel (P j)) = None) \<and> (\<forall>err. r \<noteq> AcquireError (AcquireStore err)) \<longrightarrow> \<not> waiting s)"

text \<open>
  The interface, for one request id: \<open>waiting\<close> and \<open>leased\<close> say whether the request has
  an ungranted queue row or a lease. An attempt returns; it returns a lease only if the
  request has it, and none only if the request has none; an error leaves the request
  without a lease. A cancellation that succeeds removes an ungranted request.
  \<open>ok\<close> is the store's invariant; \<open>others\<close> are the steps of the rest of the cluster, which
  never lease this request.
\<close>

locale org_connection_store =
  fixes st :: "'s runtimeOrgConnectionStore" and rid :: string
    and ok :: "'s \<Rightarrow> bool" and waiting leased :: "'s \<Rightarrow> bool" and others :: "'s \<Rightarrow> 's \<Rightarrow> bool"
  assumes try_returns: "ok s \<Longrightarrow> \<exists>s' res. oc_TryAcquireOrgConnectionLease st E rid mx s = Some (s', res)"
    and try_ok: "ok s \<Longrightarrow> oc_TryAcquireOrgConnectionLease st E rid mx s = Some (s', res) \<Longrightarrow> ok s'"
    and try_lease: "ok s \<Longrightarrow> oc_TryAcquireOrgConnectionLease st E rid mx s = Some (s', Inr (Some l)) \<Longrightarrow>
      leased s' \<and> ol_LeaseID l = rid"
    and try_none: "ok s \<Longrightarrow> \<not> leased s \<Longrightarrow>
      oc_TryAcquireOrgConnectionLease st E rid mx s = Some (s', Inr None) \<Longrightarrow> \<not> leased s'"
    and try_error: "ok s \<Longrightarrow> \<not> leased s \<Longrightarrow>
      oc_TryAcquireOrgConnectionLease st E rid mx s = Some (s', Inl err) \<Longrightarrow> \<not> leased s'"
    and cancel_leased: "ok s \<Longrightarrow> \<not> leased s \<Longrightarrow> \<not> leased (fst (oc_CancelOrgConnectionRequest st e rid s))"
    and cancel_waiting: "ok s \<Longrightarrow> oc_CancelOrgConnectionRequest st e rid s = (s', Inr ()) \<Longrightarrow> \<not> waiting s'"
    and cancel_returns: "fault e = None \<Longrightarrow> \<exists>s'. oc_CancelOrgConnectionRequest st e rid s = (s', Inr ())"
    and others_ok: "others s s' \<Longrightarrow> ok s \<Longrightarrow> ok s'"
    and others_leased: "others s s' \<Longrightarrow> ok s \<Longrightarrow> \<not> leased s \<Longrightarrow> \<not> leased s'"
begin

lemma cancel_settled:
  assumes "ok s" and "\<not> leased s" and "\<And>err. x \<noteq> AcquireStore err"
  shows "settled_result waiting leased rid P (fst (oc_CancelOrgConnectionRequest st (rd_cancel (P i)) rid s)) (AcquireError x)"
proof -
  have "\<not> waiting (fst (oc_CancelOrgConnectionRequest st (rd_cancel (P i)) rid s))"
    if "fault (rd_cancel (P i)) = None"
    using cancel_returns [OF that, of s] cancel_waiting [OF assms(1)] by (metis fst_conv)
  then show ?thesis
    using assms cancel_leased by (auto simp: settled_result_def)
qed

text \<open>The loop returns by the round whose clock has passed the expiry.\<close>

lemma loop_correct:
  assumes "\<And>j s. others s (rd_before (P j) s)" and "\<And>j s. others s (rd_after (P j) s)"
    and "expiresAt \<le> rd_now (P (i + n))" and "ok s" and "\<not> leased s"
  shows "\<exists>s' r. acquire_loop st P rid expiresAt i s = Some (s', r) \<and> settled_result waiting leased rid P s' r"
  using assms(3-5)
proof (induction n arbitrary: i s)
  case 0
  then have "ok (rd_before (P i) s)" "\<not> leased (rd_before (P i) s)"
    using others_ok others_leased assms(1) by blast+
  with 0 show ?case by (subst acquire_loop.simps) (auto simp: Let_def intro: cancel_settled)
next
  case (Suc n)
  let ?s = "rd_before (P i) s"
  have ok: "ok ?s" and nl: "\<not> leased ?s" using others_ok others_leased assms(1) Suc.prems by blast+
  show ?case
  proof (cases "rd_now (P i) < expiresAt")
    case False
    with ok nl show ?thesis by (subst acquire_loop.simps) (auto simp: Let_def intro: cancel_settled)
  next
    case True
    from try_returns [OF ok] obtain s' res where
      t: "oc_TryAcquireOrgConnectionLease st (rd_env (P i)) rid (rd_max (P i)) ?s = Some (s', res)" by blast
    have ok': "ok s'" using try_ok [OF ok t] .
    consider (err) err where "res = Inl err" | (lease) l where "res = Inr (Some l)"
      | (stop) c where "res = Inr None" "rd_done (P i) = Some c"
      | (again) "res = Inr None" "rd_done (P i) = None"
      by (metis not_None_eq old.sum.exhaust)
    then show ?thesis
    proof cases
      case err
      with True t ok' try_error [OF ok nl] show ?thesis
        by (subst acquire_loop.simps) (auto simp: Let_def settled_result_def)
    next
      case lease
      with True t ok' try_lease [OF ok] show ?thesis
        by (subst acquire_loop.simps) (auto simp: Let_def settled_result_def)
    next
      case stop
      with t try_none [OF ok nl] have "\<not> leased s'" by blast
      with assms(2) ok' others_ok others_leased
      have "ok (rd_after (P i) s') \<and> \<not> leased (rd_after (P i) s')" by blast
      with True t stop show ?thesis
        by (subst acquire_loop.simps) (auto simp: Let_def intro: cancel_settled)
    next
      case again
      with t try_none [OF ok nl] have "\<not> leased s'" by blast
      with Suc.IH [of "Suc i" s'] Suc.prems(1) ok' obtain s'' r where
        "acquire_loop st P rid expiresAt (Suc i) s' = Some (s'', r)" "settled_result waiting leased rid P s'' r" by auto
      with True t again show ?thesis by (subst acquire_loop.simps) (auto simp: Let_def)
    qed
  qed
qed

end

section \<open>The config store implements the interface\<close>

definition conn_store ::
  "(string \<Rightarrow> string) \<Rightarrow> (nat \<Rightarrow> runtime_db \<Rightarrow> runtime_db) \<Rightarrow> runtime_db runtimeOrgConnectionStore" where
  "conn_store collate I =
     \<lparr>oc_EnqueueOrgConnectionRequest = EnqueueOrgConnectionRequest,
      oc_TryAcquireOrgConnectionLease =
        (\<lambda>E rid mx. TryAcquireOrgConnectionLease E collate I rid mx),
      oc_ReleaseOrgConnectionLease = ReleaseOrgConnectionLease,
      oc_CancelOrgConnectionRequest = CancelOrgConnectionRequest\<rparr>"

definition conn_ok :: "runtime_db \<Rightarrow> bool" where
  "conn_ok db \<longleftrightarrow> conn_keys db \<and> leases_granted db"

definition req_waiting :: "string \<Rightarrow> runtime_db \<Rightarrow> bool" where
  "req_waiting rid db \<longleftrightarrow> TrimSpace rid \<noteq> [] \<and> (\<exists>q \<in> set (org_connection_queue db).
     oq_RequestID q = rid \<and> oq_GrantedAt q = None \<and> oq_CanceledAt q = None)"

definition req_leased :: "string \<Rightarrow> runtime_db \<Rightarrow> bool" where
  "req_leased rid db \<longleftrightarrow> (\<exists>l \<in> set (org_connection_leases db). ol_RequestID l = rid)"

text \<open>What the rest of the cluster may do: keep the invariant, and not lease this request.\<close>

definition conn_others :: "string \<Rightarrow> runtime_db \<Rightarrow> runtime_db \<Rightarrow> bool" where
  "conn_others rid db db' \<longleftrightarrow>
     (conn_ok db \<longrightarrow> conn_ok db' \<and> (\<not> req_leased rid db \<longrightarrow> \<not> req_leased rid db'))"

definition keeps_request_org :: "string \<Rightarrow> (runtime_db \<Rightarrow> runtime_db) \<Rightarrow> bool" where
  "keeps_request_org rid f \<longleftrightarrow>
     (\<forall>db o'. orgIDForConnectionRequest (f db) rid = Some o' \<longrightarrow> orgIDForConnectionRequest db rid = Some o')"

lemma try_acquire_ok:
  assumes "conn_ok db" and "\<And>n db. conn_others rid db (I n db)"
    and "keeps_request_org rid (I 0)"
  shows "\<exists>db' res. TryAcquireOrgConnectionLease E collate I rid mx db = Some (db', res) \<and> conn_ok db' \<and>
    (\<forall>l. res = Inr (Some l) \<longrightarrow> req_leased rid db' \<and> ol_LeaseID l = rid) \<and>
    ((\<forall>l. res \<noteq> Inr (Some l)) \<and> \<not> req_leased rid db \<longrightarrow> \<not> req_leased rid db')"
proof (cases "TrimSpace rid = [] \<or> fault (E 0) \<noteq> None \<or> orgIDForConnectionRequest db rid = None")
  case True
  with assms show ?thesis
    by (auto simp: TryAcquireOrgConnectionLease_def acquire_attempts.simps [of E]
        tryAcquireOrgConnectionLeaseOnce_def conn_others_def split: option.splits)
next
  case False
  then obtain org where org: "orgIDForConnectionRequest db rid = Some org" by blast
  let ?db = "I 0 db"
  have ok: "conn_ok ?db" and nl: "\<not> req_leased rid db \<longrightarrow> \<not> req_leased rid ?db"
    using assms(1,2) by (auto simp: conn_others_def)
  obtain db' res where acq: "acquire_locked (E 0) collate org rid mx ?db = (db', res)" by fastforce
  have "\<forall>o'. orgIDForConnectionRequest ?db rid = Some o' \<longrightarrow> o' = org"
    using assms(3) org unfolding keeps_request_org_def by (metis option.inject)
  then have retry: "res \<noteq> Inr (lease, True)" for lease
    using acquire_no_retry [of ?db rid org "E 0" collate mx lease] ok acq by (simp add: conn_ok_def)
  have once: "TryAcquireOrgConnectionLease E collate I rid mx db = Some (db', map_sum id fst res)"
    using retry False org acq
    by (auto simp: TryAcquireOrgConnectionLease_def acquire_attempts.simps [of E]
        tryAcquireOrgConnectionLeaseOnce_def split: sum.splits)
  have ok': "conn_ok db'"
    using acquire_keys acquire_granted ok acq unfolding conn_ok_def by (metis fst_conv)
  have "\<exists>err. res = Inl err \<and> db' = ?db" if "\<And>x. res \<noteq> Inr x"
    by (rule acquire_locked_cases [of "E 0" collate org rid mx ?db]) (use acq that in auto)
  moreover have "req_leased rid db' \<and> ol_LeaseID l = rid" if "res = Inr (Some l, b)" for l b
    using acquire_lease_mem [of "E 0" collate org rid mx ?db db' l] acq that retry [of "Some l"] ok'
    by (cases b) (auto simp: req_leased_def conn_ok_def leases_granted_def)
  moreover have "\<not> req_leased rid db'" if "res = Inr (None, b)" for b
    using acquire_none [of ?db "E 0" collate org rid mx db'] acq that retry [of None] ok
    by (cases b) (auto simp: req_leased_def conn_ok_def)
  ultimately show ?thesis unfolding once using ok' nl by (cases res) (auto, blast?)
qed

lemma conn_store_laws:
  assumes "\<And>n db. conn_others rid db (I n db)" and "keeps_request_org rid (I 0)"
  shows "org_connection_store (conn_store collate I) rid conn_ok (req_waiting rid) (req_leased rid) (conn_others rid)"
proof -
  note attempt = try_acquire_ok [where I = I and rid = rid, OF _ assms]
  have result: "conn_ok db' \<and> (\<forall>l. res = Inr (Some l) \<longrightarrow> req_leased rid db' \<and> ol_LeaseID l = rid) \<and>
      ((\<forall>l. res \<noteq> Inr (Some l)) \<and> \<not> req_leased rid db \<longrightarrow> \<not> req_leased rid db')"
    if "conn_ok db" "TryAcquireOrgConnectionLease E collate I rid mx db = Some (db', res)" for E mx db db' res
    using attempt [OF that(1), of E collate mx] that(2) by auto
  have returns: "\<exists>db' res. TryAcquireOrgConnectionLease E collate I rid mx db = Some (db', res)"
    if "conn_ok db" for E mx db
    using attempt [OF that, of E collate mx] by blast
  have r: "conn_ok db \<Longrightarrow> TryAcquireOrgConnectionLease E collate I rid mx db = Some (db', res) \<Longrightarrow> conn_ok db'"
    "conn_ok db \<Longrightarrow> TryAcquireOrgConnectionLease E collate I rid mx db = Some (db', Inr (Some l)) \<Longrightarrow>
      req_leased rid db'"
    "conn_ok db \<Longrightarrow> TryAcquireOrgConnectionLease E collate I rid mx db = Some (db', Inr (Some l)) \<Longrightarrow>
      ol_LeaseID l = rid"
    "conn_ok db \<Longrightarrow> \<not> req_leased rid db \<Longrightarrow>
      TryAcquireOrgConnectionLease E collate I rid mx db = Some (db', Inr None) \<Longrightarrow> \<not> req_leased rid db'"
    "conn_ok db \<Longrightarrow> \<not> req_leased rid db \<Longrightarrow>
      TryAcquireOrgConnectionLease E collate I rid mx db = Some (db', Inl err) \<Longrightarrow> \<not> req_leased rid db'"
    for E mx db db' res l err
    using result by fastforce+
  have ops: "oc_TryAcquireOrgConnectionLease (conn_store collate I) E rid mx db =
      TryAcquireOrgConnectionLease E collate I rid mx db"
    "oc_CancelOrgConnectionRequest (conn_store collate I) = CancelOrgConnectionRequest" for E mx db
    by (simp_all add: conn_store_def)
  have cancel: "\<not> req_waiting rid db'" if "CancelOrgConnectionRequest e rid db = (db', Inr ())" for e db db'
    using that by (auto simp: CancelOrgConnectionRequest_def req_waiting_def sql_delete_def
        split: if_splits option.splits)
  have cancels: "\<exists>db'. CancelOrgConnectionRequest e rid db = (db', Inr ())" if "fault e = None" for e db
    using that by (simp add: CancelOrgConnectionRequest_def)
  have leased: "req_leased rid (fst (CancelOrgConnectionRequest e rid db)) = req_leased rid db" for e db
    by (simp add: req_leased_def Cancel_frame)
  show ?thesis
    unfolding org_connection_store_def ops leased conn_others_def
    by (intro conjI allI impI)
      (erule returns | erule (1) r(1) | erule (1) r(2) | erule (1) r(3) | erule (2) r(4) | erule (2) r(5)
       | erule cancel | erule cancels | assumption | blast)+
qed

text \<open>The store of a single control plane: nothing interferes within an attempt.\<close>

interpretation quiet: org_connection_store "conn_store collate (\<lambda>_ db. db)" rid conn_ok
  "req_waiting rid" "req_leased rid" "conn_others rid" for collate rid
  by (rule conn_store_laws) (simp_all add: conn_others_def keeps_request_org_def)

text \<open>The other control planes' operations, on other requests, are such steps.\<close>

lemma conn_others_ops:
  "conn_others rid db (fst (EnqueueOrgConnectionRequest e entry db))"
  "rid' \<noteq> rid \<Longrightarrow> conn_others rid db (fst (acquire_locked e collate org rid' mx db))"
  "conn_others rid db (fst (ReleaseOrgConnectionLease e leaseID db))"
  "conn_others rid db (fst (CancelOrgConnectionRequest e rid' db))"
proof -
  show "conn_others rid db (fst (EnqueueOrgConnectionRequest e entry db))"
    using Enqueue_frame
    by (fastforce simp: conn_others_def conn_ok_def req_leased_def leases_granted_def)
  show "conn_others rid db (fst (ReleaseOrgConnectionLease e leaseID db))"
    using Release_frame Release_granted by (fastforce simp: conn_others_def conn_ok_def req_leased_def)
  show "conn_others rid db (fst (CancelOrgConnectionRequest e rid' db))"
    using Cancel_frame by (simp add: conn_others_def conn_ok_def req_leased_def)
  assume ne: "rid' \<noteq> rid"
  have "\<not> req_leased rid (fst (acquire_locked e collate org rid' mx db))" if "\<not> req_leased rid db"
  proof -
    have clean: "ol_RequestID l \<noteq> rid"
      if "l \<in> set (org_connection_leases (cleanupOrgConnectionRowsLocked org (now e) db))" for l
      using that \<open>\<not> req_leased rid db\<close> cleanup_sets(1) unfolding req_leased_def by blast
    show ?thesis
    proof (rule acquire_locked_cases [of e collate org rid' mx db], goal_cases)
      case (1 request l)
      from sql_find_SomeD [OF 1(3) [unfolded lockOrgConnectionRequest_def]] have "oq_RequestID request = rid'" ..
      with 1(1) ne clean createOrgConnectionLease_Inr(1,3) [OF 1(2)] show ?thesis
        by (auto simp: req_leased_def)
    qed (use that clean in \<open>auto simp: req_leased_def\<close>)
  qed
  with acquire_keys acquire_granted show "conn_others rid db (fst (acquire_locked e collate org rid' mx db))"
    by (simp add: conn_others_def conn_ok_def)
qed

section \<open>Properties\<close>

lemma clock_runs_out:
  assumes "0 < lim_pollInterval l"
    and "\<forall>i. rd_now (P i) + poll_wait l expiresAt (rd_now (P i)) \<le> rd_now (P (Suc i))"
  shows "rd_now (P 0) + int n \<le> rd_now (P n)"
proof (induction n)
  case (Suc n)
  have "1 \<le> poll_wait l expiresAt (rd_now (P n))" using assms(1) by (simp add: poll_wait_def)
  with Suc assms(2) show ?case by (smt (verit) of_nat_Suc)
qed simp

text \<open>\<^bold>\<open>C23\<close>. Acquiring a connection always comes back and leaves no residue: if every timer waits at
  least its duration, the other control planes keep the tables' invariant and never lease
  this request, then \<^verbatim>\<open>Acquire\<close> returns. It reports a lease exactly when the request has one
  in the table; after any error the request has no lease, and if the store did not fail no
  ungranted request either, so it never holds up the organisation's queue.\<close>

theorem acquire_returns_without_residue:
  assumes "conn_ok db" and "\<not> req_leased rid db" and "TrimSpace rid \<noteq> []"
    and "lim_store l = Some (conn_store collate I)"
    and "\<forall>n db. conn_others rid db (I n db)" and "keeps_request_org rid (I 0)"
    and "\<forall>j db. conn_others rid db (rd_before (P j) db) \<and> conn_others rid db (rd_after (P j) db)"
    and "0 < lim_pollInterval l"
    and "\<forall>i. rd_now (P i) + poll_wait l (t0 + lim_queueTTL l) (rd_now (P i)) \<le> rd_now (P (Suc i))"
  shows "\<exists>db' r. Acquire (Some l) (Some rid) t0 e0 P pid protocol True db = Some (db', r) \<and>
    (r = Lease rid \<and> req_leased rid db' \<or>
     (\<exists>x. r = AcquireError x) \<and> \<not> req_leased rid db' \<and>
     ((\<forall>j. fault (rd_cancel (P j)) = None) \<and> (\<forall>err. r \<noteq> AcquireError (AcquireStore err)) \<longrightarrow>
       \<not> (\<exists>q \<in> set (org_connection_queue db'). oq_RequestID q = rid \<and> oq_GrantedAt q = None \<and>
            oq_CanceledAt q = None)))"
proof -
  let ?exp = "t0 + lim_queueTTL l"
  let ?entry = "\<lparr>oq_RequestID = rid, oq_OrgID = lim_orgID l, oq_CPInstanceID = lim_cpInstanceID l,
    oq_PID = pid, oq_Protocol = protocol, oq_EnqueuedAt = t0, oq_ExpiresAt = ?exp,
    oq_GrantedAt = None, oq_CanceledAt = None, oq_CreatedAt = 0, oq_UpdatedAt = 0\<rparr>"
  obtain db0 res where enq: "EnqueueOrgConnectionRequest e0 (Some ?entry) db = (db0, res)" by fastforce
  have ok: "conn_ok db0" and nl: "\<not> req_leased rid db0"
    using conn_others_ops(1) [of rid db e0 "Some ?entry"] enq assms(1,2) by (auto simp: conn_others_def)
  have laws: "org_connection_store (conn_store collate I) rid conn_ok (req_waiting rid) (req_leased rid) (conn_others rid)"
    by (rule conn_store_laws) (use assms(5,6) in auto)
  have "?exp \<le> rd_now (P (0 + nat (?exp - rd_now (P 0))))"
    using clock_runs_out [OF assms(8,9), of "nat (?exp - rd_now (P 0))"]
    by (auto split: if_splits)
  with org_connection_store.loop_correct [OF laws, of P ?exp 0 _ db0] assms(7) ok nl
  have "\<exists>s r. acquire_loop (conn_store collate I) P rid ?exp 0 db0 = Some (s, r) \<and>
      settled_result (req_waiting rid) (req_leased rid) rid P s r" by blast
  moreover have "oc_EnqueueOrgConnectionRequest (conn_store collate I) = EnqueueOrgConnectionRequest"
    by (simp add: conn_store_def)
  ultimately show ?thesis
    using enq nl assms(3,4)
    by (cases res) (auto simp: Acquire_def Let_def settled_result_def req_waiting_def)
qed

text \<open>An empty cluster, a limiter whose clock advances by its poll interval, no failures.\<close>

definition ex_round :: "nat \<Rightarrow> runtime_db round" where
  "ex_round i = \<lparr>rd_now = 1 + int i * 10, rd_max = 1, rd_env = (\<lambda>_. \<lparr>now = 1 + int i * 10, fault = None\<rparr>),
     rd_done = None, rd_cancel = \<lparr>now = 0, fault = None\<rparr>, rd_before = (\<lambda>db. db), rd_after = (\<lambda>db. db)\<rparr>"

definition ex_limiter :: "runtime_db runtimeOrgConnectionLimiter" where
  "ex_limiter = \<lparr>lim_store = Some (conn_store id (\<lambda>_ db. db)), lim_orgID = ''o'', lim_cpInstanceID = ''cp'',
     lim_queueTTL = 60, lim_pollInterval = 10\<rparr>"

theorem acquire_returns_without_residue_witness:
  "\<exists>db' r. Acquire (Some ex_limiter) (Some ''r'') 1 \<lparr>now = 1, fault = None\<rparr> ex_round 7 ''pg'' True empty_db =
     Some (db', r) \<and> (r = Lease ''r'' \<and> req_leased ''r'' db' \<or> (\<exists>x. r = AcquireError x) \<and> \<not> req_leased ''r'' db')"
proof -
  have trim: "TrimSpace ''r'' \<noteq> []"
    by (rule TrimSpace_keeps [of "CHR ''r''"]) (simp_all add: go_space_runes_def)
  have start: "conn_ok empty_db" "\<not> req_leased ''r'' empty_db"
    by (simp_all add: conn_ok_def conn_keys_def leases_granted_def req_leased_def empty_db_def)
  have quiet: "\<forall>(n::nat) db. conn_others ''r'' db db" "keeps_request_org ''r'' (\<lambda>db. db)"
    "\<forall>j db. conn_others ''r'' db (rd_before (ex_round j) db) \<and> conn_others ''r'' db (rd_after (ex_round j) db)"
    by (simp_all add: conn_others_def keeps_request_org_def ex_round_def)
  have lim: "lim_store ex_limiter = Some (conn_store id (\<lambda>_ db. db))" "0 < lim_pollInterval ex_limiter"
    by (simp_all add: ex_limiter_def)
  have clock: "\<forall>i. rd_now (ex_round i) + poll_wait ex_limiter (1 + lim_queueTTL ex_limiter) (rd_now (ex_round i))
      \<le> rd_now (ex_round (Suc i))"
    by (simp add: ex_round_def poll_wait_def ex_limiter_def)
  from acquire_returns_without_residue [OF start trim lim(1) quiet lim(2) clock,
      of "\<lparr>now = 1, fault = None\<rparr>" 7 "''pg''"]
  show ?thesis by (elim exE conjE) (intro exI conjI, assumption, auto)
qed

end
