(* ===== verification/Janitor.thy ===== *)
theory Janitor
  imports Worker_Lifecycle Control_Plane_Store
begin

text \<open>
  The janitor of the leading control plane (\<^verbatim>\<open>controlplane/janitor.go\<close>) and the heartbeat of
  every control plane (\<^verbatim>\<open>controlplane/runtime_tracker.go\<close>). One tick of the janitor is a
  sequence of store calls; the \<open>n\<close>-th call of the tick, and the \<open>n\<close>-th reading of its clock,
  has the environment \<open>sc_env Sc n\<close>, and before it the other control planes have changed the
  tables by \<open>sc_others Sc n\<close>.
\<close>

section \<open>Snapshot-typed listings\<close>

definition ListOrphanedWorkerSnapshots :: "env \<Rightarrow> gotime \<Rightarrow> runtime_db \<Rightarrow> WorkerSnapshot list result" where
  "ListOrphanedWorkerSnapshots e before db =
     map_sum id (map NewWorkerSnapshot) (ListOrphanedWorkers e before db)"

definition ListStuckWorkerSnapshots ::
  "env \<Rightarrow> gotime \<Rightarrow> gotime \<Rightarrow> runtime_db \<Rightarrow> WorkerSnapshot list result" where
  "ListStuckWorkerSnapshots e spawningBefore activatingBefore db =
     map_sum id (map NewWorkerSnapshot) (ListStuckWorkers e spawningBefore activatingBefore db)"

definition ListExpiredHotIdleSnapshots :: "env \<Rightarrow> gotime \<Rightarrow> runtime_db \<Rightarrow> WorkerSnapshot list result" where
  "ListExpiredHotIdleSnapshots e before db =
     map_sum id (map NewWorkerSnapshot) (ListExpiredHotIdleWorkers e before db)"

definition ListWorkerRecordSnapshotsByStatesBefore ::
  "env \<Rightarrow> WorkerState list \<Rightarrow> gotime \<Rightarrow> runtime_db \<Rightarrow> WorkerSnapshot list result" where
  "ListWorkerRecordSnapshotsByStatesBefore e states updatedBefore db =
     map_sum id (map NewWorkerSnapshot) (ListWorkerRecordsByStatesBefore e states updatedBefore db)"

definition ObserveWorker :: "env \<Rightarrow> int \<Rightarrow> runtime_db \<Rightarrow> WorkerSnapshot option result" where
  "ObserveWorker e workerID db =
     map_sum id (map_option NewWorkerSnapshot) (GetWorkerRecord e workerID db)"

section \<open>A tick of the janitor\<close>

definition defaultWarmCapacityMissBucketTTL :: duration where
  "defaultWarmCapacityMissBucketTTL = 15 * Minute"

record schedule =
  sc_env :: "nat \<Rightarrow> env"
  sc_others :: "nat \<Rightarrow> runtime_db \<Rightarrow> runtime_db"

record ControlPlaneJanitor =
  j_expiryTimeout :: duration
  j_orphanGrace :: duration
  j_spawnTimeout :: duration
  j_activateTimeout :: duration
  j_maxDrainTimeout :: duration
  j_hotIdleTTL :: duration
  j_warmCapacityMissBucketTTL :: duration
  j_lifecycle :: "runtime_db WorkerLifecycle option"
  j_retireMismatchedVersionWorker :: "(runtime_db world \<Rightarrow> runtime_db world) option"
  j_cleanupOrphanedWorkerPods :: "(runtime_db world \<Rightarrow> runtime_db world) option"
  j_reconcileWarmCapacity :: "(runtime_db world \<Rightarrow> runtime_db world) option"

text \<open>\<open>demandTTL\<close> is \<^verbatim>\<open>DefaultWarmCapacityDemandTTL\<close>; the polling interval only paces the ticks.\<close>

definition NewControlPlaneJanitor :: "duration \<Rightarrow> duration \<Rightarrow> ControlPlaneJanitor" where
  "NewControlPlaneJanitor demandTTL expiryTimeout =
     \<lparr>j_expiryTimeout = (if expiryTimeout \<le> 0 then 20 * Second else expiryTimeout),
      j_orphanGrace = 30 * Second, j_spawnTimeout = 2 * Minute, j_activateTimeout = 2 * Minute,
      j_maxDrainTimeout = 15 * Minute, j_hotIdleTTL = 0, j_warmCapacityMissBucketTTL = demandTTL,
      j_lifecycle = None, j_retireMismatchedVersionWorker = None, j_cleanupOrphanedWorkerPods = None,
      j_reconcileWarmCapacity = None\<rparr>"

text \<open>The state of a tick: how many calls were made, and the world.\<close>

type_synonym tick = "nat \<times> runtime_db world"

definition read_clock :: "schedule \<Rightarrow> tick \<Rightarrow> tick \<times> gotime" where
  "read_clock Sc = (\<lambda>(n, wd). ((Suc n, wd), now (sc_env Sc n)))"

definition store_call :: "schedule \<Rightarrow> (env \<Rightarrow> runtime_db \<Rightarrow> runtime_db \<times> 'a) \<Rightarrow> tick \<Rightarrow> tick \<times> 'a" where
  "store_call Sc f = (\<lambda>(n, db, ds).
     case f (sc_env Sc n) (sc_others Sc n db) of (db', r) \<Rightarrow> ((Suc n, db', ds), r))"

definition store_read :: "schedule \<Rightarrow> (env \<Rightarrow> runtime_db \<Rightarrow> 'a) \<Rightarrow> tick \<Rightarrow> tick \<times> 'a" where
  "store_read Sc f = store_call Sc (\<lambda>e db. (db, f e db))"

definition lifecycle_call :: "schedule \<Rightarrow> (env \<Rightarrow> runtime_db transition) \<Rightarrow> tick \<Rightarrow> tick" where
  "lifecycle_call Sc f = (\<lambda>(n, db, ds). (Suc n, fst (f (sc_env Sc n) (sc_others Sc n db, ds))))"

text \<open>A listing that failed is an empty one: the error is only logged.\<close>

definition listed :: "'a list result \<Rightarrow> 'a list" where
  "listed r = (case r of Inl _ \<Rightarrow> [] | Inr xs \<Rightarrow> xs)"

fun retire_orphans :: "schedule \<Rightarrow> runtime_db WorkerLifecycle \<Rightarrow> WorkerSnapshot list \<Rightarrow> tick \<Rightarrow> tick" where
  "retire_orphans Sc l [] tk = tk"
| "retire_orphans Sc l (snap # snaps) tk =
     retire_orphans Sc l snaps
       (lifecycle_call Sc (\<lambda>e. RetireOrphanFromSnapshot e (Some l) snap ''orphaned'') tk)"

fun retire_listed ::
  "schedule \<Rightarrow> runtime_db WorkerLifecycle \<Rightarrow> string \<Rightarrow> WorkerSnapshot list \<Rightarrow> tick \<Rightarrow> tick" where
  "retire_listed Sc l reason [] tk = tk"
| "retire_listed Sc l reason (snap # snaps) tk =
     retire_listed Sc l reason snaps
       (lifecycle_call Sc (\<lambda>e. RetireFromSnapshot e (Some l) snap WorkerStateRetired reason) tk)"

definition run_hook :: "(runtime_db world \<Rightarrow> runtime_db world) option \<Rightarrow> tick \<Rightarrow> tick" where
  "run_hook h = (\<lambda>(n, wd). (n, case h of None \<Rightarrow> wd | Some f \<Rightarrow> f wd))"

text \<open>The three parts of \<^verbatim>\<open>runOnce\<close> in the order of the source.\<close>

definition expire_phase :: "schedule \<Rightarrow> ControlPlaneJanitor \<Rightarrow> tick \<Rightarrow> tick" where
  "expire_phase Sc j tk0 =
     (let (tk1, t) = read_clock Sc tk0;
          (tk2, _) = store_call Sc (\<lambda>e. ExpireControlPlaneInstances e (t - j_expiryTimeout j)) tk1
      in if j_maxDrainTimeout j > 0
         then let (tk3, t') = read_clock Sc tk2;
                  (tk4, _) = store_call Sc
                    (\<lambda>e. ExpireDrainingControlPlaneInstances e (t' - j_maxDrainTimeout j)) tk3
              in tk4
         else tk2)"

definition reap_orphans :: "schedule \<Rightarrow> ControlPlaneJanitor \<Rightarrow> runtime_db WorkerLifecycle \<Rightarrow> tick \<Rightarrow> tick" where
  "reap_orphans Sc j l tk0 =
     (let (tk1, t) = read_clock Sc tk0;
          (tk2, orphaned) = store_read Sc (\<lambda>e. ListOrphanedWorkerSnapshots e (t - j_orphanGrace j)) tk1
      in retire_orphans Sc l (listed orphaned) tk2)"

definition reap_stuck :: "schedule \<Rightarrow> ControlPlaneJanitor \<Rightarrow> runtime_db WorkerLifecycle \<Rightarrow> tick \<Rightarrow> tick" where
  "reap_stuck Sc j l tk0 =
     (let (tk1, t) = read_clock Sc tk0;
          (tk2, t') = read_clock Sc tk1;
          (tk3, stuckWorkers) = store_read Sc
            (\<lambda>e. ListStuckWorkerSnapshots e (t - j_spawnTimeout j) (t' - j_activateTimeout j)) tk2
      in retire_listed Sc l ''stuck_activating'' (listed stuckWorkers) tk3)"

definition reap_hot_idle :: "schedule \<Rightarrow> ControlPlaneJanitor \<Rightarrow> runtime_db WorkerLifecycle \<Rightarrow> tick \<Rightarrow> tick" where
  "reap_hot_idle Sc j l tk0 =
     (if j_hotIdleTTL j > 0
      then let (tk1, t) = read_clock Sc tk0;
               (tk2, expired) = store_read Sc (\<lambda>e. ListExpiredHotIdleSnapshots e (t - j_hotIdleTTL j)) tk1
           in retire_listed Sc l ''hot_idle_ttl_expired'' (listed expired) tk2
      else tk0)"

definition reap_workers :: "schedule \<Rightarrow> ControlPlaneJanitor \<Rightarrow> tick \<Rightarrow> tick" where
  "reap_workers Sc j tk =
     (case j_lifecycle j of
        None \<Rightarrow> tk
      | Some l \<Rightarrow> reap_hot_idle Sc j l (reap_stuck Sc j l (reap_orphans Sc j l tk)))"

definition tidy_phase :: "schedule \<Rightarrow> ControlPlaneJanitor \<Rightarrow> tick \<Rightarrow> tick" where
  "tidy_phase Sc j tk0 =
     (let (tk1, t) = read_clock Sc tk0;
          (tk2, _) = store_call Sc (\<lambda>e. ExpireFlightSessionRecords e t) tk1;
          ttl = (if j_warmCapacityMissBucketTTL j \<le> 0 then defaultWarmCapacityMissBucketTTL
                 else j_warmCapacityMissBucketTTL j);
          (tk3, t') = read_clock Sc tk2;
          (tk4, _) = store_call Sc
            (\<lambda>e. PruneWarmCapacityMissBuckets e (Truncate (t' - ttl) WarmCapacityMissBucketSize)) tk3
      in run_hook (j_reconcileWarmCapacity j)
           (run_hook (j_cleanupOrphanedWorkerPods j)
             (run_hook (j_retireMismatchedVersionWorker j) tk4)))"

definition runOnce :: "schedule \<Rightarrow> ControlPlaneJanitor \<Rightarrow> runtime_db world \<Rightarrow> runtime_db world" where
  "runOnce Sc j wd = snd (tidy_phase Sc j (reap_workers Sc j (expire_phase Sc j (0, wd))))"

section \<open>The heartbeat\<close>

record ControlPlaneRuntimeTracker =
  t_id :: string
  t_podName :: string
  t_podUID :: string
  t_bootID :: string
  t_draining :: bool
  t_started :: bool
  t_startedAt :: gotime
  t_drainingAt :: "gotime option"

definition NewControlPlaneRuntimeTracker :: "string \<Rightarrow> string \<Rightarrow> string \<Rightarrow> string \<Rightarrow> ControlPlaneRuntimeTracker" where
  "NewControlPlaneRuntimeTracker id' podName podUID bootID =
     \<lparr>t_id = id', t_podName = podName, t_podUID = podUID, t_bootID = bootID, t_draining = False,
      t_started = False, t_startedAt = 0, t_drainingAt = None\<rparr>"

definition upsertAt ::
  "env \<Rightarrow> ControlPlaneRuntimeTracker \<Rightarrow> gotime \<Rightarrow> runtime_db \<Rightarrow> runtime_db \<times> unit result" where
  "upsertAt e t now' =
     UpsertControlPlaneInstance e
       \<lparr>cp_ID = t_id t, cp_PodName = t_podName t, cp_PodUID = t_podUID t, cp_BootID = t_bootID t,
        cp_State = (if t_draining t then ControlPlaneInstanceStateDraining else ControlPlaneInstanceStateActive),
        cp_StartedAt = t_startedAt t, cp_LastHeartbeatAt = now',
        cp_DrainingAt = (if t_draining t then t_drainingAt t else None), cp_ExpiredAt = None,
        cp_CreatedAt = 0, cp_UpdatedAt = 0\<rparr>"

text \<open>\<^verbatim>\<open>Start\<close>; whether the heartbeat loop was started is part of the result.\<close>

definition tracker_Start ::
  "env \<Rightarrow> gotime \<Rightarrow> ControlPlaneRuntimeTracker \<Rightarrow> runtime_db \<Rightarrow>
   (ControlPlaneRuntimeTracker \<times> runtime_db) \<times> (store_error + bool)" where
  "tracker_Start e now' t db =
     (if t_started t then ((t, db), Inr False)
      else let t' = t\<lparr>t_started := True, t_startedAt := now'\<rparr> in
        case upsertAt e t' now' db of
          (db', Inl err) \<Rightarrow> ((t', db'), Inl err)
        | (db', Inr _) \<Rightarrow> ((t', db'), Inr True))"

definition heartbeat :: "env \<Rightarrow> gotime \<Rightarrow> ControlPlaneRuntimeTracker \<Rightarrow> runtime_db \<Rightarrow> runtime_db" where
  "heartbeat e now' t db = fst (upsertAt e t now' db)"

definition MarkDraining ::
  "env \<Rightarrow> gotime \<Rightarrow> ControlPlaneRuntimeTracker \<Rightarrow> runtime_db \<Rightarrow>
   (ControlPlaneRuntimeTracker \<times> runtime_db) \<times> unit result" where
  "MarkDraining e now' t db =
     (let t1 = t\<lparr>t_drainingAt := (case t_drainingAt t of None \<Rightarrow> Some now' | Some d \<Rightarrow> Some d),
                 t_startedAt := (if t_started t then t_startedAt t else now'),
                 t_started := True, t_draining := True\<rparr>
      in case upsertAt e t1 now' db of (db', r) \<Rightarrow> ((t1, db'), r))"

end
