(* ===== verification/Janitor_Safety.thy ===== *)
theory Janitor_Safety
  imports Janitor
begin

text \<open>
  What a tick of the janitor does to the workers: it is a run of the lifecycle service, so it
  never deletes the pod of a worker whose row is not terminal; and undisturbed it retires
  every orphan it may retire. The heartbeat keeps its own control plane alive.
\<close>

section \<open>A tick is a run of the lifecycle service\<close>

abbreviation service_run :: "runtime_db WorkerLifecycle \<Rightarrow> runtime_db world \<Rightarrow> runtime_db world \<Rightarrow> bool" where
  "service_run l \<equiv> (lifecycle_step l worker_step)\<^sup>*\<^sup>*"

lemma worker_steps_service_run: "worker_step\<^sup>*\<^sup>* db db' \<Longrightarrow> service_run l (db, ds) (db', ds)"
  by (induction rule: rtranclp_induct) (auto intro: lifecycle_step.other rtranclp.rtrancl_into_rtrancl)

lemma read_clock_world [simp]: "snd (fst (read_clock Sc tk)) = snd tk"
  by (cases tk) (simp add: read_clock_def)

lemma store_call_run:
  assumes "\<And>n db. worker_step\<^sup>*\<^sup>* db (sc_others Sc n db)" and "\<And>e db. worker_step db (fst (f e db))"
  shows "service_run l (snd tk) (snd (fst (store_call Sc f tk)))"
proof -
  obtain n db ds where tk: "tk = (n, db, ds)" by (cases tk) auto
  have "worker_step\<^sup>*\<^sup>* db (fst (f (sc_env Sc n) (sc_others Sc n db)))"
    using assms rtranclp.rtrancl_into_rtrancl by metis
  from worker_steps_service_run [OF this, of l ds] show ?thesis
    by (simp add: tk store_call_def case_prod_beta)
qed

lemma lifecycle_call_run:
  assumes "\<And>n db. worker_step\<^sup>*\<^sup>* db (sc_others Sc n db)"
    and "\<And>e wd. lifecycle_step l worker_step wd (fst (f e wd))"
  shows "service_run l (snd tk) (snd (lifecycle_call Sc f tk))"
proof -
  obtain n db ds where tk: "tk = (n, db, ds)" by (cases tk) auto
  have "service_run l (db, ds) (sc_others Sc n db, ds)" by (rule worker_steps_service_run [OF assms(1)])
  with assms(2) show ?thesis by (simp add: tk lifecycle_call_def rtranclp.rtrancl_into_rtrancl)
qed

lemma orphan_call_run:
  assumes "\<And>n db. worker_step\<^sup>*\<^sup>* db (sc_others Sc n db)"
  shows "service_run l (snd tk) (snd (lifecycle_call Sc (\<lambda>e. RetireOrphanFromSnapshot e (Some l) snap reason) tk))"
  by (rule lifecycle_call_run [OF assms]) (rule lifecycle_step.orphan)

lemma retire_orphans_run:
  assumes "\<And>n db. worker_step\<^sup>*\<^sup>* db (sc_others Sc n db)"
  shows "service_run l (snd tk) (snd (retire_orphans Sc l snaps tk))"
proof (induction snaps arbitrary: tk)
  case (Cons snap snaps)
  show ?case
    unfolding retire_orphans.simps
    by (rule rtranclp_trans [OF orphan_call_run [OF assms] Cons.IH])
qed simp

lemma retire_listed_run:
  assumes "\<And>n db. worker_step\<^sup>*\<^sup>* db (sc_others Sc n db)"
  shows "service_run l (snd tk) (snd (retire_listed Sc l reason snaps tk))"
proof (induction snaps arbitrary: tk)
  case (Cons snap snaps)
  show ?case
    unfolding retire_listed.simps
    by (rule rtranclp_trans [OF lifecycle_call_run [OF assms] Cons.IH]) (rule lifecycle_step.retire)
qed simp

lemma expire_frame [simp]:
  "worker_records (fst (ExpireControlPlaneInstances e t db)) = worker_records db"
  "worker_records (fst (ExpireDrainingControlPlaneInstances e t db)) = worker_records db"
  "worker_records (fst (ExpireFlightSessionRecords e t db)) = worker_records db"
  "worker_records (fst (PruneWarmCapacityMissBuckets e t db)) = worker_records db"
  by (auto simp: ExpireControlPlaneInstances_def ExpireDrainingControlPlaneInstances_def expire_instances_def
      ExpireFlightSessionRecords_def update_sessions_def PruneWarmCapacityMissBuckets_def
      split: option.splits prod.splits)

lemma frame_run:
  assumes "\<And>n db. worker_step\<^sup>*\<^sup>* db (sc_others Sc n db)"
    and "\<And>e db. worker_records (fst (f e db)) = worker_records db"
  shows "service_run l (snd tk) (snd (fst (store_call Sc f tk)))"
  by (rule store_call_run [OF assms(1)]) (rule worker_step.other_tables [OF assms(2)])

lemma store_read_run:
  assumes "\<And>n db. worker_step\<^sup>*\<^sup>* db (sc_others Sc n db)"
  shows "service_run l (snd tk) (snd (fst (store_read Sc f tk)))"
  unfolding store_read_def by (rule frame_run [OF assms]) simp

text \<open>Phases read the clock and then make calls; a run through them composes.\<close>

lemma after_clock:
  assumes "service_run l (snd (fst (read_clock Sc tk))) wd" shows "service_run l (snd tk) wd"
  using assms by simp

lemma expire_phase_run:
  assumes "\<And>n db. worker_step\<^sup>*\<^sup>* db (sc_others Sc n db)"
  shows "service_run l (snd tk) (snd (expire_phase Sc j tk))"
proof -
  have first: "service_run l (snd tk) (snd (fst (store_call Sc (\<lambda>e. ExpireControlPlaneInstances e c) tk)))" for c tk
    by (rule frame_run [OF assms]) simp
  have second: "service_run l (snd tk) (snd (fst (store_call Sc (\<lambda>e. ExpireDrainingControlPlaneInstances e c) tk)))"
    for c tk
    by (rule frame_run [OF assms]) simp
  show ?thesis
    unfolding expire_phase_def Let_def case_prod_beta
    by (cases "0 < j_maxDrainTimeout j")
      (simp_all only: if_True if_False after_clock [OF first] after_clock [OF rtranclp_trans [OF first after_clock [OF second]]])
qed

lemma reap_orphans_run:
  assumes "\<And>n db. worker_step\<^sup>*\<^sup>* db (sc_others Sc n db)"
  shows "service_run l (snd tk) (snd (reap_orphans Sc j l tk))"
  unfolding reap_orphans_def Let_def case_prod_beta
  by (rule after_clock, rule rtranclp_trans [OF store_read_run [OF assms] retire_orphans_run [OF assms]])

lemma reap_stuck_run:
  assumes "\<And>n db. worker_step\<^sup>*\<^sup>* db (sc_others Sc n db)"
  shows "service_run l (snd tk) (snd (reap_stuck Sc j l tk))"
  unfolding reap_stuck_def Let_def case_prod_beta
  by (rule after_clock, rule after_clock,
      rule rtranclp_trans [OF store_read_run [OF assms] retire_listed_run [OF assms]])

lemma reap_hot_idle_run:
  assumes "\<And>n db. worker_step\<^sup>*\<^sup>* db (sc_others Sc n db)"
  shows "service_run l (snd tk) (snd (reap_hot_idle Sc j l tk))"
proof (cases "0 < j_hotIdleTTL j")
  case True
  show ?thesis
    unfolding reap_hot_idle_def Let_def case_prod_beta if_P [OF True]
    by (rule after_clock, rule rtranclp_trans [OF store_read_run [OF assms] retire_listed_run [OF assms]])
qed (simp add: reap_hot_idle_def)

lemma reap_workers_run:
  assumes "\<And>n db. worker_step\<^sup>*\<^sup>* db (sc_others Sc n db)" and "j_lifecycle j = None \<or> j_lifecycle j = Some l"
  shows "service_run l (snd tk) (snd (reap_workers Sc j tk))"
  using assms(2) unfolding reap_workers_def
  by (auto intro: rtranclp_trans [OF rtranclp_trans [OF reap_orphans_run [OF assms(1)] reap_stuck_run [OF assms(1)]]
        reap_hot_idle_run [OF assms(1)]] simp del: split_paired_All split_paired_Ex)

text \<open>The three hooks of the tick are the pool's; the tick relies on them being runs too.\<close>

definition hooks_run :: "runtime_db WorkerLifecycle \<Rightarrow> ControlPlaneJanitor \<Rightarrow> bool" where
  "hooks_run l j \<longleftrightarrow>
     (\<forall>h \<in> {j_retireMismatchedVersionWorker j, j_cleanupOrphanedWorkerPods j, j_reconcileWarmCapacity j}.
        \<forall>f. h = Some f \<longrightarrow> (\<forall>wd. service_run l wd (f wd)))"

lemma run_hook_run:
  assumes "\<forall>f. h = Some f \<longrightarrow> (\<forall>wd. service_run l wd (f wd))"
  shows "service_run l (snd tk) (snd (run_hook h tk))"
  using assms by (cases tk) (auto simp: run_hook_def split: option.splits simp del: split_paired_All)

lemma tidy_phase_run:
  assumes "\<And>n db. worker_step\<^sup>*\<^sup>* db (sc_others Sc n db)" and "hooks_run l j"
  shows "service_run l (snd tk) (snd (tidy_phase Sc j tk))"
proof -
  have flight: "service_run l (snd tk) (snd (fst (store_call Sc (\<lambda>e. ExpireFlightSessionRecords e c) tk)))" for c tk
    by (rule frame_run [OF assms(1)]) simp
  have prune: "service_run l (snd tk) (snd (fst (store_call Sc (\<lambda>e. PruneWarmCapacityMissBuckets e c) tk)))" for c tk
    by (rule frame_run [OF assms(1)]) simp
  have hooks: "service_run l (snd tk) (snd (run_hook (j_reconcileWarmCapacity j)
      (run_hook (j_cleanupOrphanedWorkerPods j) (run_hook (j_retireMismatchedVersionWorker j) tk))))" for tk
    using assms(2) unfolding hooks_run_def
    by (intro rtranclp_trans [OF rtranclp_trans [OF run_hook_run run_hook_run] run_hook_run]) blast+
  show ?thesis
    unfolding tidy_phase_def Let_def case_prod_beta
    by (rule after_clock, rule rtranclp_trans [OF flight], rule after_clock,
        rule rtranclp_trans [OF prune hooks])
qed

lemma later_phases_run:
  assumes "\<And>n db. worker_step\<^sup>*\<^sup>* db (sc_others Sc n db)" and "hooks_run l j"
  shows "service_run l (snd tk) (snd (tidy_phase Sc j (reap_hot_idle Sc j l (reap_stuck Sc j l tk))))"
  by (rule rtranclp_trans [OF rtranclp_trans [OF reap_stuck_run [OF assms(1)] reap_hot_idle_run [OF assms(1)]]
        tidy_phase_run [OF assms]])

lemma runOnce_run:
  assumes "\<And>n db. worker_step\<^sup>*\<^sup>* db (sc_others Sc n db)" and "hooks_run l j"
    and "j_lifecycle j = None \<or> j_lifecycle j = Some l"
  shows "service_run l wd (runOnce Sc j wd)"
proof -
  have "service_run l (snd (0 :: nat, wd)) (runOnce Sc j wd)"
    unfolding runOnce_def
    by (rule rtranclp_trans [OF rtranclp_trans [OF expire_phase_run reap_workers_run] tidy_phase_run])
      (rule assms)+
  then show ?thesis by simp
qed

section \<open>Undisturbed ticks\<close>

text \<open>A retirement touches the worker it names and no other, and no other table.\<close>

lemma update_workers_frame:
  assumes "\<And>r. P r \<Longrightarrow> wr_WorkerID r = i" and "\<And>r. wr_WorkerID (f r) = wr_WorkerID r"
  shows "w \<noteq> i \<Longrightarrow> worker_row (fst (update_workers e P f db)) w = worker_row db w"
    and "cp_instances (fst (update_workers e P f db)) = cp_instances db"
    and "flight_session_records (fst (update_workers e P f db)) = flight_session_records db"
proof -
  have "find (\<lambda>r. wr_WorkerID r = w) (map (\<lambda>r. if P r then f r else r) rs) = find (\<lambda>r. wr_WorkerID r = w) rs"
    if "w \<noteq> i" for rs
    using that assms by (induction rs) auto
  then show "w \<noteq> i \<Longrightarrow> worker_row (fst (update_workers e P f db)) w = worker_row db w"
    by (auto simp: update_workers_def worker_row_def sql_find_def sql_update_def split: option.splits)
qed (simp_all add: update_workers_def case_prod_beta Let_def split: option.splits)

lemma retire_frame:
  shows "w \<noteq> wr_WorkerID obs \<Longrightarrow>
      worker_row (fst (RetireOrphanWorker e (Some obs) reason db)) w = worker_row db w"
    and "cp_instances (fst (RetireOrphanWorker e (Some obs) reason db)) = cp_instances db"
    and "w \<noteq> wr_WorkerID obs \<Longrightarrow>
      worker_row (fst (MarkWorkerTerminalIfCurrent e (Some obs) t reason db)) w = worker_row db w"
    and "cp_instances (fst (MarkWorkerTerminalIfCurrent e (Some obs) t reason db)) = cp_instances db"
  unfolding RetireOrphanWorker_def MarkWorkerTerminalIfCurrent_def option.case
  by (auto simp: observed_fence_def intro!: update_workers_frame)

lemma orphan_call_world:
  assumes "wl_store l = config_store" and "\<And>n db. sc_others Sc n db = db"
  shows "fst (snd (lifecycle_call Sc (\<lambda>e. RetireOrphanFromSnapshot e (Some l) snap reason) (n, db, ds))) =
    fst (RetireOrphanWorker (sc_env Sc n) (Some (snap_record snap)) reason db)"
  using assms
  by (auto simp: lifecycle_call_def RetireOrphanFromSnapshot_def config_store_def Let_def
      split: prod.splits sum.splits)

lemma retire_call_world:
  assumes "wl_store l = config_store" and "\<And>n db. sc_others Sc n db = db"
  shows "fst (snd (lifecycle_call Sc (\<lambda>e. RetireFromSnapshot e (Some l) snap WorkerStateRetired reason) (n, db, ds))) =
    fst (MarkWorkerTerminalIfCurrent (sc_env Sc n) (Some (snap_record snap)) WorkerStateRetired reason db)"
  using assms
  by (auto simp: lifecycle_call_def RetireFromSnapshot_def config_store_def Let_def
      split: prod.splits sum.splits)

lemma retire_orphans_frame:
  assumes "wl_store l = config_store" and "\<And>n db. sc_others Sc n db = db"
  shows "cp_instances (fst (snd (retire_orphans Sc l snaps tk))) = cp_instances (fst (snd tk)) \<and>
    (w \<notin> (wr_WorkerID \<circ> snap_record) ` set snaps \<longrightarrow>
      worker_row (fst (snd (retire_orphans Sc l snaps tk))) w = worker_row (fst (snd tk)) w)"
proof (induction snaps arbitrary: tk)
  case (Cons snap snaps)
  obtain n db ds where tk: "tk = (n, db, ds)" by (cases tk) auto
  show ?case using Cons.IH retire_frame(1,2) by (auto simp: tk orphan_call_world [OF assms])
qed simp

lemma retire_listed_frame:
  assumes "wl_store l = config_store" and "\<And>n db. sc_others Sc n db = db"
  shows "cp_instances (fst (snd (retire_listed Sc l reason snaps tk))) = cp_instances (fst (snd tk)) \<and>
    (w \<notin> (wr_WorkerID \<circ> snap_record) ` set snaps \<longrightarrow>
      worker_row (fst (snd (retire_listed Sc l reason snaps tk))) w = worker_row (fst (snd tk)) w)"
proof (induction snaps arbitrary: tk)
  case (Cons snap snaps)
  obtain n db ds where tk: "tk = (n, db, ds)" by (cases tk) auto
  show ?case using Cons.IH retire_frame(3,4) by (auto simp: tk retire_call_world [OF assms])
qed simp

text \<open>What any run keeps: the keys, the contract of the rows, and the deletions made.\<close>

lemma service_step_keeps:
  assumes "lifecycle_step l worker_step wd wd'" and "wl_store l = config_store"
    and "worker_keys (worker_records (fst wd))"
  shows "worker_keys (worker_records (fst wd')) \<and> db_evolves (fst wd) (fst wd') \<and> set (snd wd) \<subseteq> set (snd wd')"
proof -
  obtain db ds db' ds' where wd: "wd = (db, ds)" "wd' = (db', ds')" by (cases wd, cases wd') auto
  from cs.snapshot_transition_cases [OF assms(1) [unfolded wd] assms(2)] assms(3)
  have "worker_step db db' \<or> db' = db" "set ds \<subseteq> set ds'" by (auto simp: wd)
  with assms(3) show ?thesis by (auto simp: wd dest!: worker_step_sound simp: sound_step_def)
qed

lemma service_run_keeps:
  assumes "service_run l wd wd'" and "wl_store l = config_store" and "worker_keys (worker_records (fst wd))"
  shows "worker_keys (worker_records (fst wd')) \<and> db_evolves (fst wd) (fst wd') \<and> set (snd wd) \<subseteq> set (snd wd')"
  using assms(1)
proof (induction rule: rtranclp_induct)
  case base
  with assms(3) show ?case by simp
next
  case (step y z)
  with service_step_keeps [OF step.hyps(2) assms(2)] show ?case by (blast intro: db_evolves_trans)
qed

section \<open>Orphans are retired\<close>

definition may_retire :: "runtime_db \<Rightarrow> WorkerRecord \<Rightarrow> bool" where
  "may_retire db r \<longleftrightarrow> wr_State r \<in> set workerActiveStates \<and>
     (owner_string r \<noteq> [] \<longrightarrow> cp_not_live db (owner_string r))"

lemma observed_fence_self:
  "wr_State r \<in> set eligible \<Longrightarrow> observed_fence r eligible r"
  by (auto simp: observed_fence_def owner_string_def split: option.splits)

lemma orphan_call_hits:
  assumes "wl_store l = config_store" and "\<And>n db. sc_others Sc n db = db" and "fault (sc_env Sc n) = None"
    and "worker_keys (worker_records db)" and "worker_row db (wr_WorkerID r) = Some r" and "may_retire db r"
    and "snap_record snap = r"
    and "lifecycle_call Sc (\<lambda>e. RetireOrphanFromSnapshot e (Some l) snap reason) (n, db, ds) = (n', db', ds')"
  shows "(\<exists>q. worker_row db' (wr_WorkerID r) = Some q \<and> wr_State q = WorkerStateRetired) \<and>
    (wl_cleanup l \<longrightarrow> (wr_WorkerID r, wr_PodName r, reason) \<in> set ds')"
proof -
  obtain out err where call: "RetireOrphanFromSnapshot (sc_env Sc n) (Some l) snap reason (db, ds) = ((db', ds'), out, err)"
    using assms(2,8) by (auto simp: lifecycle_call_def) (metis prod.collapse)
  have "snd (RetireOrphanWorker (sc_env Sc n) (Some r) reason db) = Inr True"
    using RetireOrphanWorker_cases(1) [OF assms(4)] assms(3,5,6) observed_fence_self [of r]
    by (auto simp: may_retire_def workerTerminalEligibleStates_def)
  then obtain db1 where ret: "RetireOrphanWorker (sc_env Sc n) (Some r) reason db = (db1, Inr True)"
    by (metis prod.collapse)
  with call assms(1,7) have "db' = db1" "wl_cleanup l \<longrightarrow> (wr_WorkerID r, wr_PodName r, reason) \<in> set ds'"
    by (auto simp: RetireOrphanFromSnapshot_def config_store_def scheduleCleanup_def)
  with RetireOrphanWorker_hit [OF assms(4) ret] show ?thesis by auto
qed

lemma retire_orphans_hits:
  assumes "wl_store l = config_store" and "\<And>n db. sc_others Sc n db = db" and "\<And>n. fault (sc_env Sc n) = None"
    and "worker_keys (worker_records db)" and "distinct (map (wr_WorkerID \<circ> snap_record) snaps)"
    and "\<forall>snap \<in> set snaps. worker_row db (wr_WorkerID (snap_record snap)) = Some (snap_record snap) \<and>
      may_retire db (snap_record snap)"
    and "snap \<in> set snaps" and "retire_orphans Sc l snaps (n, db, ds) = (n', db', ds')"
  shows "(\<exists>q. worker_row db' (wr_WorkerID (snap_record snap)) = Some q \<and> wr_State q = WorkerStateRetired) \<and>
    (wl_cleanup l \<longrightarrow> (wr_WorkerID (snap_record snap), wr_PodName (snap_record snap), ''orphaned'') \<in> set ds')"
  using assms(4-8)
proof (induction snaps arbitrary: n db ds)
  case (Cons s snaps)
  obtain n1 db1 ds1 where call:
    "lifecycle_call Sc (\<lambda>e. RetireOrphanFromSnapshot e (Some l) s ''orphaned'') (n, db, ds) = (n1, db1, ds1)"
    by (metis prod.collapse)
  have others: "\<And>n db. worker_step\<^sup>*\<^sup>* db (sc_others Sc n db)" by (simp add: assms(2))
  have run1: "service_run l (db, ds) (db1, ds1)"
    using orphan_call_run [where Sc = Sc and l = l and tk = "(n, db, ds)" and snap = s and reason = "''orphaned''",
        OF others] call by simp
  have run2: "service_run l (db1, ds1) (db', ds')"
    using retire_orphans_run [where Sc = Sc and l = l and tk = "(n1, db1, ds1)" and snaps = snaps, OF others] Cons.prems(5) call by simp
  have k1: "worker_keys (worker_records db1)"
    using service_run_keeps [OF run1 assms(1)] Cons.prems(1) by simp
  have db1: "db1 = fst (RetireOrphanWorker (sc_env Sc n) (Some (snap_record s)) ''orphaned'' db)"
    using orphan_call_world [where Sc = Sc and snap = s and reason = "''orphaned''" and n = n and db = db and ds = ds,
        OF assms(1,2)] call by simp
  have rest: "\<forall>t \<in> set snaps. worker_row db1 (wr_WorkerID (snap_record t)) = Some (snap_record t) \<and>
      may_retire db1 (snap_record t)"
  proof
    fix t assume t: "t \<in> set snaps"
    with Cons.prems(2) have "wr_WorkerID (snap_record t) \<noteq> wr_WorkerID (snap_record s)"
      by (auto simp: rev_image_eqI)
    from retire_frame(1) [OF this] Cons.prems(3) t
    show "worker_row db1 (wr_WorkerID (snap_record t)) = Some (snap_record t) \<and> may_retire db1 (snap_record t)"
      by (simp add: db1 may_retire_def cp_not_live_def retire_frame(2))
  qed
  show ?case
  proof (cases "snap = s")
    case True
    from orphan_call_hits [OF assms(1,2,3) Cons.prems(1) _ _ refl call] Cons.prems(3)
    obtain q where q: "worker_row db1 (wr_WorkerID (snap_record s)) = Some q" "wr_State q = WorkerStateRetired"
      and del: "wl_cleanup l \<longrightarrow> (wr_WorkerID (snap_record s), wr_PodName (snap_record s), ''orphaned'') \<in> set ds1"
      by auto
    from service_run_keeps [OF run2 assms(1)] k1 have "db_evolves db1 db'" "set ds1 \<subseteq> set ds'" by auto
    with db_evolvesD [OF this(1) q(1)] q(2) del True show ?thesis
      by (auto simp: row_evolves_def terminal_def)
  next
    case False
    with Cons.IH [OF k1 _ rest, of n1 ds1] Cons.prems(2,4,5) call show ?thesis by simp
  qed
qed simp

definition reclaimable :: "runtime_db \<Rightarrow> int \<Rightarrow> bool" where
  "reclaimable db w \<longleftrightarrow> (\<exists>f \<in> set (flight_session_records db). fs_WorkerID f = w \<and>
     fs_State f \<in> {FlightSessionStateActive, FlightSessionStateReconnecting})"

lemma ListOrphanedWorkers_set:
  assumes "fault e = None" and "ListOrphanedWorkers e before db = Inr ws"
  shows "set ws = {r \<in> set (worker_records db). wr_State r \<in> set workerActiveStates \<and>
      is_orphaned db before r \<and> \<not> reclaimable db (wr_WorkerID r)}"
    and "worker_keys (worker_records db) \<Longrightarrow> distinct (map wr_WorkerID ws)"
  using assms
  by (auto simp: ListOrphanedWorkers_def reclaimable_def workerActiveStates_def worker_keys_def
      distinct_map inj_on_def)

lemma orphan_may_retire:
  assumes "distinct (map cp_ID (cp_instances db))" and "is_orphaned db before r"
    and "wr_State r \<in> set workerActiveStates"
  shows "may_retire db r"
proof -
  have "cp_not_live db own" if "owner_string r = own" "own \<noteq> []" for own
  proof -
    from that have own: "wr_OwnerCPInstanceID r = Some own" by (auto simp: owner_string_def split: option.splits)
    have "cp_State cp = ControlPlaneInstanceStateExpired"
      if cp: "cp \<in> set (cp_instances db)" "cp_ID cp = own" for cp
    proof -
      from sql_find_key [OF assms(1) cp(1)] own cp(2) have "owner_cp db r = Some cp" by (simp add: owner_cp_def)
      with assms(2) \<open>owner_string r = own\<close> \<open>own \<noteq> []\<close> show ?thesis by (auto simp: is_orphaned_def)
    qed
    then show ?thesis by (auto simp: cp_not_live_def)
  qed
  with assms(3) show ?thesis by (simp add: may_retire_def)
qed

lemma expire_distinct:
  "distinct (map cp_ID (cp_instances db)) \<Longrightarrow> distinct (map cp_ID (cp_instances (fst (expire_instances e P db))))"
  by (auto simp: expire_instances_def case_prod_beta intro: sql_update_distinct split: option.splits)

lemma expire_phase_distinct:
  assumes "\<And>n db. sc_others Sc n db = db" and "distinct (map cp_ID (cp_instances (fst (snd tk))))"
  shows "distinct (map cp_ID (cp_instances (fst (snd (expire_phase Sc j tk)))))"
proof (cases tk)
  case (fields n db ds)
  with assms show ?thesis
    by (auto simp: expire_phase_def read_clock_def store_call_def Let_def case_prod_beta
        ExpireControlPlaneInstances_def ExpireDrainingControlPlaneInstances_def intro!: expire_distinct)
qed

text \<open>\<^bold>\<open>C24\<close>. An undisturbed tick retires every orphan: if no statement fails and nobody interferes,
  then every worker that, after the control planes without a heartbeat have been expired, is
  active, whose owner has been expired (or is gone, or unknown and silent) for the grace
  period, and that no Flight session can still be resumed on, is retired by the end of the
  tick, and the deletion of its pod has been requested if a cleanup is configured.\<close>

theorem janitor_retires_orphans:
  assumes "\<forall>n db. sc_others Sc n db = db" and "\<forall>n. fault (sc_env Sc n) = None"
    and "worker_keys (worker_records db)" and "distinct (map cp_ID (cp_instances db))"
    and "j_lifecycle j = Some l" and "wl_store l = config_store" and "hooks_run l j"
    and "expire_phase Sc j (0, db, ds) = (n, db1, ds1)"
    and "r \<in> set (worker_records db1)" and "wr_State r \<in> set workerActiveStates"
    and "is_orphaned db1 (now (sc_env Sc n) - j_orphanGrace j) r" and "\<not> reclaimable db1 (wr_WorkerID r)"
    and "runOnce Sc j (db, ds) = (db', ds')"
  shows "(\<exists>q. worker_row db' (wr_WorkerID r) = Some q \<and> wr_State q = WorkerStateRetired) \<and>
    (wl_cleanup l \<longrightarrow> (wr_WorkerID r, wr_PodName r, ''orphaned'') \<in> set ds')"
proof -
  have quiet: "\<And>n db. sc_others Sc n db = db" and ok: "\<And>n. fault (sc_env Sc n) = None"
    and steps: "\<And>n db. worker_step\<^sup>*\<^sup>* db (sc_others Sc n db)" using assms(1,2) by simp_all
  have "service_run l (db, ds) (db1, ds1)"
    using expire_phase_run [where Sc = Sc and l = l and tk = "(0, db, ds)" and j = j, OF steps] assms(8) by simp
  from service_run_keeps [OF this assms(6)] assms(3) have k1: "worker_keys (worker_records db1)" by simp
  have d1: "distinct (map cp_ID (cp_instances db1))"
    using expire_phase_distinct [where Sc = Sc and tk = "(0, db, ds)" and j = j, OF quiet] assms(4,8) by simp
  let ?before = "now (sc_env Sc n) - j_orphanGrace j"
  obtain ws where ws: "ListOrphanedWorkers (sc_env Sc (Suc n)) ?before db1 = Inr ws"
    using ok by (simp add: ListOrphanedWorkers_def Let_def)
  note set_ws = ListOrphanedWorkers_set [OF ok ws]
  let ?snaps = "map NewWorkerSnapshot ws"
  obtain n2 db2 ds2 where orphans: "retire_orphans Sc l ?snaps (Suc (Suc n), db1, ds1) = (n2, db2, ds2)"
    by (metis prod.collapse)
  have reap: "reap_orphans Sc j l (n, db1, ds1) = (n2, db2, ds2)"
    using orphans ws quiet
    by (simp add: reap_orphans_def read_clock_def store_read_def store_call_def ListOrphanedWorkerSnapshots_def
        listed_def)
  have mem: "NewWorkerSnapshot r \<in> set ?snaps" using assms(9-12) set_ws(1) by simp
  have cur: "\<forall>snap \<in> set ?snaps. worker_row db1 (wr_WorkerID (snap_record snap)) = Some (snap_record snap) \<and>
      may_retire db1 (snap_record snap)"
    using set_ws(1) worker_row_mem [OF k1] orphan_may_retire [OF d1] by (auto simp: NewWorkerSnapshot_def)
  have dist: "distinct (map (wr_WorkerID \<circ> snap_record) ?snaps)"
    using set_ws(2) [OF k1] by (simp add: NewWorkerSnapshot_def comp_def)
  from retire_orphans_hits [OF assms(6) quiet ok k1 dist cur mem orphans]
  obtain q where q: "worker_row db2 (wr_WorkerID r) = Some q" "wr_State q = WorkerStateRetired"
    and del: "wl_cleanup l \<longrightarrow> (wr_WorkerID r, wr_PodName r, ''orphaned'') \<in> set ds2"
    by (auto simp: NewWorkerSnapshot_def)
  have "service_run l (db1, ds1) (db2, ds2)"
    using reap_orphans_run [where Sc = Sc and l = l and tk = "(n, db1, ds1)" and j = j, OF steps] reap by simp
  from service_run_keeps [OF this assms(6)] k1 have k2: "worker_keys (worker_records db2)" by simp
  have "snd (tidy_phase Sc j (reap_hot_idle Sc j l (reap_stuck Sc j l (n2, db2, ds2)))) = (db', ds')"
    using assms(5,8,13) reap by (simp add: runOnce_def reap_workers_def)
  then have "service_run l (db2, ds2) (db', ds')"
    using later_phases_run [where Sc = Sc and l = l and tk = "(n2, db2, ds2)", OF steps assms(7)] by simp
  from service_run_keeps [OF this assms(6)] k2 have "db_evolves db2 db'" "set ds2 \<subseteq> set ds'" by auto
  with db_evolvesD [OF this(1) q(1)] q(2) del show ?thesis by (auto simp: row_evolves_def terminal_def)
qed

text \<open>An example: a quiet schedule late enough for every timeout.\<close>

definition ex_schedule :: schedule where
  "ex_schedule = \<lparr>sc_env = (\<lambda>_. \<lparr>now = 1000000000000, fault = None\<rparr>), sc_others = (\<lambda>_ db. db)\<rparr>"

definition ex_janitor :: ControlPlaneJanitor where
  "ex_janitor = (NewControlPlaneJanitor 0 0)\<lparr>j_lifecycle := Some (NewWorkerLifecycle config_store True)\<rparr>"

lemma ex_janitor_simps:
  "j_lifecycle ex_janitor = Some (NewWorkerLifecycle config_store True)"
  "wl_store (NewWorkerLifecycle config_store True) = config_store" "wl_cleanup (NewWorkerLifecycle config_store True)"
  "hooks_run l ex_janitor" "\<forall>n db. sc_others ex_schedule n db = db" "\<forall>n. fault (sc_env ex_schedule n) = None"
  "now (sc_env ex_schedule n) - j_orphanGrace ex_janitor = 970000000000"
  by (simp_all add: ex_janitor_def NewControlPlaneJanitor_def NewWorkerLifecycle_def hooks_run_def ex_schedule_def
      Second_def)

lemma ex_expire:
  "expire_phase ex_schedule ex_janitor (0, ex_db ws, []) = (4, ex_db ws, [])"
  by (simp add: expire_phase_def read_clock_def store_call_def ex_schedule_def ex_janitor_def
      NewControlPlaneJanitor_def ExpireControlPlaneInstances_def ExpireDrainingControlPlaneInstances_def
      expire_instances_def sql_update_def ex_db_def empty_db_def duration_defs)

theorem janitor_retires_orphans_witness:
  "\<exists>q. worker_row (fst (runOnce ex_schedule ex_janitor (ex_db [ex_row 1 WorkerStateHot ''o'' ''gone'' 2], []))) 1 =
     Some q \<and> wr_State q = WorkerStateRetired"
proof -
  let ?r = "ex_row 1 WorkerStateHot ''o'' ''gone'' 2"
  obtain db' ds' where run: "runOnce ex_schedule ex_janitor (ex_db [?r], []) = (db', ds')" by fastforce
  have "is_orphaned (ex_db [?r]) 970000000000 ?r" "\<not> reclaimable (ex_db [?r]) (wr_WorkerID ?r)"
    "distinct (map cp_ID (cp_instances (ex_db [?r])))" "wr_State ?r \<in> set workerActiveStates"
    "?r \<in> set (worker_records (ex_db [?r]))"
    by (simp_all add: ex_defs is_orphaned_def owner_cp_def owner_string_def sql_find_def reclaimable_def
        workerActiveStates_def)
  with janitor_retires_orphans [OF ex_janitor_simps(5,6) ex_one_row(1) _ ex_janitor_simps(1,2,4) ex_expire,
      of 1 WorkerStateHot "''o''" "''gone''" 2 ?r db' ds'] run
  show ?thesis by (simp add: ex_janitor_simps(7)) (simp add: ex_row_def)
qed

section \<open>Workers of live control planes are spared\<close>

text \<open>What the sparing depends on: a row \<open>r\<close> of worker \<open>w\<close> whose owner is recorded as active.\<close>

definition held :: "ControlPlaneInstance \<Rightarrow> WorkerRecord \<Rightarrow> tick \<Rightarrow> bool" where
  "held cp r tk \<longleftrightarrow>
     worker_keys (worker_records (fst (snd tk))) \<and> distinct (map cp_ID (cp_instances (fst (snd tk)))) \<and>
     cp \<in> set (cp_instances (fst (snd tk))) \<and> worker_row (fst (snd tk)) (wr_WorkerID r) = Some r"

lemma held_clock: "held cp r (fst (read_clock Sc tk)) = held cp r tk"
  by (simp add: held_def)

lemma held_frame:
  assumes "held cp r tk" and "worker_keys (worker_records (fst (snd tk')))"
    and "cp_instances (fst (snd tk')) = cp_instances (fst (snd tk))"
    and "worker_row (fst (snd tk')) (wr_WorkerID r) = worker_row (fst (snd tk)) (wr_WorkerID r)"
  shows "held cp r tk'"
  using assms by (simp add: held_def)

lemma held_not_orphaned:
  assumes "held cp r (n, db, ds)" and "wr_OwnerCPInstanceID r = Some (cp_ID cp)" and "cp_ID cp \<noteq> []"
    and "cp_State cp = ControlPlaneInstanceStateActive"
  shows "\<not> is_orphaned db before r"
proof -
  have "owner_cp db r = Some cp"
    using sql_find_key [of cp_ID "cp_instances db" cp] assms(1,2) by (simp add: held_def owner_cp_def)
  with assms(2-4) show ?thesis by (simp add: is_orphaned_def owner_string_def)
qed

lemma held_unlisted:
  assumes "held cp r (n, db, ds)" and "set ws \<subseteq> {q \<in> set (worker_records db). P q}" and "\<not> P r"
  shows "wr_WorkerID r \<notin> (wr_WorkerID \<circ> snap_record) ` set (map NewWorkerSnapshot ws)"
proof
  assume "wr_WorkerID r \<in> (wr_WorkerID \<circ> snap_record) ` set (map NewWorkerSnapshot ws)"
  then obtain q where q: "q \<in> set ws" "wr_WorkerID q = wr_WorkerID r" by (auto simp: NewWorkerSnapshot_def)
  with worker_row_unique [of db q "wr_WorkerID r" r] assms(1,2) have "q = r" by (auto simp: held_def)
  with q(1) assms(2,3) show False by auto
qed

lemma held_store_read:
  assumes "\<And>n db. sc_others Sc n db = db"
  shows "held cp r (fst (store_read Sc f tk)) = held cp r tk"
  using assms by (cases tk) (simp add: store_read_def store_call_def held_def)

lemma retire_orphans_held:
  assumes "wl_store l = config_store" and "\<And>n db. sc_others Sc n db = db" and "held cp r tk"
    and "wr_WorkerID r \<notin> (wr_WorkerID \<circ> snap_record) ` set snaps"
  shows "held cp r (retire_orphans Sc l snaps tk)"
proof -
  have "service_run l (snd tk) (snd (retire_orphans Sc l snaps tk))"
    by (rule retire_orphans_run) (simp add: assms(2))
  from service_run_keeps [OF this assms(1)] assms(3)
  have "worker_keys (worker_records (fst (snd (retire_orphans Sc l snaps tk))))" by (simp add: held_def)
  from held_frame [OF assms(3) this] show ?thesis
    using retire_orphans_frame [where Sc = Sc and tk = tk and snaps = snaps, OF assms(1,2)] assms(4) by blast
qed

lemma retire_listed_held:
  assumes "wl_store l = config_store" and "\<And>n db. sc_others Sc n db = db" and "held cp r tk"
    and "wr_WorkerID r \<notin> (wr_WorkerID \<circ> snap_record) ` set snaps"
  shows "held cp r (retire_listed Sc l reason snaps tk)"
proof -
  have "service_run l (snd tk) (snd (retire_listed Sc l reason snaps tk))"
    by (rule retire_listed_run) (simp add: assms(2))
  from service_run_keeps [OF this assms(1)] assms(3)
  have "worker_keys (worker_records (fst (snd (retire_listed Sc l reason snaps tk))))" by (simp add: held_def)
  from held_frame [OF assms(3) this] show ?thesis
    using retire_listed_frame [where Sc = Sc and tk = tk and snaps = snaps and reason = reason, OF assms(1,2)] assms(4) by blast
qed

text \<open>A listing that leaves the row out leaves it out as snapshots, failed or not.\<close>

lemma listed_omits:
  assumes "held cp r tk" and "\<And>ws. lst = Inr ws \<Longrightarrow> set ws \<subseteq> {q \<in> set (worker_records (fst (snd tk))). P q}"
    and "\<not> P r"
  shows "wr_WorkerID r \<notin> (wr_WorkerID \<circ> snap_record) ` set (listed (map_sum id (map NewWorkerSnapshot) lst))"
proof (cases lst)
  case (Inr ws)
  obtain n db ds where "tk = (n, db, ds)" by (cases tk) auto
  with held_unlisted [of cp r n db ds ws P] assms Inr show ?thesis by (simp add: listed_def)
qed (simp add: listed_def)

lemma reap_held:
  assumes "wl_store l = config_store" and "\<And>n db. sc_others Sc n db = db" and "held cp r tk"
    and "wr_OwnerCPInstanceID r = Some (cp_ID cp)" "cp_ID cp \<noteq> []" "cp_State cp = ControlPlaneInstanceStateActive"
    and "wr_State r \<in> {WorkerStateIdle, WorkerStateHot, WorkerStateDraining}"
  shows "held cp r (reap_orphans Sc j l tk)" and "held cp r (reap_stuck Sc j l tk)"
    and "held cp r (reap_hot_idle Sc j l tk)"
proof -
  obtain n db ds where tk: "tk = (n, db, ds)" by (cases tk) auto
  note quiet = assms(2)
  have "wr_WorkerID r \<notin> (wr_WorkerID \<circ> snap_record) ` set (listed (ListOrphanedWorkerSnapshots e t db))" for e t
    unfolding ListOrphanedWorkerSnapshots_def
    by (rule listed_omits [OF assms(3), where P = "is_orphaned db t"])
      (use held_not_orphaned [OF assms(3) [unfolded tk] assms(4-6)] in
        \<open>auto simp: tk ListOrphanedWorkers_def split: option.splits\<close>)
  with quiet assms(3) show "held cp r (reap_orphans Sc j l tk)"
    unfolding reap_orphans_def Let_def case_prod_beta
    by (intro retire_orphans_held [OF assms(1)]) (simp_all add: held_store_read held_clock, simp add:
        store_read_def store_call_def read_clock_def tk)
  have "wr_WorkerID r \<notin> (wr_WorkerID \<circ> snap_record) ` set (listed (ListStuckWorkerSnapshots e t t' db))" for e t t'
    unfolding ListStuckWorkerSnapshots_def
    by (rule listed_omits [OF assms(3), where P = "\<lambda>q. wr_State q \<in> {WorkerStateSpawning, WorkerStateReserved,
        WorkerStateActivating}"]) (use assms(7) in \<open>auto simp: tk ListStuckWorkers_def split: option.splits\<close>)
  with quiet assms(3) show "held cp r (reap_stuck Sc j l tk)"
    unfolding reap_stuck_def Let_def case_prod_beta
    by (intro retire_listed_held [OF assms(1)]) (simp_all add: held_store_read held_clock, simp add:
        store_read_def store_call_def read_clock_def tk)
  have "wr_WorkerID r \<notin> (wr_WorkerID \<circ> snap_record) ` set (listed (ListExpiredHotIdleSnapshots e t db))" for e t
    unfolding ListExpiredHotIdleSnapshots_def
    by (rule listed_omits [OF assms(3), where P = "\<lambda>q. wr_State q = WorkerStateHotIdle"])
      (use assms(7) in \<open>auto simp: tk ListExpiredHotIdleWorkers_def split: option.splits\<close>)
  with quiet assms(3) show "held cp r (reap_hot_idle Sc j l tk)"
    unfolding reap_hot_idle_def Let_def case_prod_beta
    by (cases "0 < j_hotIdleTTL j"; simp only: if_True if_False)
      (intro retire_listed_held [OF assms(1)], simp_all add: held_store_read held_clock, simp add:
        store_read_def store_call_def read_clock_def tk)
qed

lemma expire_call_held:
  assumes "\<And>n db. sc_others Sc n db = db" and "held cp r tk" and "\<not> P cp"
  shows "held cp r (fst (store_call Sc (\<lambda>e. expire_instances e P) tk))"
proof -
  obtain n db ds where tk: "tk = (n, db, ds)" by (cases tk) auto
  let ?db = "fst (expire_instances (sc_env Sc n) P db)"
  have "worker_records ?db = worker_records db"
    by (auto simp: expire_instances_def split: option.splits prod.splits)
  moreover have "cp \<in> set (cp_instances ?db)"
    using assms(2,3) by (auto simp: tk held_def expire_instances_def sql_update_def split: option.splits intro: rev_image_eqI)
  moreover have "distinct (map cp_ID (cp_instances ?db))"
    using assms(2) by (intro expire_distinct) (simp add: tk held_def)
  ultimately show ?thesis
    using assms(1,2) by (simp add: tk store_call_def case_prod_beta held_def worker_row_def)
qed

lemma expire_phase_held:
  assumes "\<And>n db. sc_others Sc n db = db" and "held cp r tk" and "cp_State cp = ControlPlaneInstanceStateActive"
    and "\<And>n. now (sc_env Sc n) - j_expiryTimeout j \<le> cp_LastHeartbeatAt cp"
  shows "held cp r (expire_phase Sc j tk)"
proof -
  have t: "snd (read_clock Sc tk) - j_expiryTimeout j \<le> cp_LastHeartbeatAt cp" for tk
    using assms(4) by (cases tk) (simp add: read_clock_def)
  show ?thesis
    unfolding expire_phase_def Let_def case_prod_beta ExpireControlPlaneInstances_def
      ExpireDrainingControlPlaneInstances_def
    using t [of tk] assms(3) by (auto intro!: expire_call_held [OF assms(1)] simp: held_clock assms(2) not_less)
qed

lemma tidy_phase_held:
  assumes "\<And>n db. sc_others Sc n db = db" and "held cp r tk"
    and "j_retireMismatchedVersionWorker j = None" "j_cleanupOrphanedWorkerPods j = None"
      "j_reconcileWarmCapacity j = None"
  shows "held cp r (tidy_phase Sc j tk)"
proof -
  have keep: "held cp r (fst (store_call Sc f tk))"
    if "held cp r tk" "\<And>e db. worker_records (fst (f e db)) = worker_records db \<and>
      cp_instances (fst (f e db)) = cp_instances db" for tk and f :: "env \<Rightarrow> runtime_db \<Rightarrow> runtime_db \<times> int result"
    using that assms(1) by (cases tk) (simp add: store_call_def case_prod_beta held_def worker_row_def)
  have flight: "worker_records (fst (ExpireFlightSessionRecords e t db)) = worker_records db \<and>
      cp_instances (fst (ExpireFlightSessionRecords e t db)) = cp_instances db" for e t db
    by (auto simp: ExpireFlightSessionRecords_def update_sessions_def split: option.splits prod.splits)
  have prune: "worker_records (fst (PruneWarmCapacityMissBuckets e t db)) = worker_records db \<and>
      cp_instances (fst (PruneWarmCapacityMissBuckets e t db)) = cp_instances db" for e t db
    by (auto simp: PruneWarmCapacityMissBuckets_def split: option.splits prod.splits)
  have hook: "run_hook None tk = tk" for tk by (cases tk) (simp add: run_hook_def)
  show ?thesis
    unfolding tidy_phase_def Let_def case_prod_beta assms(3-5) hook
    by (intro keep) (simp_all add: held_clock keep assms(2) flight prune)
qed



section \<open>The heartbeat\<close>

lemma sql_upsert_mem:
  "\<exists>q \<in> set (sql_upsert key merge r rs). q = r \<or> (\<exists>old. q = merge r old \<and> key old = key r)"
proof (cases "key r \<in> key ` set rs")
  case True
  then obtain old where "old \<in> set rs" "key old = key r" by auto
  then show ?thesis
    using True by (intro bexI [of _ "merge r old"]) (auto simp: sql_upsert_def intro: rev_image_eqI)
qed (simp add: sql_upsert_def)

lemma heartbeat_row:
  assumes "fault e = None" and "distinct (map cp_ID (cp_instances db))"
  shows "\<exists>cp. sql_find (\<lambda>c. cp_ID c = t_id tr) (cp_instances (heartbeat e t tr db)) = Some cp \<and>
    cp_ID cp = t_id tr \<and> cp_LastHeartbeatAt cp = t \<and> cp_ExpiredAt cp = None \<and>
    cp_State cp = (if t_draining tr then ControlPlaneInstanceStateDraining else ControlPlaneInstanceStateActive)"
proof -
  let ?db = "heartbeat e t tr db"
  have dist: "distinct (map cp_ID (cp_instances ?db))"
    using assms by (simp add: heartbeat_def upsertAt_def UpsertControlPlaneInstance_def Let_def sql_upsert_distinct)
  let ?merge = "\<lambda>new old. new\<lparr>cp_ID := cp_ID old, cp_CreatedAt := cp_CreatedAt old\<rparr>"
  define inst where "inst = \<lparr>cp_ID = t_id tr, cp_PodName = t_podName tr, cp_PodUID = t_podUID tr,
    cp_BootID = t_bootID tr,
    cp_State = (if t_draining tr then ControlPlaneInstanceStateDraining else ControlPlaneInstanceStateActive),
    cp_StartedAt = t_startedAt tr, cp_LastHeartbeatAt = t,
    cp_DrainingAt = (if t_draining tr then t_drainingAt tr else None), cp_ExpiredAt = None,
    cp_CreatedAt = now e, cp_UpdatedAt = now e\<rparr>"
  have "cp_instances ?db = sql_upsert cp_ID ?merge inst (cp_instances db)"
    using assms(1) by (simp add: heartbeat_def upsertAt_def UpsertControlPlaneInstance_def inst_def)
  with sql_upsert_mem [of cp_ID ?merge inst "cp_instances db"] obtain cp where
    cp: "cp \<in> set (cp_instances ?db)" "cp_ID cp = t_id tr" "cp_LastHeartbeatAt cp = t" "cp_ExpiredAt cp = None"
    "cp_State cp = (if t_draining tr then ControlPlaneInstanceStateDraining else ControlPlaneInstanceStateActive)"
    by (auto simp: inst_def)
  from sql_find_key [OF dist cp(1)] cp show ?thesis by (intro exI [of _ cp]) simp
qed

text \<open>\<^bold>\<open>C26\<close>. A heartbeat makes its control plane live, whatever its row said before: afterwards it is
  listed as live, none of its workers counts as orphaned, retiring one of them as an orphan
  reports no transition, and the janitor does not expire it by a cutoff that is not after
  the heartbeat unless it drains. In particular the heartbeat of a control plane that drains
  undoes an expiry by the drain timeout.\<close>

theorem heartbeat_protects_workers:
  assumes "fault e = None" and "distinct (map cp_ID (cp_instances db))" and "t_id tr \<noteq> []"
    and "db' = heartbeat e t tr db" and "fault e' = None"
    and "wr_OwnerCPInstanceID r = Some (t_id tr)"
  shows "(\<exists>ids. ListLiveControlPlaneInstanceIDs e' db' = Inr ids \<and> t_id tr \<in> set ids) \<and>
    \<not> is_orphaned db' before r \<and> RetireOrphanWorker e' (Some r) reason db' = (db', Inr False) \<and>
    (\<forall>cutoff \<le> t. \<exists>cp \<in> set (cp_instances (fst (ExpireControlPlaneInstances e' cutoff db'))).
       cp_ID cp = t_id tr \<and> cp_State cp \<noteq> ControlPlaneInstanceStateExpired)"
proof -
  from heartbeat_row [OF assms(1,2), of tr t] assms(4) obtain cp where
    find: "sql_find (\<lambda>c. cp_ID c = t_id tr) (cp_instances db') = Some cp" and
    cp: "cp_ID cp = t_id tr" "cp_LastHeartbeatAt cp = t" "cp_State cp \<noteq> ControlPlaneInstanceStateExpired"
    by (auto split: if_splits)
  from sql_find_SomeD [OF find] have mem: "cp \<in> set (cp_instances db')" by simp
  have own: "owner_string r = t_id tr" "owner_cp db' r = Some cp"
    using assms(6) find by (simp_all add: owner_string_def owner_cp_def)
  have live: "\<not> cp_not_live db' (t_id tr)" using mem cp by (auto simp: cp_not_live_def)
  have "cp \<in> set (cp_instances (fst (ExpireControlPlaneInstances e' cutoff db')))" if "cutoff \<le> t" for cutoff
    using mem cp that assms(5)
    by (auto simp: ExpireControlPlaneInstances_def expire_instances_def sql_update_def intro: rev_image_eqI)
  moreover have "\<not> is_orphaned db' before r"
    using own cp(3) assms(3) by (simp add: is_orphaned_def)
  moreover have "RetireOrphanWorker e' (Some r) reason db' = (db', Inr False)"
    using own live assms(3,5) by (simp add: RetireOrphanWorker_def update_workers_no_match)
  moreover have "\<exists>ids. ListLiveControlPlaneInstanceIDs e' db' = Inr ids \<and> t_id tr \<in> set ids"
    using mem cp assms(5) by (auto simp: ListLiveControlPlaneInstanceIDs_def intro: rev_image_eqI [of cp])
  ultimately show ?thesis using cp by blast
qed

theorem heartbeat_protects_workers_witness:
  "let tr = fst (fst (MarkDraining ex_env 10 (NewControlPlaneRuntimeTracker ''cp1'' ''p'' ''u'' ''b'') empty_db));
       db' = heartbeat ex_env 20 tr (fst (ExpireDrainingControlPlaneInstances ex_env 15
               (snd (fst (MarkDraining ex_env 10 (NewControlPlaneRuntimeTracker ''cp1'' ''p'' ''u'' ''b'') empty_db)))))
   in \<not> is_orphaned db' 1000 (ex_row 1 WorkerStateHot ''o'' ''cp1'' 2)"
proof -
  let ?m = "fst (MarkDraining ex_env 10 (NewControlPlaneRuntimeTracker ''cp1'' ''p'' ''u'' ''b'') empty_db)"
  let ?db = "fst (ExpireDrainingControlPlaneInstances ex_env 15 (snd ?m))"
  have "distinct (map cp_ID (cp_instances ?db))" "t_id (fst ?m) = ''cp1''" "fault ex_env = None"
    by (simp_all add: MarkDraining_def NewControlPlaneRuntimeTracker_def upsertAt_def UpsertControlPlaneInstance_def
        sql_upsert_def ExpireDrainingControlPlaneInstances_def expire_instances_def sql_update_def ex_env_def empty_db_def)
  with heartbeat_protects_workers [of ex_env ?db "fst ?m" _ 20 ex_env "ex_row 1 WorkerStateHot ''o'' ''cp1'' 2" 1000,
      OF _ _ _ refl]
  show ?thesis by (simp add: Let_def ex_row_def)
qed

end
