(* ===== verification/Rate_Limiter.thy ===== *)
theory Rate_Limiter
  imports Prelude "HOL-Library.AList" "HOL-Library.Multiset"
begin

text \<open>
  The per-address connection and authentication limits (\<^verbatim>\<open>server/auth/ratelimit.go\<close>). Every
  operation holds the limiter's mutex, so it is one step; \<open>t\<close> is the clock it reads. The
  records are an association list with distinct keys, and the gauge of banned addresses is
  part of the state. A network address is its text, or none.
\<close>

section \<open>State\<close>

record RateLimitConfig =
  MaxFailedAttempts :: int
  FailedAttemptWindow :: duration
  BanDuration :: duration
  MaxConnectionsPerIP :: int
  MaxConnections :: int

definition DefaultRateLimitConfig :: RateLimitConfig where
  "DefaultRateLimitConfig = \<lparr>MaxFailedAttempts = 5, FailedAttemptWindow = 5 * Minute, BanDuration = 15 * Minute,
     MaxConnectionsPerIP = 500, MaxConnections = 1024\<rparr>"

record ipRecord =
  failedAttempts :: "gotime list"
  bannedUntil :: gotime
  activeConns :: int

definition new_ipRecord :: ipRecord where
  "new_ipRecord = \<lparr>failedAttempts = [], bannedUntil = 0, activeConns = 0\<rparr>"

record RateLimiter =
  config :: RateLimitConfig
  records :: "(string \<times> ipRecord) list"
  totalActiveConns :: int
  rateLimitedIPsGauge :: int

definition NewRateLimiter :: "RateLimitConfig \<Rightarrow> RateLimiter" where
  "NewRateLimiter cfg = \<lparr>config = cfg, records = [], totalActiveConns = 0, rateLimitedIPsGauge = 0\<rparr>"

section \<open>Addresses\<close>

fun index_byte :: "char \<Rightarrow> string \<Rightarrow> nat option" where
  "index_byte c [] = None"
| "index_byte c (x # xs) = (if x = c then Some 0 else map_option Suc (index_byte c xs))"

fun last_index_byte :: "char \<Rightarrow> string \<Rightarrow> nat option" where
  "last_index_byte c [] = None"
| "last_index_byte c (x # xs) =
     (case last_index_byte c xs of Some i \<Rightarrow> Some (Suc i) | None \<Rightarrow> if x = c then Some 0 else None)"

text \<open>The host of \<^verbatim>\<open>net.SplitHostPort\<close>, or an error.\<close>

definition SplitHostPort_host :: "string \<Rightarrow> string option" where
  "SplitHostPort_host hostport =
     (case last_index_byte (CHR '':'') hostport of
        None \<Rightarrow> None
      | Some i \<Rightarrow>
          if hd hostport = CHR ''[''
          then (case index_byte (CHR '']'') hostport of
                  None \<Rightarrow> None
                | Some end' \<Rightarrow>
                    if end' + 1 \<noteq> i then None
                    else if CHR ''['' \<in> set (drop 1 hostport) \<or> CHR '']'' \<in> set (drop (end' + 1) hostport)
                    then None
                    else Some (take (end' - 1) (drop 1 hostport)))
          else if CHR '':'' \<in> set (take i hostport) then None
          else if CHR ''['' \<in> set hostport \<or> CHR '']'' \<in> set hostport then None
          else Some (take i hostport))"

definition extractIP :: "string option \<Rightarrow> string" where
  "extractIP addr =
     (case addr of
        None \<Rightarrow> []
      | Some s \<Rightarrow> (case SplitHostPort_host s of None \<Rightarrow> s | Some host \<Rightarrow> host))"

section \<open>Operations\<close>

definition getOrCreateRecord :: "string \<Rightarrow> RateLimiter \<Rightarrow> RateLimiter \<times> ipRecord" where
  "getOrCreateRecord ip rl =
     (case map_of (records rl) ip of
        Some r \<Rightarrow> (rl, r)
      | None \<Rightarrow> (rl\<lparr>records := AList.update ip new_ipRecord (records rl)\<rparr>, new_ipRecord))"

definition put_record :: "string \<Rightarrow> ipRecord \<Rightarrow> RateLimiter \<Rightarrow> RateLimiter" where
  "put_record ip r rl = rl\<lparr>records := AList.update ip r (records rl)\<rparr>"

text \<open>Why a connection is refused; a ban carries the remaining time, rounded to seconds.\<close>

datatype reject = TooManyConnections | Banned duration | TooManyFromIP

definition round_to :: "duration \<Rightarrow> duration \<Rightarrow> duration" where
  "round_to d m =
     (let r = d mod m in if d \<ge> 0 then (if r + r < m then d - r else d + m - r)
      else (if r = 0 then d else if (m - r) + (m - r) < m then d + m - r else d - r))"

definition is_banned :: "gotime \<Rightarrow> ipRecord \<Rightarrow> bool" where
  "is_banned t r \<longleftrightarrow> \<not> IsZero (bannedUntil r) \<and> t < bannedUntil r"

definition CheckConnection :: "gotime \<Rightarrow> string option \<Rightarrow> RateLimiter \<Rightarrow> RateLimiter \<times> reject option" where
  "CheckConnection t addr rl =
     (let ip = extractIP addr in
      if ip = [] then (rl, None)
      else if MaxConnections (config rl) > 0 \<and> totalActiveConns rl \<ge> MaxConnections (config rl)
      then (rl, Some TooManyConnections)
      else
        let (rl', record) = getOrCreateRecord ip rl in
        if is_banned t record then (rl', Some (Banned (round_to (bannedUntil record - t) Second)))
        else if MaxConnectionsPerIP (config rl) > 0 \<and> activeConns record \<ge> MaxConnectionsPerIP (config rl)
        then (rl', Some TooManyFromIP)
        else (rl', None))"

definition RegisterConnection :: "gotime \<Rightarrow> string option \<Rightarrow> RateLimiter \<Rightarrow> RateLimiter \<times> bool" where
  "RegisterConnection t addr rl =
     (let ip = extractIP addr in
      if ip = [] then (rl, True)
      else if MaxConnections (config rl) > 0 \<and> totalActiveConns rl \<ge> MaxConnections (config rl)
      then (rl, False)
      else
        let (rl', record) = getOrCreateRecord ip rl in
        if is_banned t record then (rl', False)
        else if MaxConnectionsPerIP (config rl) > 0 \<and> activeConns record \<ge> MaxConnectionsPerIP (config rl)
        then (rl', False)
        else ((put_record ip (record\<lparr>activeConns := activeConns record + 1\<rparr>) rl')
                \<lparr>totalActiveConns := totalActiveConns rl + 1\<rparr>, True))"

definition UnregisterConnection :: "string option \<Rightarrow> RateLimiter \<Rightarrow> RateLimiter" where
  "UnregisterConnection addr rl =
     (let ip = extractIP addr in
      if ip = [] then rl
      else
        let rl1 = rl\<lparr>totalActiveConns := max 0 (totalActiveConns rl - 1)\<rparr> in
        case map_of (records rl1) ip of
          None \<Rightarrow> rl1
        | Some record \<Rightarrow> put_record ip (record\<lparr>activeConns := max 0 (activeConns record - 1)\<rparr>) rl1)"

definition recent_attempts :: "RateLimitConfig \<Rightarrow> gotime \<Rightarrow> gotime list \<Rightarrow> gotime list" where
  "recent_attempts cfg t attempts = filter (\<lambda>a. a > t - FailedAttemptWindow cfg) attempts"

definition RecordFailedAuth :: "gotime \<Rightarrow> string option \<Rightarrow> RateLimiter \<Rightarrow> RateLimiter \<times> bool" where
  "RecordFailedAuth t addr rl =
     (let ip = extractIP addr in
      if ip = [] then (rl, False)
      else
        let (rl1, record0) = getOrCreateRecord ip rl;
            record = record0\<lparr>failedAttempts := failedAttempts record0 @ [t]\<rparr>;
            recentAttempts = int (length (recent_attempts (config rl) t (failedAttempts record)))
        in if recentAttempts \<ge> MaxFailedAttempts (config rl)
           then let alreadyCounted = \<not> IsZero (bannedUntil record)
                in ((put_record ip (record\<lparr>bannedUntil := t + BanDuration (config rl)\<rparr>) rl1)
                      \<lparr>rateLimitedIPsGauge := rateLimitedIPsGauge rl + (if alreadyCounted then 0 else 1)\<rparr>, True)
           else (put_record ip record rl1, False))"

definition RecordSuccessfulAuth :: "string option \<Rightarrow> RateLimiter \<Rightarrow> RateLimiter" where
  "RecordSuccessfulAuth addr rl =
     (let ip = extractIP addr in
      if ip = [] then rl
      else case map_of (records rl) ip of
        None \<Rightarrow> rl
      | Some record \<Rightarrow>
          (put_record ip (record\<lparr>failedAttempts := [], bannedUntil := 0\<rparr>) rl)
            \<lparr>rateLimitedIPsGauge := rateLimitedIPsGauge rl - (if IsZero (bannedUntil record) then 0 else 1)\<rparr>)"

definition IsBanned :: "gotime \<Rightarrow> string option \<Rightarrow> RateLimiter \<Rightarrow> bool" where
  "IsBanned t addr rl =
     (let ip = extractIP addr in
      if ip = [] then False
      else case map_of (records rl) ip of None \<Rightarrow> False | Some record \<Rightarrow> is_banned t record)"

text \<open>One record in the sweep: what stays of it, and whether a ban ended.\<close>

definition ban_over :: "gotime \<Rightarrow> ipRecord \<Rightarrow> bool" where
  "ban_over t r \<longleftrightarrow> \<not> IsZero (bannedUntil r) \<and> t > bannedUntil r"

definition clean_record :: "RateLimitConfig \<Rightarrow> gotime \<Rightarrow> ipRecord \<Rightarrow> ipRecord" where
  "clean_record cfg t r =
     r\<lparr>failedAttempts := recent_attempts cfg t (failedAttempts r),
       bannedUntil := (if ban_over t r then 0 else bannedUntil r)\<rparr>"

definition idle_record :: "ipRecord \<Rightarrow> bool" where
  "idle_record r \<longleftrightarrow> failedAttempts r = [] \<and> IsZero (bannedUntil r) \<and> activeConns r = 0"

definition cleanup :: "gotime \<Rightarrow> RateLimiter \<Rightarrow> RateLimiter" where
  "cleanup t rl =
     rl\<lparr>records := filter (\<lambda>(ip, r). \<not> idle_record r)
          (map (\<lambda>(ip, r). (ip, clean_record (config rl) t r)) (records rl)),
        rateLimitedIPsGauge :=
          rateLimitedIPsGauge rl - int (length (filter (\<lambda>(ip, r). ban_over t r) (records rl)))\<rparr>"

section \<open>Invariant\<close>

definition record_of :: "RateLimiter \<Rightarrow> string \<Rightarrow> ipRecord" where
  "record_of rl ip = (case map_of (records rl) ip of None \<Rightarrow> new_ipRecord | Some r \<Rightarrow> r)"

definition banned_count :: "(string \<times> ipRecord) list \<Rightarrow> int" where
  "banned_count rs = int (length (filter (\<lambda>(ip, r). \<not> IsZero (bannedUntil r)) rs))"

text \<open>With \<open>M\<close> the multiset of the addresses of the open connections.\<close>

definition limiter_inv :: "RateLimiter \<Rightarrow> string multiset \<Rightarrow> bool" where
  "limiter_inv rl M \<longleftrightarrow>
     distinct (map fst (records rl)) \<and>
     totalActiveConns rl = int (size M) \<and>
     (\<forall>ip. activeConns (record_of rl ip) = int (count M ip)) \<and>
     rateLimitedIPsGauge rl = banned_count (records rl) \<and>
     (MaxConnections (config rl) > 0 \<longrightarrow> totalActiveConns rl \<le> MaxConnections (config rl)) \<and>
     (MaxConnectionsPerIP (config rl) > 0 \<longrightarrow>
        (\<forall>ip. activeConns (record_of rl ip) \<le> MaxConnectionsPerIP (config rl)))"

inductive limiter_step :: "RateLimiter \<times> string multiset \<Rightarrow> RateLimiter \<times> string multiset \<Rightarrow> bool" where
  check: "limiter_step (rl, M) (fst (CheckConnection t addr rl), M)"
| register: "RegisterConnection t addr rl = (rl', True) \<Longrightarrow>
    limiter_step (rl, M) (rl', if extractIP addr = [] then M else add_mset (extractIP addr) M)"
| refuse: "RegisterConnection t addr rl = (rl', False) \<Longrightarrow> limiter_step (rl, M) (rl', M)"
| unregister: "extractIP addr = [] \<or> extractIP addr \<in># M \<Longrightarrow>
    limiter_step (rl, M) (UnregisterConnection addr rl,
      if extractIP addr = [] then M else M - {#extractIP addr#})"
| failed: "0 < t + BanDuration (config rl) \<Longrightarrow> limiter_step (rl, M) (fst (RecordFailedAuth t addr rl), M)"
| success: "limiter_step (rl, M) (RecordSuccessfulAuth addr rl, M)"
| sweep: "limiter_step (rl, M) (cleanup t rl, M)"

lemma record_of_put [simp]:
  "record_of (put_record ip r rl) = (record_of rl)(ip := r)"
  by (auto simp: record_of_def put_record_def update_conv')

lemma record_of_frame [simp]:
  "record_of (rl\<lparr>rateLimitedIPsGauge := g\<rparr>) = record_of rl"
  "record_of (rl\<lparr>totalActiveConns := n\<rparr>) = record_of rl"
  by (simp_all add: record_of_def fun_eq_iff)

lemma put_record_frame [simp]:
  "config (put_record ip r rl) = config rl" "totalActiveConns (put_record ip r rl) = totalActiveConns rl"
  "rateLimitedIPsGauge (put_record ip r rl) = rateLimitedIPsGauge rl"
  "distinct (map fst (records rl)) \<Longrightarrow> distinct (map fst (records (put_record ip r rl)))"
  by (simp_all add: put_record_def distinct_update)

definition ban_flag :: "ipRecord \<Rightarrow> int" where
  "ban_flag r = (if IsZero (bannedUntil r) then 0 else 1)"

lemma banned_count_simps [simp]:
  "banned_count [] = 0" "banned_count ((ip, r) # rs) = ban_flag r + banned_count rs"
  by (simp_all add: banned_count_def ban_flag_def)

lemma banned_count_update:
  assumes "distinct (map fst rs)"
  shows "banned_count (AList.update ip r rs) =
    banned_count rs - (case map_of rs ip of None \<Rightarrow> 0 | Some r0 \<Rightarrow> ban_flag r0) + ban_flag r"
  using assms
proof (induction rs)
  case (Cons p rs)
  obtain k q where p: "p = (k, q)" by fastforce
  with Cons.prems have "k = ip \<Longrightarrow> map_of rs ip = None" by (simp add: map_of_eq_None_iff)
  with Cons p show ?case by (auto split: option.splits)
qed simp

lemma banned_count_put:
  assumes "distinct (map fst (records rl))"
  shows "banned_count (records (put_record ip r rl)) =
    banned_count (records rl) - ban_flag (record_of rl ip) + ban_flag r"
  using banned_count_update [OF assms, of ip r]
  by (simp add: put_record_def record_of_def ban_flag_def new_ipRecord_def split: option.splits)

text \<open>Looking a record up may add an empty one, which changes nothing that counts.\<close>

lemma getOrCreateRecord_eq:
  "getOrCreateRecord ip rl = (if map_of (records rl) ip = None then put_record ip new_ipRecord rl else rl, record_of rl ip)"
  by (simp add: getOrCreateRecord_def record_of_def put_record_def split: option.splits)

lemma get_frame [simp]:
  "config (fst (getOrCreateRecord ip rl)) = config rl"
  "totalActiveConns (fst (getOrCreateRecord ip rl)) = totalActiveConns rl"
  "rateLimitedIPsGauge (fst (getOrCreateRecord ip rl)) = rateLimitedIPsGauge rl"
  "record_of (fst (getOrCreateRecord ip rl)) = record_of rl"
  "distinct (map fst (records rl)) \<Longrightarrow> distinct (map fst (records (fst (getOrCreateRecord ip rl))))"
  "distinct (map fst (records rl)) \<Longrightarrow> banned_count (records (fst (getOrCreateRecord ip rl))) = banned_count (records rl)"
  by (auto simp: getOrCreateRecord_eq banned_count_put record_of_def ban_flag_def new_ipRecord_def split: if_splits)

lemma get_record [simp]: "snd (getOrCreateRecord ip rl) = record_of rl ip"
  by (simp add: getOrCreateRecord_eq)

lemma limiter_inv_get: "limiter_inv rl M \<Longrightarrow> limiter_inv (fst (getOrCreateRecord ip rl)) M"
  unfolding limiter_inv_def get_frame(1-4) by (elim conjE) (intro conjI, simp_all)

text \<open>A change of one record that keeps its connections keeps the invariant if the gauge
  follows the ban.\<close>

lemma limiter_inv_put:
  assumes "limiter_inv rl M" and "activeConns r = activeConns (record_of rl ip)"
    and "g = rateLimitedIPsGauge rl - ban_flag (record_of rl ip) + ban_flag r"
  shows "limiter_inv ((put_record ip r rl)\<lparr>rateLimitedIPsGauge := g\<rparr>) M"
  using assms by (auto simp: limiter_inv_def banned_count_put)

lemma CheckConnection_inv: "limiter_inv rl M \<Longrightarrow> limiter_inv (fst (CheckConnection t addr rl)) M"
  by (simp add: CheckConnection_def Let_def case_prod_beta limiter_inv_get)

lemma RegisterConnection_False_inv:
  "limiter_inv rl M \<Longrightarrow> RegisterConnection t addr rl = (rl', False) \<Longrightarrow> limiter_inv rl' M"
  using limiter_inv_get [of rl M "extractIP addr"]
  by (auto simp: RegisterConnection_def Let_def case_prod_beta split: if_splits)

lemma RegisterConnection_True:
  assumes "RegisterConnection t addr rl = (rl', True)" and "extractIP addr = ip" and "ip \<noteq> []"
  shows "rl' = (put_record ip ((record_of rl ip)\<lparr>activeConns := activeConns (record_of rl ip) + 1\<rparr>)
        (fst (getOrCreateRecord ip rl)))\<lparr>totalActiveConns := totalActiveConns rl + 1\<rparr>"
    and "MaxConnections (config rl) > 0 \<longrightarrow> totalActiveConns rl < MaxConnections (config rl)"
    and "MaxConnectionsPerIP (config rl) > 0 \<longrightarrow> activeConns (record_of rl ip) < MaxConnectionsPerIP (config rl)"
    and "\<not> is_banned t (record_of rl ip)"
  using assms by (auto simp: RegisterConnection_def Let_def case_prod_beta split: if_splits)

lemma RegisterConnection_True_inv:
  assumes "limiter_inv rl M" and "RegisterConnection t addr rl = (rl', True)"
  shows "limiter_inv rl' (if extractIP addr = [] then M else add_mset (extractIP addr) M)"
proof (cases "extractIP addr = []")
  case True
  with assms show ?thesis by (simp add: RegisterConnection_def)
next
  case False
  let ?ip = "extractIP addr"
  note reg = RegisterConnection_True [OF assms(2) refl False]
  let ?rl = "fst (getOrCreateRecord ?ip rl)"
  let ?r = "(record_of rl ?ip)\<lparr>activeConns := activeConns (record_of rl ?ip) + 1\<rparr>"
  have "record_of rl' = (record_of rl)(?ip := ?r)" by (simp add: reg(1))
  moreover have "records rl' = records (put_record ?ip ?r ?rl)" by (simp add: reg(1))
  moreover have "ban_flag ?r = ban_flag (record_of rl ?ip)" by (simp add: ban_flag_def)
  ultimately show ?thesis
    using assms(1) False reg(2,3)
    by (auto simp: limiter_inv_def banned_count_put reg(1))
qed

lemma UnregisterConnection_inv:
  assumes "limiter_inv rl M" and "extractIP addr = [] \<or> extractIP addr \<in># M"
  shows "limiter_inv (UnregisterConnection addr rl) (if extractIP addr = [] then M else M - {#extractIP addr#})"
proof (cases "extractIP addr = []")
  case True
  with assms(1) show ?thesis by (simp add: UnregisterConnection_def)
next
  case False
  let ?ip = "extractIP addr"
  let ?r = "record_of rl ?ip"
  from False assms(2) have mem: "0 < count M ?ip" by simp
  then have sz: "0 < size M" by (metis count_greater_zero_iff empty_iff nonempty_has_size set_mset_empty)
  from mem assms(1) have act: "activeConns ?r = int (count M ?ip)" "0 < activeConns ?r"
    by (auto simp: limiter_inv_def)
  have "map_of (records rl) ?ip = Some ?r"
    using act(2) by (cases "map_of (records rl) ?ip") (simp_all add: record_of_def new_ipRecord_def)
  with False have eq: "UnregisterConnection addr rl =
      put_record ?ip (?r\<lparr>activeConns := activeConns ?r - 1\<rparr>) (rl\<lparr>totalActiveConns := totalActiveConns rl - 1\<rparr>)"
    using assms(1) act sz by (simp add: UnregisterConnection_def limiter_inv_def Let_def)
  have le: "0 < MaxConnectionsPerIP (config rl) \<Longrightarrow> int (count M ?ip) - 1 \<le> MaxConnectionsPerIP (config rl)"
    using assms(1) act(1) unfolding limiter_inv_def by (smt (verit))
  have "ban_flag (?r\<lparr>activeConns := activeConns ?r - 1\<rparr>) = ban_flag ?r" by (simp add: ban_flag_def)
  moreover have "int (size (M - {#?ip#})) = int (size M) - 1" using mem sz by (simp add: size_Diff_singleton of_nat_diff)
  ultimately show ?thesis
    using assms(1) False mem le unfolding eq by (auto simp: limiter_inv_def banned_count_put)
qed

lemma RecordFailedAuth_inv:
  assumes "limiter_inv rl M" and "0 < t + BanDuration (config rl)"
  shows "limiter_inv (fst (RecordFailedAuth t addr rl)) M"
proof (cases "extractIP addr = []")
  case True
  with assms show ?thesis by (simp add: RecordFailedAuth_def)
next
  case False
  let ?ip = "extractIP addr"
  note inv = limiter_inv_get [OF assms(1), of ?ip]
  let ?rl = "fst (getOrCreateRecord ?ip rl)"
  have keep: "limiter_inv (put_record ?ip r ?rl) M"
    if "activeConns r = activeConns (record_of rl ?ip)" "bannedUntil r = bannedUntil (record_of rl ?ip)" for r
    using inv that by (auto simp: limiter_inv_def banned_count_put ban_flag_def)
  show ?thesis
    using False assms(2)
    by (auto simp: RecordFailedAuth_def Let_def case_prod_beta ban_flag_def intro!: keep limiter_inv_put [OF inv])
qed

lemma RecordSuccessfulAuth_inv:
  assumes "limiter_inv rl M"
  shows "limiter_inv (RecordSuccessfulAuth addr rl) M"
proof (cases "map_of (records rl) (extractIP addr)")
  case (Some r)
  then have r: "record_of rl (extractIP addr) = r" by (simp add: record_of_def)
  show ?thesis
    using assms Some limiter_inv_put [OF assms, of "r\<lparr>failedAttempts := [], bannedUntil := 0\<rparr>" "extractIP addr"]
    by (auto simp: RecordSuccessfulAuth_def Let_def ban_flag_def r)
qed (use assms in \<open>simp add: RecordSuccessfulAuth_def Let_def\<close>)

text \<open>The sweep in terms of the records: a record that is dropped was as good as new.\<close>

lemma clean_new [simp]: "clean_record cfg t new_ipRecord = new_ipRecord"
  by (simp add: clean_record_def new_ipRecord_def recent_attempts_def ban_over_def)

lemma record_of_cleanup:
  assumes "distinct (map fst (records rl))"
  shows "record_of (cleanup t rl) ip = clean_record (config rl) t (record_of rl ip)"
proof -
  have idle: "idle_record r \<Longrightarrow> r = new_ipRecord" for r :: ipRecord
    by (simp add: idle_record_def new_ipRecord_def)
  have "(case map_of (filter (\<lambda>(ip, r). \<not> idle_record r) (map (\<lambda>(ip, r). (ip, clean_record (config rl) t r)) rs)) ip of
      None \<Rightarrow> new_ipRecord | Some r \<Rightarrow> r) =
    clean_record (config rl) t (case map_of rs ip of None \<Rightarrow> new_ipRecord | Some r \<Rightarrow> r)"
    if "distinct (map fst rs)" for rs
    using that
  proof (induction rs)
    case (Cons p rs)
    obtain k q where p: "p = (k, q)" by fastforce
    have "map_of (filter (\<lambda>(ip, r). \<not> idle_record r) (map (\<lambda>(ip, r). (ip, clean_record (config rl) t r)) rs)) k = None"
      using Cons.prems p by (auto simp: map_of_eq_None_iff rev_image_eqI)
    with Cons p idle [of "clean_record (config rl) t q"] show ?case by auto
  qed simp
  with assms show ?thesis by (simp add: record_of_def cleanup_def)
qed

lemma banned_count_clean:
  "banned_count (filter (\<lambda>(ip, r). \<not> idle_record r) (map (\<lambda>(ip, r). (ip, clean_record cfg t r)) rs)) =
   banned_count rs - int (length (filter (\<lambda>(ip, r). ban_over t r) rs))"
  by (induction rs) (auto simp: ban_flag_def idle_record_def clean_record_def ban_over_def)

lemma cleanup_inv: "limiter_inv rl M \<Longrightarrow> limiter_inv (cleanup t rl) M"
proof -
  assume inv: "limiter_inv rl M"
  then have d: "distinct (map fst (records rl))" by (simp add: limiter_inv_def)
  have "map fst (map (\<lambda>(ip, r). (ip, clean_record (config rl) t r)) (records rl)) = map fst (records rl)"
    by (auto simp: comp_def case_prod_beta)
  with d have "distinct (map fst (records (cleanup t rl)))"
    by (simp add: cleanup_def distinct_map_filter del: map_map)
  moreover have "activeConns (record_of (cleanup t rl) ip) = activeConns (record_of rl ip)" for ip
    by (simp add: record_of_cleanup [OF d] clean_record_def)
  moreover have "rateLimitedIPsGauge (cleanup t rl) = banned_count (records (cleanup t rl))"
    using inv by (simp add: cleanup_def banned_count_clean limiter_inv_def)
  moreover have "config (cleanup t rl) = config rl" "totalActiveConns (cleanup t rl) = totalActiveConns rl"
    by (simp_all add: cleanup_def)
  ultimately show ?thesis using inv unfolding limiter_inv_def by (elim conjE) (intro conjI, simp_all)
qed

lemma config_frame:
  "config (fst (CheckConnection t addr rl)) = config rl" "config (fst (RegisterConnection t addr rl)) = config rl"
  "config (UnregisterConnection addr rl) = config rl" "config (fst (RecordFailedAuth t addr rl)) = config rl"
  "config (RecordSuccessfulAuth addr rl) = config rl" "config (cleanup t rl) = config rl"
  by (simp_all add: CheckConnection_def RegisterConnection_def UnregisterConnection_def RecordFailedAuth_def
      RecordSuccessfulAuth_def cleanup_def Let_def case_prod_beta split: option.splits)

lemma limiter_step_inv:
  assumes "limiter_step s s'" and "limiter_inv (fst s) (snd s)"
  shows "limiter_inv (fst s') (snd s') \<and> config (fst s') = config (fst s)"
  using assms
proof cases
  case (register t addr rl rl' M)
  with assms(2) RegisterConnection_True_inv config_frame(2) [of t addr rl] show ?thesis by simp
next
  case (refuse t addr rl rl' M)
  with assms(2) RegisterConnection_False_inv config_frame(2) [of t addr rl] show ?thesis by simp
next
  case (unregister addr M rl)
  with assms(2) UnregisterConnection_inv config_frame show ?thesis by simp
qed (use assms(2) CheckConnection_inv RecordFailedAuth_inv RecordSuccessfulAuth_inv cleanup_inv config_frame in simp_all)

lemma limiter_run_inv:
  assumes "limiter_step\<^sup>*\<^sup>* s s'" and "limiter_inv (fst s) (snd s)"
  shows "limiter_inv (fst s') (snd s') \<and> config (fst s') = config (fst s)"
  using assms(1)
  by (induction rule: rtranclp_induct) (use assms(2) limiter_step_inv in \<open>simp, fastforce\<close>)

section \<open>Properties\<close>

text \<open>\<^bold>\<open>C27\<close>. The limits hold at all times: starting from a new limiter, along every sequence of
  operations in which a connection is unregistered at most as often as it was registered, the
  limiter's total is the number of open connections, which is at most \<^verbatim>\<open>MaxConnections\<close>; the
  count of every address is the number of its open connections, at most
  \<^verbatim>\<open>MaxConnectionsPerIP\<close>; and the gauge is the number of records with a ban.\<close>

theorem rate_limits_hold:
  assumes "limiter_step\<^sup>*\<^sup>* (NewRateLimiter cfg, {#}) (rl, M)"
  shows "totalActiveConns rl = int (size M) \<and>
    (\<forall>ip. activeConns (record_of rl ip) = int (count M ip)) \<and>
    (0 < MaxConnections cfg \<longrightarrow> int (size M) \<le> MaxConnections cfg) \<and>
    (0 < MaxConnectionsPerIP cfg \<longrightarrow> (\<forall>ip. int (count M ip) \<le> MaxConnectionsPerIP cfg)) \<and>
    rateLimitedIPsGauge rl = banned_count (records rl)"
proof -
  have "limiter_inv (NewRateLimiter cfg) {#}"
    by (simp add: limiter_inv_def NewRateLimiter_def record_of_def new_ipRecord_def)
  with limiter_run_inv [OF assms] have "limiter_inv rl M" "config rl = cfg" by (auto simp: NewRateLimiter_def)
  then show ?thesis unfolding limiter_inv_def by auto
qed

theorem rate_limits_hold_witness:
  "totalActiveConns (fst (RegisterConnection 7 (Some ''10.0.0.1:5432'') (NewRateLimiter DefaultRateLimitConfig))) = 1"
proof -
  let ?rl = "NewRateLimiter DefaultRateLimitConfig" and ?a = "Some ''10.0.0.1:5432''"
  have ip: "extractIP ?a = ''10.0.0.1''" by (simp add: extractIP_def SplitHostPort_host_def)
  have "snd (RegisterConnection 7 ?a ?rl)"
    by (simp add: RegisterConnection_def ip NewRateLimiter_def DefaultRateLimitConfig_def getOrCreateRecord_def
        new_ipRecord_def is_banned_def Let_def)
  then have "limiter_step (?rl, {#}) (fst (RegisterConnection 7 ?a ?rl), {#''10.0.0.1''#})"
    using limiter_step.register [of 7 ?a ?rl "fst (RegisterConnection 7 ?a ?rl)" "{#}"]
    by (simp add: ip prod_eq_iff)
  then have "limiter_step\<^sup>*\<^sup>* (?rl, {#}) (fst (RegisterConnection 7 ?a ?rl), {#''10.0.0.1''#})" by blast
  from rate_limits_hold [OF this] show ?thesis by simp
qed

text \<open>\<^bold>\<open>C28\<close>. A ban is imposed exactly on the attempt that fills the window, and is enforced until it
  runs out: \<^verbatim>\<open>RecordFailedAuth\<close> reports a ban iff the failed attempts within the window,
  this one included, reach the maximum; then until the ban's end the address is banned and
  every new connection from it is refused, and from then on it is not banned; a successful
  authentication lifts the ban and forgets the attempts.\<close>

theorem ban_enforced:
  assumes "RecordFailedAuth t addr rl = (rl', banned)" and "extractIP addr = ip" and "ip \<noteq> []"
    and "0 < t + BanDuration (config rl)"
  shows "(banned \<longleftrightarrow> MaxFailedAttempts (config rl) \<le>
      int (length (recent_attempts (config rl) t (failedAttempts (record_of rl ip) @ [t])))) \<and>
    (banned \<longrightarrow> (\<forall>u. (IsBanned u addr rl' \<longleftrightarrow> u < t + BanDuration (config rl)) \<and>
       (u < t + BanDuration (config rl) \<longrightarrow>
          \<not> snd (RegisterConnection u addr rl') \<and> snd (CheckConnection u addr rl') \<noteq> None))) \<and>
    (\<forall>u. \<not> IsBanned u addr (RecordSuccessfulAuth addr rl') \<and>
       failedAttempts (record_of (RecordSuccessfulAuth addr rl') ip) = [])"
proof -
  let ?r0 = "record_of rl ip"
  let ?n = "int (length (recent_attempts (config rl) t (failedAttempts ?r0 @ [t])))"
  have b: "banned \<longleftrightarrow> MaxFailedAttempts (config rl) \<le> ?n"
    using assms(1-3) by (auto simp: RecordFailedAuth_def Let_def case_prod_beta split: if_splits)
  have look: "map_of (records rl') ip = Some (record_of rl' ip)"
    and ban: "banned \<Longrightarrow> bannedUntil (record_of rl' ip) = t + BanDuration (config rl)"
    using assms(1-3)
    by (auto simp: RecordFailedAuth_def Let_def case_prod_beta put_record_def update_conv' record_of_def split: if_splits)
  have isb: "IsBanned u addr rl' \<longleftrightarrow> is_banned u (record_of rl' ip)" for u
    using look assms(2,3) by (simp add: IsBanned_def Let_def)
  have rej: "\<not> snd (RegisterConnection u addr rl') \<and> snd (CheckConnection u addr rl') \<noteq> None"
    if "is_banned u (record_of rl' ip)" for u
    using that assms(2,3) by (simp add: RegisterConnection_def CheckConnection_def Let_def case_prod_beta)
  have succ: "map_of (records (RecordSuccessfulAuth addr rl')) ip =
      Some ((record_of rl' ip)\<lparr>failedAttempts := [], bannedUntil := 0\<rparr>)"
    using look assms(2,3) by (simp add: RecordSuccessfulAuth_def Let_def put_record_def update_conv')
  have "\<not> IsBanned u addr (RecordSuccessfulAuth addr rl')" for u
    using succ assms(2,3) by (simp add: IsBanned_def Let_def is_banned_def)
  moreover have "failedAttempts (record_of (RecordSuccessfulAuth addr rl') ip) = []"
    using succ by (simp add: record_of_def)
  ultimately show ?thesis using b ban isb rej assms(4) by (auto simp: is_banned_def)
qed

theorem ban_enforced_witness:
  "let cfg = DefaultRateLimitConfig\<lparr>MaxFailedAttempts := 1\<rparr>;
       rl' = fst (RecordFailedAuth 100 (Some ''10.0.0.1:5432'') (NewRateLimiter cfg))
   in IsBanned 101 (Some ''10.0.0.1:6000'') rl' \<and> \<not> snd (RegisterConnection 101 (Some ''10.0.0.1:5432'') rl')"
proof -
  let ?cfg = "DefaultRateLimitConfig\<lparr>MaxFailedAttempts := 1\<rparr>" and ?a = "Some ''10.0.0.1:5432''"
  let ?rl = "NewRateLimiter ?cfg"
  obtain rl' banned where f: "RecordFailedAuth 100 ?a ?rl = (rl', banned)" by fastforce
  have ip: "extractIP ?a = ''10.0.0.1''" "extractIP (Some ''10.0.0.1:6000'') = ''10.0.0.1''"
    by (simp_all add: extractIP_def SplitHostPort_host_def)
  have cfg: "config ?rl = ?cfg" by (simp add: NewRateLimiter_def)
  have "BanDuration (config ?rl) = 900000000000" "MaxFailedAttempts (config ?rl) = 1"
    "recent_attempts (config ?rl) 100 (failedAttempts (record_of ?rl ''10.0.0.1'') @ [100]) = [100]"
    by (simp_all add: cfg DefaultRateLimitConfig_def duration_defs recent_attempts_def record_of_def NewRateLimiter_def
        new_ipRecord_def)
  with ban_enforced [OF f ip(1)] have "IsBanned 101 ?a rl' \<and> \<not> snd (RegisterConnection 101 ?a rl')" by simp
  with f ip show ?thesis by (simp add: IsBanned_def Let_def)
qed

text \<open>The periodic sweep cannot be observed: at any time after it, every answer about bans,
  checks, registrations and failed attempts is what it would have been without the sweep.\<close>

theorem cleanup_unobservable:
  assumes "distinct (map fst (records rl))" and "t \<le> u"
  shows "IsBanned u addr (cleanup t rl) = IsBanned u addr rl \<and>
    snd (CheckConnection u addr (cleanup t rl)) = snd (CheckConnection u addr rl) \<and>
    snd (RegisterConnection u addr (cleanup t rl)) = snd (RegisterConnection u addr rl) \<and>
    snd (RecordFailedAuth u addr (cleanup t rl)) = snd (RecordFailedAuth u addr rl)"
proof -
  let ?ip = "extractIP addr" and ?cfg = "config rl"
  let ?r = "record_of rl ?ip"
  have r: "record_of (cleanup t rl) ?ip = clean_record ?cfg t ?r" by (rule record_of_cleanup [OF assms(1)])
  have ban: "is_banned u (clean_record ?cfg t r) = is_banned u r" for r
    using assms(2) by (auto simp: is_banned_def clean_record_def ban_over_def)
  have conns: "activeConns (clean_record ?cfg t r) = activeConns r" for r by (simp add: clean_record_def)
  have until: "is_banned u r \<Longrightarrow> bannedUntil (clean_record ?cfg t r) = bannedUntil r" for r
    using assms(2) by (auto simp: is_banned_def clean_record_def ban_over_def)
  have recent: "recent_attempts ?cfg u (failedAttempts (clean_record ?cfg t r) @ [u]) =
      recent_attempts ?cfg u (failedAttempts r @ [u])" for r
    using assms(2) by (auto simp: recent_attempts_def clean_record_def intro!: filter_cong)
  have isb: "IsBanned u addr x = (?ip \<noteq> [] \<and> is_banned u (record_of x ?ip))" for x
    by (simp add: IsBanned_def Let_def record_of_def is_banned_def new_ipRecord_def split: option.splits)
  have frame: "config (cleanup t rl) = ?cfg" "totalActiveConns (cleanup t rl) = totalActiveConns rl"
    by (simp_all add: cleanup_def)
  show ?thesis
    unfolding isb CheckConnection_def RegisterConnection_def RecordFailedAuth_def Let_def case_prod_beta
    using until [of ?r] by (simp add: r ban conns frame recent)
qed

theorem cleanup_unobservable_witness:
  "let rl = fst (RecordFailedAuth 100 (Some ''10.0.0.1:5432'') (NewRateLimiter DefaultRateLimitConfig))
   in IsBanned 300 (Some ''10.0.0.1:5432'') (cleanup 200 rl) = IsBanned 300 (Some ''10.0.0.1:5432'') rl"
proof -
  let ?rl = "fst (RecordFailedAuth 100 (Some ''10.0.0.1:5432'') (NewRateLimiter DefaultRateLimitConfig))"
  have "distinct (map fst (records ?rl))"
    by (simp add: RecordFailedAuth_def extractIP_def SplitHostPort_host_def getOrCreateRecord_def NewRateLimiter_def
        put_record_def Let_def)
  from cleanup_unobservable [OF this, of 200 300] show ?thesis by (simp add: Let_def)
qed

end
