(* ===== verification/Auth_Policy.thy ===== *)
theory Auth_Policy
  imports Rate_Limiter "HOL-Library.Word"
begin

text \<open>
  The authentication policy around the rate limiter (\<^verbatim>\<open>server/auth/policy.go\<close>): the attempt
  that is registered before a password is looked at and released after it, the counters, and
  the comparison of passwords, which looks at every byte of both strings.
\<close>

unbundle bit_operations_syntax

section \<open>Attempts\<close>

record auth_state =
  as_limiter :: "RateLimiter option"
  as_rejects :: int
  as_failures :: int

text \<open>What \<^verbatim>\<open>BeginRateLimitedAuthAttempt\<close> gives: a refusal with its reason, or a release that
  does nothing or that unregisters. Between its calls of the limiter, whose mutex is not held
  then, others may have used it (\<open>others1\<close>, \<open>others2\<close>); the calls read the clocks \<open>t1\<close> to \<open>t3\<close>.\<close>

datatype attempt = Rejected reject | ReleaseNothing | ReleaseUnregister

definition BeginRateLimitedAuthAttempt ::
  "gotime \<Rightarrow> gotime \<Rightarrow> gotime \<Rightarrow> (RateLimiter \<Rightarrow> RateLimiter) \<Rightarrow> (RateLimiter \<Rightarrow> RateLimiter) \<Rightarrow>
   string option \<Rightarrow> auth_state \<Rightarrow> auth_state \<times> attempt" where
  "BeginRateLimitedAuthAttempt t1 t2 t3 others1 others2 remoteAddr st =
     (case as_limiter st of
        None \<Rightarrow> (st, ReleaseNothing)
      | Some rl \<Rightarrow>
          (case CheckConnection t1 remoteAddr rl of
             (rl1, Some msg) \<Rightarrow>
               (st\<lparr>as_limiter := Some rl1, as_rejects := as_rejects st + 1\<rparr>, Rejected msg)
           | (rl1, None) \<Rightarrow>
               (case RegisterConnection t2 remoteAddr (others1 rl1) of
                  (rl2, False) \<Rightarrow>
                    (case CheckConnection t3 remoteAddr (others2 rl2) of
                       (rl3, msg) \<Rightarrow>
                         (st\<lparr>as_limiter := Some rl3, as_rejects := as_rejects st + 1\<rparr>,
                          Rejected (case msg of Some m \<Rightarrow> m | None \<Rightarrow> TooManyFromIP)))
                | (rl2, True) \<Rightarrow> (st\<lparr>as_limiter := Some rl2\<rparr>, ReleaseUnregister))))"

definition release :: "attempt \<Rightarrow> string option \<Rightarrow> auth_state \<Rightarrow> auth_state" where
  "release a remoteAddr st =
     (case a of
        ReleaseUnregister \<Rightarrow> st\<lparr>as_limiter := map_option (UnregisterConnection remoteAddr) (as_limiter st)\<rparr>
      | _ \<Rightarrow> st)"

definition RecordFailedAuthAttempt :: "gotime \<Rightarrow> string option \<Rightarrow> auth_state \<Rightarrow> auth_state \<times> bool" where
  "RecordFailedAuthAttempt t remoteAddr st0 =
     (let st = st0\<lparr>as_failures := as_failures st0 + 1\<rparr> in
      case as_limiter st of
        None \<Rightarrow> (st, False)
      | Some rl \<Rightarrow> (case RecordFailedAuth t remoteAddr rl of (rl', b) \<Rightarrow> (st\<lparr>as_limiter := Some rl'\<rparr>, b)))"

definition RecordSuccessfulAuthAttempt :: "string option \<Rightarrow> auth_state \<Rightarrow> auth_state" where
  "RecordSuccessfulAuthAttempt remoteAddr st =
     st\<lparr>as_limiter := map_option (RecordSuccessfulAuth remoteAddr) (as_limiter st)\<rparr>"

section \<open>Passwords\<close>

definition byte :: "char \<Rightarrow> 8 word" where
  "byte c = of_nat (of_char c)"

definition byte_at :: "string \<Rightarrow> nat \<Rightarrow> 8 word" where
  "byte_at s i = (if i < length s then byte (s ! i) else 0)"

text \<open>The loop from index \<open>i\<close> to the length of the longer string.\<close>

function diff_loop :: "string \<Rightarrow> string \<Rightarrow> nat \<Rightarrow> 8 word \<Rightarrow> 8 word" where
  "diff_loop ab bb i diff =
     (if i < max (length ab) (length bb)
      then diff_loop ab bb (Suc i) (diff OR (byte_at ab i XOR byte_at bb i)) else diff)"
  by auto
termination
  by (relation "measure (\<lambda>(ab, bb, i, diff). max (length ab) (length bb) - i)") auto

declare diff_loop.simps [simp del]

text \<open>\<^verbatim>\<open>subtle.ConstantTimeEq\<close> on the lengths, converted to 32 bits.\<close>

definition constantTimeStringEqual :: "string \<Rightarrow> string \<Rightarrow> bool" where
  "constantTimeStringEqual a b =
     (let lengthsEqual = ((of_nat (length a) :: 32 word) = of_nat (length b))
      in lengthsEqual \<and> diff_loop a b 0 0 = 0)"

definition invalidPasswordSentinel :: string where
  "invalidPasswordSentinel = ''__duckgres_invalid_password_sentinel__''"

definition ValidateUserPassword :: "(string \<rightharpoonup> string) \<Rightarrow> string \<Rightarrow> string \<Rightarrow> bool" where
  "ValidateUserPassword users username password =
     (let (expectedPassword, userFound) =
            (case users username of None \<Rightarrow> (invalidPasswordSentinel, False) | Some p \<Rightarrow> (p, True));
          passwordMatches = constantTimeStringEqual password expectedPassword
      in userFound \<and> passwordMatches)"

section \<open>The comparison is equality\<close>

lemma byte_eq_iff [simp]: "byte c = byte d \<longleftrightarrow> c = d"
proof
  assume "byte c = byte d"
  then have "unat (byte c) = unat (byte d)" by simp
  moreover have "unat (byte x) = of_char x" for x :: char
    by (simp add: byte_def unat_of_nat take_bit_eq_mod)
  ultimately show "c = d" by simp
qed simp

lemma or_eq_0_iff8: "(x OR y = (0 :: 8 word)) \<longleftrightarrow> x = 0 \<and> y = 0"
  by (rule or_eq_0_iff)

lemma xor_eq_0_iff8: "(x XOR y = (0 :: 8 word)) \<longleftrightarrow> x = y"
  by (metis xor.right_neutral xor_self_eq bit.xor_left_self)

text \<open>The loop ends with zero iff it started with zero and the remaining bytes agree.\<close>

lemma diff_loop_zero_iff:
  "diff_loop a b i diff = 0 \<longleftrightarrow>
   diff = 0 \<and> (\<forall>j. i \<le> j \<and> j < max (length a) (length b) \<longrightarrow> byte_at a j = byte_at b j)"
proof (induction a b i diff rule: diff_loop.induct)
  case (1 a b i diff)
  show ?case
  proof (cases "i < max (length a) (length b)")
    case True
    have "(\<forall>j. i \<le> j \<and> j < max (length a) (length b) \<longrightarrow> byte_at a j = byte_at b j) \<longleftrightarrow>
        byte_at a i = byte_at b i \<and>
        (\<forall>j. Suc i \<le> j \<and> j < max (length a) (length b) \<longrightarrow> byte_at a j = byte_at b j)"
      using True by (metis Suc_le_eq le_neq_implies_less order_refl less_imp_le_nat)
    with 1 [OF True] True show ?thesis
      by (subst diff_loop.simps) (auto simp: or_eq_0_iff8 xor_eq_0_iff8)
  next
    case False
    then show ?thesis by (subst diff_loop.simps) auto
  qed
qed

lemma byte_at_eq_iff:
  assumes "length a = length b"
  shows "(\<forall>j < length a. byte_at a j = byte_at b j) \<longleftrightarrow> a = b"
  using assms by (auto simp: byte_at_def list_eq_iff_nth_eq)

lemma constantTimeStringEqual_iff:
  assumes "length a < 2 ^ 32" and "length b < 2 ^ 32"
  shows "constantTimeStringEqual a b \<longleftrightarrow> a = b"
proof -
  have "(of_nat (length a) :: 32 word) = of_nat (length b) \<longleftrightarrow> length a = length b"
    using assms by (simp add: word_unat_eq_iff unat_of_nat take_bit_eq_mod)
  moreover have "diff_loop a b 0 0 = 0 \<longleftrightarrow> a = b" if "length a = length b"
    using byte_at_eq_iff [OF that] that by (simp add: diff_loop_zero_iff)
  ultimately show ?thesis by (auto simp: constantTimeStringEqual_def)
qed

section \<open>Properties\<close>

text \<open>\<^bold>\<open>C29\<close>. A login is accepted exactly when the user is known and the password is theirs: the
  comparison that folds the differences of all bytes, past the end of the shorter string, is
  equality of strings, and the password an unknown user is compared with never lets anyone in,
  not even with that very password.\<close>

theorem password_valid_iff:
  assumes "length password < 2 ^ 32" and "\<forall>p \<in> ran users. length p < 2 ^ 32"
  shows "ValidateUserPassword users username password \<longleftrightarrow> users username = Some password"
proof (cases "users username")
  case None
  then show ?thesis by (simp add: ValidateUserPassword_def)
next
  case (Some p)
  then have "length p < 2 ^ 32" using assms(2) by (auto simp: ran_def)
  with Some show ?thesis
    by (simp only: ValidateUserPassword_def constantTimeStringEqual_iff [OF assms(1)] Let_def option.case prod.case) auto
qed

theorem password_valid_iff_witness:
  "ValidateUserPassword [''ada'' \<mapsto> ''quack''] ''ada'' ''quack'' \<and>
   \<not> ValidateUserPassword [''ada'' \<mapsto> ''quack''] ''ada'' ''quac'' \<and>
   \<not> ValidateUserPassword [''ada'' \<mapsto> ''quack''] ''eve'' invalidPasswordSentinel"
  using password_valid_iff [of "''quack''" "[''ada'' \<mapsto> ''quack'']" "''ada''"]
    password_valid_iff [of "''quac''" "[''ada'' \<mapsto> ''quack'']" "''ada''"]
    password_valid_iff [of invalidPasswordSentinel "[''ada'' \<mapsto> ''quack'']" "''eve''"]
  by (simp add: invalidPasswordSentinel_def)

text \<open>An attempt takes one connection of its address and gives it back, whatever other
  attempts do in between: when it is let through, the limiter has counted it within the limits,
  for an address that was not banned, and its release uncounts it; when it is turned away, the
  limiter counts nothing for it, the release changes nothing, and the reject counter has grown
  by one.\<close>

theorem attempt_balanced:
  assumes "as_limiter st = Some rl" and "extractIP addr = ip" and "ip \<noteq> []"
    and "limiter_inv rl M0"
    and "\<And>r. limiter_inv r M0 \<Longrightarrow> limiter_inv (others1 r) M1"
    and "\<And>r. limiter_inv r M1 \<Longrightarrow> limiter_inv (others2 r) M2"
    and "BeginRateLimitedAuthAttempt t1 t2 t3 others1 others2 addr st = (st', a)"
  shows "case a of
      Rejected m \<Rightarrow> as_rejects st' = as_rejects st + 1 \<and>
        (\<exists>rl'. as_limiter st' = Some rl' \<and> (limiter_inv rl' M0 \<or> limiter_inv rl' M2)) \<and>
        (\<forall>s. release a addr s = s)
    | ReleaseNothing \<Rightarrow> False
    | ReleaseUnregister \<Rightarrow> as_rejects st' = as_rejects st \<and>
        (\<exists>rl'. as_limiter st' = Some rl' \<and> limiter_inv rl' (add_mset ip M1) \<and>
          \<not> is_banned t2 (record_of rl' ip)) \<and>
        (\<forall>s r M. as_limiter s = Some r \<and> limiter_inv r (add_mset ip M) \<longrightarrow>
          (\<exists>r'. as_limiter (release a addr s) = Some r' \<and> limiter_inv r' M))"
proof -
  obtain rl1 m1 where c1: "CheckConnection t1 addr rl = (rl1, m1)" by fastforce
  obtain rl2 b where reg: "RegisterConnection t2 addr (others1 rl1) = (rl2, b)" by fastforce
  obtain rl3 m3 where c3: "CheckConnection t3 addr (others2 rl2) = (rl3, m3)" by fastforce
  have i1: "limiter_inv rl1 M0" using CheckConnection_inv [OF assms(4), of t1 addr] c1 by simp
  note io = assms(5) [OF i1]
  have rel: "\<exists>r'. as_limiter (release ReleaseUnregister addr s) = Some r' \<and> limiter_inv r' M"
    if "as_limiter s = Some r" "limiter_inv r (add_mset ip M)" for s r M
    using UnregisterConnection_inv [OF that(2), of addr] that(1) assms(2,3) by (simp add: release_def)
  note begin_eq = assms(7) [unfolded BeginRateLimitedAuthAttempt_def assms(1) option.case c1 prod.case reg c3]
  consider (no) m where "m1 = Some m" | (yes) "m1 = None" "b" | (race) "m1 = None" "\<not> b" by blast
  then show ?thesis
  proof cases
    case no
    with begin_eq i1 show ?thesis by (auto simp: release_def)
  next
    case yes
    with begin_eq have "st' = st\<lparr>as_limiter := Some rl2\<rparr>" "a = ReleaseUnregister" by simp_all
    moreover have "limiter_inv rl2 (add_mset ip M1)"
      using RegisterConnection_True_inv [OF io, of t2 addr rl2] reg yes(2) assms(2,3) by simp
    moreover have "\<not> is_banned t2 (record_of rl2 ip)"
      using RegisterConnection_True [OF reg [unfolded eqTrueI [OF yes(2)]] assms(2,3)] by (simp add: is_banned_def)
    ultimately show ?thesis using rel by auto
  next
    case race
    have "limiter_inv rl2 M1" using RegisterConnection_False_inv [OF io, of t2 addr rl2] reg race(2) by simp
    then have "limiter_inv rl3 M2" using CheckConnection_inv [OF assms(6), of rl2 t3 addr] c3 by simp
    with race begin_eq show ?thesis by (auto simp: release_def)
  qed
qed

theorem attempt_balanced_witness:
  "case BeginRateLimitedAuthAttempt 7 8 9 id id (Some ''10.0.0.1:5432'')
       \<lparr>as_limiter = Some (NewRateLimiter DefaultRateLimitConfig), as_rejects = 0, as_failures = 0\<rparr>
   of (st', a) \<Rightarrow> a \<noteq> ReleaseNothing \<and>
     (\<forall>m. a = Rejected m \<longrightarrow> as_rejects st' = 1)"
proof -
  let ?st = "\<lparr>as_limiter = Some (NewRateLimiter DefaultRateLimitConfig), as_rejects = 0, as_failures = 0\<rparr>"
  obtain st' a where b: "BeginRateLimitedAuthAttempt 7 8 9 id id (Some ''10.0.0.1:5432'') ?st = (st', a)"
    by fastforce
  have ip: "extractIP (Some ''10.0.0.1:5432'') = ''10.0.0.1''" by (simp add: extractIP_def SplitHostPort_host_def)
  have "limiter_inv (NewRateLimiter DefaultRateLimitConfig) {#}"
    by (simp add: limiter_inv_def NewRateLimiter_def record_of_def new_ipRecord_def banned_count_def DefaultRateLimitConfig_def)
  from attempt_balanced [OF _ ip _ this _ _ b] show ?thesis unfolding b by (auto split: attempt.splits)
qed

end
