(* ===== verification/Worker_State.thy ===== *)
theory Worker_State
  imports Prelude
begin

text \<open>
  The in-memory life cycle of a shared warm worker (\<^verbatim>\<open>controlplane/worker_state.go\<close>): the
  states a worker passes through, the tenant it is assigned to, and the transition function
  that every change of the state goes through.
\<close>

section \<open>States and assignments\<close>

text \<open>\<^verbatim>\<open>WorkerLifecycleState\<close> is a string type: besides its seven constants it has the zero
  value and any other string.\<close>

datatype WorkerLifecycleState =
    WorkerLifecycleZero
  | WorkerLifecycleIdle
  | WorkerLifecycleReserved
  | WorkerLifecycleActivating
  | WorkerLifecycleHot
  | WorkerLifecycleHotIdle
  | WorkerLifecycleDraining
  | WorkerLifecycleRetired
  | WorkerLifecycleOther string

record WorkerAssignment =
  wa_OrgID :: string
  wa_MaxWorkers :: int
  wa_Image :: string

record SharedWorkerState =
  Lifecycle :: WorkerLifecycleState
  Assignment :: "WorkerAssignment option"

datatype state_error =
    IdleWithAssignment
  | BadAssignment WorkerLifecycleState state_error
  | UnknownLifecycle WorkerLifecycleState
  | InvalidTransition WorkerLifecycleState WorkerLifecycleState
  | CurrentAssignment state_error
  | ProposedAssignment state_error
  | AssignmentRequired
  | OrgCannotChange string string
  | MissingAssignment
  | MissingOrgID

definition NormalizedLifecycle :: "SharedWorkerState \<Rightarrow> WorkerLifecycleState" where
  "NormalizedLifecycle s = (if Lifecycle s = WorkerLifecycleZero then WorkerLifecycleIdle else Lifecycle s)"

definition validateWorkerAssignment :: "WorkerAssignment option \<Rightarrow> state_error option" where
  "validateWorkerAssignment assignment =
     (case assignment of
        None \<Rightarrow> Some MissingAssignment
      | Some a \<Rightarrow> if wa_OrgID a = [] then Some MissingOrgID else None)"

definition Validate :: "SharedWorkerState \<Rightarrow> state_error option" where
  "Validate s =
     (let lifecycle = NormalizedLifecycle s in
      if lifecycle = WorkerLifecycleIdle
      then (if Assignment s \<noteq> None then Some IdleWithAssignment else None)
      else if lifecycle \<in> {WorkerLifecycleReserved, WorkerLifecycleActivating, WorkerLifecycleHot,
             WorkerLifecycleHotIdle, WorkerLifecycleDraining}
      then map_option (BadAssignment lifecycle) (validateWorkerAssignment (Assignment s))
      else if lifecycle = WorkerLifecycleRetired
      then (if Assignment s = None then None
            else map_option (BadAssignment lifecycle) (validateWorkerAssignment (Assignment s)))
      else Some (UnknownLifecycle lifecycle))"

definition isAllowedWorkerLifecycleTransition :: "WorkerLifecycleState \<Rightarrow> WorkerLifecycleState \<Rightarrow> bool" where
  "isAllowedWorkerLifecycleTransition current nxt =
     (case current of
        WorkerLifecycleIdle \<Rightarrow> nxt = WorkerLifecycleReserved \<or> nxt = WorkerLifecycleRetired
      | WorkerLifecycleReserved \<Rightarrow> nxt = WorkerLifecycleActivating \<or> nxt = WorkerLifecycleRetired
      | WorkerLifecycleActivating \<Rightarrow> nxt = WorkerLifecycleHot \<or> nxt = WorkerLifecycleRetired
      | WorkerLifecycleHot \<Rightarrow>
          nxt = WorkerLifecycleDraining \<or> nxt = WorkerLifecycleRetired \<or> nxt = WorkerLifecycleHotIdle
      | WorkerLifecycleHotIdle \<Rightarrow> nxt = WorkerLifecycleReserved \<or> nxt = WorkerLifecycleRetired
      | WorkerLifecycleDraining \<Rightarrow> nxt = WorkerLifecycleRetired
      | WorkerLifecycleRetired \<Rightarrow> False
      | _ \<Rightarrow> False)"

text \<open>\<^verbatim>\<open>cloneWorkerAssignment\<close> copies the record behind the pointer: as a value it is the identity.\<close>

definition cloneWorkerAssignment :: "WorkerAssignment option \<Rightarrow> WorkerAssignment option" where
  "cloneWorkerAssignment assignment = (case assignment of None \<Rightarrow> None | Some a \<Rightarrow> Some a)"

definition resolveWorkerAssignment ::
  "WorkerAssignment option \<Rightarrow> WorkerAssignment option \<Rightarrow> state_error + WorkerAssignment option" where
  "resolveWorkerAssignment current proposed =
     (case (if current \<noteq> None then validateWorkerAssignment current else None) of
        Some err \<Rightarrow> Inl (CurrentAssignment err)
      | None \<Rightarrow>
          (case (if proposed \<noteq> None then validateWorkerAssignment proposed else None) of
             Some err \<Rightarrow> Inl (ProposedAssignment err)
           | None \<Rightarrow>
               (case (current, proposed) of
                  (None, None) \<Rightarrow> Inl AssignmentRequired
                | (None, Some p) \<Rightarrow> Inr (cloneWorkerAssignment proposed)
                | (Some c, None) \<Rightarrow> Inr (cloneWorkerAssignment current)
                | (Some c, Some p) \<Rightarrow>
                    if wa_OrgID c \<noteq> wa_OrgID p then Inl (OrgCannotChange (wa_OrgID c) (wa_OrgID p))
                    else Inr (cloneWorkerAssignment proposed))))"

definition next_assignment ::
  "SharedWorkerState \<Rightarrow> WorkerLifecycleState \<Rightarrow> WorkerAssignment option \<Rightarrow>
   state_error + WorkerAssignment option" where
  "next_assignment s nxt assignment =
     (if nxt = WorkerLifecycleIdle then Inr None
      else if nxt \<in> {WorkerLifecycleReserved, WorkerLifecycleActivating, WorkerLifecycleHot,
             WorkerLifecycleHotIdle, WorkerLifecycleDraining}
      then resolveWorkerAssignment (Assignment s) assignment
      else if nxt = WorkerLifecycleRetired
      then (if assignment \<noteq> None then resolveWorkerAssignment (Assignment s) assignment
            else Inr (cloneWorkerAssignment (Assignment s)))
      else Inl (UnknownLifecycle nxt))"

definition Transition ::
  "SharedWorkerState \<Rightarrow> WorkerLifecycleState \<Rightarrow> WorkerAssignment option \<Rightarrow> state_error + SharedWorkerState" where
  "Transition s nxt assignment =
     (let current = NormalizedLifecycle s in
      case Validate s of
        Some err \<Rightarrow> Inl err
      | None \<Rightarrow>
          if \<not> isAllowedWorkerLifecycleTransition current nxt then Inl (InvalidTransition current nxt)
          else
            case next_assignment s nxt assignment of
              Inl err \<Rightarrow> Inl err
            | Inr resolved \<Rightarrow>
                let nextState = \<lparr>Lifecycle = nxt, Assignment = resolved\<rparr>
                in case Validate nextState of Some err \<Rightarrow> Inl err | None \<Rightarrow> Inr nextState)"

definition cloneSharedWorkerState :: "SharedWorkerState \<Rightarrow> SharedWorkerState" where
  "cloneSharedWorkerState state =
     \<lparr>Lifecycle = NormalizedLifecycle state, Assignment = cloneWorkerAssignment (Assignment state)\<rparr>"

section \<open>Runs of a worker\<close>

inductive worker_trans :: "SharedWorkerState \<Rightarrow> SharedWorkerState \<Rightarrow> bool" where
  "Transition s nxt assignment = Inr s' \<Longrightarrow> worker_trans s s'"

inductive_cases worker_transE: "worker_trans s s'"

definition tenant_bound :: "WorkerLifecycleState set" where
  "tenant_bound = {WorkerLifecycleReserved, WorkerLifecycleActivating, WorkerLifecycleHot,
     WorkerLifecycleHotIdle, WorkerLifecycleDraining}"

abbreviation (input) assignable :: "WorkerAssignment option \<Rightarrow> bool" where
  "assignable a \<equiv> \<forall>x. a = Some x \<longrightarrow> wa_OrgID x \<noteq> []"

lemma validate_assignment_None [simp]:
  "validateWorkerAssignment a = None \<longleftrightarrow> (\<exists>x. a = Some x \<and> wa_OrgID x \<noteq> [])"
  by (auto simp: validateWorkerAssignment_def split: option.splits)

lemma clone_assignment [simp]: "cloneWorkerAssignment a = a"
  by (simp add: cloneWorkerAssignment_def split: option.split)

text \<open>What \<^verbatim>\<open>Validate\<close> accepts, state by state.\<close>

lemma Validate_None:
  "Validate s = None \<longleftrightarrow>
   NormalizedLifecycle s = WorkerLifecycleIdle \<and> Assignment s = None \<or>
   NormalizedLifecycle s \<in> tenant_bound \<and> (\<exists>a. Assignment s = Some a \<and> wa_OrgID a \<noteq> []) \<or>
   NormalizedLifecycle s = WorkerLifecycleRetired \<and> assignable (Assignment s)"
  unfolding Validate_def Let_def tenant_bound_def by (cases "Assignment s") auto

text \<open>The assignment that two assignments resolve to: the proposed one if there is one, of the
  same org as the current one.\<close>

lemma resolve_Inr:
  "resolveWorkerAssignment current proposed = Inr r \<longleftrightarrow>
   assignable current \<and> assignable proposed \<and>
   (\<forall>c p. current = Some c \<longrightarrow> proposed = Some p \<longrightarrow> wa_OrgID c = wa_OrgID p) \<and>
   r = (if proposed = None then current else proposed) \<and> r \<noteq> None"
  by (auto simp: resolveWorkerAssignment_def validateWorkerAssignment_def split: option.splits if_splits)

lemma allowed_cases:
  "isAllowedWorkerLifecycleTransition c n \<Longrightarrow> n \<in> tenant_bound \<or> n = WorkerLifecycleRetired"
  "\<not> isAllowedWorkerLifecycleTransition WorkerLifecycleRetired n"
  by (auto simp: isAllowedWorkerLifecycleTransition_def tenant_bound_def split: WorkerLifecycleState.splits)

lemma next_assignment_cases:
  "n \<in> tenant_bound \<Longrightarrow> next_assignment s n a = resolveWorkerAssignment (Assignment s) a"
  "next_assignment s WorkerLifecycleRetired a =
     (if a = None then Inr (Assignment s) else resolveWorkerAssignment (Assignment s) a)"
  by (auto simp: next_assignment_def tenant_bound_def)

lemma Validate_new:
  "n \<in> tenant_bound \<Longrightarrow> Validate \<lparr>Lifecycle = n, Assignment = r\<rparr> = None \<longleftrightarrow> r \<noteq> None \<and> assignable r"
  "Validate \<lparr>Lifecycle = WorkerLifecycleRetired, Assignment = r\<rparr> = None \<longleftrightarrow> assignable r"
  by (auto simp: Validate_None NormalizedLifecycle_def tenant_bound_def)

lemma Transition_Inr:
  "Transition s n a = Inr s' \<longleftrightarrow>
   Validate s = None \<and> isAllowedWorkerLifecycleTransition (NormalizedLifecycle s) n \<and>
   (\<exists>r. next_assignment s n a = Inr r \<and> s' = \<lparr>Lifecycle = n, Assignment = r\<rparr>) \<and> Validate s' = None"
  by (auto simp: Transition_def Let_def split: option.splits sum.splits)

lemma Transition_keeps_org:
  assumes "Transition s n a = Inr s'" and "Assignment s = Some x"
  shows "\<exists>y. Assignment s' = Some y \<and> wa_OrgID y = wa_OrgID x"
proof -
  from assms(1) obtain r where r: "next_assignment s n a = Inr r" "s' = \<lparr>Lifecycle = n, Assignment = r\<rparr>"
    and "n \<in> tenant_bound \<or> n = WorkerLifecycleRetired"
    using allowed_cases(1) by (auto simp: Transition_Inr)
  then have "r = Assignment s \<or> resolveWorkerAssignment (Assignment s) a = Inr r"
    by (auto simp: next_assignment_cases split: if_splits)
  with r(2) assms(2) show ?thesis by (cases a) (auto simp: resolve_Inr)
qed

lemma worker_run_org:
  assumes "worker_trans\<^sup>*\<^sup>* s s'" and "Assignment s = Some x"
  shows "\<exists>y. Assignment s' = Some y \<and> wa_OrgID y = wa_OrgID x"
  using assms by (induction rule: rtranclp_induct) (auto elim!: worker_transE dest: Transition_keeps_org)

section \<open>Properties\<close>

text \<open>\<^bold>\<open>C30\<close>. A worker serves one tenant in its life and ends retired: every state reached from a
  valid one is valid, a worker once assigned to an org stays assigned to that org, through
  draining, going back to the hot pool and being reserved again, and nothing follows retirement;
  every worker that is not retired can be retired.\<close>

theorem worker_serves_one_tenant:
  assumes "Validate s = None" and "worker_trans\<^sup>*\<^sup>* s s'"
  shows "Validate s' = None \<and>
    (\<forall>x. Assignment s = Some x \<longrightarrow> (\<exists>y. Assignment s' = Some y \<and> wa_OrgID y = wa_OrgID x)) \<and>
    (Lifecycle s = WorkerLifecycleRetired \<longrightarrow> s' = s) \<and>
    (Lifecycle s' \<noteq> WorkerLifecycleRetired \<longrightarrow>
       Transition s' WorkerLifecycleRetired None = Inr (s'\<lparr>Lifecycle := WorkerLifecycleRetired\<rparr>))"
proof -
  have valid: "Validate s' = None"
    using assms(2,1) by (induction rule: rtranclp_induct) (auto elim!: worker_transE simp: Transition_Inr)
  have "\<not> worker_trans s t" if "Lifecycle s = WorkerLifecycleRetired" for t
    using that by (auto elim!: worker_transE simp: Transition_Inr allowed_cases(2) NormalizedLifecycle_def)
  then have final: "Lifecycle s = WorkerLifecycleRetired \<longrightarrow> s' = s"
    using assms(2) by (metis converse_rtranclpE)
  have "Transition s' WorkerLifecycleRetired None = Inr (s'\<lparr>Lifecycle := WorkerLifecycleRetired\<rparr>)"
    if "Lifecycle s' \<noteq> WorkerLifecycleRetired"
    using valid that
    by (auto simp: Transition_Inr next_assignment_cases Validate_new Validate_None tenant_bound_def
        isAllowedWorkerLifecycleTransition_def NormalizedLifecycle_def split: if_splits)
  with valid final worker_run_org [OF assms(2)] show ?thesis by blast
qed

theorem worker_serves_one_tenant_witness:
  "\<exists>s'. Transition \<lparr>Lifecycle = WorkerLifecycleHot, Assignment = Some \<lparr>wa_OrgID = ''acme'', wa_MaxWorkers = 3, wa_Image = []\<rparr>\<rparr>
      WorkerLifecycleHotIdle None = Inr s' \<and> Validate s' = None \<and>
      (\<exists>y. Assignment s' = Some y \<and> wa_OrgID y = ''acme'')"
proof -
  let ?a = "\<lparr>wa_OrgID = ''acme'', wa_MaxWorkers = 3, wa_Image = []\<rparr>"
  let ?s = "\<lparr>Lifecycle = WorkerLifecycleHot, Assignment = Some ?a\<rparr>"
  let ?s' = "\<lparr>Lifecycle = WorkerLifecycleHotIdle, Assignment = Some ?a\<rparr>"
  have t: "Transition ?s WorkerLifecycleHotIdle None = Inr ?s'" by code_simp
  then have "worker_trans\<^sup>*\<^sup>* ?s ?s'" by (blast intro: worker_trans.intros)
  moreover have "Validate ?s = None" by code_simp
  ultimately show ?thesis using worker_serves_one_tenant [of ?s ?s'] t by auto
qed

text \<open>What a transition of a valid worker needs, and no more: the change of state is one the
  table allows, what is proposed names an org, there is an assignment to go on with unless the
  worker retires, and an assigned worker is not proposed another org. Then the new state has the
  proposed assignment, or the current one if none is proposed.\<close>

theorem transition_accepted_iff:
  assumes "Validate s = None"
  shows "Transition s n a = Inr s' \<longleftrightarrow>
    isAllowedWorkerLifecycleTransition (NormalizedLifecycle s) n \<and> assignable a \<and>
    (\<forall>c p. Assignment s = Some c \<longrightarrow> a = Some p \<longrightarrow> wa_OrgID c = wa_OrgID p) \<and>
    (Assignment s = None \<and> a = None \<longrightarrow> n = WorkerLifecycleRetired) \<and>
    s' = \<lparr>Lifecycle = n, Assignment = (if a = None then Assignment s else a)\<rparr>"
proof (cases "isAllowedWorkerLifecycleTransition (NormalizedLifecycle s) n")
  case True
  have cur: "assignable (Assignment s)" using assms by (auto simp: Validate_None)
  have ret: "WorkerLifecycleRetired \<notin> tenant_bound" by (simp add: tenant_bound_def)
  consider "n \<in> tenant_bound" | "n = WorkerLifecycleRetired" using allowed_cases(1) [OF True] by blast
  then show ?thesis
  proof cases
    case 1
    with True assms cur ret show ?thesis
      by (cases a; cases "Assignment s") (auto simp: Transition_Inr next_assignment_cases resolve_Inr Validate_new)
  next
    case 2
    with True assms cur show ?thesis
      by (cases a; cases "Assignment s") (auto simp: Transition_Inr next_assignment_cases resolve_Inr Validate_new)
  qed
qed (use assms in \<open>auto simp: Transition_Inr\<close>)

theorem transition_accepted_iff_witness:
  "let a = \<lparr>wa_OrgID = ''acme'', wa_MaxWorkers = 3, wa_Image = []\<rparr>
   in Transition \<lparr>Lifecycle = WorkerLifecycleZero, Assignment = None\<rparr> WorkerLifecycleReserved (Some a) =
      Inr \<lparr>Lifecycle = WorkerLifecycleReserved, Assignment = Some a\<rparr>"
  using transition_accepted_iff [of "\<lparr>Lifecycle = WorkerLifecycleZero, Assignment = None\<rparr>"]
  by (simp add: Validate_None NormalizedLifecycle_def isAllowedWorkerLifecycleTransition_def)

end
