(* ===== verification/Config_Models.thy ===== *)
theory Config_Models
  imports Prelude
begin

text \<open>
  The configuration tables of the config store (\<^verbatim>\<open>controlplane/configstore/models.go\<close>): orgs,
  their users and managed warehouses, the singleton settings, and the views of them that the
  in-memory snapshot holds. A \<^verbatim>\<open>float64\<close> is only stored and copied; it stands for its bits.
\<close>

section \<open>Managed warehouses\<close>

type_synonym float64 = int

text \<open>\<^verbatim>\<open>ManagedWarehouseProvisioningState\<close> is an open string type with six canonical values.\<close>

type_synonym ManagedWarehouseProvisioningState = string

definition ManagedWarehouseStatePending :: string where "ManagedWarehouseStatePending = ''pending''"
definition ManagedWarehouseStateProvisioning :: string where "ManagedWarehouseStateProvisioning = ''provisioning''"
definition ManagedWarehouseStateReady :: string where "ManagedWarehouseStateReady = ''ready''"
definition ManagedWarehouseStateFailed :: string where "ManagedWarehouseStateFailed = ''failed''"
definition ManagedWarehouseStateDeleting :: string where "ManagedWarehouseStateDeleting = ''deleting''"
definition ManagedWarehouseStateDeleted :: string where "ManagedWarehouseStateDeleted = ''deleted''"

record SecretRef =
  sr_Namespace :: string
  sr_Name :: string
  sr_Key :: string

record ManagedWarehouseDatabase =
  mwd_Region :: string
  mwd_Endpoint :: string
  mwd_Port :: int
  mwd_DatabaseName :: string
  mwd_Username :: string

record ManagedWarehouseMetadataStore =
  mms_Kind :: string
  mms_Engine :: string
  mms_Region :: string
  mms_Endpoint :: string
  mms_Port :: int
  mms_DatabaseName :: string
  mms_Username :: string

record ManagedWarehouseS3 =
  ms3_Provider :: string
  ms3_Region :: string
  ms3_Bucket :: string
  ms3_PathPrefix :: string
  ms3_Endpoint :: string
  ms3_UseSSL :: bool
  ms3_URLStyle :: string
  ms3_DeltaCatalogEnabled :: bool
  ms3_DeltaCatalogPath :: string

record ManagedWarehouseWorkerIdentity =
  mwi_Namespace :: string
  mwi_ServiceAccountName :: string
  mwi_IAMRoleARN :: string

record ManagedWarehouseIceberg =
  mi_Enabled :: bool
  mi_Backend :: string
  mi_Namespace :: string
  mi_Region :: string
  mi_TableBucketArn :: string
  mi_LakekeeperEndpoint :: string
  mi_LakekeeperWarehouse :: string
  mi_LakekeeperClientID :: string
  mi_LakekeeperOAuth2ServerURI :: string
  mi_LakekeeperClientCredentials :: SecretRef

definition IcebergBackendLakekeeper :: string where "IcebergBackendLakekeeper = ''lakekeeper''"
definition IcebergBackendS3Tables :: string where "IcebergBackendS3Tables = ''s3_tables''"

definition ResolvedBackend :: "ManagedWarehouseIceberg \<Rightarrow> string" where
  "ResolvedBackend i = (if mi_Backend i = [] then IcebergBackendLakekeeper else mi_Backend i)"

text \<open>The component states of a warehouse, each with its message, which the row and the snapshot
  both carry.\<close>

record warehouse_status =
  st_State :: ManagedWarehouseProvisioningState
  st_StatusMessage :: string
  st_WarehouseDatabaseState :: ManagedWarehouseProvisioningState
  st_WarehouseDatabaseStatusMessage :: string
  st_MetadataStoreState :: ManagedWarehouseProvisioningState
  st_MetadataStoreStatusMessage :: string
  st_S3State :: ManagedWarehouseProvisioningState
  st_S3StatusMessage :: string
  st_IcebergState :: ManagedWarehouseProvisioningState
  st_IcebergStatusMessage :: string
  st_IdentityState :: ManagedWarehouseProvisioningState
  st_IdentityStatusMessage :: string
  st_SecretsState :: ManagedWarehouseProvisioningState
  st_SecretsStatusMessage :: string

record ManagedWarehouse =
  mw_OrgID :: string
  mw_Image :: string
  mw_DuckLakeVersion :: string
  mw_AuroraMinACU :: float64
  mw_AuroraMaxACU :: float64
  mw_WarehouseDatabase :: ManagedWarehouseDatabase
  mw_MetadataStore :: ManagedWarehouseMetadataStore
  mw_PgBouncerEnabled :: bool
  mw_S3 :: ManagedWarehouseS3
  mw_Iceberg :: ManagedWarehouseIceberg
  mw_WorkerIdentity :: ManagedWarehouseWorkerIdentity
  mw_WarehouseDatabaseCredentials :: SecretRef
  mw_MetadataStoreCredentials :: SecretRef
  mw_S3Credentials :: SecretRef
  mw_RuntimeConfig :: SecretRef
  mw_Status :: warehouse_status
  mw_ProvisioningStartedAt :: "gotime option"
  mw_ReadyAt :: "gotime option"
  mw_FailedAt :: "gotime option"
  mw_CreatedAt :: gotime
  mw_UpdatedAt :: gotime

record ManagedWarehouseConfig =
  mc_OrgID :: string
  mc_Image :: string
  mc_DuckLakeVersion :: string
  mc_AuroraMinACU :: float64
  mc_AuroraMaxACU :: float64
  mc_WarehouseDatabase :: ManagedWarehouseDatabase
  mc_MetadataStore :: ManagedWarehouseMetadataStore
  mc_PgBouncerEnabled :: bool
  mc_S3 :: ManagedWarehouseS3
  mc_Iceberg :: ManagedWarehouseIceberg
  mc_WorkerIdentity :: ManagedWarehouseWorkerIdentity
  mc_WarehouseDatabaseCredentials :: SecretRef
  mc_MetadataStoreCredentials :: SecretRef
  mc_S3Credentials :: SecretRef
  mc_RuntimeConfig :: SecretRef
  mc_Status :: warehouse_status
  mc_ReadyAt :: "gotime option"
  mc_FailedAt :: "gotime option"

definition copyManagedWarehouseConfig :: "ManagedWarehouse option \<Rightarrow> ManagedWarehouseConfig option" where
  "copyManagedWarehouseConfig warehouse =
     (case warehouse of
        None \<Rightarrow> None
      | Some w \<Rightarrow> Some
          \<lparr>mc_OrgID = mw_OrgID w,
           mc_Image = mw_Image w,
           mc_DuckLakeVersion = mw_DuckLakeVersion w,
           mc_AuroraMinACU = mw_AuroraMinACU w,
           mc_AuroraMaxACU = mw_AuroraMaxACU w,
           mc_WarehouseDatabase = mw_WarehouseDatabase w,
           mc_MetadataStore = mw_MetadataStore w,
           mc_PgBouncerEnabled = mw_PgBouncerEnabled w,
           mc_S3 = mw_S3 w,
           mc_Iceberg = mw_Iceberg w,
           mc_WorkerIdentity = mw_WorkerIdentity w,
           mc_WarehouseDatabaseCredentials = mw_WarehouseDatabaseCredentials w,
           mc_MetadataStoreCredentials = mw_MetadataStoreCredentials w,
           mc_S3Credentials = mw_S3Credentials w,
           mc_RuntimeConfig = mw_RuntimeConfig w,
           mc_Status = mw_Status w,
           mc_ReadyAt = mw_ReadyAt w,
           mc_FailedAt = mw_FailedAt w\<rparr>)"

section \<open>Orgs and settings\<close>

record OrgUser =
  ou_OrgID :: string
  ou_Username :: string
  ou_Password :: string
  ou_Passthrough :: bool
  ou_CreatedAt :: gotime
  ou_UpdatedAt :: gotime

text \<open>The columns of an org's row; its users and its warehouse are rows of their own tables.\<close>

record Org =
  org_Name :: string
  org_DatabaseName :: string
  org_HostnameAlias :: "string option"
  org_MaxWorkers :: int
  org_MaxConnections :: int
  org_MemoryBudget :: string
  org_IdleTimeoutS :: int
  org_WorkerCPURequest :: string
  org_WorkerMemoryRequest :: string
  org_CreatedAt :: gotime
  org_UpdatedAt :: gotime

record OrgConfig =
  oc_Name :: string
  oc_DatabaseName :: string
  oc_HostnameAlias :: string
  oc_MaxWorkers :: int
  oc_MaxConnections :: int
  oc_MemoryBudget :: string
  oc_IdleTimeoutS :: int
  oc_WorkerCPURequest :: string
  oc_WorkerMemoryRequest :: string
  oc_Users :: "string \<rightharpoonup> string"
  oc_Warehouse :: "ManagedWarehouseConfig option"

record GlobalConfig =
  gc_ID :: nat
  gc_MemoryBudget :: string
  gc_MemoryRebalance :: bool
  gc_MaxConnections :: int
  gc_IdleTimeoutS :: int
  gc_WorkerQueueTimeoutS :: int
  gc_WorkerIdleTimeoutS :: int
  gc_Extensions :: string
  gc_UpdatedAt :: gotime

record DuckLakeConfig =
  dl_ID :: nat
  dl_MetadataStore :: string
  dl_ObjectStore :: string
  dl_DataPath :: string
  dl_S3Provider :: string
  dl_S3Endpoint :: string
  dl_S3AccessKey :: string
  dl_S3SecretKey :: string
  dl_S3Region :: string
  dl_S3UseSSL :: bool
  dl_S3URLStyle :: string
  dl_S3Chain :: string
  dl_S3Profile :: string
  dl_DeltaCatalogEnabled :: bool
  dl_DeltaCatalogPath :: string
  dl_UpdatedAt :: gotime

record RateLimitRow =
  rc_ID :: nat
  rc_MaxFailedAttempts :: int
  rc_FailedAttemptWindowS :: int
  rc_BanDurationS :: int
  rc_MaxConnectionsPerIP :: int
  rc_UpdatedAt :: gotime

record QueryLogConfig =
  qc_ID :: nat
  qc_Enabled :: bool
  qc_FlushIntervalS :: int
  qc_BatchSize :: int
  qc_CompactIntervalS :: int
  qc_DataInliningRowLimit :: int
  qc_UpdatedAt :: gotime

record config_db =
  duckgres_orgs :: "Org list"
  duckgres_org_users :: "OrgUser list"
  duckgres_managed_warehouses :: "ManagedWarehouse list"
  duckgres_global_config :: "GlobalConfig list"
  duckgres_ducklake_config :: "DuckLakeConfig list"
  duckgres_rate_limit_config :: "RateLimitRow list"
  duckgres_query_log_config :: "QueryLogConfig list"

text \<open>The zero values of the settings, which a variable keeps when its row cannot be read.\<close>

definition zero_GlobalConfig :: GlobalConfig where
  "zero_GlobalConfig =
     \<lparr>gc_ID = 0, gc_MemoryBudget = [], gc_MemoryRebalance = False, gc_MaxConnections = 0, gc_IdleTimeoutS = 0,
      gc_WorkerQueueTimeoutS = 0, gc_WorkerIdleTimeoutS = 0, gc_Extensions = [], gc_UpdatedAt = 0\<rparr>"

definition zero_DuckLakeConfig :: DuckLakeConfig where
  "zero_DuckLakeConfig =
     \<lparr>dl_ID = 0, dl_MetadataStore = [], dl_ObjectStore = [], dl_DataPath = [], dl_S3Provider = [], dl_S3Endpoint = [],
      dl_S3AccessKey = [], dl_S3SecretKey = [], dl_S3Region = [], dl_S3UseSSL = False, dl_S3URLStyle = [],
      dl_S3Chain = [], dl_S3Profile = [], dl_DeltaCatalogEnabled = False, dl_DeltaCatalogPath = [], dl_UpdatedAt = 0\<rparr>"

definition zero_RateLimitRow :: RateLimitRow where
  "zero_RateLimitRow =
     \<lparr>rc_ID = 0, rc_MaxFailedAttempts = 0, rc_FailedAttemptWindowS = 0, rc_BanDurationS = 0,
      rc_MaxConnectionsPerIP = 0, rc_UpdatedAt = 0\<rparr>"

definition zero_QueryLogConfig :: QueryLogConfig where
  "zero_QueryLogConfig =
     \<lparr>qc_ID = 0, qc_Enabled = False, qc_FlushIntervalS = 0, qc_BatchSize = 0, qc_CompactIntervalS = 0,
      qc_DataInliningRowLimit = 0, qc_UpdatedAt = 0\<rparr>"

text \<open>The keys of the tables: an org's name, its database and its alias are unique, a user within
  its org, and every user belongs to an org.\<close>

definition config_keys :: "config_db \<Rightarrow> bool" where
  "config_keys db \<longleftrightarrow>
     distinct (map org_Name (duckgres_orgs db)) \<and>
     distinct (map org_DatabaseName (duckgres_orgs db)) \<and>
     distinct (filter (\<lambda>a. a \<noteq> None) (map org_HostnameAlias (duckgres_orgs db))) \<and>
     distinct (map (\<lambda>u. (ou_OrgID u, ou_Username u)) (duckgres_org_users db)) \<and>
     ou_OrgID ` set (duckgres_org_users db) \<subseteq> org_Name ` set (duckgres_orgs db) \<and>
     distinct (map mw_OrgID (duckgres_managed_warehouses db))"

end
