(* ===== verification/Tenant_Secrets.thy ===== *)
theory Tenant_Secrets
  imports Config_Models
begin

text \<open>
  The checks that keep the secrets of a managed warehouse within its tenant
  (\<^verbatim>\<open>controlplane/configstore/tenant_refs.go\<close>).
\<close>

datatype secret_error =
    RequiresNameAndKey string
  | RequiresTenantNamespace string
  | RequiresRefNamespace string
  | NamespaceMismatch string
  | NamePrefixMismatch string

definition SecretRefEmpty :: "SecretRef \<Rightarrow> bool" where
  "SecretRefEmpty ref \<longleftrightarrow>
     TrimSpace (sr_Namespace ref) = [] \<and> TrimSpace (sr_Name ref) = [] \<and> TrimSpace (sr_Key ref) = []"

definition tenantSecretNamePrefix :: "string \<Rightarrow> string" where
  "tenantSecretNamePrefix orgID = (let orgID = TrimSpace orgID in if orgID = [] then [] else orgID @ ''-'')"

text \<open>The default namespace only changes the wording of the two errors about a missing namespace.\<close>

definition ValidateTenantSecretRef ::
  "string \<Rightarrow> string \<Rightarrow> string \<Rightarrow> string \<Rightarrow> SecretRef \<Rightarrow> secret_error option" where
  "ValidateTenantSecretRef orgID tenantNamespace defaultNamespace field ref =
     (if SecretRefEmpty ref then None
      else
        let name = TrimSpace (sr_Name ref);
            key = TrimSpace (sr_Key ref);
            refNamespace = TrimSpace (sr_Namespace ref);
            effectiveTenantNamespace = TrimSpace tenantNamespace
        in if name = [] \<or> key = [] then Some (RequiresNameAndKey field)
           else if effectiveTenantNamespace = [] then Some (RequiresTenantNamespace field)
           else if refNamespace = [] then Some (RequiresRefNamespace field)
           else if refNamespace \<noteq> effectiveTenantNamespace then Some (NamespaceMismatch field)
           else
             let pre = tenantSecretNamePrefix orgID
             in if pre \<noteq> [] \<and> \<not> prefix pre name then Some (NamePrefixMismatch field) else None)"

fun first_error :: "secret_error option list \<Rightarrow> secret_error option" where
  "first_error [] = None"
| "first_error (Some err # es) = Some err"
| "first_error (None # es) = first_error es"

definition ValidateManagedWarehouseSecretRefs ::
  "string \<Rightarrow> string \<Rightarrow> ManagedWarehouseConfig option \<Rightarrow> secret_error option" where
  "ValidateManagedWarehouseSecretRefs orgID defaultNamespace warehouse =
     (case warehouse of
        None \<Rightarrow> None
      | Some w \<Rightarrow>
          let tenantNamespace = TrimSpace (mwi_Namespace (mc_WorkerIdentity w))
          in first_error (map (\<lambda>(field, ref). ValidateTenantSecretRef orgID tenantNamespace defaultNamespace field ref)
               [(''warehouse_database_credentials'', mc_WarehouseDatabaseCredentials w),
                (''metadata_store_credentials'', mc_MetadataStoreCredentials w),
                (''s3_credentials'', mc_S3Credentials w),
                (''runtime_config'', mc_RuntimeConfig w)]))"

lemma first_error_None: "first_error es = None \<longleftrightarrow> (\<forall>x \<in> set es. x = None)"
  by (induction es rule: first_error.induct) auto

text \<open>What an accepted reference looks like.\<close>

definition owned_ref :: "string \<Rightarrow> string \<Rightarrow> SecretRef \<Rightarrow> bool" where
  "owned_ref orgID ns ref \<longleftrightarrow>
     TrimSpace (sr_Name ref) \<noteq> [] \<and> TrimSpace (sr_Key ref) \<noteq> [] \<and>
     TrimSpace ns \<noteq> [] \<and> TrimSpace (sr_Namespace ref) = TrimSpace ns \<and>
     (TrimSpace orgID \<noteq> [] \<longrightarrow> prefix (TrimSpace orgID @ ''-'') (TrimSpace (sr_Name ref)))"

lemma accepted_iff:
  "ValidateTenantSecretRef orgID ns dflt field ref = None \<longleftrightarrow> SecretRefEmpty ref \<or> owned_ref orgID ns ref"
  by (auto simp: ValidateTenantSecretRef_def owned_ref_def tenantSecretNamePrefix_def Let_def)

section \<open>Properties\<close>

definition warehouse_refs :: "ManagedWarehouseConfig \<Rightarrow> SecretRef set" where
  "warehouse_refs w = {mc_WarehouseDatabaseCredentials w, mc_MetadataStoreCredentials w, mc_S3Credentials w, mc_RuntimeConfig w}"

text \<open>\<^bold>\<open>C37\<close>. A warehouse is accepted exactly when each of its four secret references is unset or
  owned by the tenant, that is, complete, in the namespace of its workers and with a name that
  starts with the org and a hyphen. Two orgs can then share a secret only if they share the
  namespace and the name of one, followed by a hyphen, starts the name of the other: the prefix
  rule does not tell the secrets of \<^verbatim>\<open>acme\<close> from those of \<^verbatim>\<open>acme-eu\<close>.\<close>

theorem warehouse_secrets_owned:
  "(ValidateManagedWarehouseSecretRefs orgID dflt (Some w) = None \<longleftrightarrow>
      (\<forall>ref \<in> warehouse_refs w.
         SecretRefEmpty ref \<or> owned_ref orgID (TrimSpace (mwi_Namespace (mc_WorkerIdentity w))) ref)) \<and>
   (owned_ref a nsa ref \<and> owned_ref b nsb ref \<and> TrimSpace a \<noteq> [] \<and> TrimSpace b \<noteq> [] \<longrightarrow>
      TrimSpace nsa = TrimSpace nsb \<and>
      (TrimSpace a = TrimSpace b \<or> prefix (TrimSpace a @ ''-'') (TrimSpace b) \<or> prefix (TrimSpace b @ ''-'') (TrimSpace a)))"
proof (intro conjI impI)
  show "ValidateManagedWarehouseSecretRefs orgID dflt (Some w) = None \<longleftrightarrow>
      (\<forall>ref \<in> warehouse_refs w.
         SecretRefEmpty ref \<or> owned_ref orgID (TrimSpace (mwi_Namespace (mc_WorkerIdentity w))) ref)"
    by (simp add: ValidateManagedWarehouseSecretRefs_def warehouse_refs_def first_error_None accepted_iff Let_def)
next
  assume h: "owned_ref a nsa ref \<and> owned_ref b nsb ref \<and> TrimSpace a \<noteq> [] \<and> TrimSpace b \<noteq> []"
  then show "TrimSpace nsa = TrimSpace nsb" by (auto simp: owned_ref_def)
  from h have "prefix (TrimSpace a @ ''-'') (TrimSpace (sr_Name ref))" "prefix (TrimSpace b @ ''-'') (TrimSpace (sr_Name ref))"
    by (simp_all add: owned_ref_def)
  then have "prefix (TrimSpace a @ ''-'') (TrimSpace b @ ''-'') \<or> prefix (TrimSpace b @ ''-'') (TrimSpace a @ ''-'')"
    by (rule prefix_same_cases)
  then show "TrimSpace a = TrimSpace b \<or> prefix (TrimSpace a @ ''-'') (TrimSpace b) \<or> prefix (TrimSpace b @ ''-'') (TrimSpace a)"
    by (auto simp: prefix_snoc)
qed

theorem warehouse_secrets_owned_witness:
  "let ref = \<lparr>sr_Namespace = ''ducks'', sr_Name = ''acme-eu-db'', sr_Key = ''dsn''\<rparr>
   in ValidateTenantSecretRef ''acme'' ''ducks'' [] ''s3_credentials'' ref = None \<and>
      ValidateTenantSecretRef ''acme-eu'' ''ducks'' [] ''s3_credentials'' ref = None \<and>
      prefix (TrimSpace ''acme'' @ ''-'') (TrimSpace ''acme-eu'')"
proof -
  let ?ref = "\<lparr>sr_Namespace = ''ducks'', sr_Name = ''acme-eu-db'', sr_Key = ''dsn''\<rparr>"
  have trim: "TrimSpace ''acme'' = ''acme''" "TrimSpace ''acme-eu'' = ''acme-eu''" "TrimSpace ''ducks'' = ''ducks''"
    "TrimSpace ''acme-eu-db'' = ''acme-eu-db''" "TrimSpace ''dsn'' = ''dsn''" by code_simp+
  have own: "owned_ref ''acme'' ''ducks'' ?ref" "owned_ref ''acme-eu'' ''ducks'' ?ref" by (simp_all add: owned_ref_def trim)
  with warehouse_secrets_owned [THEN conjunct2, THEN mp, of "''acme''" "''ducks''" ?ref "''acme-eu''" "''ducks''"]
  show ?thesis by (simp add: accepted_iff trim Let_def)
qed

end
