(* ===== verification/SNI_Routing.thy ===== *)
theory SNI_Routing
  imports Prelude
begin

text \<open>
  Routing by the TLS server name (\<^verbatim>\<open>controlplane/control.go\<close>, and
  \<^verbatim>\<open>controlplane/sni_kubernetes.go\<close> of the multi-tenant build): the managed hostname's label and
  the three routing modes.
\<close>

definition SNIRoutingOff :: string where "SNIRoutingOff = ''off''"
definition SNIRoutingPassthrough :: string where "SNIRoutingPassthrough = ''passthrough''"
definition SNIRoutingEnforce :: string where "SNIRoutingEnforce = ''enforce''"

lemmas sni_modes = SNIRoutingOff_def SNIRoutingPassthrough_def SNIRoutingEnforce_def

definition TrimSuffix :: "string \<Rightarrow> string \<Rightarrow> string" where
  "TrimSuffix s suf = (if suffix suf s then take (length s - length suf) s else s)"

fun extractOrgFromSNI :: "string list \<Rightarrow> string \<Rightarrow> string \<times> bool" where
  "extractOrgFromSNI [] sni = ([], False)"
| "extractOrgFromSNI (suf # sufs) sni =
     (if \<not> suffix suf sni then extractOrgFromSNI sufs sni
      else
        let pre = TrimSuffix sni suf
        in if pre = [] \<or> CHR ''.'' \<in> set pre then extractOrgFromSNI sufs sni else (pre, True))"

definition postgresSNIRoutingModeEnabled :: "string \<Rightarrow> bool" where
  "postgresSNIRoutingModeEnabled mode \<longleftrightarrow> mode = SNIRoutingPassthrough \<or> mode = SNIRoutingEnforce"

record postgresSNIResolution =
  sniPrefix :: string
  isManaged :: bool
  useManagedSNI :: bool

definition resolvePostgresSNI :: "string list \<Rightarrow> string \<Rightarrow> string \<Rightarrow> postgresSNIResolution" where
  "resolvePostgresSNI sufs mode sni =
     (case extractOrgFromSNI sufs sni of
        (pre, managed) \<Rightarrow>
          \<lparr>sniPrefix = pre, isManaged = managed,
           useManagedSNI = (postgresSNIRoutingModeEnabled mode \<and> managed)\<rparr>)"

fun join_or :: "string list \<Rightarrow> string" where
  "join_or [] = []"
| "join_or [s] = s"
| "join_or (s # ss) = s @ '' or '' @ join_or ss"

definition managedHostnameHint :: "string list \<Rightarrow> string" where
  "managedHostnameHint sufs =
     (if sufs = [] then ''<org-id>.<managed-suffix>'' else join_or (map (\<lambda>s. ''<org-id>'' @ s) sufs))"

text \<open>A managed name is a non-empty label without dots in front of a managed suffix.\<close>

lemma extractOrgFromSNI_iff:
  "extractOrgFromSNI sufs sni = (pre, True) \<Longrightarrow>
   pre \<noteq> [] \<and> CHR ''.'' \<notin> set pre \<and> (\<exists>suf \<in> set sufs. sni = pre @ suf)"
proof (induction sufs)
  case (Cons suf sufs)
  show ?case
  proof (cases "suffix suf sni \<and> TrimSuffix sni suf \<noteq> [] \<and> CHR ''.'' \<notin> set (TrimSuffix sni suf)")
    case True
    then have "pre = TrimSuffix sni suf" using Cons.prems by (simp add: Let_def)
    moreover have "sni = TrimSuffix sni suf @ suf" using True by (auto simp: TrimSuffix_def suffix_def)
    ultimately show ?thesis using True by auto
  next
    case False
    then have "extractOrgFromSNI sufs sni = (pre, True)" using Cons.prems by (auto simp: Let_def split: if_splits)
    with Cons.IH show ?thesis by auto
  qed
qed simp

end
