(* ===== verification/Org_Resolution.thy ===== *)
theory Org_Resolution
  imports Config_Models Runtime_Models
begin

text \<open>
  The configuration snapshot of the config store (\<^verbatim>\<open>controlplane/configstore/store.go\<close>): how it
  is built from the tables, and the lookups that decide which org a client belongs to and
  whether its credentials are valid. \<^verbatim>\<open>bcrypt.CompareHashAndPassword\<close> is the parameter
  \<open>bcrypt\<close>: whether a hash accepts a password.
\<close>

section \<open>The snapshot\<close>

type_synonym OrgUserKey = "string \<times> string"

record Snapshot =
  Orgs :: "string \<rightharpoonup> OrgConfig"
  DatabaseOrg :: "string \<rightharpoonup> string"
  HostnameAliasOrg :: "string \<rightharpoonup> string"
  OrgUserPassword :: "OrgUserKey \<rightharpoonup> string"
  OrgUserPassthrough :: "OrgUserKey \<rightharpoonup> bool"
  Global :: GlobalConfig
  DuckLake :: DuckLakeConfig
  RateLimit :: RateLimitRow
  QueryLog :: QueryLogConfig

text \<open>The rows that \<^verbatim>\<open>Preload\<close> attaches to an org.\<close>

definition users_of :: "config_db \<Rightarrow> Org \<Rightarrow> OrgUser list" where
  "users_of db o' = filter (\<lambda>u. ou_OrgID u = org_Name o') (duckgres_org_users db)"

definition warehouse_of :: "config_db \<Rightarrow> Org \<Rightarrow> ManagedWarehouse option" where
  "warehouse_of db o' = find (\<lambda>w. mw_OrgID w = org_Name o') (duckgres_managed_warehouses db)"

definition alias_of :: "Org \<Rightarrow> string" where
  "alias_of o' = (case org_HostnameAlias o' of None \<Rightarrow> [] | Some a \<Rightarrow> a)"

definition org_config :: "config_db \<Rightarrow> Org \<Rightarrow> OrgConfig" where
  "org_config db o' =
     \<lparr>oc_Name = org_Name o',
      oc_DatabaseName = org_DatabaseName o',
      oc_HostnameAlias = alias_of o',
      oc_MaxWorkers = org_MaxWorkers o',
      oc_MaxConnections = org_MaxConnections o',
      oc_MemoryBudget = org_MemoryBudget o',
      oc_IdleTimeoutS = org_IdleTimeoutS o',
      oc_WorkerCPURequest = org_WorkerCPURequest o',
      oc_WorkerMemoryRequest = org_WorkerMemoryRequest o',
      oc_Users = foldl (\<lambda>m u. m(ou_Username u \<mapsto> ou_Password u)) Map.empty (users_of db o'),
      oc_Warehouse = copyManagedWarehouseConfig (warehouse_of db o')\<rparr>"

definition add_user :: "Org \<Rightarrow> Snapshot \<Rightarrow> OrgUser \<Rightarrow> Snapshot" where
  "add_user o' snap u =
     (let key = (org_Name o', ou_Username u);
          snap1 = snap\<lparr>OrgUserPassword := (OrgUserPassword snap)(key \<mapsto> ou_Password u)\<rparr>
      in if ou_Passthrough u then snap1\<lparr>OrgUserPassthrough := (OrgUserPassthrough snap1)(key \<mapsto> True)\<rparr>
         else snap1)"

definition add_org :: "config_db \<Rightarrow> Snapshot \<Rightarrow> Org \<Rightarrow> Snapshot" where
  "add_org db snap o' =
     (let snap1 = (if org_DatabaseName o' \<noteq> []
                   then snap\<lparr>DatabaseOrg := (DatabaseOrg snap)(org_DatabaseName o' \<mapsto> org_Name o')\<rparr> else snap);
          snap2 = (if alias_of o' \<noteq> []
                   then snap1\<lparr>HostnameAliasOrg := (HostnameAliasOrg snap1)(alias_of o' \<mapsto> org_Name o')\<rparr> else snap1);
          snap3 = foldl (add_user o') snap2 (users_of db o')
      in snap3\<lparr>Orgs := (Orgs snap3)(org_Name o' \<mapsto> org_config db o')\<rparr>)"

text \<open>\<^verbatim>\<open>cs.db.First(&row, 1)\<close>, whose error is not looked at: the variable keeps its zero value when
  the row is missing or the query fails.\<close>

definition first_row :: "env \<Rightarrow> ('r \<Rightarrow> nat) \<Rightarrow> 'r \<Rightarrow> 'r list \<Rightarrow> 'r" where
  "first_row e key zero rows =
     (case fault e of
        Some m \<Rightarrow> zero
      | None \<Rightarrow> (case find (\<lambda>r. key r = 1) rows of None \<Rightarrow> zero | Some r \<Rightarrow> r))"

text \<open>The five queries of a load run one after the other; \<open>es\<close> gives the outcome of each.\<close>

definition load :: "(nat \<Rightarrow> env) \<Rightarrow> config_db \<Rightarrow> Snapshot result" where
  "load es db =
     (case fault (es 0) of
        Some m \<Rightarrow> Inl (DbError m)
      | None \<Rightarrow> Inr (foldl (add_org db)
          \<lparr>Orgs = Map.empty, DatabaseOrg = Map.empty, HostnameAliasOrg = Map.empty,
           OrgUserPassword = Map.empty, OrgUserPassthrough = Map.empty,
           Global = first_row (es 1) gc_ID zero_GlobalConfig (duckgres_global_config db),
           DuckLake = first_row (es 2) dl_ID zero_DuckLakeConfig (duckgres_ducklake_config db),
           RateLimit = first_row (es 3) rc_ID zero_RateLimitRow (duckgres_rate_limit_config db),
           QueryLog = first_row (es 4) qc_ID zero_QueryLogConfig (duckgres_query_log_config db)\<rparr>
          (duckgres_orgs db)))"

text \<open>One round of the polling goroutine: a snapshot that cannot be loaded leaves the old one.\<close>

definition poll_once :: "(nat \<Rightarrow> env) \<Rightarrow> config_db \<Rightarrow> Snapshot option \<Rightarrow> Snapshot option" where
  "poll_once es db snapshot = (case load es db of Inl err \<Rightarrow> snapshot | Inr newSnap \<Rightarrow> Some newSnap)"

section \<open>Routing\<close>

definition ResolveDatabase :: "Snapshot option \<Rightarrow> string \<Rightarrow> string" where
  "ResolveDatabase snapshot database =
     (case snapshot of
        None \<Rightarrow> []
      | Some snap \<Rightarrow> (case DatabaseOrg snap database of None \<Rightarrow> [] | Some o' \<Rightarrow> o'))"

definition DatabaseNameForSNIPrefix :: "Snapshot option \<Rightarrow> string \<Rightarrow> string" where
  "DatabaseNameForSNIPrefix snapshot pre =
     (if pre = [] then []
      else case snapshot of
        None \<Rightarrow> pre
      | Some snap \<Rightarrow>
          (case HostnameAliasOrg snap pre of
             None \<Rightarrow> pre
           | Some orgID \<Rightarrow>
               (case Orgs snap orgID of
                  None \<Rightarrow> pre
                | Some oc \<Rightarrow> if oc_DatabaseName oc \<noteq> [] then oc_DatabaseName oc else pre)))"

definition is_alnum :: "char \<Rightarrow> bool" where
  "is_alnum c \<longleftrightarrow> (CHR ''a'' \<le> c \<and> c \<le> CHR ''z'') \<or> (CHR ''A'' \<le> c \<and> c \<le> CHR ''Z'') \<or>
     (CHR ''0'' \<le> c \<and> c \<le> CHR ''9'')"

text \<open>The loop over the runes of the label; a rune that is not one byte is neither a letter, a digit
  nor a hyphen.\<close>

definition isDNSLabel :: "string \<Rightarrow> bool" where
  "isDNSLabel label \<longleftrightarrow>
     \<not> (length label = 0 \<or> length label > 63) \<and>
     (\<forall>i < length label.
        (is_alnum (label ! i) \<or> label ! i = CHR ''-'') \<and>
        \<not> (label ! i = CHR ''-'' \<and> (i = 0 \<or> i = length label - 1)))"

definition resolveSNIPrefixFromSnapshot :: "Snapshot option \<Rightarrow> string \<Rightarrow> string \<times> string \<times> bool" where
  "resolveSNIPrefixFromSnapshot snapshot pre =
     (case snapshot of
        None \<Rightarrow> ([], [], False)
      | Some snap \<Rightarrow>
          if pre = [] then ([], [], False)
          else
            case HostnameAliasOrg snap pre of
              Some orgID \<Rightarrow>
                (case Orgs snap orgID of Some oc \<Rightarrow> (orgID, oc_DatabaseName oc, True) | None \<Rightarrow> ([], [], False))
            | None \<Rightarrow>
                (case DatabaseOrg snap pre of
                   Some orgID \<Rightarrow> (orgID, pre, False)
                 | None \<Rightarrow>
                     if isDNSLabel pre
                     then (case Orgs snap pre of
                             Some oc \<Rightarrow> (oc_Name oc, oc_DatabaseName oc, False)
                           | None \<Rightarrow> ([], [], False))
                     else ([], [], False)))"

definition ResolveSNIPrefix :: "Snapshot option \<Rightarrow> string \<Rightarrow> string \<times> string" where
  "ResolveSNIPrefix snapshot pre =
     (if pre = [] then ([], [])
      else if snapshot = None then ([], [])
      else case resolveSNIPrefixFromSnapshot snapshot pre of (orgID, databaseName, _) \<Rightarrow> (orgID, databaseName))"

record PostgresConnectionResolution =
  EffectiveDatabase :: string
  res_OrgID :: string
  SNIOrgID :: string
  SNIDatabase :: string
  SNIAliasUsed :: bool
  UsedSNIDatabase :: bool
  RequiresSNIOrgMatch :: bool
  SNIResolved :: bool
  DatabaseExists :: bool
  HostnameMatches :: bool
  Valid :: bool
  Passthrough :: bool

definition resolution_start :: "string \<Rightarrow> PostgresConnectionResolution" where
  "resolution_start startupDatabase =
     \<lparr>EffectiveDatabase = startupDatabase, res_OrgID = [], SNIOrgID = [], SNIDatabase = [], SNIAliasUsed = False,
      UsedSNIDatabase = False, RequiresSNIOrgMatch = False, SNIResolved = False, DatabaseExists = False,
      HostnameMatches = True, Valid = False, Passthrough = False\<rparr>"

definition resolve_sni :: "Snapshot \<Rightarrow> string \<Rightarrow> string \<Rightarrow> PostgresConnectionResolution \<Rightarrow> PostgresConnectionResolution" where
  "resolve_sni snap startupDatabase sniPrefix result =
     (case resolveSNIPrefixFromSnapshot (Some snap) sniPrefix of
        (sniOrg, sniDb, aliasUsed) \<Rightarrow>
          let sniDatabase = (if sniDb = [] then sniPrefix else sniDb);
              result1 = result\<lparr>RequiresSNIOrgMatch := True, SNIOrgID := sniOrg, SNIDatabase := sniDatabase,
                          SNIAliasUsed := aliasUsed, SNIResolved := (sniOrg \<noteq> [])\<rparr>
          in if startupDatabase = []
             then result1\<lparr>EffectiveDatabase := sniDatabase, UsedSNIDatabase := True\<rparr> else result1)"

text \<open>The second half: the org of the effective database, the match with the hostname's org, and
  the user of that org.\<close>

definition resolve_user ::
  "(string \<Rightarrow> string \<Rightarrow> bool) \<Rightarrow> Snapshot \<Rightarrow> string \<Rightarrow> string \<Rightarrow> PostgresConnectionResolution \<Rightarrow>
   PostgresConnectionResolution" where
  "resolve_user bcrypt snap username password result =
     (if EffectiveDatabase result = [] then result
      else
        let orgID = ResolveDatabase (Some snap) (EffectiveDatabase result)
        in if orgID = [] then result
           else
             let result1 = result\<lparr>DatabaseExists := True, res_OrgID := orgID\<rparr>
             in if RequiresSNIOrgMatch result1 \<and> SNIOrgID result1 \<noteq> orgID
                then result1\<lparr>HostnameMatches := False\<rparr>
                else
                  (let key = (orgID, username)
                   in case OrgUserPassword snap key of
                        None \<Rightarrow> result1
                      | Some storedHash \<Rightarrow>
                          if \<not> bcrypt storedHash password then result1
                          else result1\<lparr>Valid := True, Passthrough := (OrgUserPassthrough snap key = Some True)\<rparr>))"

definition ResolvePostgresConnection ::
  "(string \<Rightarrow> string \<Rightarrow> bool) \<Rightarrow> Snapshot option \<Rightarrow> string \<Rightarrow> string \<Rightarrow> bool \<Rightarrow> string \<Rightarrow> string \<Rightarrow>
   PostgresConnectionResolution" where
  "ResolvePostgresConnection bcrypt snapshot startupDatabase sniPrefix useManagedSNI username password =
     (case snapshot of
        None \<Rightarrow> resolution_start startupDatabase
      | Some snap \<Rightarrow>
          let result = (if useManagedSNI then resolve_sni snap startupDatabase sniPrefix (resolution_start startupDatabase)
                        else resolution_start startupDatabase)
          in resolve_user bcrypt snap username password result)"

section \<open>Credentials\<close>

definition ValidateOrgUser ::
  "(string \<Rightarrow> string \<Rightarrow> bool) \<Rightarrow> Snapshot option \<Rightarrow> string \<Rightarrow> string \<Rightarrow> string \<Rightarrow> bool" where
  "ValidateOrgUser bcrypt snapshot orgID username password =
     (case snapshot of
        None \<Rightarrow> False
      | Some snap \<Rightarrow>
          (case OrgUserPassword snap (orgID, username) of
             None \<Rightarrow> False
           | Some storedHash \<Rightarrow> bcrypt storedHash password))"

definition IsOrgUserPassthrough :: "Snapshot option \<Rightarrow> string \<Rightarrow> string \<Rightarrow> bool" where
  "IsOrgUserPassthrough snapshot orgID username =
     (case snapshot of None \<Rightarrow> False | Some snap \<Rightarrow> OrgUserPassthrough snap (orgID, username) = Some True)"

definition ValidateOrgUserAndGetPassthrough ::
  "(string \<Rightarrow> string \<Rightarrow> bool) \<Rightarrow> Snapshot option \<Rightarrow> string \<Rightarrow> string \<Rightarrow> string \<Rightarrow> bool \<times> bool" where
  "ValidateOrgUserAndGetPassthrough bcrypt snapshot orgID username password =
     (case snapshot of
        None \<Rightarrow> (False, False)
      | Some snap \<Rightarrow>
          (let key = (orgID, username)
           in case OrgUserPassword snap key of
                None \<Rightarrow> (False, False)
              | Some storedHash \<Rightarrow>
                  if \<not> bcrypt storedHash password then (False, False)
                  else (True, OrgUserPassthrough snap key = Some True)))"

text \<open>Go walks a map in an order it chooses anew each time: \<open>order\<close> is the order of the keys.\<close>

definition FindAndValidateUser ::
  "(string \<Rightarrow> string \<Rightarrow> bool) \<Rightarrow> OrgUserKey list \<Rightarrow> Snapshot option \<Rightarrow> string \<Rightarrow> string \<Rightarrow> string \<times> bool" where
  "FindAndValidateUser bcrypt order snapshot username password =
     (case snapshot of
        None \<Rightarrow> ([], False)
      | Some snap \<Rightarrow>
          (case find (\<lambda>key. snd key = username) order of
             None \<Rightarrow> ([], False)
           | Some key \<Rightarrow>
               (case OrgUserPassword snap key of
                  None \<Rightarrow> ([], False)
                | Some storedHash \<Rightarrow> if bcrypt storedHash password then (fst key, True) else ([], False))))"

definition OrgWarehouseStatus :: "Snapshot option \<Rightarrow> string \<Rightarrow> string \<times> bool" where
  "OrgWarehouseStatus snapshot orgID =
     (case snapshot of
        None \<Rightarrow> ([], False)
      | Some snap \<Rightarrow>
          (case Orgs snap orgID of
             None \<Rightarrow> ([], False)
           | Some oc \<Rightarrow>
               (case oc_Warehouse oc of None \<Rightarrow> ([], True) | Some w \<Rightarrow> (st_State (mc_Status w), True))))"

section \<open>Changes of the configuration\<close>

text \<open>The insert with \<^verbatim>\<open>ON CONFLICT (org_id, username) DO UPDATE\<close>; a new row gets the column
  defaults. An org that does not exist violates the foreign key.\<close>

definition CreateOrgUser :: "env \<Rightarrow> string \<Rightarrow> string \<Rightarrow> string \<Rightarrow> config_db \<Rightarrow> config_db \<times> unit result" where
  "CreateOrgUser e orgID username passwordHash db =
     (case fault e of
        Some m \<Rightarrow> (db, Inl (DbError m))
      | None \<Rightarrow>
          if orgID \<notin> org_Name ` set (duckgres_orgs db) then (db, Inl (DbError ''foreign key''))
          else (db\<lparr>duckgres_org_users :=
                  sql_upsert (\<lambda>u. (ou_OrgID u, ou_Username u))
                    (\<lambda>new old. old\<lparr>ou_Password := ou_Password new, ou_UpdatedAt := ou_UpdatedAt new\<rparr>)
                    \<lparr>ou_OrgID = orgID, ou_Username = username, ou_Password = passwordHash, ou_Passthrough = False,
                     ou_CreatedAt = now e, ou_UpdatedAt = now e\<rparr>
                    (duckgres_org_users db)\<rparr>, Inr ()))"

definition UpdateOrgUserPassword :: "env \<Rightarrow> string \<Rightarrow> string \<Rightarrow> string \<Rightarrow> config_db \<Rightarrow> config_db \<times> unit result" where
  "UpdateOrgUserPassword e orgID username passwordHash db =
     (case fault e of
        Some m \<Rightarrow> (db, Inl (DbError m))
      | None \<Rightarrow>
          (case sql_update (\<lambda>u. ou_OrgID u = orgID \<and> ou_Username u = username)
                  (\<lambda>u. u\<lparr>ou_Password := passwordHash, ou_UpdatedAt := now e\<rparr>) (duckgres_org_users db) of
             (rows, affected) \<Rightarrow>
               if affected = 0 then (db, Inl RecordNotFound)
               else (db\<lparr>duckgres_org_users := rows\<rparr>, Inr ())))"

definition ListWarehousesByStates :: "env \<Rightarrow> string list \<Rightarrow> config_db \<Rightarrow> ManagedWarehouse list result" where
  "ListWarehousesByStates e states db =
     (case fault e of
        Some m \<Rightarrow> Inl (DbError m)
      | None \<Rightarrow> Inr (filter (\<lambda>w. st_State (mw_Status w) \<in> set states) (duckgres_managed_warehouses db)))"

text \<open>The column updates a caller passes are a function on the row; \<^verbatim>\<open>updated_at\<close> follows the clock.\<close>

definition UpdateIcebergConfig ::
  "env \<Rightarrow> string \<Rightarrow> (ManagedWarehouse \<Rightarrow> ManagedWarehouse) \<Rightarrow> config_db \<Rightarrow> config_db \<times> unit result" where
  "UpdateIcebergConfig e orgID updates db =
     (case fault e of
        Some m \<Rightarrow> (db, Inl (DbError m))
      | None \<Rightarrow>
          (case sql_update (\<lambda>w. mw_OrgID w = orgID) (\<lambda>w. (updates w)\<lparr>mw_UpdatedAt := now e\<rparr>)
                  (duckgres_managed_warehouses db) of
             (rows, affected) \<Rightarrow>
               if affected = 0 then (db, Inl RecordNotFound)
               else (db\<lparr>duckgres_managed_warehouses := rows\<rparr>, Inr ())))"

definition UpdateWarehouseState ::
  "env \<Rightarrow> string \<Rightarrow> string \<Rightarrow> (ManagedWarehouse \<Rightarrow> ManagedWarehouse) \<Rightarrow> config_db \<Rightarrow> config_db \<times> unit result" where
  "UpdateWarehouseState e orgID expectedState updates db =
     (case fault e of
        Some m \<Rightarrow> (db, Inl (DbError m))
      | None \<Rightarrow>
          (case sql_update (\<lambda>w. mw_OrgID w = orgID \<and> st_State (mw_Status w) = expectedState)
                  (\<lambda>w. (updates w)\<lparr>mw_UpdatedAt := now e\<rparr>) (duckgres_managed_warehouses db) of
             (rows, affected) \<Rightarrow>
               if affected = 0 then (db, Inl (InvalidField ''state''))
               else (db\<lparr>duckgres_managed_warehouses := rows\<rparr>, Inr ())))"

end
