(* ===== verification/Org_Tenancy.thy ===== *)
theory Org_Tenancy
  imports Org_Resolution
begin

text \<open>
  What the snapshot says about the tables it was loaded from, and that the resolution of a
  client's connection stays within one org.
\<close>

section \<open>Maps built by a loop\<close>

definition put_all :: "('x \<Rightarrow> bool) \<Rightarrow> ('x \<Rightarrow> 'k) \<Rightarrow> ('x \<Rightarrow> 'v) \<Rightarrow> ('k \<rightharpoonup> 'v) \<Rightarrow> 'x list \<Rightarrow> ('k \<rightharpoonup> 'v)" where
  "put_all P k v m xs = foldl (\<lambda>m x. if P x then m(k x \<mapsto> v x) else m) m xs"

lemma put_all_simps [simp]:
  "put_all P k v m [] = m"
  "put_all P k v m (x # xs) = put_all P k v (if P x then m(k x \<mapsto> v x) else m) xs"
  by (simp_all add: put_all_def)

lemma put_all_append [simp]: "put_all P k v m (xs @ ys) = put_all P k v (put_all P k v m xs) ys"
  by (simp add: put_all_def)

lemma put_all_miss: "(\<And>x. x \<in> set xs \<Longrightarrow> P x \<Longrightarrow> k x \<noteq> a) \<Longrightarrow> put_all P k v m xs a = m a"
  by (induction xs arbitrary: m) auto

text \<open>With keys that differ, the map has exactly the entries that were put.\<close>

lemma put_all_empty:
  assumes "inj_on k {x \<in> set xs. P x}"
  shows "put_all P k v Map.empty xs a = Some b \<longleftrightarrow> (\<exists>x \<in> set xs. P x \<and> k x = a \<and> v x = b)"
proof -
  have gen: "put_all P k v m xs a = Some b \<longleftrightarrow>
      (\<exists>x \<in> set xs. P x \<and> k x = a \<and> v x = b) \<or> (\<forall>x \<in> set xs. P x \<longrightarrow> k x \<noteq> a) \<and> m a = Some b" for m
    using assms
  proof (induction xs arbitrary: m)
    case (Cons x xs)
    have inj: "inj_on k {y \<in> set xs. P y}" using Cons.prems by (rule inj_on_subset) auto
    have "y = x" if "y \<in> set xs" "P y" "P x" "k y = k x" for y
      using Cons.prems that by (auto simp: inj_on_def)
    then show ?case by (auto simp: Cons.IH [OF inj])
  qed auto
  show ?thesis unfolding gen by simp
qed

section \<open>The parts of a loaded snapshot\<close>

lemma foldl_add_user:
  "Orgs (foldl (add_user o') s us) = Orgs s" "DatabaseOrg (foldl (add_user o') s us) = DatabaseOrg s"
  "HostnameAliasOrg (foldl (add_user o') s us) = HostnameAliasOrg s"
  "OrgUserPassword (foldl (add_user o') s us) =
     put_all (\<lambda>u. True) (\<lambda>u. (org_Name o', ou_Username u)) ou_Password (OrgUserPassword s) us"
  "OrgUserPassthrough (foldl (add_user o') s us) =
     put_all ou_Passthrough (\<lambda>u. (org_Name o', ou_Username u)) (\<lambda>u. True) (OrgUserPassthrough s) us"
  by (induction us arbitrary: s) (simp_all add: add_user_def Let_def)

definition org_users :: "config_db \<Rightarrow> Org list \<Rightarrow> OrgUser list" where
  "org_users db os = concat (map (users_of db) os)"

lemma put_all_cong:
  "(\<And>x. x \<in> set xs \<Longrightarrow> k x = k' x) \<Longrightarrow> put_all P k v m xs = put_all P k' v m xs"
  by (induction xs arbitrary: m) auto

lemma users_of_org: "u \<in> set (users_of db o') \<Longrightarrow> (org_Name o', ou_Username u) = (ou_OrgID u, ou_Username u)"
  by (simp add: users_of_def)

lemma add_org_parts:
  "Orgs (add_org db s o') = (Orgs s)(org_Name o' \<mapsto> org_config db o')"
  "DatabaseOrg (add_org db s o') =
     (if org_DatabaseName o' \<noteq> [] then (DatabaseOrg s)(org_DatabaseName o' \<mapsto> org_Name o') else DatabaseOrg s)"
  "HostnameAliasOrg (add_org db s o') =
     (if alias_of o' \<noteq> [] then (HostnameAliasOrg s)(alias_of o' \<mapsto> org_Name o') else HostnameAliasOrg s)"
  "OrgUserPassword (add_org db s o') =
     put_all (\<lambda>u. True) (\<lambda>u. (ou_OrgID u, ou_Username u)) ou_Password (OrgUserPassword s) (users_of db o')"
  "OrgUserPassthrough (add_org db s o') =
     put_all ou_Passthrough (\<lambda>u. (ou_OrgID u, ou_Username u)) (\<lambda>u. True) (OrgUserPassthrough s) (users_of db o')"
  by (simp_all add: add_org_def Let_def foldl_add_user put_all_cong [OF users_of_org])

lemma foldl_add_org:
  "Orgs (foldl (add_org db) s os) = put_all (\<lambda>o'. True) org_Name (org_config db) (Orgs s) os"
  "DatabaseOrg (foldl (add_org db) s os) =
     put_all (\<lambda>o'. org_DatabaseName o' \<noteq> []) org_DatabaseName org_Name (DatabaseOrg s) os"
  "HostnameAliasOrg (foldl (add_org db) s os) =
     put_all (\<lambda>o'. alias_of o' \<noteq> []) alias_of org_Name (HostnameAliasOrg s) os"
  "OrgUserPassword (foldl (add_org db) s os) =
     put_all (\<lambda>u. True) (\<lambda>u. (ou_OrgID u, ou_Username u)) ou_Password (OrgUserPassword s) (org_users db os)"
  "OrgUserPassthrough (foldl (add_org db) s os) =
     put_all ou_Passthrough (\<lambda>u. (ou_OrgID u, ou_Username u)) (\<lambda>u. True) (OrgUserPassthrough s) (org_users db os)"
  by (induction os arbitrary: s) (simp_all add: add_org_parts org_users_def)

lemma org_users_all:
  assumes "config_keys db"
  shows "set (org_users db (duckgres_orgs db)) = set (duckgres_org_users db)"
  using assms by (auto simp: org_users_def users_of_def config_keys_def image_subset_iff)

lemma alias_inj:
  assumes "config_keys db"
  shows "inj_on alias_of {o' \<in> set (duckgres_orgs db). alias_of o' \<noteq> []}"
proof -
  have "inj_on org_HostnameAlias {o' \<in> set (duckgres_orgs db). org_HostnameAlias o' \<noteq> None}"
    using assms by (simp add: config_keys_def filter_map comp_def distinct_map)
  moreover have "org_HostnameAlias o' = Some (alias_of o')" if "alias_of o' \<noteq> []" for o'
    using that by (auto simp: alias_of_def split: option.splits)
  ultimately show ?thesis by (auto simp: inj_on_def)
qed

text \<open>The lookups of the snapshot, as statements about the rows.\<close>

lemma snapshot_lookups:
  assumes "config_keys db" and "load es db = Inr snap"
  shows "Orgs snap n = Some c \<longleftrightarrow> (\<exists>o' \<in> set (duckgres_orgs db). org_Name o' = n \<and> org_config db o' = c)"
    and "DatabaseOrg snap d = Some n \<longleftrightarrow>
      (\<exists>o' \<in> set (duckgres_orgs db). org_DatabaseName o' \<noteq> [] \<and> org_DatabaseName o' = d \<and> org_Name o' = n)"
    and "HostnameAliasOrg snap a = Some n \<longleftrightarrow>
      (\<exists>o' \<in> set (duckgres_orgs db). alias_of o' \<noteq> [] \<and> alias_of o' = a \<and> org_Name o' = n)"
    and "OrgUserPassword snap (n, u) = Some h \<longleftrightarrow>
      (\<exists>r \<in> set (duckgres_org_users db). ou_OrgID r = n \<and> ou_Username r = u \<and> ou_Password r = h)"
    and "OrgUserPassthrough snap (n, u) = Some b \<longleftrightarrow>
      (\<exists>r \<in> set (duckgres_org_users db). ou_Passthrough r \<and> ou_OrgID r = n \<and> ou_Username r = u \<and> b)"
proof -
  note keys = assms(1) [unfolded config_keys_def distinct_map]
  have names: "inj_on org_Name {o' \<in> set (duckgres_orgs db). True}"
    and dbs: "inj_on org_DatabaseName {o' \<in> set (duckgres_orgs db). org_DatabaseName o' \<noteq> []}"
    using keys by (auto intro: inj_on_subset)
  have users: "inj_on (\<lambda>u. (ou_OrgID u, ou_Username u)) {u \<in> set (org_users db (duckgres_orgs db)). P u}" for P
    using keys unfolding org_users_all [OF assms(1)] by (auto intro: inj_on_subset)
  note snap = assms(2) [unfolded load_def, symmetric]
  have eq: "\<exists>s. snap = foldl (add_org db) s (duckgres_orgs db) \<and> Orgs s = Map.empty \<and> DatabaseOrg s = Map.empty \<and>
      HostnameAliasOrg s = Map.empty \<and> OrgUserPassword s = Map.empty \<and> OrgUserPassthrough s = Map.empty"
    using snap by (auto split: option.splits)
  then obtain s where s: "snap = foldl (add_org db) s (duckgres_orgs db)" "Orgs s = Map.empty" "DatabaseOrg s = Map.empty"
      "HostnameAliasOrg s = Map.empty" "OrgUserPassword s = Map.empty" "OrgUserPassthrough s = Map.empty" by blast
  show "Orgs snap n = Some c \<longleftrightarrow> (\<exists>o' \<in> set (duckgres_orgs db). org_Name o' = n \<and> org_config db o' = c)"
    by (simp add: s foldl_add_org put_all_empty [OF names])
  show "DatabaseOrg snap d = Some n \<longleftrightarrow>
      (\<exists>o' \<in> set (duckgres_orgs db). org_DatabaseName o' \<noteq> [] \<and> org_DatabaseName o' = d \<and> org_Name o' = n)"
    by (simp add: s foldl_add_org put_all_empty [OF dbs])
  show "HostnameAliasOrg snap a = Some n \<longleftrightarrow>
      (\<exists>o' \<in> set (duckgres_orgs db). alias_of o' \<noteq> [] \<and> alias_of o' = a \<and> org_Name o' = n)"
    by (simp add: s foldl_add_org put_all_empty [OF alias_inj [OF assms(1)]])
  show "OrgUserPassword snap (n, u) = Some h \<longleftrightarrow>
      (\<exists>r \<in> set (duckgres_org_users db). ou_OrgID r = n \<and> ou_Username r = u \<and> ou_Password r = h)"
    by (simp add: s foldl_add_org put_all_empty [OF users] org_users_all [OF assms(1)])
  show "OrgUserPassthrough snap (n, u) = Some b \<longleftrightarrow>
      (\<exists>r \<in> set (duckgres_org_users db). ou_Passthrough r \<and> ou_OrgID r = n \<and> ou_Username r = u \<and> b)"
    by (simp add: s foldl_add_org put_all_empty [OF users] org_users_all [OF assms(1)])
qed

section \<open>Hostnames\<close>

text \<open>The org that a hostname label names: by its alias; else by its database; else, for a DNS label,
  by its name.\<close>

definition names_org :: "config_db \<Rightarrow> string \<Rightarrow> Org \<Rightarrow> bool" where
  "names_org db label o' \<longleftrightarrow>
     label \<noteq> [] \<and> o' \<in> set (duckgres_orgs db) \<and>
     (alias_of o' = label \<or>
      (\<forall>x \<in> set (duckgres_orgs db). alias_of x \<noteq> label) \<and>
      (org_DatabaseName o' = label \<or>
       (\<forall>x \<in> set (duckgres_orgs db). org_DatabaseName x \<noteq> label) \<and> isDNSLabel label \<and> org_Name o' = label))"

lemma names_org_unique:
  assumes "config_keys db" and "names_org db label a" and "names_org db label b"
  shows "a = b"
proof -
  have inj: "inj_on org_Name (set (duckgres_orgs db))" "inj_on org_DatabaseName (set (duckgres_orgs db))"
    using assms(1) by (simp_all add: config_keys_def distinct_map)
  note ab = assms(2,3) [unfolded names_org_def]
  consider "alias_of a = label" "alias_of b = label" | "org_DatabaseName a = label" "org_DatabaseName b = label"
    | "org_Name a = label" "org_Name b = label"
    using ab by blast
  then show ?thesis
  proof cases
    case 1
    with ab have "a \<in> {o' \<in> set (duckgres_orgs db). alias_of o' \<noteq> []}" "b \<in> {o' \<in> set (duckgres_orgs db). alias_of o' \<noteq> []}"
      by auto
    then show ?thesis using inj_onD [OF alias_inj [OF assms(1)], of a b] 1 by simp
  next
    case 2
    then show ?thesis using inj_onD [OF inj(2), of a b] ab by simp
  next
    case 3
    then show ?thesis using inj_onD [OF inj(1), of a b] ab by simp
  qed
qed

lemma resolve_label:
  assumes "config_keys db" and "load es db = Inr snap" and "names_org db label o'"
  shows "\<exists>a. resolveSNIPrefixFromSnapshot (Some snap) label = (org_Name o', org_DatabaseName o', a)"
proof -
  note look = snapshot_lookups [OF assms(1,2)]
  have oc: "Orgs snap (org_Name o') = Some (org_config db o')"
    using assms(3) by (auto simp: look names_org_def)
  have [simp]: "oc_DatabaseName (org_config db o') = org_DatabaseName o'" "oc_Name (org_config db o') = org_Name o'"
    by (simp_all add: org_config_def)
  from assms(3) have label: "label \<noteq> []" by (simp add: names_org_def)
  consider (al) "HostnameAliasOrg snap label = Some (org_Name o')"
    | (dbn) "HostnameAliasOrg snap label = None" "DatabaseOrg snap label = Some (org_Name o')" "org_DatabaseName o' = label"
    | (nm) "HostnameAliasOrg snap label = None" "DatabaseOrg snap label = None" "isDNSLabel label" "org_Name o' = label"
    using assms(3) look(2,3) unfolding names_org_def by (metis not_Some_eq)
  then show ?thesis
    by cases (use oc label in \<open>auto simp: resolveSNIPrefixFromSnapshot_def\<close>)
qed

lemma resolve_label_only:
  assumes "config_keys db" and "load es db = Inr snap"
    and "resolveSNIPrefixFromSnapshot (Some snap) label = (n, d, a)" and "n \<noteq> []"
  shows "\<exists>o'. names_org db label o' \<and> org_Name o' = n \<and> org_DatabaseName o' = d"
proof -
  note look = snapshot_lookups [OF assms(1,2)]
  have al: "HostnameAliasOrg snap label = None \<longleftrightarrow> (\<forall>x \<in> set (duckgres_orgs db). alias_of x \<noteq> label)" if "label \<noteq> []"
    using look(3) [of label] that by (metis not_Some_eq)
  have dl: "DatabaseOrg snap label = None \<longleftrightarrow> (\<forall>x \<in> set (duckgres_orgs db). org_DatabaseName x \<noteq> label)" if "label \<noteq> []"
    using look(2) [of label] that by (metis not_Some_eq)
  from assms(3,4) have label: "label \<noteq> []" by (auto simp: resolveSNIPrefixFromSnapshot_def)
  have "\<exists>o'. names_org db label o'"
  proof (cases "HostnameAliasOrg snap label = None \<and> DatabaseOrg snap label = None")
    case True
    with assms(3,4) label obtain oc where "isDNSLabel label" "Orgs snap label = Some oc"
      by (auto simp: resolveSNIPrefixFromSnapshot_def split: if_splits option.splits)
    with True label show ?thesis unfolding names_org_def al [OF label] dl [OF label] look(1) by blast
  next
    case False
    with label al dl show ?thesis unfolding names_org_def by blast
  qed
  then obtain o' where "names_org db label o'" ..
  with resolve_label [OF assms(1,2) this] assms(3) show ?thesis by auto
qed

section \<open>Properties\<close>

definition example_org :: Org where
  "example_org = \<lparr>org_Name = ''org1'', org_DatabaseName = ''lake'', org_HostnameAlias = Some ''acme'', org_MaxWorkers = 0,
     org_MaxConnections = 0, org_MemoryBudget = [], org_IdleTimeoutS = 0, org_WorkerCPURequest = [],
     org_WorkerMemoryRequest = [], org_CreatedAt = 1, org_UpdatedAt = 1\<rparr>"

definition example_user :: OrgUser where
  "example_user = \<lparr>ou_OrgID = ''org1'', ou_Username = ''ada'', ou_Password = ''quack'', ou_Passthrough = False,
     ou_CreatedAt = 1, ou_UpdatedAt = 1\<rparr>"

definition example_config :: config_db where
  "example_config = \<lparr>duckgres_orgs = [example_org], duckgres_org_users = [example_user],
     duckgres_managed_warehouses = [], duckgres_global_config = [], duckgres_ducklake_config = [],
     duckgres_rate_limit_config = [], duckgres_query_log_config = []\<rparr>"


lemma resolve_user_frame:
  "EffectiveDatabase (resolve_user bcrypt snap u pw r) = EffectiveDatabase r"
  by (simp add: resolve_user_def Let_def split: option.split)

lemma resolve_user_valid:
  assumes "\<not> Valid r"
  shows "Valid (resolve_user bcrypt snap u pw r) \<longleftrightarrow>
    (\<exists>n h. EffectiveDatabase r \<noteq> [] \<and> n \<noteq> [] \<and> DatabaseOrg snap (EffectiveDatabase r) = Some n \<and>
       (RequiresSNIOrgMatch r \<longrightarrow> SNIOrgID r = n) \<and> OrgUserPassword snap (n, u) = Some h \<and> bcrypt h pw)"
  using assms by (cases "DatabaseOrg snap (EffectiveDatabase r)")
    (simp_all add: resolve_user_def ResolveDatabase_def Let_def split: option.split)

lemma resolve_user_result:
  assumes "Valid (resolve_user bcrypt snap u pw r)" and "\<not> Valid r"
  shows "DatabaseOrg snap (EffectiveDatabase r) = Some (res_OrgID (resolve_user bcrypt snap u pw r)) \<and>
    Passthrough (resolve_user bcrypt snap u pw r) =
      (OrgUserPassthrough snap (res_OrgID (resolve_user bcrypt snap u pw r), u) = Some True)"
  using assms by (cases "DatabaseOrg snap (EffectiveDatabase r)")
    (auto simp: resolve_user_def ResolveDatabase_def Let_def split: option.splits if_splits)

text \<open>The hostname's part of a resolution.\<close>

definition sni_start :: "Snapshot \<Rightarrow> string \<Rightarrow> string \<Rightarrow> bool \<Rightarrow> PostgresConnectionResolution" where
  "sni_start snap dbname label useSNI =
     (if useSNI then resolve_sni snap dbname label (resolution_start dbname) else resolution_start dbname)"

lemma sni_start_parts:
  "\<not> Valid (sni_start snap dbname label useSNI)"
  "RequiresSNIOrgMatch (sni_start snap dbname label useSNI) = useSNI"
  "useSNI \<Longrightarrow> SNIOrgID (sni_start snap dbname label useSNI) = fst (resolveSNIPrefixFromSnapshot (Some snap) label)"
  "EffectiveDatabase (sni_start snap dbname label useSNI) =
     (if dbname \<noteq> [] then dbname else if useSNI
      then (let d = fst (snd (resolveSNIPrefixFromSnapshot (Some snap) label)) in if d = [] then label else d) else [])"
  by (simp_all add: sni_start_def resolve_sni_def resolution_start_def case_prod_beta Let_def)

lemma resolve_eq: "ResolvePostgresConnection bcrypt (Some snap) dbname label useSNI u pw =
    resolve_user bcrypt snap u pw (sni_start snap dbname label useSNI)"
  by (simp add: ResolvePostgresConnection_def sni_start_def)

lemma resolution_sound:
  assumes "config_keys db" and "load es db = Inr snap"
    and "ResolvePostgresConnection bcrypt (Some snap) dbname label useSNI u pw = res" and valid: "Valid res"
  shows "\<exists>o' \<in> set (duckgres_orgs db). \<exists>r \<in> set (duckgres_org_users db).
      org_Name o' \<noteq> [] \<and> org_DatabaseName o' \<noteq> [] \<and> (dbname = org_DatabaseName o' \<or> dbname = [] \<and> useSNI) \<and>
      (useSNI \<longrightarrow> names_org db label o') \<and> ou_OrgID r = org_Name o' \<and> ou_Username r = u \<and>
      bcrypt (ou_Password r) pw \<and> res_OrgID res = org_Name o' \<and> EffectiveDatabase res = org_DatabaseName o' \<and>
      Passthrough res = ou_Passthrough r"
proof -
  let ?s = "sni_start snap dbname label useSNI" and ?eff = "EffectiveDatabase (sni_start snap dbname label useSNI)"
  note look = snapshot_lookups [OF assms(1,2)]
    and parts = sni_start_parts [where snap = snap and dbname = dbname and label = label and useSNI = useSNI]
  note res = assms(3) [symmetric, unfolded resolve_eq]
  from valid obtain n h where n: "?eff \<noteq> []" "n \<noteq> []" "DatabaseOrg snap ?eff = Some n"
      "useSNI \<longrightarrow> SNIOrgID ?s = n" "OrgUserPassword snap (n, u) = Some h" "bcrypt h pw"
    unfolding res resolve_user_valid [OF parts(1)] parts(2) by blast
  from n(3) obtain o' where o': "o' \<in> set (duckgres_orgs db)" "org_DatabaseName o' = ?eff" "org_Name o' = n"
    unfolding look by blast
  from n(5) obtain r where r: "r \<in> set (duckgres_org_users db)" "ou_OrgID r = n" "ou_Username r = u" "ou_Password r = h"
    unfolding look by blast
  have sni: "names_org db label o'" if use: useSNI
  proof -
    obtain d a where "resolveSNIPrefixFromSnapshot (Some snap) label = (n, d, a)"
      using n(4) parts(3) [OF use] use by (metis prod.collapse)
    from resolve_label_only [OF assms(1,2) this n(2)] obtain x where "names_org db label x" "org_Name x = n" by blast
    moreover have "inj_on org_Name (set (duckgres_orgs db))" using assms(1) by (simp add: config_keys_def distinct_map)
    ultimately show ?thesis using o' by (metis inj_onD names_org_def)
  qed
  note result = resolve_user_result [OF valid [unfolded res] parts(1), folded res]
  have "r' = r" if "r' \<in> set (duckgres_org_users db)" "ou_OrgID r' = n" "ou_Username r' = u" for r'
    using assms(1) that r by (auto simp: config_keys_def distinct_map inj_on_def)
  then have "OrgUserPassthrough snap (n, u) = Some True \<longleftrightarrow> ou_Passthrough r" using r unfolding look by blast
  moreover have rid: "res_OrgID res = n" using result n(3) by simp
  ultimately have "Passthrough res = ou_Passthrough r" using result by simp
  moreover have "EffectiveDatabase res = ?eff" by (simp add: res resolve_user_frame)
  moreover have "dbname = ?eff \<or> dbname = [] \<and> useSNI" using n(1) by (auto simp: parts(4) split: if_splits)
  ultimately show ?thesis using o' r n sni rid by (intro bexI [OF _ o'(1)] bexI [OF _ r(1)]) simp
qed

lemma resolution_complete:
  assumes "config_keys db" and "load es db = Inr snap"
    and "ResolvePostgresConnection bcrypt (Some snap) dbname label useSNI u pw = res"
    and that: "o' \<in> set (duckgres_orgs db)" "r \<in> set (duckgres_org_users db)" "org_Name o' \<noteq> []"
      "org_DatabaseName o' \<noteq> []" "dbname = org_DatabaseName o' \<or> dbname = [] \<and> useSNI"
      "useSNI \<longrightarrow> names_org db label o'" "ou_OrgID r = org_Name o'" "ou_Username r = u" "bcrypt (ou_Password r) pw"
  shows "Valid res"
proof -
  let ?s = "sni_start snap dbname label useSNI" and ?eff = "EffectiveDatabase (sni_start snap dbname label useSNI)"
  note look = snapshot_lookups [OF assms(1,2)]
    and parts = sni_start_parts [where snap = snap and dbname = dbname and label = label and useSNI = useSNI]
  note res = assms(3) [symmetric, unfolded resolve_eq]
  have sni: "\<exists>a. resolveSNIPrefixFromSnapshot (Some snap) label = (org_Name o', org_DatabaseName o', a)" if useSNI
    using resolve_label [OF assms(1,2)] that \<open>useSNI \<longrightarrow> names_org db label o'\<close> by blast
  then have "?eff = org_DatabaseName o'" "useSNI \<longrightarrow> SNIOrgID ?s = org_Name o'"
    using that(4,5) parts(3,4) by (auto simp: Let_def)
  moreover have "DatabaseOrg snap (org_DatabaseName o') = Some (org_Name o')" using that(1,4) unfolding look by blast
  moreover have "OrgUserPassword snap (org_Name o', u) = Some (ou_Password r)" using that(2,7,8) unfolding look by blast
  ultimately show ?thesis
    unfolding res resolve_user_valid [OF parts(1)] parts(2) using that(3,4,9) by auto
qed

text \<open>\<^bold>\<open>C15\<close>. A client gets in exactly as a user of the one org it asks for: the resolution against
  a snapshot of the tables is valid iff there is an org that has the requested database, or, if
  none is requested, is named by the managed hostname; that is the org the hostname names, if the
  client came through one; and the org has a user of that name whose password hash accepts the
  password. Then the session's org is this org, its database is the org's, and the client bypasses
  the compatibility layer iff this user's row says so.\<close>

theorem resolution_within_one_org:
  assumes "config_keys db" and "load es db = Inr snap"
    and "ResolvePostgresConnection bcrypt (Some snap) dbname label useSNI u pw = res"
  shows "(Valid res \<longleftrightarrow> (\<exists>o' \<in> set (duckgres_orgs db). \<exists>r \<in> set (duckgres_org_users db).
       org_Name o' \<noteq> [] \<and> org_DatabaseName o' \<noteq> [] \<and>
       (dbname = org_DatabaseName o' \<or> dbname = [] \<and> useSNI) \<and> (useSNI \<longrightarrow> names_org db label o') \<and>
       ou_OrgID r = org_Name o' \<and> ou_Username r = u \<and> bcrypt (ou_Password r) pw)) \<and>
    (Valid res \<longrightarrow> (\<exists>o' \<in> set (duckgres_orgs db). \<exists>r \<in> set (duckgres_org_users db).
       res_OrgID res = org_Name o' \<and> EffectiveDatabase res = org_DatabaseName o' \<and>
       (useSNI \<longrightarrow> names_org db label o') \<and>
       ou_OrgID r = org_Name o' \<and> ou_Username r = u \<and> bcrypt (ou_Password r) pw \<and>
       Passthrough res = ou_Passthrough r))"
  using resolution_sound [OF assms] resolution_complete [OF assms] by blast

theorem resolution_within_one_org_witness:
  "Valid (ResolvePostgresConnection (=)
     (Some (case load (\<lambda>i. \<lparr>now = 1, fault = None\<rparr>) example_config of Inr s \<Rightarrow> s)) [] ''acme'' True ''ada'' ''quack'')"
proof -
  let ?es = "\<lambda>i. \<lparr>now = 1, fault = None\<rparr>"
  have keys: "config_keys example_config"
    by (simp add: config_keys_def example_config_def example_org_def example_user_def)
  obtain snap where l: "load ?es example_config = Inr snap" by (simp add: load_def)
  have "names_org example_config ''acme'' example_org"
    by (simp add: names_org_def example_config_def example_org_def alias_of_def)
  moreover have "example_org \<in> set (duckgres_orgs example_config)" "example_user \<in> set (duckgres_org_users example_config)"
    by (simp_all add: example_config_def)
  ultimately have "Valid (ResolvePostgresConnection (=) (Some snap) [] ''acme'' True ''ada'' ''quack'')"
    using resolution_within_one_org [OF keys l refl, THEN conjunct1, of "(=)" "[]" "''acme''" True "''ada''" "''quack''"]
    by (force simp: example_org_def example_user_def)
  with l show ?thesis by simp
qed

end
