(* ===== verification/Flight_Auth.thy ===== *)
theory Flight_Auth
  imports SNI_Routing Org_Tenancy
begin

text \<open>
  Authentication and session routing of the Flight SQL ingress in multi-tenant mode
  (\<^verbatim>\<open>controlplane/control.go\<close>, \<^verbatim>\<open>controlplane/flight_ingress.go\<close>). Validating credentials stores the
  user's org in a map by user name, and creating the session reads it from there; the two are
  separate calls of one request, and requests run concurrently.
\<close>

section \<open>The session provider\<close>

text \<open>Which org owns a session's process id, and the org last seen for a user name.\<close>

record orgRoutedSessionProvider =
  pidSession :: "int \<rightharpoonup> string"
  userOrg :: "string \<rightharpoonup> string"

record flight_request =
  fr_sni :: string
  fr_username :: string
  fr_password :: string

record flight_config =
  fc_SNIRoutingMode :: string
  fc_ManagedHostnameSuffixes :: "string list"

definition authForSNIPrefix ::
  "(string \<Rightarrow> string \<Rightarrow> bool) \<Rightarrow> Snapshot option \<Rightarrow> string \<Rightarrow> flight_request \<Rightarrow>
   orgRoutedSessionProvider \<Rightarrow> orgRoutedSessionProvider \<times> bool" where
  "authForSNIPrefix bcrypt snapshot pre q p =
     (let dbname = DatabaseNameForSNIPrefix snapshot pre;
          orgID = ResolveDatabase snapshot dbname
      in if orgID = [] then (p, False)
         else if \<not> ValidateOrgUser bcrypt snapshot orgID (fr_username q) (fr_password q) then (p, False)
         else (p\<lparr>userOrg := (userOrg p)(fr_username q \<mapsto> orgID)\<rparr>, True))"

definition authByScan ::
  "(string \<Rightarrow> string \<Rightarrow> bool) \<Rightarrow> OrgUserKey list \<Rightarrow> Snapshot option \<Rightarrow> flight_request \<Rightarrow>
   orgRoutedSessionProvider \<Rightarrow> orgRoutedSessionProvider \<times> bool" where
  "authByScan bcrypt order snapshot q p =
     (case FindAndValidateUser bcrypt order snapshot (fr_username q) (fr_password q) of
        (orgID, ok) \<Rightarrow>
          if \<not> ok then (p, False) else (p\<lparr>userOrg := (userOrg p)(fr_username q \<mapsto> orgID)\<rparr>, True))"

definition ValidateCredentialsForSNI ::
  "(string \<Rightarrow> string \<Rightarrow> bool) \<Rightarrow> flight_config \<Rightarrow> OrgUserKey list \<Rightarrow> Snapshot option \<Rightarrow> flight_request \<Rightarrow>
   orgRoutedSessionProvider \<Rightarrow> orgRoutedSessionProvider \<times> bool" where
  "ValidateCredentialsForSNI bcrypt cfg order snapshot q p =
     (case extractOrgFromSNI (fc_ManagedHostnameSuffixes cfg) (fr_sni q) of
        (pre, managed) \<Rightarrow>
          if fc_SNIRoutingMode cfg = SNIRoutingEnforce
          then (if \<not> managed then (p, False) else authForSNIPrefix bcrypt snapshot pre q p)
          else if fc_SNIRoutingMode cfg = SNIRoutingPassthrough
          then (if managed then authForSNIPrefix bcrypt snapshot pre q p else authByScan bcrypt order snapshot q p)
          else authByScan bcrypt order snapshot q p)"

definition ValidateCredentials ::
  "(string \<Rightarrow> string \<Rightarrow> bool) \<Rightarrow> flight_config \<Rightarrow> OrgUserKey list \<Rightarrow> Snapshot option \<Rightarrow> string \<Rightarrow> string \<Rightarrow>
   orgRoutedSessionProvider \<Rightarrow> orgRoutedSessionProvider \<times> bool" where
  "ValidateCredentials bcrypt cfg order snapshot username password p =
     ValidateCredentialsForSNI bcrypt cfg order snapshot
       \<lparr>fr_sni = [], fr_username = username, fr_password = password\<rparr> p"

text \<open>\<open>stack\<close> is whether the router has a stack for an org, and \<open>create\<close> what the session manager of
  that org answers: an error or the process id of the session.\<close>

datatype flight_error = NoOrgConfigured string | NoOrgStack string | SessionFailed string | NoSessionManager int
  | WorkerNotFound int

definition CreateSession ::
  "(string \<Rightarrow> bool) \<Rightarrow> (string \<Rightarrow> string + int) \<Rightarrow> string \<Rightarrow> orgRoutedSessionProvider \<Rightarrow>
   orgRoutedSessionProvider \<times> (flight_error + int)" where
  "CreateSession stack create username p =
     (let orgID = (case userOrg p username of None \<Rightarrow> [] | Some o' \<Rightarrow> o')
      in if \<not> stack orgID then (p, Inl (NoOrgConfigured username))
         else case create orgID of
                Inl err \<Rightarrow> (p, Inl (SessionFailed err))
              | Inr workerPID \<Rightarrow> (p\<lparr>pidSession := (pidSession p)(workerPID \<mapsto> orgID)\<rparr>, Inr workerPID))"

definition DestroySession :: "int \<Rightarrow> orgRoutedSessionProvider \<Rightarrow> orgRoutedSessionProvider" where
  "DestroySession pid p =
     (case pidSession p pid of None \<Rightarrow> p | Some owned \<Rightarrow> p\<lparr>pidSession := (pidSession p)(pid := None)\<rparr>)"

definition ReconnectSession ::
  "(string \<Rightarrow> bool) \<Rightarrow> (string \<Rightarrow> string + int) \<Rightarrow> string \<Rightarrow> orgRoutedSessionProvider \<Rightarrow>
   orgRoutedSessionProvider \<times> (flight_error + int)" where
  "ReconnectSession stack reconnect recordOrg p =
     (if \<not> stack recordOrg then (p, Inl (NoOrgStack recordOrg))
      else case reconnect recordOrg of
             Inl err \<Rightarrow> (p, Inl (SessionFailed err))
           | Inr pid \<Rightarrow> (p\<lparr>pidSession := (pidSession p)(pid \<mapsto> recordOrg)\<rparr>, Inr pid))"

text \<open>\<open>workerOf\<close> and \<open>workerLease\<close> are the session manager's worker of a process id, negative if there
  is none, and the pool's lease of that worker.\<close>

record DurableSessionMetadata =
  dm_Username :: string
  dm_OrgID :: string
  dm_WorkerID :: int
  dm_OwnerEpoch :: int
  dm_CPInstanceID :: string

definition DurableSessionMetadata_of ::
  "(string \<Rightarrow> int \<Rightarrow> int) \<Rightarrow> (int \<Rightarrow> (int \<times> string) option) \<Rightarrow> int \<Rightarrow> string \<Rightarrow> orgRoutedSessionProvider \<Rightarrow>
   flight_error + DurableSessionMetadata" where
  "DurableSessionMetadata_of workerOf workerLease pid username p =
     (case pidSession p pid of
        None \<Rightarrow> Inl (NoSessionManager pid)
      | Some orgID \<Rightarrow>
          let workerID = workerOf orgID pid
          in if workerID < 0 then Inl (WorkerNotFound pid)
             else case workerLease workerID of
                    None \<Rightarrow> Inl (WorkerNotFound pid)
                  | Some (epoch, cp) \<Rightarrow>
                      Inr \<lparr>dm_Username = username, dm_OrgID = orgID, dm_WorkerID = workerID,
                           dm_OwnerEpoch = epoch, dm_CPInstanceID = cp\<rparr>)"

section \<open>Concurrent requests\<close>

text \<open>What other requests do to the provider, with the trace of the successful authentications:
  user names with the orgs they were authenticated for.\<close>

inductive flight_run ::
  "(string \<Rightarrow> string \<Rightarrow> bool) \<Rightarrow> flight_config \<Rightarrow> orgRoutedSessionProvider \<Rightarrow> (string \<times> string) list \<Rightarrow>
   orgRoutedSessionProvider \<Rightarrow> bool" for bcrypt cfg where
  run_nil: "flight_run bcrypt cfg p [] p"
| run_auth: "ValidateCredentialsForSNI bcrypt cfg order snapshot q p = (p1, True) \<Longrightarrow>
    userOrg p1 (fr_username q) = Some o' \<Longrightarrow> flight_run bcrypt cfg p1 tr p' \<Longrightarrow>
    flight_run bcrypt cfg p ((fr_username q, o') # tr) p'"
| run_reject: "ValidateCredentialsForSNI bcrypt cfg order snapshot q p = (p1, False) \<Longrightarrow>
    flight_run bcrypt cfg p1 tr p' \<Longrightarrow> flight_run bcrypt cfg p tr p'"
| run_create: "flight_run bcrypt cfg (fst (CreateSession stack cr u p)) tr p' \<Longrightarrow> flight_run bcrypt cfg p tr p'"
| run_destroy: "flight_run bcrypt cfg (DestroySession pid p) tr p' \<Longrightarrow> flight_run bcrypt cfg p tr p'"
| run_reconnect: "flight_run bcrypt cfg (fst (ReconnectSession stack rc ro p)) tr p' \<Longrightarrow> flight_run bcrypt cfg p tr p'"

text \<open>The org a user name was last authenticated for.\<close>

definition last_org :: "string \<Rightarrow> string option \<Rightarrow> (string \<times> string) list \<Rightarrow> string option" where
  "last_org u start tr = foldl (\<lambda>m (x, o'). if x = u then Some o' else m) start tr"

lemma last_org_simps [simp]:
  "last_org u m [] = m" "last_org u m ((x, o') # tr) = last_org u (if x = u then Some o' else m) tr"
  by (simp_all add: last_org_def)

lemma scan_valid:
  "FindAndValidateUser bcrypt order snapshot u pw = (o', True) \<Longrightarrow> ValidateOrgUser bcrypt snapshot o' u pw"
  by (auto simp: FindAndValidateUser_def ValidateOrgUser_def find_Some_iff split: if_splits option.splits)

text \<open>Success stores an org for which the credentials are valid; failure changes nothing.\<close>

definition auth_stored ::
  "(string \<Rightarrow> string \<Rightarrow> bool) \<Rightarrow> Snapshot option \<Rightarrow> flight_request \<Rightarrow> orgRoutedSessionProvider \<Rightarrow>
   orgRoutedSessionProvider \<times> bool \<Rightarrow> bool" where
  "auth_stored bcrypt snapshot q p r \<longleftrightarrow>
     (if snd r then \<exists>o'. userOrg (fst r) = (userOrg p)(fr_username q \<mapsto> o') \<and>
        ValidateOrgUser bcrypt snapshot o' (fr_username q) (fr_password q)
      else fst r = p)"

lemma auth_parts:
  "auth_stored bcrypt snapshot q p (authForSNIPrefix bcrypt snapshot pre q p)"
  "auth_stored bcrypt snapshot q p (authByScan bcrypt order snapshot q p)"
  by (auto simp: auth_stored_def authForSNIPrefix_def authByScan_def Let_def dest: scan_valid split: prod.splits)

lemma auth_effect: "auth_stored bcrypt snapshot q p (ValidateCredentialsForSNI bcrypt cfg order snapshot q p)"
proof -
  have "auth_stored bcrypt snapshot q p (p, False)" by (simp add: auth_stored_def)
  then show ?thesis by (simp add: ValidateCredentialsForSNI_def auth_parts case_prod_beta)
qed

lemma session_frame [simp]:
  "userOrg (fst (CreateSession stack cr u p)) = userOrg p" "userOrg (DestroySession pid p) = userOrg p"
  "userOrg (fst (ReconnectSession stack rc ro p)) = userOrg p"
  by (simp_all add: CreateSession_def DestroySession_def ReconnectSession_def Let_def split: sum.splits option.splits)

lemma flight_run_org: "flight_run bcrypt cfg p tr p' \<Longrightarrow> userOrg p' u = last_org u (userOrg p u) tr"
proof (induction rule: flight_run.induct)
  case (run_auth order snapshot q p p1 o' tr p')
  then show ?case using auth_effect [of bcrypt snapshot q p cfg order] by (auto simp: auth_stored_def)
next
  case (run_reject order snapshot q p p1 tr p')
  then show ?case using auth_effect [of bcrypt snapshot q p cfg order] by (auto simp: auth_stored_def)
qed simp_all

lemma last_org_same: "(\<forall>(x, y) \<in> set tr. x = u \<longrightarrow> y = o') \<Longrightarrow> last_org u (Some o') tr = Some o'"
  by (induction tr) auto

section \<open>Properties\<close>

text \<open>\<^bold>\<open>C16\<close>. The org of a Flight session is the org its user name was authenticated for last, by
  whichever request: a request whose credentials are valid for an org gets a session of that org if
  no other request was authenticated under the same user name for another org before its session was
  created; otherwise it gets a session of that other org.\<close>

theorem flight_session_org:
  assumes "ValidateCredentialsForSNI bcrypt cfg order snapshot q p = (p1, True)"
    and "flight_run bcrypt cfg p1 tr p2"
    and "CreateSession stack create (fr_username q) p2 = (p3, Inr pid)"
  shows "\<exists>o'. ValidateOrgUser bcrypt snapshot o' (fr_username q) (fr_password q) \<and>
    pidSession p3 pid = last_org (fr_username q) (Some o') tr \<and>
    ((\<forall>(x, y) \<in> set tr. x = fr_username q \<longrightarrow> y = o') \<longrightarrow> pidSession p3 pid = Some o')"
proof -
  let ?u = "fr_username q"
  from auth_effect [of bcrypt snapshot q p cfg order] assms(1) obtain o' where o': "userOrg p1 ?u = Some o'"
    "ValidateOrgUser bcrypt snapshot o' ?u (fr_password q)" by (auto simp: auth_stored_def)
  then have "userOrg p2 ?u = last_org ?u (Some o') tr" using flight_run_org [OF assms(2), of ?u] by simp
  moreover from this have "userOrg p2 ?u \<noteq> None"
    by (induction tr arbitrary: o') (auto simp: last_org_def)
  ultimately have "pidSession p3 pid = last_org ?u (Some o') tr"
    using assms(3) by (auto simp: CreateSession_def Let_def split: if_splits sum.splits)
  with o' last_org_same show ?thesis by auto
qed

definition two_orgs :: Snapshot where
  "two_orgs = \<lparr>Orgs = Map.empty, DatabaseOrg = [''a'' \<mapsto> ''org1'', ''b'' \<mapsto> ''org2''], HostnameAliasOrg = Map.empty,
     OrgUserPassword = [(''org1'', ''admin'') \<mapsto> ''pw1'', (''org2'', ''admin'') \<mapsto> ''pw2''],
     OrgUserPassthrough = Map.empty, Global = zero_GlobalConfig, DuckLake = zero_DuckLakeConfig,
     RateLimit = zero_RateLimitRow, QueryLog = zero_QueryLogConfig\<rparr>"

text \<open>Both orgs have a user \<^verbatim>\<open>admin\<close>. The request for the first org, whose password the second org does
  not accept, gets a session of the second org when a login there comes in between.\<close>

theorem flight_session_org_witness:
  "let cfg = \<lparr>fc_SNIRoutingMode = SNIRoutingEnforce, fc_ManagedHostnameSuffixes = [''.dw'']\<rparr>;
       check = (\<lambda>host pw. ValidateCredentialsForSNI (=) cfg [] (Some two_orgs)
                  \<lparr>fr_sni = host, fr_username = ''admin'', fr_password = pw\<rparr>);
       p1 = fst (check ''a.dw'' ''pw1'' \<lparr>pidSession = Map.empty, userOrg = Map.empty\<rparr>);
       p2 = fst (check ''b.dw'' ''pw2'' p1);
       p3 = fst (CreateSession (\<lambda>o'. True) (\<lambda>o'. Inr 7) ''admin'' p2)
   in \<not> ValidateOrgUser (=) (Some two_orgs) ''org2'' ''admin'' ''pw1'' \<and> pidSession p3 7 = Some ''org2''"
proof -
  let ?cfg = "\<lparr>fc_SNIRoutingMode = SNIRoutingEnforce, fc_ManagedHostnameSuffixes = [''.dw'']\<rparr>"
  let ?check = "\<lambda>host pw. ValidateCredentialsForSNI (=) ?cfg [] (Some two_orgs)
                  \<lparr>fr_sni = host, fr_username = ''admin'', fr_password = pw\<rparr>"
  let ?p0 = "\<lparr>pidSession = Map.empty, userOrg = Map.empty\<rparr> :: orgRoutedSessionProvider"
  let ?p1 = "\<lparr>pidSession = Map.empty, userOrg = [''admin'' \<mapsto> ''org1'']\<rparr>"
  let ?p2 = "\<lparr>pidSession = Map.empty, userOrg = [''admin'' \<mapsto> ''org2'']\<rparr>"
  have sni: "extractOrgFromSNI [''.dw''] ''a.dw'' = (''a'', True)" "extractOrgFromSNI [''.dw''] ''b.dw'' = (''b'', True)"
    by code_simp+
  note defs = ValidateCredentialsForSNI_def authForSNIPrefix_def DatabaseNameForSNIPrefix_def ResolveDatabase_def
    ValidateOrgUser_def two_orgs_def Let_def
  have a: "?check ''a.dw'' ''pw1'' ?p0 = (?p1, True)" by (simp add: defs sni del: extractOrgFromSNI.simps)
  have b: "?check ''b.dw'' ''pw2'' ?p1 = (?p2, True)" by (simp add: defs sni del: extractOrgFromSNI.simps)
  have run: "flight_run (=) ?cfg ?p1 [(''admin'', ''org2'')] ?p2"
    using flight_run.run_auth [OF b _ flight_run.run_nil] by simp
  obtain p3 where c: "CreateSession (\<lambda>o'. True) (\<lambda>o'. Inr 7) ''admin'' ?p2 = (p3, Inr 7)"
    by (simp add: CreateSession_def Let_def)
  from flight_session_org [OF a run, of "\<lambda>o'. True" "\<lambda>o'. Inr 7"] c have "pidSession p3 7 = Some ''org2''" by auto
  with a b c show ?thesis by (simp add: ValidateOrgUser_def two_orgs_def Let_def)
qed

end
