(* ===== verification/Bytes.thy ===== *)
theory Bytes
  imports Prelude "HOL-Library.Word"
begin

text \<open>
  Bytes and fixed-width integers. A byte slice is its list of bytes, as a Go string is. The
  functions of Go's \<^verbatim>\<open>encoding/binary\<close> that the code uses put a machine word into bytes, most
  significant first, and read it back; \<^verbatim>\<open>io.Reader\<close> is the bytes that will arrive and the error
  that follows them.
\<close>

unbundle bit_operations_syntax

section \<open>Big-endian words\<close>

type_synonym bytes = string

definition put_be :: "nat \<Rightarrow> 'a::len word \<Rightarrow> bytes" where
  "put_be k w = map (\<lambda>i. char_of (unat (drop_bit (8 * i) w))) (rev [0..<k])"

definition get_be :: "bytes \<Rightarrow> 'a::len word" where
  "get_be bs = foldl (\<lambda>w c. w * 256 + of_nat (of_char c)) 0 bs"

abbreviation (input) PutUint16 :: "16 word \<Rightarrow> bytes" where "PutUint16 \<equiv> put_be 2"
abbreviation (input) PutUint32 :: "32 word \<Rightarrow> bytes" where "PutUint32 \<equiv> put_be 4"
abbreviation (input) PutUint64 :: "64 word \<Rightarrow> bytes" where "PutUint64 \<equiv> put_be 8"

text \<open>Reading a word needs that many bytes: Go panics on a shorter slice, and ignores what
  follows.\<close>

definition get_word :: "nat \<Rightarrow> bytes \<Rightarrow> 'a::len word option" where
  "get_word k bs = (if length bs < k then None else Some (get_be (take k bs)))"

lemma length_put_be [simp]: "length (put_be k w) = k"
  by (simp add: put_be_def)

lemma get_be_append: "get_be (bs @ [c]) = get_be bs * 256 + of_nat (of_char c)"
  by (simp add: get_be_def)

lemma put_be_Suc: "put_be (Suc k) w = put_be k (drop_bit 8 w) @ [char_of (unat w)]"
proof -
  have "rev [0..<Suc k] = map Suc (rev [0..<k]) @ [0]"
    by (simp add: map_Suc_upt upt_conv_Cons rev_map del: upt_Suc) (metis map_Suc_upt rev_map)
  then show ?thesis
    by (simp add: put_be_def comp_def del: upt_Suc)
       (simp add: drop_bit_drop_bit add.commute)
qed

lemma take_bit_split8:
  fixes w :: "'a::len word"
  shows "take_bit n (drop_bit 8 w) * 256 + take_bit 8 w = take_bit (n + 8) w"
proof -
  have mul: "take_bit n (drop_bit 8 w) * 256 = push_bit 8 (take_bit n (drop_bit 8 w))"
    by (simp add: push_bit_eq_mult mult.commute)
  have "push_bit 8 (take_bit n (drop_bit 8 w)) + take_bit 8 w = push_bit 8 (take_bit n (drop_bit 8 w)) OR take_bit 8 w"
    by (rule disjunctive_add) (auto simp: bit_simps)
  also have "\<dots> = take_bit (n + 8) w"
    by (rule bit_word_eqI) (auto simp: bit_simps)
  finally show ?thesis unfolding mul .
qed

lemma get_put_take: "get_be (put_be k w) = take_bit (8 * k) (w :: 'a::len word)"
proof (induction k arbitrary: w)
  case 0
  then show ?case by (simp add: put_be_def get_be_def)
next
  case (Suc k)
  have "of_char (char_of (unat w) :: char) = take_bit 8 (unat w)"
    by (simp add: take_bit_eq_mod)
  then have "of_char (char_of (unat w) :: char) = unat (take_bit 8 w)"
    by (simp add: unsigned_take_bit_eq)
  then have "(of_nat (of_char (char_of (unat w) :: char)) :: 'a word) = take_bit 8 w"
    by (metis of_nat_unat ucast_id)
  then show ?case
    using take_bit_split8 [of "8 * k" w] by (simp add: put_be_Suc get_be_append Suc add.commute)
qed

text \<open>What is put is what is got, at the width of the word.\<close>

lemma get_put [simp]: "LENGTH('a) = 8 * k \<Longrightarrow> get_be (put_be k w) = (w :: 'a::len word)"
  by (metis get_put_take take_bit_length_eq)

lemma get_word_put [simp]:
  "LENGTH('a) = 8 * k \<Longrightarrow> get_word k (put_be k w @ bs) = Some (w :: 'a::len word)"
  "LENGTH('a) = 8 * k \<Longrightarrow> get_word k (put_be k w) = Some (w :: 'a::len word)"
  by (simp_all add: get_word_def)

section \<open>Readers\<close>

datatype io_error = EOF | ErrUnexpectedEOF | IOError string

record reader =
  avail :: bytes
  after :: io_error

text \<open>\<^verbatim>\<open>io.ReadFull\<close> of \<open>n\<close> bytes: all of them, or an error, which is \<^verbatim>\<open>EOF\<close> only if none was
  read.\<close>

definition ReadFull :: "nat \<Rightarrow> reader \<Rightarrow> io_error + bytes \<times> reader" where
  "ReadFull n r =
     (if n \<le> length (avail r) then Inr (take n (avail r), r\<lparr>avail := drop n (avail r)\<rparr>)
      else Inl (if after r = EOF \<and> avail r \<noteq> [] then ErrUnexpectedEOF else after r))"

text \<open>\<^verbatim>\<open>binary.Read\<close> of a big-endian \<^verbatim>\<open>int32\<close>.\<close>

definition ReadInt32 :: "reader \<Rightarrow> io_error + 32 word \<times> reader" where
  "ReadInt32 r = (case ReadFull 4 r of Inl e \<Rightarrow> Inl e | Inr (bs, r') \<Rightarrow> Inr (get_be bs, r'))"

lemma ReadFull_append [simp]:
  "ReadFull (length bs) \<lparr>avail = bs @ rest, after = e\<rparr> = Inr (bs, \<lparr>avail = rest, after = e\<rparr>)"
  by (simp add: ReadFull_def)

lemma ReadInt32_put [simp]:
  "ReadInt32 \<lparr>avail = put_be 4 w @ rest, after = e\<rparr> = Inr (w, \<lparr>avail = rest, after = e\<rparr>)"
  using ReadFull_append [of "put_be 4 w" rest e] by (simp add: ReadInt32_def)

end
