(* ===== verification/Wire.thy ===== *)
theory Wire
  imports Bytes
begin

text \<open>
  The PostgreSQL wire protocol (\<^verbatim>\<open>server/wire/protocol.go\<close>, \<^verbatim>\<open>server/wire/redact.go\<close>): the
  messages a client sends, read from a byte stream, and the messages of the server, written to
  one. Go panics on a slice expression out of range and on a negative length of \<^verbatim>\<open>make\<close>: here
  these are the outcome \<open>Panic\<close>.
\<close>

section \<open>Message types\<close>

definition MsgAuth :: char where "MsgAuth = CHR ''R''"
definition MsgParamStatus :: char where "MsgParamStatus = CHR ''S''"
definition MsgBackendKeyData :: char where "MsgBackendKeyData = CHR ''K''"
definition MsgReadyForQuery :: char where "MsgReadyForQuery = CHR ''Z''"
definition MsgCommandComplete :: char where "MsgCommandComplete = CHR ''C''"
definition MsgErrorResponse :: char where "MsgErrorResponse = CHR ''E''"
definition MsgNoticeResponse :: char where "MsgNoticeResponse = CHR ''N''"
definition MsgEmptyQuery :: char where "MsgEmptyQuery = CHR ''I''"
definition MsgParseComplete :: char where "MsgParseComplete = CHR ''1''"
definition MsgBindComplete :: char where "MsgBindComplete = CHR ''2''"
definition MsgCloseComplete :: char where "MsgCloseComplete = CHR ''3''"
definition MsgNoData :: char where "MsgNoData = CHR ''n''"
definition MsgCopyData :: char where "MsgCopyData = CHR ''d''"
definition MsgCopyDone :: char where "MsgCopyDone = CHR ''c''"
definition MsgCopyInResponse :: char where "MsgCopyInResponse = CHR ''G''"
definition MsgCopyOutResponse :: char where "MsgCopyOutResponse = CHR ''H''"

definition authOK :: "32 word" where "authOK = 0"
definition authCleartextPwd :: "32 word" where "authCleartextPwd = 3"

abbreviation (input) NUL :: char where "NUL \<equiv> CHR 0x00"

section \<open>Reading\<close>

datatype wire_error =
    StartupLength io_error
  | StartupBody io_error
  | MessageType io_error
  | MessageLength io_error
  | MessageBody io_error

datatype 'a outcome = Ok 'a | Err wire_error | Panic

text \<open>\<^verbatim>\<open>make([]byte, n)\<close> for an \<^verbatim>\<open>int32\<close>: it panics when the length is negative.\<close>

definition make_len :: "32 word \<Rightarrow> nat option" where
  "make_len n = (if sint n < 0 then None else Some (nat (sint n)))"

text \<open>The loop over null-terminated keys and values.\<close>

function parse_params :: "bytes \<Rightarrow> (string \<rightharpoonup> string) \<Rightarrow> (string \<rightharpoonup> string) option" where
  "parse_params data params =
     (if length data > 1 then
        let keyEnd = length (takeWhile (\<lambda>c. c \<noteq> NUL) data) in
        if keyEnd \<ge> length data then Some params
        else
          let key = take keyEnd data;
              data1 = drop (keyEnd + 1) data;
              valEnd = length (takeWhile (\<lambda>c. c \<noteq> NUL) data1)
          in if valEnd > length data1 then Some params
             else
               let value = take valEnd data1
               in if valEnd + 1 > length data1 then None
                  else parse_params (drop (valEnd + 1) data1)
                         (if key \<noteq> [] then params(key \<mapsto> value) else params)
      else Some params)"
  by auto
termination
  by (relation "measure (\<lambda>(data, params). length data)") auto

declare parse_params.simps [simp del]

definition ReadStartupMessage :: "reader \<Rightarrow> ((string \<rightharpoonup> string) \<times> reader) outcome" where
  "ReadStartupMessage r =
     (case ReadInt32 r of
        Inl e \<Rightarrow> Err (StartupLength e)
      | Inr (len, r1) \<Rightarrow>
          (case make_len (len - 4) of
             None \<Rightarrow> Panic
           | Some n \<Rightarrow>
               (case ReadFull n r1 of
                  Inl e \<Rightarrow> Err (StartupBody e)
                | Inr (remaining, r2) \<Rightarrow>
                    (case get_word 4 remaining of
                       None \<Rightarrow> Panic
                     | Some protocolVersion \<Rightarrow>
                         if protocolVersion = (80877103 :: 32 word)
                         then Ok ([''__ssl_request'' \<mapsto> ''true''], r2)
                         else if protocolVersion = 80877104
                         then Ok ([''__gssenc_request'' \<mapsto> ''true''], r2)
                         else if protocolVersion = 80877102
                         then if length remaining \<ge> 12
                              then let cancelPid = get_be (take 4 (drop 4 remaining)) :: 32 word;
                                       cancelSecretKey = get_be (take 4 (drop 8 remaining)) :: 32 word
                                   in Ok ([''__cancel_request'' \<mapsto> ''true'',
                                           ''__cancel_pid'' \<mapsto> digits10 (unat cancelPid),
                                           ''__cancel_secret_key'' \<mapsto> digits10 (unat cancelSecretKey)], r2)
                              else Ok ([''__cancel_request'' \<mapsto> ''true''], r2)
                         else case parse_params (drop 4 remaining) Map.empty of
                                None \<Rightarrow> Panic
                              | Some params \<Rightarrow> Ok (params, r2)))))"

definition ReadMessage :: "reader \<Rightarrow> ((char \<times> bytes) \<times> reader) outcome" where
  "ReadMessage r =
     (case ReadFull 1 r of
        Inl e \<Rightarrow> Err (MessageType e)
      | Inr (typeBuf, r1) \<Rightarrow>
          let msgType = hd typeBuf in
          case ReadInt32 r1 of
            Inl e \<Rightarrow> Err (MessageLength e)
          | Inr (len, r2) \<Rightarrow>
              (case make_len (len - 4) of
                 None \<Rightarrow> Panic
               | Some n \<Rightarrow>
                   if sint len > 4
                   then case ReadFull n r2 of
                          Inl e \<Rightarrow> Err (MessageBody e)
                        | Inr (body, r3) \<Rightarrow> Ok ((msgType, body), r3)
                   else Ok ((msgType, replicate n NUL), r2)))"

section \<open>Writing\<close>

text \<open>An \<^verbatim>\<open>io.Writer\<close>: what was sent, and the outcomes of the calls to come, where a failing call
  has sent a part of its bytes. When the list is used up, the calls succeed.\<close>

record writer =
  sent :: bytes
  calls :: "(nat \<times> string) option list"

definition Write :: "bytes \<Rightarrow> writer \<Rightarrow> writer \<times> string option" where
  "Write bs w =
     (case calls w of
        Some (k, e) # cs \<Rightarrow> (w\<lparr>sent := sent w @ take k bs, calls := cs\<rparr>, Some e)
      | _ \<Rightarrow> (w\<lparr>sent := sent w @ bs, calls := tl (calls w)\<rparr>, None))"

definition WriteMessage :: "char \<Rightarrow> bytes \<Rightarrow> writer \<Rightarrow> writer \<times> string option" where
  "WriteMessage msgType data w =
     (case Write [msgType] w of
        (w1, Some e) \<Rightarrow> (w1, Some e)
      | (w1, None) \<Rightarrow>
          (case Write (PutUint32 (of_nat (length data + 4))) w1 of
             (w2, Some e) \<Rightarrow> (w2, Some e)
           | (w2, None) \<Rightarrow> if length data > 0 then Write data w2 else (w2, None)))"

definition WriteAuthOK :: "writer \<Rightarrow> writer \<times> string option" where
  "WriteAuthOK w = WriteMessage MsgAuth (PutUint32 authOK) w"

definition WriteAuthCleartextPassword :: "writer \<Rightarrow> writer \<times> string option" where
  "WriteAuthCleartextPassword w = WriteMessage MsgAuth (PutUint32 authCleartextPwd) w"

definition WriteParameterStatus :: "string \<Rightarrow> string \<Rightarrow> writer \<Rightarrow> writer \<times> string option" where
  "WriteParameterStatus name value w = WriteMessage MsgParamStatus (name @ [NUL] @ value @ [NUL]) w"

definition WriteBackendKeyData :: "32 word \<Rightarrow> 32 word \<Rightarrow> writer \<Rightarrow> writer \<times> string option" where
  "WriteBackendKeyData pid secretKey w =
     WriteMessage MsgBackendKeyData (PutUint32 pid @ PutUint32 secretKey) w"

definition WriteReadyForQuery :: "char \<Rightarrow> writer \<Rightarrow> writer \<times> string option" where
  "WriteReadyForQuery txStatus w = WriteMessage MsgReadyForQuery [txStatus] w"

definition WriteCommandComplete :: "string \<Rightarrow> writer \<Rightarrow> writer \<times> string option" where
  "WriteCommandComplete tag w = WriteMessage MsgCommandComplete (tag @ [NUL]) w"

definition WriteEmptyQueryResponse :: "writer \<Rightarrow> writer \<times> string option" where
  "WriteEmptyQueryResponse w = WriteMessage MsgEmptyQuery [] w"

definition WriteParseComplete :: "writer \<Rightarrow> writer \<times> string option" where
  "WriteParseComplete w = WriteMessage MsgParseComplete [] w"

definition WriteBindComplete :: "writer \<Rightarrow> writer \<times> string option" where
  "WriteBindComplete w = WriteMessage MsgBindComplete [] w"

definition WriteCloseComplete :: "writer \<Rightarrow> writer \<times> string option" where
  "WriteCloseComplete w = WriteMessage MsgCloseComplete [] w"

definition WriteNoData :: "writer \<Rightarrow> writer \<times> string option" where
  "WriteNoData w = WriteMessage MsgNoData [] w"

text \<open>The body of both COPY responses: the overall format, the number of columns, and the format
  of each; the loop counts up to the number as a signed integer.\<close>

definition copy_response :: "16 word \<Rightarrow> bool \<Rightarrow> bytes" where
  "copy_response numColumns textFormat =
     (if textFormat then [NUL] else [CHR 0x01]) @ PutUint16 numColumns @
     concat (replicate (nat (sint numColumns)) (if textFormat then PutUint16 0 else PutUint16 1))"

definition WriteCopyOutResponse :: "16 word \<Rightarrow> bool \<Rightarrow> writer \<Rightarrow> writer \<times> string option" where
  "WriteCopyOutResponse numColumns textFormat w =
     WriteMessage MsgCopyOutResponse (copy_response numColumns textFormat) w"

definition WriteCopyInResponse :: "16 word \<Rightarrow> bool \<Rightarrow> writer \<Rightarrow> writer \<times> string option" where
  "WriteCopyInResponse numColumns textFormat w =
     WriteMessage MsgCopyInResponse (copy_response numColumns textFormat) w"

definition WriteCopyData :: "bytes \<Rightarrow> writer \<Rightarrow> writer \<times> string option" where
  "WriteCopyData data w = WriteMessage MsgCopyData data w"

definition WriteCopyDone :: "writer \<Rightarrow> writer \<times> string option" where
  "WriteCopyDone w = WriteMessage MsgCopyDone [] w"

section \<open>Redaction\<close>

text \<open>
  \<^verbatim>\<open>RedactSecrets\<close> replaces the matches of the pattern
  \<^verbatim>\<open>(?i)(password\s*[=:]\s*)("[^"]*"|[^\s"]+)\<close> from left to right. Case folding gives each
  letter its two cases, and the letter s also U+017F. After the separator no other choice of the
  blanks can match, so the match at a position is found without search: \<open>redact_match\<close> gives
  the length of the first group and of the match.
\<close>

definition re_space :: "char \<Rightarrow> bool" where
  "re_space c \<longleftrightarrow> c \<in> {CHR 0x09, CHR 0x0A, CHR 0x0C, CHR 0x0D, CHR 0x20}"

definition foldings :: "char \<Rightarrow> bytes list" where
  "foldings c = [[c], [char_of (of_char c - 32 :: nat)]] @ (if c = CHR ''s'' then [[CHR 0xC5, CHR 0xBF]] else [])"

fun match_lit :: "string \<Rightarrow> bytes \<Rightarrow> nat option" where
  "match_lit [] s = Some 0"
| "match_lit (c # cs) s =
     (case find (\<lambda>e. prefix e s) (foldings c) of
        None \<Rightarrow> None
      | Some e \<Rightarrow> map_option (\<lambda>n. length e + n) (match_lit cs (drop (length e) s)))"

definition match_value :: "bytes \<Rightarrow> nat option" where
  "match_value s =
     (if s \<noteq> [] \<and> hd s = CHR 0x22
      then (if CHR 0x22 \<in> set (tl s) then Some (2 + length (takeWhile (\<lambda>c. c \<noteq> CHR 0x22) (tl s))) else None)
      else let v = takeWhile (\<lambda>c. \<not> re_space c \<and> c \<noteq> CHR 0x22) s
           in if v = [] then None else Some (length v))"

definition redact_match :: "bytes \<Rightarrow> (nat \<times> nat) option" where
  "redact_match s =
     (case match_lit ''password'' s of
        None \<Rightarrow> None
      | Some k \<Rightarrow>
          (case dropWhile re_space (drop k s) of
             [] \<Rightarrow> None
           | c # s1 \<Rightarrow>
               if c = CHR ''='' \<or> c = CHR '':''
               then let s2 = dropWhile re_space s1; g = length s - length s2
                    in map_option (\<lambda>n. (g, g + n)) (match_value s2)
               else None))"

lemma match_value_pos: "match_value s = Some n \<Longrightarrow> 0 < n"
  by (auto simp: match_value_def Let_def split: list.splits if_splits)

lemma redact_match_pos: "redact_match s = Some (g, n) \<Longrightarrow> 0 < n"
  by (auto simp: redact_match_def Let_def dest: match_value_pos split: option.splits list.splits if_splits)

function RedactSecrets :: "bytes \<Rightarrow> bytes" where
  "RedactSecrets s =
     (case s of
        [] \<Rightarrow> []
      | c # s' \<Rightarrow>
          (case redact_match s of
             Some (g, n) \<Rightarrow> take g s @ ''[REDACTED]'' @ RedactSecrets (drop n s)
           | None \<Rightarrow> c # RedactSecrets s'))"
  by auto
termination
  by (relation "measure length") (auto dest: redact_match_pos)

declare RedactSecrets.simps [simp del]

text \<open>The fields of an error or a notice.\<close>

definition response_fields :: "string \<Rightarrow> string \<Rightarrow> string \<Rightarrow> bytes" where
  "response_fields severity code message =
     CHR ''S'' # severity @ [NUL] @ CHR ''C'' # code @ [NUL] @ CHR ''M'' # message @ [NUL] @ [NUL]"

definition WriteErrorResponse :: "string \<Rightarrow> string \<Rightarrow> string \<Rightarrow> writer \<Rightarrow> writer \<times> string option" where
  "WriteErrorResponse severity code message w =
     WriteMessage MsgErrorResponse (response_fields severity code (RedactSecrets message)) w"

definition WriteNoticeResponse :: "string \<Rightarrow> string \<Rightarrow> string \<Rightarrow> writer \<Rightarrow> writer \<times> string option" where
  "WriteNoticeResponse severity code message w =
     WriteMessage MsgNoticeResponse (response_fields severity code message) w"

section \<open>Frames\<close>

definition frame :: "char \<Rightarrow> bytes \<Rightarrow> bytes" where
  "frame t d = t # put_be 4 (of_nat (length d + 4) :: 32 word) @ d"

lemma sint_small: "n < 2 ^ 31 \<Longrightarrow> sint (of_nat n :: 32 word) = int n"
  by (simp add: signed_of_nat signed_take_bit_int_eq_self)

lemma make_len_frame: "n + 4 < 2 ^ 31 \<Longrightarrow> make_len (of_nat (n + 4) - 4) = Some n"
  using sint_small [of n] by (simp add: make_len_def)

lemma Write_cases: "Write bs w = (w', res) \<Longrightarrow>
   (case res of None \<Rightarrow> sent w' = sent w @ bs | Some e \<Rightarrow> \<exists>p. prefix p bs \<and> sent w' = sent w @ p)"
  by (auto simp: Write_def take_is_prefix split: list.splits option.splits prod.splits)

text \<open>A message is sent as its frame, or a part of it if a call fails.\<close>

lemma WriteMessage_sent:
  "WriteMessage t d w = (w', res) \<Longrightarrow>
   (case res of None \<Rightarrow> sent w' = sent w @ frame t d
    | Some e \<Rightarrow> \<exists>p. prefix p (frame t d) \<and> sent w' = sent w @ p)"
proof -
  assume w: "WriteMessage t d w = (w', res)"
  let ?l = "put_be 4 (of_nat (length d + 4) :: 32 word)"
  obtain w1 r1 where 1: "Write [t] w = (w1, r1)" by fastforce
  obtain w2 r2 where 2: "Write ?l w1 = (w2, r2)" by fastforce
  obtain w3 r3 where 3: "Write d w2 = (w3, r3)" by fastforce
  note c = Write_cases [OF 1] Write_cases [OF 2] Write_cases [OF 3]
  have f: "frame t d = [t] @ ?l @ d" by (simp add: frame_def)
  show ?thesis
  proof (cases r1)
    case (Some e)
    with w 1 have "w' = w1" "res = Some e" by (auto simp: WriteMessage_def)
    with c(1) Some show ?thesis unfolding f by (auto simp del: append.simps)
  next
    case None
    note r1 = this
    show ?thesis
    proof (cases r2)
      case (Some e)
      with w 1 2 r1 have "w' = w2" "res = Some e" by (auto simp: WriteMessage_def)
      with c(1,2) r1 Some show ?thesis
        unfolding f by (auto simp del: append.simps)
    next
      case r2: None
      with w 1 2 3 r1 have "if d = [] then w' = w2 \<and> res = None else w' = w3 \<and> res = r3"
        by (auto simp: WriteMessage_def split: if_splits)
      with c r1 r2 show ?thesis
        unfolding f by (cases "d = []"; cases r3) (auto simp del: append.simps)
    qed
  qed
qed

lemma ReadMessage_frame:
  assumes "length d + 4 < 2 ^ 31"
  shows "ReadMessage \<lparr>avail = frame t d @ rest, after = e\<rparr> = Ok ((t, d), \<lparr>avail = rest, after = e\<rparr>)"
proof -
  let ?n = "of_nat (length d + 4) :: 32 word"
  have 1: "ReadFull 1 \<lparr>avail = frame t d @ rest, after = e\<rparr> =
      Inr ([t], \<lparr>avail = put_be 4 ?n @ d @ rest, after = e\<rparr>)"
    by (simp add: frame_def ReadFull_def)
  have "sint ?n = int (length d + 4)" by (rule sint_small [OF assms])
  then show ?thesis
    unfolding ReadMessage_def 1 using make_len_frame [OF assms] by (cases "d = []") simp_all
qed

text \<open>A frame that is cut is an error for the reader, never a message and never a panic.\<close>

lemma ReadMessage_cut:
  assumes "length d + 4 < 2 ^ 31" and "prefix p (frame t d)" and "p \<noteq> frame t d"
  shows "\<exists>x. ReadMessage \<lparr>avail = p, after = e\<rparr> = Err x"
proof -
  let ?n = "of_nat (length d + 4) :: 32 word"
  from assms(2,3) obtain k where k: "p = take k (frame t d)" "k < length (frame t d)"
    by (metis append_eq_conv_conj linorder_not_less prefix_def take_all)
  consider (none) "k = 0" | (len) m where "k = Suc m" "m < 4" | (body) m where "k = Suc (4 + m)" "m < length d"
  proof -
    have "k = 0 \<or> (\<exists>m. k = Suc m \<and> m < 4) \<or> (\<exists>m. k = Suc (4 + m) \<and> m < length d)"
      using k(2) by (cases k) (auto simp: frame_def intro!: exI [of _ "k - 5"])
    then show ?thesis using that by blast
  qed
  then show ?thesis
  proof cases
    case none
    with k show ?thesis by (simp add: ReadMessage_def ReadFull_def)
  next
    case len
    with k have "p = t # take m (put_be 4 ?n)" by (simp add: frame_def)
    with len show ?thesis by (simp add: ReadMessage_def ReadFull_def ReadInt32_def)
  next
    case body
    with k have p: "p = t # put_be 4 ?n @ take m d"
      unfolding frame_def by (simp only: take_Suc_Cons take_append length_put_be) simp
    have "ReadFull 1 \<lparr>avail = p, after = e\<rparr> = Inr ([t], \<lparr>avail = put_be 4 ?n @ take m d, after = e\<rparr>)"
      by (simp add: p ReadFull_def)
    moreover have "sint ?n = int (length d + 4)" by (rule sint_small [OF assms(1)])
    moreover have "\<exists>x. ReadFull (length d) \<lparr>avail = take m d, after = e\<rparr> = Inl x"
      using body by (simp add: ReadFull_def)
    ultimately show ?thesis
      using make_len_frame [OF assms(1)] body by (cases "d = []") (auto simp: ReadMessage_def)
  qed
qed

section \<open>Startup packets\<close>

text \<open>The parameters of a version 3 packet as the protocol lays them out.\<close>

definition param_bytes :: "(string \<times> string) list \<Rightarrow> bytes" where
  "param_bytes kvs = concat (map (\<lambda>(k, v). k @ [NUL] @ v @ [NUL]) kvs)"

definition startup_packet :: "32 word \<Rightarrow> bytes \<Rightarrow> bytes" where
  "startup_packet version data =
     put_be 4 (of_nat (length data + 8) :: 32 word) @ put_be 4 version @ data"

lemma takeWhile_field: "NUL \<notin> set k \<Longrightarrow> takeWhile (\<lambda>c. c \<noteq> NUL) (k @ NUL # xs) = k"
  by (induction k) auto

lemma parse_params_pair:
  assumes "NUL \<notin> set k" and "NUL \<notin> set v"
  shows "parse_params (k @ NUL # v @ NUL # rest) m = parse_params rest (if k \<noteq> [] then m(k \<mapsto> v) else m)"
  by (subst parse_params.simps) (simp add: takeWhile_field [OF assms(1)] takeWhile_field [OF assms(2)] Let_def)

lemma parse_params_list:
  assumes "\<forall>(k, v) \<in> set kvs. k \<noteq> [] \<and> NUL \<notin> set k \<and> NUL \<notin> set v"
  shows "parse_params (param_bytes kvs @ [NUL]) m = Some (m ++ map_of (rev kvs))"
  using assms
proof (induction kvs arbitrary: m)
  case Nil
  then show ?case by (subst parse_params.simps) (simp add: param_bytes_def)
next
  case (Cons kv kvs)
  obtain k v where kv: "kv = (k, v)" by fastforce
  have "param_bytes (kv # kvs) @ [NUL] = k @ NUL # v @ NUL # (param_bytes kvs @ [NUL])"
    by (simp add: param_bytes_def kv)
  moreover have "m(k \<mapsto> v) ++ map_of (rev kvs) = m ++ map_of (rev kvs @ [(k, v)])"
    by (simp add: map_add_assoc)
  ultimately show ?case
    using Cons.prems by (simp add: kv parse_params_pair Cons.IH) (simp add: fun_upd_def)
qed

text \<open>The bodies on which the loop runs past the end of the slice: a key is terminated and its
  value is not.\<close>

definition unterminated_value :: "bytes \<Rightarrow> bool" where
  "unterminated_value data \<longleftrightarrow>
     odd (count_list data NUL) \<and> data \<noteq> [NUL] \<and> \<not> suffix [NUL, NUL] data"

lemma takeWhile_no_NUL: "NUL \<notin> set xs \<Longrightarrow> takeWhile (\<lambda>c. c \<noteq> NUL) xs = xs"
  by (auto simp: takeWhile_eq_all_conv)

lemma suffix_skip:
  assumes "2 \<le> length rest"
  shows "suffix [NUL, NUL] (xs @ rest) \<longleftrightarrow> suffix [NUL, NUL] rest"
proof -
  obtain a b r where "rev rest = b # a # r"
    using assms by (metis Suc_le_length_iff length_rev numeral_2_eq_2)
  then have "rest = rev r @ [a, b]" by (metis append.assoc append_Cons append_Nil rev.simps(2) rev_rev_ident)
  then show ?thesis by (simp add: suffix_to_prefix)
qed

lemma unterminated_value_skip:
  assumes "NUL \<notin> set k" and "NUL \<notin> set v"
  shows "unterminated_value (k @ NUL # v @ NUL # rest) \<longleftrightarrow> unterminated_value rest"
proof -
  have cnt: "count_list (k @ NUL # v @ NUL # rest) NUL = count_list rest NUL + 2"
    using assms by (simp add: count_list_0_iff)
  show ?thesis
  proof (cases "2 \<le> length rest")
    case True
    have "suffix [NUL, NUL] (k @ NUL # v @ NUL # rest) \<longleftrightarrow> suffix [NUL, NUL] rest"
      using suffix_skip [OF True, of "k @ NUL # v @ [NUL]"] by simp
    with True cnt show ?thesis unfolding unterminated_value_def by auto
  next
    case False
    then consider "rest = []" | c where "rest = [c]" by (cases rest; cases "tl rest") auto
    then show ?thesis
    proof cases
      case 2
      have "suffix [NUL, NUL] ((k @ NUL # v) @ [NUL, NUL])" by (rule suffixI) simp
      with 2 cnt show ?thesis unfolding unterminated_value_def by auto
    qed (use cnt in \<open>simp add: unterminated_value_def\<close>)
  qed
qed

lemma parse_params_panics: "parse_params data m = None \<longleftrightarrow> unterminated_value data"
proof (induction "length data" arbitrary: data m rule: less_induct)
  case less
  consider (short) "length data \<le> 1" | (noterm) "1 < length data" "NUL \<notin> set data"
    | (key) k d1 where "1 < length data" "data = k @ NUL # d1" "NUL \<notin> set k"
    by (metis linorder_not_less split_list_first)
  then show ?case
  proof cases
    case short
    then have "data = [] \<or> (\<exists>c. data = [c])" by (cases data) auto
    with short show ?thesis by (subst parse_params.simps) (auto simp: unterminated_value_def split: if_splits)
  next
    case noterm
    then show ?thesis
      by (subst parse_params.simps) (simp add: takeWhile_no_NUL unterminated_value_def count_list_0_iff)
  next
    case key
    show ?thesis
    proof (cases "NUL \<in> set d1")
      case True
      then obtain v rest where d1: "d1 = v @ NUL # rest" "NUL \<notin> set v" by (metis split_list_first)
      have "parse_params rest m' = None \<longleftrightarrow> unterminated_value rest" for m'
        by (rule less) (simp add: key d1)
      with key d1 show ?thesis by (simp add: parse_params_pair unterminated_value_skip)
    next
      case False
      then have cnt: "count_list data NUL = 1" using key by (simp add: count_list_0_iff)
      then have "\<not> suffix [NUL, NUL] data" by (auto simp: suffix_def)
      with cnt key False show ?thesis
        by (subst parse_params.simps)
           (auto simp: takeWhile_field takeWhile_no_NUL unterminated_value_def Let_def append_eq_Cons_conv)
    qed
  qed
qed

text \<open>The lengths for which \<^verbatim>\<open>make\<close> panics.\<close>

lemma make_len_None: "make_len (len - 4) = None \<longleftrightarrow> - (2 ^ 31) + 4 \<le> sint len \<and> sint len < 4"
proof -
  have sub: "sint (len - 4) = signed_take_bit 31 (sint len - 4)"
    by (simp add: sint_word_ariths(2) signed_take_bit_eq_if_positive)
  have rng: "- (2 ^ 31) \<le> sint len" "sint len < 2 ^ 31"
    using sint_ge [of len] sint_lt [of len] by simp_all
  show ?thesis
  proof (cases "- (2 ^ 31) + 4 \<le> sint len")
    case True
    then have "sint (len - 4) = sint len - 4"
      unfolding sub using rng by (intro signed_take_bit_int_eq_self) simp_all
    with True show ?thesis by (auto simp: make_len_def)
  next
    case False
    then have "sint len - 4 + 2 ^ Suc 31 \<le> sint (len - 4)"
      unfolding sub by (intro signed_take_bit_int_greater_eq) simp
    with False rng show ?thesis by (simp add: make_len_def)
  qed
qed

section \<open>Properties\<close>

text \<open>\<^bold>\<open>C31\<close>. What one side writes is what the other reads: a message whose calls all succeed is read
  back with its type and body, and the stream goes on behind it; if a call fails, then what was
  sent is read as the whole message or as an error, never as another message.\<close>

theorem message_roundtrip:
  assumes "length data + 4 < 2 ^ 31" and "WriteMessage t data w = (w', res)"
  shows "\<exists>out. sent w' = sent w @ out \<and>
    (res = None \<longrightarrow> (\<forall>rest e. ReadMessage \<lparr>avail = out @ rest, after = e\<rparr> =
       Ok ((t, data), \<lparr>avail = rest, after = e\<rparr>))) \<and>
    (res \<noteq> None \<longrightarrow> (\<forall>e. ReadMessage \<lparr>avail = out, after = e\<rparr> = Ok ((t, data), \<lparr>avail = [], after = e\<rparr>) \<or>
       (\<exists>x. ReadMessage \<lparr>avail = out, after = e\<rparr> = Err x)))"
proof (cases res)
  case None
  then show ?thesis using WriteMessage_sent [OF assms(2)] ReadMessage_frame [OF assms(1)] by auto
next
  case (Some x)
  then obtain p where p: "prefix p (frame t data)" "sent w' = sent w @ p"
    using WriteMessage_sent [OF assms(2)] by auto
  then show ?thesis
    using ReadMessage_frame [OF assms(1), of t "[]"] ReadMessage_cut [OF assms(1) p(1)] Some
    by (cases "p = frame t data") auto
qed

theorem message_roundtrip_witness:
  "ReadMessage \<lparr>avail = sent (fst (WriteCommandComplete ''SELECT 1'' \<lparr>sent = [], calls = []\<rparr>)), after = EOF\<rparr> =
   Ok ((MsgCommandComplete, ''SELECT 1'' @ [NUL]), \<lparr>avail = [], after = EOF\<rparr>)"
proof -
  obtain w' res where w: "WriteMessage MsgCommandComplete (''SELECT 1'' @ [NUL]) \<lparr>sent = [], calls = []\<rparr> = (w', res)"
    by fastforce
  then have "res = None" by (auto simp: WriteMessage_def Write_def)
  with message_roundtrip [OF _ w] show ?thesis
    unfolding WriteCommandComplete_def w by (auto dest: spec [of _ "[]"])
qed

lemma ReadStartupMessage_params:
  assumes "\<forall>(k, v) \<in> set kvs. k \<noteq> [] \<and> NUL \<notin> set k \<and> NUL \<notin> set v"
    and "length (param_bytes kvs) + 9 < 2 ^ 31"
  shows "ReadStartupMessage \<lparr>avail = startup_packet 196608 (param_bytes kvs @ [NUL]) @ rest, after = e\<rparr> =
    Ok (map_of (rev kvs), \<lparr>avail = rest, after = e\<rparr>)"
proof -
  let ?b = "put_be 4 (196608 :: 32 word) @ param_bytes kvs @ [NUL]"
  have n: "length ?b + 4 < 2 ^ 31" using assms(2) by simp
  have "startup_packet 196608 (param_bytes kvs @ [NUL]) @ rest =
      put_be 4 (of_nat (length ?b + 4) :: 32 word) @ ?b @ rest"
    by (simp add: startup_packet_def add.commute)
  moreover have "get_word 4 ?b = Some (196608 :: 32 word)" by (rule get_word_put(1)) simp
  moreover have "drop 4 ?b = param_bytes kvs @ [NUL]" by simp
  ultimately show ?thesis
    unfolding ReadStartupMessage_def
    using make_len_frame [OF n] ReadFull_append [of ?b rest e] parse_params_list [OF assms(1), of Map.empty]
    by (simp only: ReadInt32_put sum.case prod.case option.case) simp
qed

text \<open>\<^bold>\<open>C32\<close>. The startup parameters of a client arrive as it sent them: for every list of
  parameters with non-empty names in which no byte is zero, the packet of protocol version 3.0
  is read as the map of these parameters, where the last of equal names counts, and nothing
  behind the packet is consumed.\<close>

theorem startup_roundtrip:
  assumes "\<forall>(k, v) \<in> set kvs. k \<noteq> [] \<and> NUL \<notin> set k \<and> NUL \<notin> set v"
    and "length (param_bytes kvs) + 9 < 2 ^ 31"
  shows "ReadStartupMessage \<lparr>avail = startup_packet 196608 (param_bytes kvs @ [NUL]) @ rest, after = e\<rparr> =
    Ok (map_of (rev kvs), \<lparr>avail = rest, after = e\<rparr>)"
  using assms by (rule ReadStartupMessage_params)

theorem startup_roundtrip_witness:
  "ReadStartupMessage \<lparr>avail = startup_packet 196608 (param_bytes [(''user'', ''ada''), (''database'', ''lake'')] @ [NUL]),
      after = EOF\<rparr> = Ok ([''user'' \<mapsto> ''ada'', ''database'' \<mapsto> ''lake''], \<lparr>avail = [], after = EOF\<rparr>)"
  using startup_roundtrip [of "[(''user'', ''ada''), (''database'', ''lake'')]" "[]" EOF]
  by (simp add: param_bytes_def)

lemma ReadStartupMessage_panics:
  assumes n: "length body + 4 < 2 ^ 31"
  shows "ReadStartupMessage \<lparr>avail = put_be 4 (of_nat (length body + 4) :: 32 word) @ body, after = e\<rparr> = Panic \<longleftrightarrow>
     length body < 4 \<or>
     (get_be (take 4 body) :: 32 word) \<notin> {80877103, 80877104, 80877102} \<and> unterminated_value (drop 4 body)"
proof -
  have rd: "ReadFull (length body) \<lparr>avail = body, after = e\<rparr> = Inr (body, \<lparr>avail = [], after = e\<rparr>)"
    using ReadFull_append [of body "[]" e] by simp
  show ?thesis
    unfolding ReadStartupMessage_def ReadInt32_put sum.case prod.case make_len_frame [OF n] option.case rd
    using parse_params_panics [of "drop 4 body" Map.empty]
    by (auto simp: get_word_def Let_def split: option.splits)
qed

text \<open>Which packets make the server panic instead of reporting an error: reading a message
  panics exactly when its length field lies below four, except for the four lowest values, where
  the subtraction wraps around; reading a complete startup packet panics exactly when its body has
  fewer than four bytes, or when it asks for none of the special requests and its parameters end in
  a name without a terminated value.\<close>

theorem packets_that_panic:
  "(ReadMessage r = Panic \<longleftrightarrow> 5 \<le> length (avail r) \<and>
      (let len = sint (get_be (take 4 (drop 1 (avail r))) :: 32 word) in - (2 ^ 31) + 4 \<le> len \<and> len < 4)) \<and>
   (length body + 4 < 2 ^ 31 \<longrightarrow>
      (ReadStartupMessage \<lparr>avail = put_be 4 (of_nat (length body + 4) :: 32 word) @ body, after = e\<rparr> = Panic \<longleftrightarrow>
         length body < 4 \<or>
         (get_be (take 4 body) :: 32 word) \<notin> {80877103, 80877104, 80877102} \<and> unterminated_value (drop 4 body)))"
proof (intro conjI impI)
  show "ReadMessage r = Panic \<longleftrightarrow> 5 \<le> length (avail r) \<and>
      (let len = sint (get_be (take 4 (drop 1 (avail r))) :: 32 word) in - (2 ^ 31) + 4 \<le> len \<and> len < 4)"
  proof (cases "5 \<le> length (avail r)")
    case True
    then show ?thesis
      using make_len_None [of "get_be (take 4 (drop 1 (avail r)))"]
      by (auto simp: ReadMessage_def ReadFull_def ReadInt32_def Let_def split: option.splits sum.splits if_splits)
  next
    case False
    then show ?thesis by (auto simp: ReadMessage_def ReadFull_def ReadInt32_def Let_def)
  qed
qed (rule ReadStartupMessage_panics)

theorem packets_that_panic_witness:
  "ReadStartupMessage \<lparr>avail = put_be 4 (13 :: 32 word) @ put_be 4 (196608 :: 32 word) @ ''user'' @ [NUL], after = EOF\<rparr> = Panic"
proof -
  let ?b = "put_be 4 (196608 :: 32 word) @ ''user'' @ [NUL]"
  have "unterminated_value (''user'' @ [NUL])" by (simp add: unterminated_value_def suffix_to_prefix)
  moreover have "(get_be (take 4 ?b) :: 32 word) = 196608" by simp
  moreover have "drop 4 ?b = ''user'' @ [NUL]" by simp
  ultimately show ?thesis
    using packets_that_panic [THEN conjunct2, rule_format, of ?b EOF] by simp
qed

end
