(* ===== verification/Raw_Startup.thy ===== *)
theory Raw_Startup
  imports Wire
begin

text \<open>
  The first packet of a connection, before TLS (\<^verbatim>\<open>readStartupFromRaw\<close>, \<^verbatim>\<open>fullRead\<close> and
  \<^verbatim>\<open>readStartupWithGSSFallback\<close> of \<^verbatim>\<open>controlplane/control.go\<close>): the reader that tells a TLS request, a
  cancel request and a plain startup apart and declines GSSAPI encryption.
\<close>

section \<open>The reader\<close>

record startupResult =
  sslRequest :: bool
  gssRequest :: bool
  startupMessage :: bool
  cancelRequest :: bool
  cancelPid :: "32 word"
  cancelSecretKey :: "32 word"

definition no_startup :: startupResult where
  "no_startup = \<lparr>sslRequest = False, gssRequest = False, startupMessage = False, cancelRequest = False,
     cancelPid = 0, cancelSecretKey = 0\<rparr>"

datatype raw_error =
    RawLength io_error
  | RawInvalidLength int
  | RawBody io_error
  | RawDecline
  | RawVersion "32 word"
  | RawRounds

datatype raw_outcome = RawOk startupResult reader | RawErr raw_error | RawPanic

text \<open>\<^verbatim>\<open>fullRead\<close> gives the error of the connection as it is, also after some bytes.\<close>

definition fullRead :: "nat \<Rightarrow> reader \<Rightarrow> io_error + bytes \<times> reader" where
  "fullRead n r =
     (if n \<le> length (avail r) then Inr (take n (avail r), r\<lparr>avail := drop n (avail r)\<rparr>) else Inl (after r))"

text \<open>What is left of the rounds, whether the \<open>k\<close>-th decline cannot be written, and the declines
  sent so far. The first component of the result counts the declines.\<close>

fun negotiate :: "nat \<Rightarrow> (nat \<Rightarrow> bool) \<Rightarrow> nat \<Rightarrow> reader \<Rightarrow> nat \<times> raw_outcome" where
  "negotiate 0 writeFails k r = (k, RawErr RawRounds)"
| "negotiate (Suc rounds) writeFails k r =
     (case ReadInt32 r of
        Inl e \<Rightarrow> (k, RawErr (RawLength e))
      | Inr (len, r1) \<Rightarrow>
          if sint len < 8 \<or> sint len > 10000 then (k, RawErr (RawInvalidLength (sint len)))
          else
            case make_len (len - 4) of
              None \<Rightarrow> (k, RawPanic)
            | Some n \<Rightarrow>
                (case fullRead n r1 of
                   Inl e \<Rightarrow> (k, RawErr (RawBody e))
                 | Inr (remaining, r2) \<Rightarrow>
                     (case get_word 4 remaining of
                        None \<Rightarrow> (k, RawPanic)
                      | Some protocolVersion \<Rightarrow>
                          if protocolVersion = (80877103 :: 32 word)
                          then (k, RawOk (no_startup\<lparr>sslRequest := True\<rparr>) r2)
                          else if protocolVersion = 80877102 \<and> length remaining \<ge> 12
                          then (k, RawOk (no_startup\<lparr>cancelRequest := True,
                                 cancelPid := get_be (take 4 (drop 4 remaining)),
                                 cancelSecretKey := get_be (take 4 (drop 8 remaining))\<rparr>) r2)
                          else if protocolVersion = 80877104
                          then (if writeFails k then (k, RawErr RawDecline)
                                else negotiate rounds writeFails (Suc k) r2)
                          else if protocolVersion = 196608
                          then (k, RawOk (no_startup\<lparr>startupMessage := True\<rparr>) r2)
                          else (k, RawErr (RawVersion protocolVersion)))))"

definition maxNegotiationRounds :: nat where
  "maxNegotiationRounds = 3"

definition readStartupFromRaw :: "(nat \<Rightarrow> bool) \<Rightarrow> reader \<Rightarrow> nat \<times> raw_outcome" where
  "readStartupFromRaw writeFails r = negotiate maxNegotiationRounds writeFails 0 r"

text \<open>The wrapper that expects the reader to report GSSAPI requests. \<open>k\<close> counts the bytes \<^verbatim>\<open>N\<close> of
  both loops.\<close>

fun gss_fallback :: "nat \<Rightarrow> (nat \<Rightarrow> bool) \<Rightarrow> nat \<Rightarrow> reader \<Rightarrow> nat \<times> raw_outcome" where
  "gss_fallback 0 writeFails k r = (k, RawErr RawRounds)"
| "gss_fallback (Suc i) writeFails k r =
     (case negotiate maxNegotiationRounds writeFails k r of
        (k1, RawOk params r1) \<Rightarrow>
          if \<not> gssRequest params then (k1, RawOk params r1)
          else if writeFails k1 then (k1, RawErr RawDecline)
          else gss_fallback i writeFails (Suc k1) r1
      | failed \<Rightarrow> failed)"

definition readStartupWithGSSFallback :: "(nat \<Rightarrow> bool) \<Rightarrow> reader \<Rightarrow> nat \<times> raw_outcome" where
  "readStartupWithGSSFallback writeFails r = gss_fallback 4 writeFails 0 r"

section \<open>Lemmas\<close>

text \<open>A length within the bounds leaves a body of at least four bytes.\<close>

lemma body_length:
  fixes len :: "32 word"
  assumes "\<not> (sint len < 8 \<or> sint len > 10000)"
  shows "make_len (len - 4) = Some (nat (sint len - 4)) \<and> 4 \<le> nat (sint len - 4) \<and> nat (sint len - 4) \<le> 9996"
proof -
  have "sint (len - 4) = signed_take_bit 31 (sint len - 4)"
    by (simp add: sint_word_ariths)
  also have "\<dots> = sint len - 4"
    using assms by (intro signed_take_bit_int_eq_self) auto
  finally show ?thesis using assms by (simp add: make_len_def nat_le_eq_zle nat_le_iff le_nat_iff)
qed

lemma ReadInt32_avail: "ReadInt32 r = Inr (w, r1) \<Longrightarrow> avail r = take 4 (avail r) @ avail r1 \<and> 4 \<le> length (avail r) \<and> after r1 = after r"
  by (auto simp: ReadInt32_def ReadFull_def split: if_splits)

lemma fullRead_avail:
  "fullRead n r = Inr (bs, r1) \<Longrightarrow> length bs = n \<and> avail r = bs @ avail r1 \<and> after r1 = after r"
  by (auto simp: fullRead_def split: if_splits)

definition one_request :: "startupResult \<Rightarrow> bool" where
  "one_request res \<longleftrightarrow> \<not> gssRequest res \<and>
     (sslRequest res \<and> \<not> cancelRequest res \<and> \<not> startupMessage res \<or>
      \<not> sslRequest res \<and> cancelRequest res \<and> \<not> startupMessage res \<or>
      \<not> sslRequest res \<and> \<not> cancelRequest res \<and> startupMessage res)"

text \<open>What a run of the rounds gives: no panic, at most one decline per round, and for a request the
  packets it took from the connection.\<close>

definition negotiated :: "nat \<Rightarrow> nat \<Rightarrow> reader \<Rightarrow> nat \<times> raw_outcome \<Rightarrow> bool" where
  "negotiated rounds k r out \<longleftrightarrow>
     snd out \<noteq> RawPanic \<and> k \<le> fst out \<and> fst out \<le> k + rounds \<and>
     (\<forall>res r1. snd out = RawOk res r1 \<longrightarrow>
        fst out < k + rounds \<and> one_request res \<and>
        (\<exists>packets. avail r = packets @ avail r1 \<and> 8 * (fst out - k + 1) \<le> length packets \<and>
           length packets \<le> 10000 * (fst out - k + 1)))"

lemma negotiated_last:
  assumes "avail r = len @ remaining @ avail r2" "length len = 4" "4 \<le> length remaining" "length remaining \<le> 9996"
    and "one_request res"
  shows "negotiated (Suc rounds) k r (k, RawOk res r2)"
  using assms by (auto simp: negotiated_def intro!: exI [of _ "len @ remaining"])

lemma negotiated_decline:
  assumes "avail r = len @ remaining @ avail r2" "length len = 4" "4 \<le> length remaining" "length remaining \<le> 9996"
    and "negotiated rounds (Suc k) r2 out"
  shows "negotiated (Suc rounds) k r out"
proof -
  have "\<exists>packets. avail r = packets @ avail r1 \<and> 8 * (fst out - k + 1) \<le> length packets \<and>
      length packets \<le> 10000 * (fst out - k + 1)" if out: "snd out = RawOk res r1" for res r1
  proof -
    from assms(5) out obtain ps where ps: "Suc k \<le> fst out" "avail r2 = ps @ avail r1"
        "8 * (fst out - Suc k + 1) \<le> length ps" "length ps \<le> 10000 * (fst out - Suc k + 1)"
      by (auto simp: negotiated_def)
    have "fst out - k + 1 = Suc (fst out - Suc k + 1)" using ps(1) by arith
    then show ?thesis using ps assms(1-4) by (intro exI [of _ "len @ remaining @ ps"]) auto
  qed
  then show ?thesis using assms(5) by (auto simp: negotiated_def)
qed

lemma negotiate_negotiated: "negotiated rounds k r (negotiate rounds writeFails k r)"
proof (induction rounds arbitrary: k r)
  case 0
  then show ?case by (simp add: negotiated_def)
next
  case (Suc rounds)
  have err: "negotiated (Suc rounds) k r (k, RawErr e)" for e by (simp add: negotiated_def)
  show ?case
  proof (cases "ReadInt32 r")
    case (Inl e)
    then show ?thesis by (simp add: err)
  next
    case (Inr q)
    obtain len r1 where q: "ReadInt32 r = Inr (len, r1)" using Inr by (cases q) auto
    show ?thesis
    proof (cases "sint len < 8 \<or> sint len > 10000")
      case True
      then show ?thesis using q err by simp
    next
      case False
      note n = body_length [OF False]
      show ?thesis
      proof (cases "fullRead (nat (sint len - 4)) r1")
        case (Inl e)
        then show ?thesis using q False n err by simp
      next
        case (Inr q2)
        obtain body r2 where q2: "fullRead (nat (sint len - 4)) r1 = Inr (body, r2)" using Inr by (cases q2) auto
        have body: "length body = nat (sint len - 4)" "avail r1 = body @ avail r2" using fullRead_avail [OF q2] by auto
        then have packet: "avail r = take 4 (avail r) @ body @ avail r2" "length (take 4 (avail r)) = 4"
            "4 \<le> length body" "length body \<le> 9996"
          using ReadInt32_avail [OF q] n by auto
        have "get_word 4 body = (Some (get_be (take 4 body)) :: 32 word option)"
          using packet(3) by (simp add: get_word_def)
        then show ?thesis
          using q False n q2 err negotiated_last [OF packet] negotiated_decline [OF packet Suc]
          by (simp add: one_request_def no_startup_def)
      qed
    qed
  qed
qed

lemma gss_fallback_once: "gss_fallback (Suc i) writeFails k r = negotiate maxNegotiationRounds writeFails k r"
  using negotiate_negotiated [of maxNegotiationRounds k r writeFails]
  by (auto simp: negotiated_def one_request_def split: prod.split raw_outcome.split)

text \<open>The packets of a client that asks for GSSAPI encryption, then for TLS.\<close>

definition request_packet :: "32 word \<Rightarrow> bytes" where
  "request_packet version = put_be 4 (8 :: 32 word) @ put_be 4 version"

lemma negotiate_packet:
  "negotiate (Suc rounds) writeFails k \<lparr>avail = request_packet version @ rest, after = e\<rparr> =
     (if version = 80877103 then (k, RawOk (no_startup\<lparr>sslRequest := True\<rparr>) \<lparr>avail = rest, after = e\<rparr>)
      else if version = 80877104
      then (if writeFails k then (k, RawErr RawDecline) else negotiate rounds writeFails (Suc k) \<lparr>avail = rest, after = e\<rparr>)
      else if version = 196608 then (k, RawOk (no_startup\<lparr>startupMessage := True\<rparr>) \<lparr>avail = rest, after = e\<rparr>)
      else (k, RawErr (RawVersion version)))"
proof -
  have "ReadInt32 \<lparr>avail = request_packet version @ rest, after = e\<rparr> = Inr (8, \<lparr>avail = put_be 4 version @ rest, after = e\<rparr>)"
    by (simp add: request_packet_def)
  moreover have "make_len ((8 :: 32 word) - 4) = Some 4" by (simp add: make_len_def)
  moreover have "fullRead 4 \<lparr>avail = put_be 4 version @ rest, after = e\<rparr> = Inr (put_be 4 version, \<lparr>avail = rest, after = e\<rparr>)"
    by (simp add: fullRead_def)
  ultimately show ?thesis by simp
qed



end
