(* ===== verification/Runes.thy ===== *)
theory Runes
  imports Prelude
begin

text \<open>
  The runes of a Go string, which the loops over a string and \<^verbatim>\<open>WriteRune\<close> of a string builder work on.
\<close>

text \<open>
  How Go's \<^verbatim>\<open>range\<close> walks a string: the width of the UTF-8 sequence at the front, or 1 with the
  replacement rune U+FFFD if there is none. \<open>runes\<close> gives the UTF-8 encodings of the runes.
\<close>

definition cont_byte :: "char \<Rightarrow> bool" where
  "cont_byte c \<longleftrightarrow> CHR 0x80 \<le> c \<and> c \<le> CHR 0xBF"

definition second_byte :: "char \<Rightarrow> char \<Rightarrow> bool" where
  "second_byte b c \<longleftrightarrow>
     (if b = CHR 0xE0 then CHR 0xA0 \<le> c \<and> c \<le> CHR 0xBF
      else if b = CHR 0xED then CHR 0x80 \<le> c \<and> c \<le> CHR 0x9F
      else if b = CHR 0xF0 then CHR 0x90 \<le> c \<and> c \<le> CHR 0xBF
      else if b = CHR 0xF4 then CHR 0x80 \<le> c \<and> c \<le> CHR 0x8F
      else cont_byte c)"

fun rune_width :: "string \<Rightarrow> nat option" where
  "rune_width [] = None"
| "rune_width (b # s) =
     (if b \<le> CHR 0x7F then Some 1
      else if CHR 0xC2 \<le> b \<and> b \<le> CHR 0xDF
      then (case s of c # _ \<Rightarrow> if cont_byte c then Some 2 else None | [] \<Rightarrow> None)
      else if CHR 0xE0 \<le> b \<and> b \<le> CHR 0xEF
      then (case s of c # d # _ \<Rightarrow> if second_byte b c \<and> cont_byte d then Some 3 else None | _ \<Rightarrow> None)
      else if CHR 0xF0 \<le> b \<and> b \<le> CHR 0xF4
      then (case s of c # d # e # _ \<Rightarrow>
              if second_byte b c \<and> cont_byte d \<and> cont_byte e then Some 4 else None | _ \<Rightarrow> None)
      else None)"

lemma rune_width_pos: "rune_width s = Some n \<Longrightarrow> 0 < n"
  by (cases s) (auto split: if_splits list.splits)

function runes :: "string \<Rightarrow> string list" where
  "runes s =
     (if s = [] then []
      else case rune_width s of
             Some n \<Rightarrow> take n s # runes (drop n s)
           | None \<Rightarrow> [CHR 0xEF, CHR 0xBF, CHR 0xBD] # runes (tl s))"
  by auto
termination
  by (relation "measure length") (auto dest: rune_width_pos)

declare runes.simps [simp del]

abbreviation (input) ascii :: "string \<Rightarrow> bool" where
  "ascii s \<equiv> \<forall>c \<in> set s. c \<le> CHR 0x7F"

lemma runes_ascii: "ascii s \<Longrightarrow> runes s = map (\<lambda>c. [c]) s"
  by (induction s) (subst runes.simps, simp)+

end
