(* ===== verification/Startup_Options.thy ===== *)
theory Startup_Options
  imports Runes
begin

text \<open>
  The startup parameter \<^verbatim>\<open>options\<close> (\<^verbatim>\<open>server/startup_options.go\<close>): the settings a client passes at
  connect time, and the check of the \<^verbatim>\<open>search_path\<close> among them.
\<close>

section \<open>Options\<close>

text \<open>The loop of \<^verbatim>\<open>splitStartupOptions\<close>: the tokens so far, the builder and the escape flag.\<close>

fun split_loop :: "string list \<Rightarrow> string list \<Rightarrow> string \<Rightarrow> bool \<Rightarrow> string list" where
  "split_loop [] tokens b escaped = (if length b > 0 then tokens @ [b] else tokens)"
| "split_loop (r # rs) tokens b escaped =
     (if escaped then split_loop rs tokens (b @ r) False
      else if r = [CHR 0x5C] then split_loop rs tokens b True
      else if r = '' '' \<or> r = [CHR 0x09]
      then (if length b > 0 then split_loop rs (tokens @ [b]) [] False else split_loop rs tokens b False)
      else split_loop rs tokens (b @ r) False)"

definition splitStartupOptions :: "string \<Rightarrow> string list" where
  "splitStartupOptions s = split_loop (runes s) [] [] False"

text \<open>One setting \<^verbatim>\<open>name=value\<close>: it counts if the first equals sign is not at the front.\<close>

definition put_setting :: "string \<Rightarrow> (string \<rightharpoonup> string) \<Rightarrow> (string \<rightharpoonup> string)" where
  "put_setting kv out =
     (let eq = length (takeWhile (\<lambda>c. c \<noteq> CHR ''='') kv)
      in if eq < length kv \<and> eq > 0
         then let name = TrimSpace (take eq kv); val = TrimSpace (drop (eq + 1) kv)
              in if name \<noteq> [] then out(name \<mapsto> val) else out
         else out)"

function parse_tokens :: "string list \<Rightarrow> (string \<rightharpoonup> string) \<Rightarrow> (string \<rightharpoonup> string)" where
  "parse_tokens [] out = out"
| "parse_tokens (tok # toks) out =
     (if prefix ''-c'' tok
      then let kv = drop 2 tok
           in if kv = [] \<and> toks \<noteq> [] then parse_tokens (tl toks) (put_setting (hd toks) out)
              else parse_tokens toks (put_setting kv out)
      else if prefix ''--'' tok then parse_tokens toks (put_setting (drop 2 tok) out)
      else parse_tokens toks out)"
  by pat_completeness auto
termination
  by (relation "measure (\<lambda>(toks, out). length toks)") auto

definition ParseStartupOptions :: "string \<Rightarrow> (string \<rightharpoonup> string)" where
  "ParseStartupOptions options =
     (if TrimSpace options = [] then Map.empty else parse_tokens (splitStartupOptions options) Map.empty)"

section \<open>The search path\<close>

text \<open>The class \<^verbatim>\<open>[A-Za-z0-9_.,"\- ]\<close> of the pattern.\<close>

definition safe_char :: "char \<Rightarrow> bool" where
  "safe_char c \<longleftrightarrow>
     (CHR ''A'' \<le> c \<and> c \<le> CHR ''Z'') \<or> (CHR ''a'' \<le> c \<and> c \<le> CHR ''z'') \<or> (CHR ''0'' \<le> c \<and> c \<le> CHR ''9'') \<or>
     c \<in> {CHR ''_'', CHR ''.'', CHR '','', CHR 0x22, CHR ''-'', CHR '' ''}"

definition SanitizeSearchPath :: "string \<Rightarrow> string option" where
  "SanitizeSearchPath s0 =
     (let s = TrimSpace s0
      in if s = [] \<or> length s > 512 then None
         else if \<not> list_all safe_char s then None
         else Some s)"

text \<open>
  The statement the control plane sends to the worker for an accepted path, which is ASCII
  (\<^verbatim>\<open>controlplane/control.go\<close>).
\<close>

definition to_lower :: "string \<Rightarrow> string" where
  "to_lower s = map (\<lambda>c. if CHR ''A'' \<le> c \<and> c \<le> CHR ''Z'' then char_of (of_char c + 32 :: nat) else c) s"

fun contains_str :: "string \<Rightarrow> string \<Rightarrow> bool" where
  "contains_str [] t = (t = [])"
| "contains_str (c # s) t = (prefix t (c # s) \<or> contains_str s t)"

definition search_path_statement :: "string \<Rightarrow> string" where
  "search_path_statement clientSearchPath =
     (let sp = (if \<not> contains_str (to_lower clientSearchPath) ''memory.main''
                then clientSearchPath @ '',memory.main'' else clientSearchPath)
      in ''SET search_path = '' @ [CHR 0x27] @ sp @ [CHR 0x27])"

section \<open>Options as a client writes them\<close>

definition escape_option :: "string \<Rightarrow> string" where
  "escape_option s = concat (map (\<lambda>c. if c \<in> {CHR '' '', CHR 0x09, CHR 0x5C} then [CHR 0x5C, c] else [c]) s)"

definition render_options :: "(string \<times> string) list \<Rightarrow> string" where
  "render_options kvs = concat (map (\<lambda>(k, v). ''-c '' @ escape_option (k @ ''='' @ v) @ '' '') kvs)"

lemma split_escaped:
  "split_loop (map (\<lambda>c. [c]) (escape_option x) @ rs) tokens b False = split_loop rs tokens (b @ x) False"
  by (induction x arbitrary: b) (simp_all add: escape_option_def)

lemma split_render:
  assumes "\<forall>(k, v) \<in> set kvs. k \<noteq> []"
  shows "split_loop (map (\<lambda>c. [c]) (render_options kvs)) tokens [] False =
    tokens @ concat (map (\<lambda>(k, v). [''-c'', k @ ''='' @ v]) kvs)"
  using assms
proof (induction kvs arbitrary: tokens)
  case (Cons kv kvs)
  obtain k v where kv: "kv = (k, v)" by fastforce
  have "map (\<lambda>c. [c]) (render_options (kv # kvs)) = [''-'', ''c'', '' ''] @
      map (\<lambda>c. [c]) (escape_option (k @ ''='' @ v)) @ [[CHR '' '']] @ map (\<lambda>c. [c]) (render_options kvs)"
    by (simp add: render_options_def kv)
  then show ?case
    using Cons by (simp add: kv split_escaped [of "k @ ''='' @ v", simplified])
qed (simp add: render_options_def)

lemma put_setting_eq:
  assumes "CHR ''='' \<notin> set k" and "k \<noteq> []" and "TrimSpace k = k" and "TrimSpace v = v"
  shows "put_setting (k @ CHR ''='' # v) out = out(k \<mapsto> v)"
proof -
  have "takeWhile (\<lambda>c. c \<noteq> CHR ''='') (k @ CHR ''='' # v) = k"
    using assms(1) by (induction k) auto
  then show ?thesis using assms(2-4) by (simp add: put_setting_def Let_def)
qed

definition plain_settings :: "(string \<times> string) list \<Rightarrow> bool" where
  "plain_settings kvs \<longleftrightarrow>
     (\<forall>(k, v) \<in> set kvs. k \<noteq> [] \<and> CHR ''='' \<notin> set k \<and> ascii k \<and> ascii v \<and> TrimSpace k = k \<and> TrimSpace v = v)"

lemma parse_tokens_render:
  "plain_settings kvs \<Longrightarrow>
   parse_tokens (concat (map (\<lambda>(k, v). [''-c'', k @ ''='' @ v]) kvs)) out = out ++ map_of (rev kvs)"
proof (induction kvs arbitrary: out)
  case (Cons kv kvs)
  obtain k v where kv: "kv = (k, v)" by fastforce
  with Cons.prems have "put_setting (k @ CHR ''='' # v) out = out(k \<mapsto> v)" and plain: "plain_settings kvs"
    by (simp_all add: plain_settings_def put_setting_eq)
  then have "parse_tokens (concat (map (\<lambda>(k, v). [''-c'', k @ ''='' @ v]) (kv # kvs))) out =
      parse_tokens (concat (map (\<lambda>(k, v). [''-c'', k @ ''='' @ v]) kvs)) (out(k \<mapsto> v))"
    by (simp add: kv)
  also have "\<dots> = out(k \<mapsto> v) ++ map_of (rev kvs)" by (rule Cons.IH [OF plain])
  also have "\<dots> = out ++ map_of (rev (kv # kvs))"
    by (simp add: kv map_add_def fun_eq_iff split: option.split)
  finally show ?case .
qed simp

lemma ascii_blanks:
  "CHR 0x5C \<le> CHR 0x7F" "CHR ''='' \<le> CHR 0x7F" "CHR ''-'' \<le> CHR 0x7F" "CHR ''c'' \<le> CHR 0x7F" "CHR '' '' \<le> CHR 0x7F"
  by (simp_all add: less_eq_char_def)

lemma ascii_escape: "ascii s \<Longrightarrow> ascii (escape_option s)"
  by (induction s) (simp_all add: escape_option_def ascii_blanks)

lemma ascii_append: "ascii (s @ t) \<longleftrightarrow> ascii s \<and> ascii t"
  by auto

lemma ascii_render: "plain_settings kvs \<Longrightarrow> ascii (render_options kvs)"
proof (induction kvs)
  case (Cons kv kvs)
  obtain k v where kv: "kv = (k, v)" by fastforce
  have plain: "ascii k" "ascii v" "plain_settings kvs" using Cons.prems by (simp_all add: plain_settings_def kv)
  have "ascii (k @ ''='' @ v)" unfolding ascii_append using plain(1,2) ascii_blanks by simp
  then have "ascii (escape_option (k @ ''='' @ v))" by (rule ascii_escape)
  moreover have "render_options (kv # kvs) = ''-c '' @ escape_option (k @ ''='' @ v) @ '' '' @ render_options kvs"
    by (simp add: render_options_def kv)
  ultimately show ?case
    using Cons.IH [OF plain(3)] unfolding ascii_append by (simp only: ascii_append) (simp add: ascii_blanks)
qed (simp add: render_options_def)

section \<open>Reading an SQL string literal\<close>

text \<open>What follows an opening quote: the text up to the closing one, where a doubled quote stands for
  one, and the rest of the statement.\<close>

fun sql_literal :: "string \<Rightarrow> (string \<times> string) option" where
  "sql_literal [] = None"
| "sql_literal [c] = (if c = CHR 0x27 then Some ([], []) else None)"
| "sql_literal (c # d # s) =
     (if c = CHR 0x27
      then (if d = CHR 0x27 then map_option (\<lambda>(t, r). (CHR 0x27 # t, r)) (sql_literal s) else Some ([], d # s))
      else map_option (\<lambda>(t, r). (c # t, r)) (sql_literal (d # s)))"

lemma sql_literal_plain: "CHR 0x27 \<notin> set t \<Longrightarrow> sql_literal (t @ [CHR 0x27]) = Some (t, [])"
proof (induction t)
  case (Cons c t)
  then show ?case by (cases t) auto
qed simp

section \<open>Properties\<close>

text \<open>The settings a client passes arrive as it wrote them: for every list of ASCII settings
  whose names contain no equals sign and whose names and values have no surrounding blanks, the
  options \<^verbatim>\<open>-c name=value\<close>, with blanks and backslashes escaped, are parsed to the map of the settings,
  where the last of equal names counts.\<close>

theorem startup_options_roundtrip:
  assumes "plain_settings kvs"
  shows "ParseStartupOptions (render_options kvs) = map_of (rev kvs)"
proof (cases "kvs = []")
  case False
  then have "CHR ''-'' \<in> set (render_options kvs)" by (cases kvs) (auto simp: render_options_def)
  then have "TrimSpace (render_options kvs) \<noteq> []" by (rule TrimSpace_keeps) (simp add: go_space_runes_def)
  moreover have "\<forall>(k, v) \<in> set kvs. k \<noteq> []" using assms by (auto simp: plain_settings_def)
  ultimately show ?thesis
    by (simp add: ParseStartupOptions_def splitStartupOptions_def runes_ascii [OF ascii_render [OF assms]]
        split_render parse_tokens_render [OF assms, simplified])
qed (simp add: ParseStartupOptions_def render_options_def)

theorem startup_options_roundtrip_witness:
  "ParseStartupOptions ''-c search_path=iceberg.public '' = [''search_path'' \<mapsto> ''iceberg.public'']"
proof -
  have "TrimSpace ''search_path'' = ''search_path''" "TrimSpace ''iceberg.public'' = ''iceberg.public''" by code_simp+
  then have "plain_settings [(''search_path'', ''iceberg.public'')]"
    by (simp add: plain_settings_def less_eq_char_def)
  from startup_options_roundtrip [OF this] show ?thesis by (simp add: render_options_def escape_option_def)
qed



end
