(* ===== verification/Warm_Capacity.thy ===== *)
theory Warm_Capacity
  imports Runtime_Models "HOL-Library.AList"
begin

text \<open>
  Warm capacity of the shared worker pool: the policy for a claim that found no worker
  (\<^verbatim>\<open>controlplane/warm_capacity_policy.go\<close>, \<^verbatim>\<open>controlplane/worker_pool.go\<close>), and the targets computed
  from the recent misses (\<^verbatim>\<open>controlplane/warm_capacity_targets.go\<close>). A Go map is an association
  list in the order in which it is walked, and the results hold for every such order. The
  reasons are the five the code writes; the generic message is kept for a reason it does not know.
\<close>

section \<open>Policy of a miss\<close>

definition DefaultWarmCapacityRetryAfter :: duration where
  "DefaultWarmCapacityRetryAfter = 45 * Second"

definition DefaultWarmCapacityMissesPerWorker :: int where
  "DefaultWarmCapacityMissesPerWorker = 8"

datatype warmCapacityClientMessageKind =
    warmCapacityMessageNoIdle
  | warmCapacityMessageOrgCap
  | warmCapacityMessageGlobalCap
  | warmCapacityMessageShuttingDown
  | warmCapacityMessageGeneric

record warmCapacityMissPolicy =
  mp_reason :: WorkerClaimMissReason
  mp_recordDynamicDemand :: bool
  mp_messageKind :: warmCapacityClientMessageKind

definition warmCapacityMissPolicyForReason :: "WorkerClaimMissReason \<Rightarrow> warmCapacityMissPolicy" where
  "warmCapacityMissPolicyForReason reason =
     (if reason = WorkerClaimMissReasonNone \<or> reason = WorkerClaimMissReasonNoIdle
      then \<lparr>mp_reason = WorkerClaimMissReasonNoIdle, mp_recordDynamicDemand = True,
            mp_messageKind = warmCapacityMessageNoIdle\<rparr>
      else \<lparr>mp_reason = reason, mp_recordDynamicDemand = False,
            mp_messageKind =
              (if reason = WorkerClaimMissReasonOrgCap then warmCapacityMessageOrgCap
               else if reason = WorkerClaimMissReasonGlobalCap then warmCapacityMessageGlobalCap
               else if reason = WorkerClaimMissReasonShuttingDown then warmCapacityMessageShuttingDown
               else warmCapacityMessageGeneric)\<rparr>)"

definition normalizedWarmCapacityRetryAfter :: "duration \<Rightarrow> duration" where
  "normalizedWarmCapacityRetryAfter retryAfter =
     (if retryAfter \<le> 0 then DefaultWarmCapacityRetryAfter else retryAfter)"

definition warmCapacityRetrySeconds :: "duration \<Rightarrow> int" where
  "warmCapacityRetrySeconds retryAfter = (normalizedWarmCapacityRetryAfter retryAfter + Second - 1) div Second"

definition sqlMessage :: "warmCapacityMissPolicy \<Rightarrow> duration \<Rightarrow> string" where
  "sqlMessage p retryAfter =
     (case mp_messageKind p of
        warmCapacityMessageNoIdle \<Rightarrow>
          ''no warm Duckgres worker is currently available; retry in about '' @
          itoa (warmCapacityRetrySeconds retryAfter) @ '' seconds''
      | warmCapacityMessageOrgCap \<Rightarrow>
          ''Duckgres worker capacity for this organization is currently exhausted; retry later''
      | warmCapacityMessageGlobalCap \<Rightarrow> ''Duckgres worker capacity is currently exhausted; retry later''
      | warmCapacityMessageShuttingDown \<Rightarrow> ''Duckgres control plane is shutting down; retry later''
      | warmCapacityMessageGeneric \<Rightarrow> ''Duckgres worker capacity is currently unavailable; retry later'')"

record WarmCapacityExhaustedError =
  RetryAfter :: duration
  Reason :: WorkerClaimMissReason

definition missReason :: "WarmCapacityExhaustedError \<Rightarrow> WorkerClaimMissReason" where
  "missReason e = (if Reason e = WorkerClaimMissReasonNone then WorkerClaimMissReasonNoIdle else Reason e)"

definition NewWarmCapacityExhaustedErrorForReason ::
  "WorkerClaimMissReason \<Rightarrow> duration \<Rightarrow> WarmCapacityExhaustedError" where
  "NewWarmCapacityExhaustedErrorForReason reason retryAfter =
     \<lparr>RetryAfter = (if retryAfter \<le> 0 then DefaultWarmCapacityRetryAfter else retryAfter),
      Reason = (if reason = WorkerClaimMissReasonNone then WorkerClaimMissReasonNoIdle else reason)\<rparr>"

definition NewWarmCapacityExhaustedError :: "duration \<Rightarrow> WarmCapacityExhaustedError" where
  "NewWarmCapacityExhaustedError retryAfter =
     NewWarmCapacityExhaustedErrorForReason WorkerClaimMissReasonNoIdle retryAfter"

section \<open>Dynamic targets\<close>

type_synonym int_map = "(string \<times> int) list"

definition lookup0 :: "int_map \<Rightarrow> string \<Rightarrow> int" where
  "lookup0 m k = (case map_of m k of None \<Rightarrow> 0 | Some v \<Rightarrow> v)"

record dynamicWarmCapacityConfig =
  Enabled :: bool
  MissesPerWorker :: int
  DynamicImageCeiling :: int
  DynamicTotalCeiling :: int
  MaxWorkers :: int

definition normalizeDynamicWarmCapacityConfig :: "dynamicWarmCapacityConfig \<Rightarrow> dynamicWarmCapacityConfig" where
  "normalizeDynamicWarmCapacityConfig cfg =
     cfg\<lparr>MissesPerWorker := (if MissesPerWorker cfg \<le> 0 then DefaultWarmCapacityMissesPerWorker else MissesPerWorker cfg),
         DynamicImageCeiling := max 0 (DynamicImageCeiling cfg),
         DynamicTotalCeiling := max 0 (DynamicTotalCeiling cfg),
         MaxWorkers := max 0 (MaxWorkers cfg)\<rparr>"

definition sanitizeWarmCapacityTargets :: "int_map \<Rightarrow> int_map" where
  "sanitizeWarmCapacityTargets targets =
     foldl (\<lambda>out (image', target).
        let img = TrimSpace image' in
        if img = [] \<or> target \<le> 0 then out else AList.update img target out) [] targets"

definition sumIntMap :: "int_map \<Rightarrow> int" where
  "sumIntMap values = sum_list (map (\<lambda>(k, v). if v > 0 then v else 0) values)"

definition ceilDivInt64 :: "int \<Rightarrow> int \<Rightarrow> int" where
  "ceilDivInt64 n d =
     (if n \<le> 0 then 0
      else let divisor = (if d \<le> 0 then DefaultWarmCapacityMissesPerWorker else d)
           in (n + divisor - 1) div divisor)"

definition imageWarmCapacityMissCounts :: "WarmCapacityMissAggregate list \<Rightarrow> int_map" where
  "imageWarmCapacityMissCounts aggregates =
     foldl (\<lambda>counts a.
        if ma_Count a \<le> 0 then counts
        else if \<not> mp_recordDynamicDemand (warmCapacityMissPolicyForReason (ma_Reason a)) then counts
        else if \<not> prefix ''image:'' (TrimSpace (ma_Scope a)) then counts
        else let img = TrimSpace (drop 6 (TrimSpace (ma_Scope a)))
             in if img = [] then counts else AList.update img (lookup0 counts img + ma_Count a) counts) [] aggregates"

text \<open>The loop over the images in order, with the capacity that remains.\<close>

fun allocate :: "int_map \<Rightarrow> string list \<Rightarrow> int \<Rightarrow> int_map" where
  "allocate requested [] remaining = []"
| "allocate requested (img # images) remaining =
     (if remaining \<le> 0 then []
      else let extra = (if lookup0 requested img > remaining then remaining else lookup0 requested img)
           in if extra > 0 then (img, extra) # allocate requested images (remaining - extra)
              else allocate requested images remaining)"

text \<open>The order of \<^verbatim>\<open>sort.Slice\<close>: more misses first, then more workers requested, then by name.\<close>

definition capDynamicWarmCapacityExtras :: "int_map \<Rightarrow> int_map \<Rightarrow> int \<Rightarrow> int_map" where
  "capDynamicWarmCapacityExtras requested missCounts cap =
     (if cap \<le> 0 then []
      else
        let images = map fst (filter (\<lambda>(img, extra). \<not> (img = [] \<or> extra \<le> 0)) requested);
            total = sum_list (map (lookup0 requested) images)
        in if total \<le> cap then map (\<lambda>img. (img, lookup0 requested img)) images
           else allocate requested
                  (sort_key (\<lambda>img. (- lookup0 missCounts img, - lookup0 requested img, img)) images) cap)"

definition requested_extras :: "dynamicWarmCapacityConfig \<Rightarrow> int_map \<Rightarrow> int_map" where
  "requested_extras cfg missCounts =
     filter (\<lambda>(img, extra). extra > 0)
       (map (\<lambda>(img, cnt).
          let extra = ceilDivInt64 cnt (MissesPerWorker cfg)
          in (img, if DynamicImageCeiling cfg > 0 \<and> extra > DynamicImageCeiling cfg then DynamicImageCeiling cfg else extra))
        missCounts)"

definition add_extras :: "int_map \<Rightarrow> int_map \<Rightarrow> int_map" where
  "add_extras targets extras =
     foldl (\<lambda>t (img, extra). if extra \<le> 0 then t else AList.update img (lookup0 t img + extra) t) targets extras"

definition computeDynamicWarmCapacityTargets ::
  "int_map \<Rightarrow> WarmCapacityMissAggregate list \<Rightarrow> dynamicWarmCapacityConfig \<Rightarrow> int_map" where
  "computeDynamicWarmCapacityTargets baseTargets aggregates cfg0 =
     (let targets = sanitizeWarmCapacityTargets baseTargets in
      if \<not> Enabled cfg0 then targets
      else
        let cfg = normalizeDynamicWarmCapacityConfig cfg0;
            missCounts = imageWarmCapacityMissCounts aggregates;
            requestedExtra = requested_extras cfg missCounts
        in if requestedExtra = [] then targets
           else
             let totalCap0 = sumIntMap requestedExtra;
                 totalCap1 = (if DynamicTotalCeiling cfg > 0 \<and> totalCap0 > DynamicTotalCeiling cfg
                              then DynamicTotalCeiling cfg else totalCap0);
                 totalCap = (if MaxWorkers cfg > 0 then min totalCap1 (max 0 (MaxWorkers cfg - sumIntMap targets))
                             else totalCap1)
             in if totalCap \<le> 0 then targets
                else add_extras targets (capDynamicWarmCapacityExtras requestedExtra missCounts totalCap))"

section \<open>Positive maps\<close>

definition positive_map :: "int_map \<Rightarrow> bool" where
  "positive_map m \<longleftrightarrow> distinct (map fst m) \<and> (\<forall>(k, v)\<in>set m. k \<noteq> [] \<and> 0 < v)"

lemma positive_map_Nil [simp]: "positive_map []" "lookup0 [] k = 0" "sumIntMap [] = 0"
  by (simp_all add: positive_map_def lookup0_def sumIntMap_def)

lemma positive_map_Cons [simp]:
  "positive_map ((k, v) # m) \<longleftrightarrow> k \<noteq> [] \<and> 0 < v \<and> k \<notin> fst ` set m \<and> positive_map m"
  by (auto simp: positive_map_def)

lemma lookup0_Cons [simp]: "lookup0 ((k, v) # m) img = (if img = k then v else lookup0 m img)"
  by (auto simp: lookup0_def)

lemma lookup0_fresh: "img \<notin> fst ` set m \<Longrightarrow> lookup0 m img = 0"
  by (simp add: lookup0_def map_of_eq_None_iff [THEN iffD2])

lemma lookup0_nonneg: "positive_map m \<Longrightarrow> 0 \<le> lookup0 m img"
  by (induction m) auto

lemma lookup0_pos_iff: "positive_map m \<Longrightarrow> 0 < lookup0 m img \<longleftrightarrow> img \<in> fst ` set m"
proof (induction m)
  case (Cons a m)
  then show ?case by (cases a) simp
qed simp

lemma sumIntMap_Cons [simp]: "sumIntMap ((k, v) # m) = max 0 v + sumIntMap m"
  by (simp add: sumIntMap_def)

lemma sumIntMap_nonneg: "0 \<le> sumIntMap m"
  by (induction m) auto

lemma sumIntMap_lookup: "positive_map m \<Longrightarrow> sumIntMap m = sum_list (map (lookup0 m) (map fst m))"
proof (induction m)
  case (Cons a m)
  obtain k v where a: "a = (k, v)" by fastforce
  have same: "sum_list (map (lookup0 ((k, v) # m)) (map fst m)) = sum_list (map (lookup0 m) (map fst m))"
    by (rule arg_cong [where f = sum_list], rule map_cong [OF refl]) (use Cons.prems in \<open>auto simp: a\<close>)
  have "sum_list (map (lookup0 (a # m)) (map fst (a # m))) = v + sum_list (map (lookup0 (a # m)) (map fst m))"
    by (simp add: a del: map_map)
  then show ?case using Cons by (simp only: a same) simp
qed simp

lemma sumIntMap_pos: "positive_map m \<Longrightarrow> m \<noteq> [] \<Longrightarrow> 0 < sumIntMap m"
proof (induction m)
  case (Cons a m)
  then show ?case using sumIntMap_nonneg [of m] by (cases a) auto
qed simp

lemma update_put:
  assumes "positive_map m" "k \<noteq> []" "0 < v"
  shows "positive_map (AList.update k v m) \<and>
         sumIntMap (AList.update k v m) = sumIntMap m - lookup0 m k + v \<and>
         (\<forall>img. lookup0 (AList.update k v m) img = (if img = k then v else lookup0 m img))"
  using assms
proof (induction m)
  case (Cons a m)
  obtain l w where a: "a = (l, w)" by fastforce
  have "fst ` set (AList.update k v m) = insert k (fst ` set m)"
    using dom_update [of k v m] by simp
  then show ?case using Cons by (auto simp: a lookup0_fresh)
qed simp

lemma add_extras_spec:
  assumes "positive_map t" "positive_map ex"
  shows "positive_map (add_extras t ex) \<and> sumIntMap (add_extras t ex) = sumIntMap t + sumIntMap ex \<and>
         (\<forall>img. lookup0 (add_extras t ex) img = lookup0 t img + lookup0 ex img)"
  using assms
proof (induction ex arbitrary: t)
  case Nil
  then show ?case by (simp add: add_extras_def)
next
  case (Cons a ex)
  obtain k v where a: "a = (k, v)" by fastforce
  let ?t = "AList.update k (lookup0 t k + v) t"
  have kv: "k \<noteq> []" "0 < v" "k \<notin> fst ` set ex" "positive_map ex" using Cons.prems by (auto simp: a)
  have step: "add_extras t (a # ex) = add_extras ?t ex" using kv by (simp add: add_extras_def a)
  have put: "positive_map ?t" "sumIntMap ?t = sumIntMap t + v"
    "\<And>img. lookup0 ?t img = (if img = k then lookup0 t k + v else lookup0 t img)"
    using update_put [of t k "lookup0 t k + v"] Cons.prems(1) kv lookup0_nonneg [of t k] by auto
  show ?case using Cons.IH [OF put(1) kv(4)] kv unfolding step by (auto simp: put a lookup0_fresh)
qed

lemma foldl_invariant:
  assumes "P a" "\<And>x y. P x \<Longrightarrow> y \<in> set ys \<Longrightarrow> P (f x y)"
  shows "P (foldl f a ys)"
  using assms by (induction ys arbitrary: a) auto

lemma sanitize_positive: "positive_map (sanitizeWarmCapacityTargets targets)"
  unfolding sanitizeWarmCapacityTargets_def
  by (rule foldl_invariant) (auto simp: Let_def update_put)

lemma missCounts_positive: "positive_map (imageWarmCapacityMissCounts aggregates)"
  unfolding imageWarmCapacityMissCounts_def
proof (rule foldl_invariant)
  fix counts a assume "positive_map counts"
  then show "positive_map
    (if ma_Count a \<le> 0 then counts
        else if \<not> mp_recordDynamicDemand (warmCapacityMissPolicyForReason (ma_Reason a)) then counts
        else if \<not> prefix ''image:'' (TrimSpace (ma_Scope a)) then counts
        else let img = TrimSpace (drop 6 (TrimSpace (ma_Scope a)))
             in if img = [] then counts else AList.update img (lookup0 counts img + ma_Count a) counts)"
    using lookup0_nonneg [of counts] by (auto simp: Let_def update_put add_nonneg_pos)
qed simp

section \<open>Requested and granted extras\<close>

lemma ceilDivInt64_pos: "0 < n \<Longrightarrow> 0 < ceilDivInt64 n d"
  by (auto simp: ceilDivInt64_def Let_def DefaultWarmCapacityMissesPerWorker_def pos_imp_zdiv_pos_iff)

definition image_request :: "dynamicWarmCapacityConfig \<Rightarrow> int \<Rightarrow> int" where
  "image_request cfg misses =
     (if 0 < DynamicImageCeiling cfg then min (DynamicImageCeiling cfg) (ceilDivInt64 misses (MissesPerWorker cfg))
      else ceilDivInt64 misses (MissesPerWorker cfg))"

lemma image_request_pos: "0 < n \<Longrightarrow> 0 < image_request cfg n"
  using ceilDivInt64_pos [of n "MissesPerWorker cfg"] by (auto simp: image_request_def)

lemma image_request_nonneg: "0 \<le> n \<Longrightarrow> 0 \<le> image_request cfg n"
  using image_request_pos [of n cfg] by (cases "n = 0") (auto simp: image_request_def ceilDivInt64_def)

lemma image_request_zero [simp]: "image_request cfg 0 = 0"
  by (simp add: image_request_def ceilDivInt64_def)

lemma image_request_normalized [simp]:
  "image_request (normalizeDynamicWarmCapacityConfig cfg) n = image_request cfg n"
  by (auto simp: image_request_def normalizeDynamicWarmCapacityConfig_def ceilDivInt64_def
      DefaultWarmCapacityMissesPerWorker_def Let_def)

lemma requested_extras_eq:
  assumes "positive_map m"
  shows "requested_extras cfg m = map (\<lambda>(img, n). (img, image_request cfg n)) m"
proof -
  have "(\<lambda>(img, cnt). let extra = ceilDivInt64 cnt (MissesPerWorker cfg)
          in (img, if DynamicImageCeiling cfg > 0 \<and> extra > DynamicImageCeiling cfg then DynamicImageCeiling cfg else extra))
        = (\<lambda>(img, n). (img :: string, image_request cfg n))"
    by (auto simp: image_request_def fun_eq_iff Let_def)
  moreover have "0 < image_request cfg n" if "(img, n) \<in> set m" for img n
    using assms that image_request_pos by (auto simp: positive_map_def)
  ultimately show ?thesis
    by (auto simp: requested_extras_def filter_id_conv)
qed

lemma requested_extras_spec:
  assumes "positive_map m"
  shows "positive_map (requested_extras cfg m)"
    and "lookup0 (requested_extras cfg m) img = image_request cfg (lookup0 m img)"
  unfolding requested_extras_eq [OF assms]
  using assms by (induction m) (force simp: image_request_pos)+

lemma allocate_spec:
  assumes "distinct images" "[] \<notin> set images" "\<forall>img\<in>set images. 0 < lookup0 req img" "0 \<le> remaining"
  shows "positive_map (allocate req images remaining) \<and> fst ` set (allocate req images remaining) \<subseteq> set images \<and>
         sumIntMap (allocate req images remaining) = min remaining (sum_list (map (lookup0 req) images)) \<and>
         (\<forall>img\<in>set images. lookup0 (allocate req images remaining) img \<le> lookup0 req img)"
  using assms
proof (induction images arbitrary: remaining)
  case (Cons img images)
  have pos: "0 < lookup0 req img" and nonneg: "0 \<le> sum_list (map (lookup0 req) images)"
    using Cons.prems(3) by (auto intro!: sum_list_nonneg simp: less_imp_le)
  have le: "lookup0 [] i \<le> lookup0 req i" if "i \<in> set (img # images)" for i
    using Cons.prems(3) that by (auto simp: less_imp_le)
  show ?case
  proof (cases "remaining \<le> 0")
    case True
    then show ?thesis using Cons.prems(4) pos nonneg le by auto
  next
    case False
    let ?extra = "min remaining (lookup0 req img)"
    have unfold: "allocate req (img # images) remaining = (img, ?extra) # allocate req images (remaining - ?extra)"
      using False pos by (simp add: Let_def min_def)
    have IH: "positive_map (allocate req images (remaining - ?extra))"
      "fst ` set (allocate req images (remaining - ?extra)) \<subseteq> set images"
      "sumIntMap (allocate req images (remaining - ?extra)) =
         min (remaining - ?extra) (sum_list (map (lookup0 req) images))"
      "\<forall>i\<in>set images. lookup0 (allocate req images (remaining - ?extra)) i \<le> lookup0 req i"
      using Cons.IH [of "remaining - ?extra"] Cons.prems by auto
    have fresh: "img \<notin> fst ` set (allocate req images (remaining - ?extra))"
      using IH(2) Cons.prems(1) by auto
    have sums: "?extra + min (remaining - ?extra) (sum_list (map (lookup0 req) images)) =
        min remaining (lookup0 req img + sum_list (map (lookup0 req) images))"
      using False pos nonneg by (simp add: min_def)
    show ?thesis unfolding unfold
      using IH(1,2,4) fresh Cons.prems(1,2) False pos by (auto simp: IH(3) sums)
  qed
qed simp

text \<open>An image after another in the order gets nothing before the other has all it asked for.\<close>

lemma allocate_in_order:
  assumes "distinct images" "[] \<notin> set images" "\<forall>img\<in>set images. 0 < lookup0 req img" "0 \<le> remaining"
    and "sorted_wrt P images" "i \<in> set images" "j \<in> set images" "\<not> P j i" "i \<noteq> j"
    and "0 < lookup0 (allocate req images remaining) j"
  shows "lookup0 (allocate req images remaining) i = lookup0 req i"
  using assms
proof (induction images arbitrary: remaining)
  case (Cons img images)
  have pos: "0 < lookup0 req img" using Cons.prems(3) by auto
  have rem: "\<not> remaining \<le> 0" using Cons.prems(10) by auto
  let ?extra = "min remaining (lookup0 req img)"
  have unfold: "allocate req (img # images) remaining = (img, ?extra) # allocate req images (remaining - ?extra)"
    using rem pos by (simp add: Let_def min_def)
  have j: "j \<noteq> img" using Cons.prems(5,6,8,9) by auto
  have got: "0 < lookup0 (allocate req images (remaining - ?extra)) j"
    using Cons.prems(10) j unfolding unfold by simp
  then have full: "?extra = lookup0 req img"
    by (cases images) (auto simp: min_def split: if_splits)
  show ?case
  proof (cases "i = img")
    case True
    then show ?thesis unfolding unfold using full by simp
  next
    case False
    then show ?thesis unfolding unfold
      using Cons.IH [of "remaining - ?extra"] Cons.prems j got by auto
  qed
qed simp

lemma map_lookup0_keys: "positive_map m \<Longrightarrow> map (\<lambda>img. (img, lookup0 m img)) (map fst m) = m"
proof (induction m)
  case (Cons a m)
  obtain k v where a: "a = (k, v)" by fastforce
  have "map (\<lambda>img. (img, lookup0 ((k, v) # m) img)) (map fst m) = map (\<lambda>img. (img, lookup0 m img)) (map fst m)"
    by (rule map_cong [OF refl]) (use Cons.prems in \<open>auto simp: a\<close>)
  also have "\<dots> = m" using Cons by (simp add: a)
  finally show ?case by (simp add: a)
qed simp

text \<open>The extras within the capacity: they sum to the smaller of the two, and no image gets one while
an image with more misses lacks some of what it asked for.\<close>

lemma capDynamicWarmCapacityExtras_spec:
  assumes pos: "positive_map req" and cap: "0 < cap"
  shows "positive_map (capDynamicWarmCapacityExtras req misses cap)"
    and "sumIntMap (capDynamicWarmCapacityExtras req misses cap) = min cap (sumIntMap req)"
    and "lookup0 (capDynamicWarmCapacityExtras req misses cap) img \<le> lookup0 req img"
    and "lookup0 misses j < lookup0 misses i \<Longrightarrow> 0 < lookup0 (capDynamicWarmCapacityExtras req misses cap) j \<Longrightarrow>
         lookup0 (capDynamicWarmCapacityExtras req misses cap) i = lookup0 req i"
proof -
  let ?ex = "capDynamicWarmCapacityExtras req misses cap"
  let ?key = "\<lambda>img. (- lookup0 misses img, - lookup0 req img, img)"
  let ?images = "sort_key ?key (map fst req)"
  have keys: "map fst (filter (\<lambda>(img, extra). \<not> (img = [] \<or> extra \<le> 0)) req) = map fst req"
    using pos by (intro arg_cong [where f = "map fst"]) (force simp: positive_map_def filter_id_conv)
  have ex: "?ex = (if sumIntMap req \<le> cap then req else allocate req ?images cap)"
    using cap by (simp only: capDynamicWarmCapacityExtras_def keys Let_def map_lookup0_keys [OF pos]
        sumIntMap_lookup [OF pos, symmetric]) simp
  have images: "distinct ?images" "[] \<notin> set ?images" "\<forall>img\<in>set ?images. 0 < lookup0 req img"
    using pos by (auto simp: positive_map_def lookup0_pos_iff [OF pos])
  have "sum_list (map (lookup0 req) ?images) = sum_list (map (lookup0 req) (map fst req))"
    using pos images(1) by (simp only: sum_list_distinct_conv_sum_set positive_map_def set_sort)
  then have total: "sum_list (map (lookup0 req) ?images) = sumIntMap req"
    by (simp only: sumIntMap_lookup [OF pos])
  note alloc = allocate_spec [OF images less_imp_le [OF cap], unfolded total]
  show "positive_map ?ex" "sumIntMap ?ex = min cap (sumIntMap req)"
    using alloc pos by (auto simp: ex)
  have outside: "lookup0 (allocate req ?images cap) i = 0" if "i \<notin> set ?images" for i
    using alloc that by (intro lookup0_fresh) auto
  show "lookup0 ?ex img \<le> lookup0 req img"
    using alloc outside [of img] lookup0_nonneg [OF pos, of img] by (cases "img \<in> set ?images") (auto simp: ex)
  assume more: "lookup0 misses j < lookup0 misses i" and got: "0 < lookup0 ?ex j"
  have sorted: "sorted_wrt (\<lambda>x y. ?key x \<le> ?key y) ?images"
    using sorted_sort_key [of ?key "map fst req"] by (simp add: sorted_map)
  have "\<not> ?key j \<le> ?key i" "i \<noteq> j" using more by (auto simp: less_eq_prod_def)
  then show "lookup0 ?ex i = lookup0 req i"
    using allocate_in_order [OF images less_imp_le [OF cap] sorted, of i j] got outside [of i] outside [of j]
      lookup0_pos_iff [OF pos, of i] lookup0_nonneg [OF pos, of i]
    by (cases "i \<in> set ?images"; cases "j \<in> set ?images") (auto simp: ex split: if_splits)
qed

section \<open>The targets\<close>

definition demanded_workers :: "dynamicWarmCapacityConfig \<Rightarrow> int_map \<Rightarrow> int" where
  "demanded_workers cfg misses = sum_list (map (\<lambda>(img, n). image_request cfg n) misses)"

definition warm_budget :: "dynamicWarmCapacityConfig \<Rightarrow> int \<Rightarrow> int \<Rightarrow> int" where
  "warm_budget cfg demand base =
     (let capped = (if 0 < DynamicTotalCeiling cfg then min (DynamicTotalCeiling cfg) demand else demand)
      in if 0 < MaxWorkers cfg then min capped (max 0 (MaxWorkers cfg - base)) else capped)"

lemma sum_requested_extras:
  assumes "positive_map m"
  shows "sumIntMap (requested_extras cfg m) = demanded_workers cfg m"
  unfolding requested_extras_eq [OF assms] demanded_workers_def
  using assms by (induction m) (auto simp: image_request_pos less_imp_le)

lemma warm_budget_eq:
  assumes "cfg' = normalizeDynamicWarmCapacityConfig cfg"
  shows "warm_budget cfg demand base =
     (let c1 = (if DynamicTotalCeiling cfg' > 0 \<and> demand > DynamicTotalCeiling cfg' then DynamicTotalCeiling cfg' else demand)
      in if MaxWorkers cfg' > 0 then min c1 (max 0 (MaxWorkers cfg' - base)) else c1)"
  by (auto simp: assms warm_budget_def normalizeDynamicWarmCapacityConfig_def Let_def)

lemma demanded_workers_normalized [simp]:
  "demanded_workers (normalizeDynamicWarmCapacityConfig cfg) m = demanded_workers cfg m"
  by (simp add: demanded_workers_def)

text \<open>The targets are the base plus the extras, which the budget bounds.\<close>

lemma compute_eq:
  fixes cfg aggs targets0
  defines "m \<equiv> imageWarmCapacityMissCounts aggs"
    and "b \<equiv> sanitizeWarmCapacityTargets targets0"
    and "req \<equiv> requested_extras (normalizeDynamicWarmCapacityConfig cfg) (imageWarmCapacityMissCounts aggs)"
  assumes on: "Enabled cfg"
  shows "computeDynamicWarmCapacityTargets targets0 aggs cfg =
     (if warm_budget cfg (demanded_workers cfg m) (sumIntMap b) \<le> 0 then b
      else add_extras b (capDynamicWarmCapacityExtras req m (warm_budget cfg (demanded_workers cfg m) (sumIntMap b))))"
proof -
  have demand: "sumIntMap req = demanded_workers cfg m"
    using sum_requested_extras [OF missCounts_positive] by (simp add: req_def m_def)
  have "demanded_workers cfg m = 0" if "req = []" using demand that by simp
  then have none: "warm_budget cfg (demanded_workers cfg m) (sumIntMap b) \<le> 0" if "req = []"
    using that by (simp add: warm_budget_def Let_def)
  show ?thesis
    unfolding computeDynamicWarmCapacityTargets_def warm_budget_eq [OF refl]
    using on none [unfolded warm_budget_eq [OF refl]] demand
    by (simp only: Let_def m_def [symmetric] b_def [symmetric] req_def [unfolded m_def [symmetric], symmetric]) auto
qed


definition busy_images :: "WarmCapacityMissAggregate list" where
  "busy_images =
     [\<lparr>ma_Scope = ''image:duck:2'', ma_Reason = WorkerClaimMissReasonNoIdle, ma_Count = 9\<rparr>,
      \<lparr>ma_Scope = ''image:duck:1'', ma_Reason = WorkerClaimMissReasonNoIdle, ma_Count = 30\<rparr>,
      \<lparr>ma_Scope = ''image:duck:1'', ma_Reason = WorkerClaimMissReasonOrgCap, ma_Count = 400\<rparr>]"

definition busy_config :: dynamicWarmCapacityConfig where
  "busy_config = \<lparr>Enabled = True, MissesPerWorker = 8, DynamicImageCeiling = 3, DynamicTotalCeiling = 0, MaxWorkers = 6\<rparr>"

lemma busy_targets:
  "computeDynamicWarmCapacityTargets [(''duck:1'', 2)] busy_images busy_config = [(''duck:1'', 5), (''duck:2'', 1)]"
  by code_simp


end
