(* ===== verification/Connection_Startup.thy ===== *)
theory Connection_Startup
  imports Raw_Startup Auth_Policy Org_Tenancy SNI_Routing Startup_Options Warm_Capacity
begin

text \<open>
  \<^verbatim>\<open>handleConnection\<close> of \<^verbatim>\<open>controlplane/control.go\<close>: a client connection from the accept to its end. The
  function is modelled as the sequence of calls it makes on the rest of the process and on the
  client, its deferred calls included. What those calls answer, and the bytes of the client, are the
  environment; every early return of the code is a branch. A panic runs the deferred calls and then
  ends the process, since nothing recovers it.
\<close>

section \<open>Errors of a session\<close>

text \<open>What \<^verbatim>\<open>errors.As\<close> and \<^verbatim>\<open>errors.Is\<close> find in the chain of an error of \<^verbatim>\<open>CreateSession\<close>.\<close>

record session_error =
  se_capacity :: "WarmCapacityExhaustedError option"
  se_canceled :: bool
  se_deadline :: bool
  se_tooMany :: bool
  se_text :: string

definition sessionCreationErrorResponse :: "session_error \<Rightarrow> string \<times> string" where
  "sessionCreationErrorResponse err =
     (case se_capacity err of
        Some capacityErr \<Rightarrow>
          (''53300'', sqlMessage (warmCapacityMissPolicyForReason (missReason capacityErr)) (RetryAfter capacityErr))
      | None \<Rightarrow>
          if se_canceled err then (''57014'', ''canceling authentication due to user request'')
          else if se_deadline err then (''53300'', ''timed out waiting for an available worker'')
          else if se_tooMany err then (''53300'', ''too many connections'')
          else (''58000'', ''failed to create session: '' @ se_text err))"

section \<open>Calls and answers\<close>

datatype client_message = Plain string | MissingDatabase string

datatype event =
    BeginAttempt
  | ReleaseAttempt
  | CloseConn
  | DeclineGSS nat
  | CancelQuery "32 word" "32 word"
  | SendSSL
  | ConnOpened
  | ConnClosed
  | Handshake
  | CloseTLS
  | SendError string client_message
  | FailedAuth
  | SuccessfulAuth
  | AskPassword
  | SendAuthOK
  | ReservePID
  | SendInitialParams string string string
  | CancelClientConn
  | RegisterQuery
  | UnregisterQuery
  | CreateSessionFor string string string int
  | SessionUp string string
  | DestroySessionOf string
  | InitMetadata string
  | DetectCatalog
  | ExecSQL string
  | SetConnCloser
  | SendReady
  | MessageLoop
  | Panicked

datatype io_step =
    SetStartupDeadline
  | ClearStartupDeadline
  | WriteSSL
  | SetTLSDeadline
  | TLSHandshake
  | ClearTLSDeadline
  | WritePasswordRequest
  | FlushPasswordRequest
  | WriteAuthOKStep
  | FlushParams
  | InitMetadataStep
  | DetectCatalogStep
  | WriteReady
  | FlushReady

record cp_config =
  SNIRoutingMode :: string
  ManagedHostnameSuffixes :: "string list"
  Users :: "string \<rightharpoonup> string"
  hasConfigStore :: bool
  hasOrgRouter :: bool
  sessionLimits :: "string \<times> int"

text \<open>The two snapshots are those at the two reads of the config store.\<close>

record conn_env =
  ce_refused :: bool
  ce_fails :: "io_step \<Rightarrow> bool"
  ce_declineFails :: "nat \<Rightarrow> bool"
  ce_raw :: reader
  ce_tls :: reader
  ce_sni :: string
  ce_snapshot :: "Snapshot option"
  ce_snapshot2 :: "Snapshot option"
  ce_migrating :: "string \<Rightarrow> bool"
  ce_stack :: "string \<Rightarrow> bool"
  ce_draining :: bool
  ce_create :: "session_error option"

definition fatal :: "string \<Rightarrow> string \<Rightarrow> event list" where
  "fatal code message = [SendError code (Plain message)]"

section \<open>The phases, from the last to the first\<close>

text \<open>A client that is let in.\<close>

record client =
  cl_username :: string
  cl_database :: string
  cl_orgID :: string
  cl_passthrough :: bool
  cl_searchPath :: string

definition ready_phase :: "conn_env \<Rightarrow> event list" where
  "ready_phase env =
     [SetConnCloser, SendReady] @
     (if ce_fails env WriteReady \<or> ce_fails env FlushReady then [] else [MessageLoop])"

definition session_phase :: "conn_env \<Rightarrow> client \<Rightarrow> event list" where
  "session_phase env cl =
     (if cl_passthrough cl then ready_phase env
      else
        InitMetadata (cl_database cl) #
        (if ce_fails env InitMetadataStep then fatal ''XX000'' ''failed to initialize session database metadata''
         else
           DetectCatalog #
           (if ce_fails env DetectCatalogStep then fatal ''XX000'' ''failed to detect ducklake catalog attachment''
            else
              (if cl_searchPath cl \<noteq> [] then [ExecSQL (search_path_statement (cl_searchPath cl))] else []) @
              ready_phase env)))"

definition create_phase :: "cp_config \<Rightarrow> conn_env \<Rightarrow> client \<Rightarrow> event list" where
  "create_phase cfg env cl =
     [ReservePID, SendInitialParams (cl_username cl) (cl_orgID cl) (cl_database cl)] @
     (if ce_fails env FlushParams then []
      else
        [RegisterQuery,
         CreateSessionFor (cl_orgID cl) (cl_username cl) (fst (sessionLimits cfg)) (snd (sessionLimits cfg)),
         UnregisterQuery] @
        (case ce_create env of
           Some err \<Rightarrow> (case sessionCreationErrorResponse err of (code, message) \<Rightarrow> fatal code message)
         | None \<Rightarrow>
             SessionUp (cl_orgID cl) (cl_username cl) # session_phase env cl @ [DestroySessionOf (cl_orgID cl)])) @
     [CancelClientConn]"

definition no_stack_message :: "string \<times> bool \<Rightarrow> event list" where
  "no_stack_message status =
     (case status of (whState, orgExists) \<Rightarrow>
        if \<not> orgExists then fatal ''28000'' ''no org configured for user''
        else if whState = [] \<or> whState = ManagedWarehouseStateReady
        then fatal ''57P03'' ''warehouse is starting up, please retry in a few seconds''
        else if whState = ManagedWarehouseStateFailed
        then fatal ''57P03'' ''warehouse provisioning failed; contact support''
        else if whState = ManagedWarehouseStateDeleting \<or> whState = ManagedWarehouseStateDeleted
        then fatal ''57P03'' ''warehouse is being deleted''
        else fatal ''57P03'' ''warehouse is still provisioning, please retry in a few minutes'')"

definition route_phase :: "cp_config \<Rightarrow> conn_env \<Rightarrow> client \<Rightarrow> event list" where
  "route_phase cfg env cl =
     SendAuthOK #
     (if ce_fails env WriteAuthOKStep then []
      else
        SuccessfulAuth #
        (if hasOrgRouter cfg \<and> ce_migrating env (cl_orgID cl)
         then fatal ''57P03'' ''DuckLake catalog upgrade in progress for your organization, please retry in a few moments''
         else if hasOrgRouter cfg \<and> \<not> ce_stack env (cl_orgID cl)
         then (if hasConfigStore cfg then no_stack_message (OrgWarehouseStatus (ce_snapshot2 env) (cl_orgID cl))
               else [Panicked])
         else if ce_draining env then fatal ''57P03'' ''control plane is draining, retry shortly''
         else create_phase cfg env cl))"

definition rejected_password :: "event list" where
  "rejected_password = FailedAuth # fatal ''28P01'' ''password authentication failed''"

definition login_phase ::
  "(string \<Rightarrow> string \<Rightarrow> bool) \<Rightarrow> cp_config \<Rightarrow> conn_env \<Rightarrow> string \<Rightarrow> string \<Rightarrow> string \<Rightarrow> string \<Rightarrow> event list" where
  "login_phase bcrypt cfg env username database searchPath password =
     (if hasConfigStore cfg then
        let sniResolution = resolvePostgresSNI (ManagedHostnameSuffixes cfg) (SNIRoutingMode cfg) (ce_sni env)
        in if SNIRoutingMode cfg = SNIRoutingEnforce \<and> \<not> isManaged sniResolution
           then fatal ''08006'' (''this server requires connecting via '' @ managedHostnameHint (ManagedHostnameSuffixes cfg))
           else
             let resolution = ResolvePostgresConnection bcrypt (ce_snapshot env) database (sniPrefix sniResolution)
                                (useManagedSNI sniResolution) username password;
                 effectiveDatabase = EffectiveDatabase resolution
             in if effectiveDatabase = [] then fatal ''28000'' ''database name is required''
                else if \<not> DatabaseExists resolution then [SendError ''3D000'' (MissingDatabase effectiveDatabase)]
                else if \<not> HostnameMatches resolution
                then fatal ''28000'' ''requested database does not match managed hostname''
                else if \<not> Valid resolution then rejected_password
                else route_phase cfg env
                       \<lparr>cl_username = username, cl_database = effectiveDatabase, cl_orgID = res_OrgID resolution,
                        cl_passthrough = Passthrough resolution, cl_searchPath = searchPath\<rparr>
      else if \<not> ValidateUserPassword (Users cfg) username password then rejected_password
      else route_phase cfg env
             \<lparr>cl_username = username, cl_database = database, cl_orgID = [], cl_passthrough = False,
              cl_searchPath = searchPath\<rparr>)"

text \<open>\<^verbatim>\<open>bytes.TrimRight\<close> of NUL bytes, and a parameter that is missing.\<close>

definition trim_nul :: "bytes \<Rightarrow> bytes" where
  "trim_nul body = rev (dropWhile (\<lambda>c. c = NUL) (rev body))"

definition param :: "(string \<rightharpoonup> string) \<Rightarrow> string \<Rightarrow> string" where
  "param params key = (case params key of None \<Rightarrow> [] | Some v \<Rightarrow> v)"

definition client_search_path :: "(string \<rightharpoonup> string) \<Rightarrow> string" where
  "client_search_path params =
     (let raw = param (ParseStartupOptions (param params ''options'')) ''search_path''
      in if raw \<noteq> [] then (case SanitizeSearchPath raw of Some sp \<Rightarrow> sp | None \<Rightarrow> []) else [])"

definition password_phase ::
  "(string \<Rightarrow> string \<Rightarrow> bool) \<Rightarrow> cp_config \<Rightarrow> conn_env \<Rightarrow> event list" where
  "password_phase bcrypt cfg env =
     (case ReadStartupMessage (ce_tls env) of
        Panic \<Rightarrow> [Panicked]
      | Err e \<Rightarrow> []
      | Ok (params, r1) \<Rightarrow>
          let username = param params ''user'' in
          if username = [] then FailedAuth # fatal ''28000'' ''no user specified''
          else if ce_fails env WritePasswordRequest then []
          else
            AskPassword #
            (if ce_fails env FlushPasswordRequest then []
             else
               case ReadMessage r1 of
                 Panic \<Rightarrow> [Panicked]
               | Err e \<Rightarrow> []
               | Ok ((msgType, body), r2) \<Rightarrow>
                   if msgType \<noteq> CHR ''p'' then FailedAuth # fatal ''28000'' ''expected password message''
                   else login_phase bcrypt cfg env username (param params ''database'') (client_search_path params)
                          (trim_nul body)))"

definition tls_phase :: "(string \<Rightarrow> string \<Rightarrow> bool) \<Rightarrow> cp_config \<Rightarrow> conn_env \<Rightarrow> event list" where
  "tls_phase bcrypt cfg env =
     ConnOpened #
     (if ce_fails env SetTLSDeadline then [CloseConn]
      else
        Handshake #
        (if ce_fails env TLSHandshake then [CloseTLS]
         else (if ce_fails env ClearTLSDeadline then [] else password_phase bcrypt cfg env) @ [CloseTLS])) @
     [ConnClosed]"

definition raw_phase :: "(string \<Rightarrow> string \<Rightarrow> bool) \<Rightarrow> cp_config \<Rightarrow> conn_env \<Rightarrow> event list" where
  "raw_phase bcrypt cfg env =
     (if ce_fails env SetStartupDeadline then [CloseConn]
      else
        case readStartupFromRaw (ce_declineFails env) (ce_raw env) of (declines, outcome) \<Rightarrow>
          DeclineGSS declines #
          (case outcome of
             RawPanic \<Rightarrow> [Panicked]
           | RawErr e \<Rightarrow> [CloseConn]
           | RawOk params r \<Rightarrow>
               if cancelRequest params then [CancelQuery (cancelPid params) (cancelSecretKey params), CloseConn]
               else if ce_fails env ClearStartupDeadline then [CloseConn]
               else if \<not> sslRequest params
               then (if startupMessage params
                     then fatal ''28000'' ''SSL/TLS connection required. Connect with sslmode=require or higher.'' else []) @
                    [CloseConn]
               else SendSSL # (if ce_fails env WriteSSL then [CloseConn] else tls_phase bcrypt cfg env)))"

definition handleConnection :: "(string \<Rightarrow> string \<Rightarrow> bool) \<Rightarrow> cp_config \<Rightarrow> conn_env \<Rightarrow> event list" where
  "handleConnection bcrypt cfg env =
     BeginAttempt #
     (if ce_refused env then [CloseConn] else raw_phase bcrypt cfg env @ [ReleaseAttempt])"

section \<open>Groups of calls\<close>

fun is_close :: "event \<Rightarrow> bool" where
  "is_close CloseConn = True" | "is_close CloseTLS = True" | "is_close _ = False"

fun is_count :: "event \<Rightarrow> bool" where
  "is_count ConnOpened = True" | "is_count ConnClosed = True" | "is_count _ = False"

fun is_session :: "event \<Rightarrow> bool" where
  "is_session (SessionUp _ _) = True" | "is_session (DestroySessionOf _) = True" | "is_session _ = False"

fun is_auth :: "event \<Rightarrow> bool" where
  "is_auth FailedAuth = True" | "is_auth SuccessfulAuth = True" | "is_auth _ = False"

fun is_verdict :: "event \<Rightarrow> bool" where
  "is_verdict (SendError _ _) = True" | "is_verdict MessageLoop = True" | "is_verdict Panicked = True"
| "is_verdict _ = False"

fun is_attempt :: "event \<Rightarrow> bool" where
  "is_attempt BeginAttempt = True" | "is_attempt ReleaseAttempt = True" | "is_attempt _ = False"

text \<open>The part of a trace after TLS is up: it closes nothing and leaves the counters alone; a session it
  brings up it destroys, and only a client that is let in has one; it gives at most one verdict.\<close>

definition inner_trace :: "event list \<Rightarrow> bool" where
  "inner_trace tr \<longleftrightarrow>
     filter is_close tr = [] \<and> filter is_count tr = [] \<and> filter is_attempt tr = [] \<and>
     (filter is_session tr = [] \<or> (\<exists>o' u. filter is_session tr = [SessionUp o' u, DestroySessionOf o'])) \<and>
     (filter is_auth tr = [] \<and> filter is_session tr = [] \<or> filter is_auth tr = [FailedAuth] \<and> filter is_session tr = [] \<or>
      filter is_auth tr = [SuccessfulAuth]) \<and>
     length (filter is_verdict tr) \<le> 1"

lemma fatal_inner [simp]: "inner_trace (fatal c m)" "inner_trace []" "inner_trace [Panicked]" "inner_trace [SendError c msg]"
  by (simp_all add: inner_trace_def fatal_def)

lemma rejected_inner [simp]: "inner_trace rejected_password" "inner_trace (FailedAuth # fatal c m)"
  by (simp_all add: inner_trace_def fatal_def rejected_password_def)

lemma session_phase_parts:
  "filter is_close (session_phase env cl) = [] \<and> filter is_count (session_phase env cl) = [] \<and>
   filter is_attempt (session_phase env cl) = [] \<and> filter is_session (session_phase env cl) = [] \<and>
   filter is_auth (session_phase env cl) = [] \<and> length (filter is_verdict (session_phase env cl)) \<le> 1"
  by (simp add: session_phase_def ready_phase_def fatal_def)

text \<open>The part after the client is let in.\<close>

definition admitted_trace :: "event list \<Rightarrow> bool" where
  "admitted_trace tr \<longleftrightarrow>
     filter is_close tr = [] \<and> filter is_count tr = [] \<and> filter is_attempt tr = [] \<and>
     (filter is_session tr = [] \<or> (\<exists>o' u. filter is_session tr = [SessionUp o' u, DestroySessionOf o'])) \<and>
     filter is_auth tr = [] \<and> length (filter is_verdict tr) \<le> 1"

lemma create_phase_admitted: "admitted_trace (create_phase cfg env cl)"
proof (cases "ce_create env")
  case None
  then show ?thesis using session_phase_parts [of env cl] by (simp add: create_phase_def admitted_trace_def)
next
  case (Some err)
  then show ?thesis
    by (cases "sessionCreationErrorResponse err") (simp add: create_phase_def admitted_trace_def fatal_def)
qed

lemma fatal_admitted [simp]: "admitted_trace (fatal c m)" "admitted_trace [Panicked]"
  by (simp_all add: admitted_trace_def fatal_def)

lemma no_stack_admitted: "admitted_trace (no_stack_message status)"
  by (cases status) (simp add: no_stack_message_def)

lemma admitted_inner: "admitted_trace tr \<Longrightarrow> inner_trace (SendAuthOK # SuccessfulAuth # tr)"
  by (simp add: admitted_trace_def inner_trace_def)

lemma route_inner: "inner_trace (route_phase cfg env cl)"
proof -
  have "inner_trace [SendAuthOK]" by (simp add: inner_trace_def)
  then show ?thesis
    by (simp add: route_phase_def admitted_inner create_phase_admitted no_stack_admitted del: fatal_inner)
qed

lemma login_inner: "inner_trace (login_phase bcrypt cfg env username database searchPath password)"
  by (simp add: login_phase_def Let_def route_inner)

lemma ask_inner [simp]: "inner_trace (AskPassword # tr) = inner_trace tr"
  by (simp add: inner_trace_def)

lemma password_inner: "inner_trace (password_phase bcrypt cfg env)"
  by (simp add: password_phase_def Let_def login_inner split: outcome.split prod.split)

definition closed_once :: "event list \<Rightarrow> bool" where
  "closed_once tr \<longleftrightarrow> length (filter is_close tr) = 1 \<and>
     (filter is_count tr = [] \<or> filter is_count tr = [ConnOpened, ConnClosed]) \<and> filter is_attempt tr = [] \<and>
     (filter is_session tr = [] \<or>
      filter is_auth tr = [SuccessfulAuth] \<and> (\<exists>o' u. filter is_session tr = [SessionUp o' u, DestroySessionOf o'])) \<and>
     (filter is_auth tr = [] \<or> filter is_auth tr = [FailedAuth] \<or> filter is_auth tr = [SuccessfulAuth]) \<and>
     length (filter is_verdict tr) \<le> 1"

lemma tls_closed: "closed_once (tls_phase bcrypt cfg env)"
  using password_inner [of bcrypt cfg env]
  by (auto simp: tls_phase_def closed_once_def inner_trace_def)

lemma raw_closed: "closed_once (raw_phase bcrypt cfg env)"
proof -
  have "snd (readStartupFromRaw (ce_declineFails env) (ce_raw env)) \<noteq> RawPanic"
    using negotiate_negotiated [of maxNegotiationRounds 0 "ce_raw env" "ce_declineFails env"]
    by (simp add: readStartupFromRaw_def negotiated_def)
  then show ?thesis
    using tls_closed [of bcrypt cfg env]
    by (auto simp: raw_phase_def closed_once_def fatal_def split: prod.split raw_outcome.split)
qed

section \<open>Properties\<close>

text \<open>\<^bold>\<open>C17\<close>. Every connection is accounted for, whatever the client sends and whichever call fails: the
  attempt registered with the rate limiter is released at the end, unless the limiter refused it; the
  socket is closed exactly once; the count of active connections goes up and down together; a session
  that was brought up is destroyed after it, in the same org, and only a client that was recorded as
  authenticated has one; an attempt is recorded as failed or as successful, at most once and never both;
  and the client gets at most one verdict, an error or the message loop.\<close>

theorem connection_accounted:
  "let tr = handleConnection bcrypt cfg env in
     filter is_attempt tr = (if ce_refused env then [BeginAttempt] else [BeginAttempt, ReleaseAttempt]) \<and>
     length (filter is_close tr) = 1 \<and>
     filter is_count tr \<in> {[], [ConnOpened, ConnClosed]} \<and>
     (filter is_session tr = [] \<or>
      filter is_auth tr = [SuccessfulAuth] \<and> (\<exists>o' u. filter is_session tr = [SessionUp o' u, DestroySessionOf o'])) \<and>
     filter is_auth tr \<in> {[], [FailedAuth], [SuccessfulAuth]} \<and>
     length (filter is_verdict tr) \<le> 1"
  using raw_closed [of bcrypt cfg env]
  by (cases "ce_refused env") (simp_all add: handleConnection_def closed_once_def Let_def)

text \<open>What a session needs: the client sent its user and password over TLS, and the control plane had
  room for it.\<close>

abbreviation creates :: "string \<Rightarrow> string \<Rightarrow> event list \<Rightarrow> bool" where
  "creates orgID u tr \<equiv> \<exists>m t. CreateSessionFor orgID u m t \<in> set tr"

lemma creates_fatal [simp]: "CreateSessionFor orgID u m t \<notin> set (fatal c msg)"
  "CreateSessionFor orgID u m t \<notin> set rejected_password" "CreateSessionFor orgID u m t \<notin> set (no_stack_message st)"
  by (simp_all add: fatal_def rejected_password_def no_stack_message_def split: prod.split)

lemma creates_session [simp]: "CreateSessionFor orgID u m t \<notin> set (session_phase env cl)"
  by (simp add: session_phase_def ready_phase_def)

lemma creates_create:
  "creates orgID u (create_phase cfg env cl) \<Longrightarrow> orgID = cl_orgID cl \<and> u = cl_username cl"
  by (auto simp: create_phase_def split: if_splits option.splits prod.splits)

lemma creates_route:
  assumes "creates orgID u (route_phase cfg env cl)"
  shows "orgID = cl_orgID cl \<and> u = cl_username cl \<and> \<not> ce_draining env \<and>
    (hasOrgRouter cfg \<longrightarrow> ce_stack env orgID \<and> \<not> ce_migrating env orgID)"
proof -
  have "creates orgID u (create_phase cfg env cl)" "\<not> ce_draining env"
    "hasOrgRouter cfg \<longrightarrow> ce_stack env (cl_orgID cl) \<and> \<not> ce_migrating env (cl_orgID cl)"
    using assms by (auto simp: route_phase_def split: if_splits)
  with creates_create show ?thesis by metis
qed

lemma creates_tls: "creates orgID u (tls_phase bcrypt cfg env) \<Longrightarrow> creates orgID u (password_phase bcrypt cfg env)"
  by (auto simp: tls_phase_def split: if_splits)

lemma creates_raw:
  assumes "creates orgID u (raw_phase bcrypt cfg env)"
  shows "creates orgID u (tls_phase bcrypt cfg env) \<and>
    (\<exists>k res r. readStartupFromRaw (ce_declineFails env) (ce_raw env) = (k, RawOk res r) \<and> sslRequest res)"
proof -
  obtain k out where raw: "readStartupFromRaw (ce_declineFails env) (ce_raw env) = (k, out)" by fastforce
  show ?thesis using assms by (cases out) (auto simp: raw_phase_def raw split: if_splits)
qed

lemma creates_password:
  assumes "creates orgID u (password_phase bcrypt cfg env)"
  shows "\<exists>params r1 body r2. ReadStartupMessage (ce_tls env) = Ok (params, r1) \<and>
     ReadMessage r1 = Ok ((CHR ''p'', body), r2) \<and>
     creates orgID u (login_phase bcrypt cfg env (param params ''user'')
       (param params ''database'') (client_search_path params) (trim_nul body))"
proof -
  obtain params r1 where start: "ReadStartupMessage (ce_tls env) = Ok (params, r1)"
    using assms by (cases "ReadStartupMessage (ce_tls env)") (auto simp: password_phase_def)
  obtain ty body r2 where msg: "ReadMessage r1 = Ok ((ty, body), r2)"
    using assms by (cases "ReadMessage r1") (auto simp: password_phase_def start Let_def split: if_splits)
  show ?thesis using assms by (auto simp: password_phase_def start msg Let_def split: if_splits)
qed

definition login_ok :: "(string \<Rightarrow> string \<Rightarrow> bool) \<Rightarrow> cp_config \<Rightarrow> conn_env \<Rightarrow> string \<Rightarrow> string \<Rightarrow> string \<Rightarrow> string \<Rightarrow> bool" where
  "login_ok bcrypt cfg env u database password orgID \<longleftrightarrow>
     (if hasConfigStore cfg then
        let sni = resolvePostgresSNI (ManagedHostnameSuffixes cfg) (SNIRoutingMode cfg) (ce_sni env);
            res = ResolvePostgresConnection bcrypt (ce_snapshot env) database (sniPrefix sni) (useManagedSNI sni) u password
        in (SNIRoutingMode cfg = SNIRoutingEnforce \<longrightarrow> isManaged sni) \<and> Valid res \<and> res_OrgID res = orgID
      else orgID = [] \<and> ValidateUserPassword (Users cfg) u password)"

lemma creates_login:
  assumes "creates orgID u (login_phase bcrypt cfg env username database searchPath password)"
  shows "u = username \<and> login_ok bcrypt cfg env username database password orgID \<and> \<not> ce_draining env \<and>
    (hasOrgRouter cfg \<longrightarrow> ce_stack env orgID \<and> \<not> ce_migrating env orgID)"
proof (cases "hasConfigStore cfg")
  case True
  define sni where "sni = resolvePostgresSNI (ManagedHostnameSuffixes cfg) (SNIRoutingMode cfg) (ce_sni env)"
  define res where "res = ResolvePostgresConnection bcrypt (ce_snapshot env) database (sniPrefix sni) (useManagedSNI sni) username password"
  have "SNIRoutingMode cfg = SNIRoutingEnforce \<longrightarrow> isManaged sni" "Valid res"
    "creates orgID u (route_phase cfg env
       \<lparr>cl_username = username, cl_database = EffectiveDatabase res, cl_orgID = res_OrgID res,
        cl_passthrough = Passthrough res, cl_searchPath = searchPath\<rparr>)"
    using assms True by (auto simp: login_phase_def Let_def sni_def [symmetric] res_def [symmetric] split: if_splits)
  with creates_route [of orgID u cfg env] True show ?thesis
    by (fastforce simp: login_ok_def Let_def sni_def [symmetric] res_def [symmetric])
next
  case False
  with assms have "ValidateUserPassword (Users cfg) username password"
    "creates orgID u (route_phase cfg env
       \<lparr>cl_username = username, cl_database = database, cl_orgID = [], cl_passthrough = False, cl_searchPath = searchPath\<rparr>)"
    by (auto simp: login_phase_def split: if_splits)
  with creates_route [of orgID u cfg env] False show ?thesis by (fastforce simp: login_ok_def)
qed

text \<open>\<^bold>\<open>C14\<close>. A session of an org is only created for a user of that org. In the multi-tenant control plane,
  with the snapshot loaded from the tables, \<^verbatim>\<open>handleConnection\<close> asks for a session only if the client
  negotiated TLS and sent a startup packet and a password message, and there is an org with the session's
  name that has a user of the given name whose hash accepts the given password. The database the client
  named, if any, is the org's, and where managed hostnames are enforced the client came through one that
  names the org. The org then has a stack of workers and is not being migrated, and the control plane is
  not draining.\<close>

theorem session_requires_login:
  assumes "hasConfigStore cfg" and "config_keys db" and "load es db = Inr snap" and "ce_snapshot env = Some snap"
    and "CreateSessionFor orgID u m t \<in> set (handleConnection bcrypt cfg env)"
  shows "(\<exists>k res r. readStartupFromRaw (ce_declineFails env) (ce_raw env) = (k, RawOk res r) \<and> sslRequest res) \<and>
    (\<exists>params r1 body r2. ReadStartupMessage (ce_tls env) = Ok (params, r1) \<and> u = param params ''user'' \<and>
       ReadMessage r1 = Ok ((CHR ''p'', body), r2) \<and>
       (\<exists>o' \<in> set (duckgres_orgs db). \<exists>row \<in> set (duckgres_org_users db).
          org_Name o' = orgID \<and> ou_OrgID row = orgID \<and> ou_Username row = u \<and> bcrypt (ou_Password row) (trim_nul body) \<and>
          param params ''database'' \<in> {[], org_DatabaseName o'} \<and>
          (SNIRoutingMode cfg = SNIRoutingEnforce \<longrightarrow>
             (\<exists>label. extractOrgFromSNI (ManagedHostnameSuffixes cfg) (ce_sni env) = (label, True) \<and> names_org db label o')))) \<and>
    \<not> ce_draining env \<and> (hasOrgRouter cfg \<longrightarrow> ce_stack env orgID \<and> \<not> ce_migrating env orgID)"
proof -
  have "creates orgID u (raw_phase bcrypt cfg env)"
    using assms(5) by (auto simp: handleConnection_def split: if_splits)
  note raw = creates_raw [OF this]
  from raw creates_tls creates_password obtain params r1 body r2 where
    start: "ReadStartupMessage (ce_tls env) = Ok (params, r1)" and msg: "ReadMessage r1 = Ok ((CHR ''p'', body), r2)" and
    login: "creates orgID u (login_phase bcrypt cfg env (param params ''user'')
       (param params ''database'') (client_search_path params) (trim_nul body))" by meson
  let ?sni = "resolvePostgresSNI (ManagedHostnameSuffixes cfg) (SNIRoutingMode cfg) (ce_sni env)"
  define res where "res = ResolvePostgresConnection bcrypt (Some snap) (param params ''database'') (sniPrefix ?sni)
      (useManagedSNI ?sni) (param params ''user'') (trim_nul body)"
  note ok = creates_login [OF login]
  then have res: "Valid res" "res_OrgID res = orgID" and managed: "SNIRoutingMode cfg = SNIRoutingEnforce \<longrightarrow> isManaged ?sni"
    using assms(1,4) by (auto simp: login_ok_def Let_def res_def)
  obtain o' row where found: "o' \<in> set (duckgres_orgs db)" "row \<in> set (duckgres_org_users db)" "org_Name o' = orgID"
      "ou_OrgID row = orgID" "ou_Username row = param params ''user''" "bcrypt (ou_Password row) (trim_nul body)"
      "param params ''database'' \<in> {[], org_DatabaseName o'}" "useManagedSNI ?sni \<longrightarrow> names_org db (sniPrefix ?sni) o'"
    using resolution_sound [OF assms(2,3) res_def [symmetric] res(1)] res(2) by auto
  have "\<exists>label. extractOrgFromSNI (ManagedHostnameSuffixes cfg) (ce_sni env) = (label, True) \<and> names_org db label o'"
    if "SNIRoutingMode cfg = SNIRoutingEnforce"
    using managed found(8) that
    by (cases "extractOrgFromSNI (ManagedHostnameSuffixes cfg) (ce_sni env)")
       (auto simp: resolvePostgresSNI_def postgresSNIRoutingModeEnabled_def)
  then show ?thesis using raw start msg ok found(1-7) by metis
qed

definition example_cp :: cp_config where
  "example_cp = \<lparr>SNIRoutingMode = SNIRoutingEnforce, ManagedHostnameSuffixes = [''.dw''], Users = Map.empty,
     hasConfigStore = True, hasOrgRouter = True, sessionLimits = (''4GB'', 2)\<rparr>"

definition example_env :: "bytes \<Rightarrow> Snapshot \<Rightarrow> conn_env" where
  "example_env stream snap = \<lparr>ce_refused = False, ce_fails = \<lambda>s. False, ce_declineFails = \<lambda>k. False,
     ce_raw = \<lparr>avail = request_packet 80877103, after = EOF\<rparr>, ce_tls = \<lparr>avail = stream, after = EOF\<rparr>,
     ce_sni = ''acme.dw'', ce_snapshot = Some snap, ce_snapshot2 = Some snap, ce_migrating = \<lambda>o'. False,
     ce_stack = \<lambda>o'. True, ce_draining = False, ce_create = None\<rparr>"

definition example_body :: bytes where
  "example_body = ''quack'' @ [NUL]"

definition example_stream :: bytes where
  "example_stream = startup_packet 196608 (param_bytes [(''user'', ''ada'')] @ [NUL]) @ frame (CHR ''p'') example_body"

lemma example_packets:
  "ReadStartupMessage \<lparr>avail = example_stream, after = EOF\<rparr> =
     Ok ([''user'' \<mapsto> ''ada''], \<lparr>avail = frame (CHR ''p'') example_body, after = EOF\<rparr>)"
  "ReadMessage \<lparr>avail = frame (CHR ''p'') example_body, after = EOF\<rparr> =
     Ok ((CHR ''p'', example_body), \<lparr>avail = [], after = EOF\<rparr>)"
  using ReadStartupMessage_params [of "[(''user'', ''ada'')]" "frame (CHR ''p'') example_body" EOF]
    ReadMessage_frame [of example_body "CHR ''p''" "[]" EOF]
  by (simp_all add: example_stream_def param_bytes_def example_body_def)

lemma example_password: "trim_nul example_body = ''quack''"
  by (simp add: trim_nul_def example_body_def)

lemma example_raw:
  "readStartupFromRaw (\<lambda>k. False) \<lparr>avail = request_packet 80877103, after = EOF\<rparr> =
     (0, RawOk (no_startup\<lparr>sslRequest := True\<rparr>) \<lparr>avail = [], after = EOF\<rparr>)"
  using negotiate_packet [of 2 "\<lambda>k. False" 0 80877103 "[]" EOF]
  by (simp add: readStartupFromRaw_def maxNegotiationRounds_def numeral_3_eq_3 numeral_2_eq_2 del: negotiate.simps)

lemma example_sni: "resolvePostgresSNI [''.dw''] SNIRoutingEnforce ''acme.dw'' = \<lparr>sniPrefix = ''acme'', isManaged = True, useManagedSNI = True\<rparr>"
  by code_simp

lemma example_resolution:
  assumes "load (\<lambda>i. \<lparr>now = 1, fault = None\<rparr>) example_config = Inr snap"
  shows "\<exists>res. ResolvePostgresConnection (=) (Some snap) [] ''acme'' True ''ada'' ''quack'' = res \<and> Valid res \<and>
    res_OrgID res = ''org1'' \<and> EffectiveDatabase res = ''lake'' \<and> DatabaseExists res \<and> HostnameMatches res"
proof -
  have "HostnameAliasOrg snap = [''acme'' \<mapsto> ''org1'']" "DatabaseOrg snap = [''lake'' \<mapsto> ''org1'']"
    "OrgUserPassword snap = [(''org1'', ''ada'') \<mapsto> ''quack'']" "\<exists>oc. Orgs snap = [''org1'' \<mapsto> oc] \<and> oc_DatabaseName oc = ''lake''"
    using assms [symmetric]
    by (auto simp: load_def example_config_def add_org_def add_user_def users_of_def alias_of_def example_org_def
        example_user_def org_config_def Let_def)
  then show ?thesis
    by (auto simp: ResolvePostgresConnection_def resolve_sni_def resolution_start_def resolve_user_def ResolveDatabase_def
        resolveSNIPrefixFromSnapshot_def Let_def)
qed

theorem session_requires_login_witness:
  "\<exists>snap. load (\<lambda>i. \<lparr>now = 1, fault = None\<rparr>) example_config = Inr snap \<and>
     CreateSessionFor ''org1'' ''ada'' ''4GB'' 2 \<in> set (handleConnection (=) example_cp (example_env example_stream snap)) \<and>
     (\<exists>row \<in> set (duckgres_org_users example_config). ou_OrgID row = ''org1'' \<and> ou_Username row = ''ada'' \<and>
        ou_Password row = ''quack'')"
proof -
  let ?es = "\<lambda>i. \<lparr>now = 1, fault = None\<rparr>"
  have keys: "config_keys example_config"
    by (simp add: config_keys_def example_config_def example_org_def example_user_def)
  obtain snap where l: "load ?es example_config = Inr snap" by (simp add: load_def)
  obtain res where res: "ResolvePostgresConnection (=) (Some snap) [] ''acme'' True ''ada'' ''quack'' = res" "Valid res"
      "res_OrgID res = ''org1''" "EffectiveDatabase res = ''lake''" "DatabaseExists res" "HostnameMatches res"
    using example_resolution [OF l] by blast
  let ?env = "example_env example_stream snap"
  have created: "CreateSessionFor ''org1'' ''ada'' ''4GB'' 2 \<in> set (handleConnection (=) example_cp ?env)"
    using res
    by (simp add: handleConnection_def raw_phase_def tls_phase_def password_phase_def login_phase_def route_phase_def
        create_phase_def example_env_def example_cp_def example_raw example_packets example_sni param_def example_password
        no_startup_def Let_def)
  have "hasConfigStore example_cp" "ce_snapshot ?env = Some snap" by (simp_all add: example_cp_def example_env_def)
  from session_requires_login [OF this(1) keys l this(2) created] l created show ?thesis
    by (auto simp: example_env_def example_packets example_password)
qed

text \<open>No phase after the password message panics.\<close>

lemma login_no_panic:
  assumes "hasOrgRouter cfg \<longrightarrow> hasConfigStore cfg"
  shows "Panicked \<notin> set (login_phase bcrypt cfg env username database searchPath password)"
proof -
  have "Panicked \<notin> set (route_phase cfg env cl)" for cl
    using assms by (auto simp: route_phase_def create_phase_def session_phase_def ready_phase_def no_stack_message_def fatal_def
        split: option.splits prod.splits)
  then show ?thesis by (simp add: login_phase_def rejected_password_def fatal_def Let_def)
qed


definition crash_stream :: bytes where
  "crash_stream = put_be 4 (13 :: 32 word) @ put_be 4 (196608 :: 32 word) @ ''user'' @ [NUL]"


end
