(* ===== verification/Text_Format.thy ===== *)
theory Text_Format
  imports Runes Bytes "HOL-Library.Signed_Division"
begin

text \<open>
  The values of a result row and their text form: \<^verbatim>\<open>formatValue\<close> and its helpers of
  \<^verbatim>\<open>server/conn.go\<close>, \<^verbatim>\<open>DecimalValue.String\<close> of \<^verbatim>\<open>duckdbservice/arrowmap/arrowmap.go\<close>, and the conversion
  of driver values (\<^verbatim>\<open>server/value_normalize.go\<close>, \<^verbatim>\<open>duckdbservice/appender_init.go\<close>).
\<close>

section \<open>Values\<close>

text \<open>
  The dynamic types the code tells apart. Machine integers keep their width; floating-point
  numbers are their bits; a time is its nanoseconds since 1970 and the offset of its zone in
  seconds; the intervals and decimals of the DuckDB driver are types of their own; \<open>VStringer\<close> is a value of any other type that has a method \<^verbatim>\<open>String\<close>, with what it gives,
  and \<open>VOther\<close> one that has none. A Go map is a list in the order in which it is walked.
\<close>

datatype govalue =
    VNil
  | VBool bool
  | VInt "64 word" | VInt8 "8 word" | VInt16 "16 word" | VInt32 "32 word" | VInt64 "64 word"
  | VUint "64 word" | VUint8 "8 word" | VUint16 "16 word" | VUint32 "32 word" | VUint64 "64 word"
  | VFloat32 "32 word" | VFloat64 "64 word"
  | VBytes bytes
  | VString string
  | VStringPtr "string option"
  | VTime int int
  | VInterval (iv_Months: "32 word") (iv_Days: "32 word") (iv_Micros: "64 word")
  | VDecimal (dv_Value: int) (dv_Scale: int)
  | VDuckInterval "32 word" "32 word" "64 word"
  | VDuckDecimal int int
  | VBigInt int
  | VList "govalue list"
  | VMap "(string \<times> govalue) list"
  | VOrderedMap "(govalue \<times> govalue) list"
  | VStringer string
  | VOther nat

text \<open>
  What the code uses of Go's library and of the drivers beyond integers and strings: conversions of
  floating-point numbers, the verbs \<^verbatim>\<open>%g\<close> and \<^verbatim>\<open>%v\<close>, layouts of times and JSON; and whether the binary
  links the package that registers the one hook for driver values.
\<close>

record golib =
  f32_to_int :: "nat \<Rightarrow> 32 word \<Rightarrow> int"
  f64_to_int :: "nat \<Rightarrow> 64 word \<Rightarrow> int"
  f64_to_f32 :: "64 word \<Rightarrow> 32 word"
  f32_to_f64 :: "32 word \<Rightarrow> 64 word"
  int_to_f32 :: "int \<Rightarrow> 32 word"
  int_to_f64 :: "int \<Rightarrow> 64 word"
  fmt_g32 :: "32 word \<Rightarrow> string"
  fmt_g64 :: "64 word \<Rightarrow> string"
  fmt_v :: "govalue \<Rightarrow> string"
  time_format :: "string \<Rightarrow> int \<Rightarrow> int \<Rightarrow> string"
  time_parse :: "string \<Rightarrow> string \<Rightarrow> int option"
  json_marshal :: "govalue \<Rightarrow> string option"
  duckdb_linked :: bool

fun normalizeDuckDBValue :: "govalue \<Rightarrow> govalue" where
  "normalizeDuckDBValue (VDuckInterval months days micros) = VInterval months days micros"
| "normalizeDuckDBValue (VDuckDecimal v scale) = VDecimal v scale"
| "normalizeDuckDBValue v = v"

definition normalizeDriverValue :: "golib \<Rightarrow> govalue \<Rightarrow> govalue" where
  "normalizeDriverValue lib v = (if duckdb_linked lib then normalizeDuckDBValue v else v)"

section \<open>Numbers\<close>

text \<open>\<^verbatim>\<open>fmt.Sprintf("%0<w>d", i)\<close>: the sign comes first and counts in the width.\<close>

definition zero_pad :: "nat \<Rightarrow> string \<Rightarrow> string" where
  "zero_pad w s = replicate (w - length s) (CHR ''0'') @ s"

definition fmt_0d :: "nat \<Rightarrow> int \<Rightarrow> string" where
  "fmt_0d w i = (if i < 0 then ''-'' @ zero_pad (w - 1) (digits10 (nat (- i))) else zero_pad w (digits10 (nat i)))"

text \<open>\<^verbatim>\<open>DecimalValue.String\<close>; a missing number is not modelled, the drivers always set one.\<close>

definition decimal_string :: "int \<Rightarrow> int \<Rightarrow> string" where
  "decimal_string v scale =
     (if scale \<le> 0 then itoa v
      else
        let abs0 = digits10 (nat \<bar>v\<bar>);
            pad = scale + 1 - int (length abs0);
            abs1 = (if pad > 0 then replicate (nat pad) (CHR ''0'') @ abs0 else abs0);
            k = length abs1 - nat scale
        in (if v < 0 then ''-'' else []) @ take k abs1 @ ''.'' @ drop k abs1)"

section \<open>Text form of values\<close>

fun join_sep :: "string \<Rightarrow> string list \<Rightarrow> string" where
  "join_sep sep [] = []"
| "join_sep sep [x] = x"
| "join_sep sep (x # y # xs) = x @ sep @ join_sep sep (y # xs)"

text \<open>The time of day of an interval; \<open>micros\<close> is an \<^verbatim>\<open>int64\<close>, whose least value has no negative.\<close>

definition time_part :: "64 word \<Rightarrow> string" where
  "time_part micros0 =
     (let neg = sint micros0 < 0;
          micros = (if neg then sint (- micros0) else sint micros0);
          h = micros sdiv 3600000000;
          m1 = micros smod 3600000000;
          m = m1 sdiv 60000000;
          m2 = m1 smod 60000000;
          s = m2 sdiv 1000000;
          rem = m2 smod 1000000;
          timePart = (if rem > 0
                      then fmt_0d 2 h @ '':'' @ fmt_0d 2 m @ '':'' @ fmt_0d 2 s @ ''.'' @ fmt_0d 6 rem
                      else fmt_0d 2 h @ '':'' @ fmt_0d 2 m @ '':'' @ fmt_0d 2 s)
      in if neg then ''-'' @ timePart else timePart)"

definition unit_part :: "int \<Rightarrow> string \<Rightarrow> string list" where
  "unit_part n name =
     (if n = 0 then [] else if n = 1 \<or> n = - 1 then [itoa n @ '' '' @ name] else [itoa n @ '' '' @ name @ ''s''])"

definition formatInterval :: "32 word \<Rightarrow> 32 word \<Rightarrow> 64 word \<Rightarrow> string" where
  "formatInterval months days micros =
     (let parts0 = (if sint months \<noteq> 0
                    then unit_part (sint months sdiv 12) ''year'' @ unit_part (sint months smod 12) ''mon'' else []);
          parts1 = parts0 @ unit_part (sint days) ''day'';
          parts2 = (if sint micros \<noteq> 0 \<or> parts1 = [] then parts1 @ [time_part micros] else parts1)
      in join_sep '' '' parts2)"

definition needsArrayQuoting :: "string \<Rightarrow> bool" where
  "needsArrayQuoting s \<longleftrightarrow>
     s = [] \<or> (\<exists>r \<in> set (runes s). r \<in> {'','', ''{'', ''}'', [CHR 0x22], [CHR 0x5C], '' ''})"

definition quote_element :: "string \<Rightarrow> string" where
  "quote_element s =
     (if needsArrayQuoting s
      then [CHR 0x22] @ concat (map (\<lambda>r. (if r = [CHR 0x22] \<or> r = [CHR 0x5C] then [CHR 0x5C] else []) @ r) (runes s)) @ [CHR 0x22]
      else s)"

definition array_text :: "string option list \<Rightarrow> string" where
  "array_text elems =
     ''{'' @ join_sep '','' (map (\<lambda>e. case e of None \<Rightarrow> ''NULL'' | Some s \<Rightarrow> quote_element s) elems) @ ''}''"

text \<open>A struct and a map, of the texts of their keys and values; a Go map is the list of its entries in the order
  of the iteration.\<close>

definition formatMapValue :: "(string \<times> string) list \<Rightarrow> string" where
  "formatMapValue m = ''{'' @ join_sep '', '' (map (\<lambda>(k, v). k @ ''='' @ v) m) @ ''}''"

definition formatOrderedMapValue :: "(string \<times> string) list \<Rightarrow> string" where
  "formatOrderedMapValue m = ''{'' @ join_sep '', '' (map (\<lambda>(k, v). k @ ''='' @ v) m) @ ''}''"

text \<open>The zero time, January 1 of the year 1.\<close>

definition zero_time :: int where
  "zero_time = - 62135596800 * Second"

text \<open>\<^verbatim>\<open>formatValue\<close>. The conversion of the driver's types that it starts with is part of their equations.\<close>

fun formatValue :: "golib \<Rightarrow> govalue \<Rightarrow> string" where
  "formatValue lib VNil = []"
| "formatValue lib (VBytes b) = b"
| "formatValue lib (VString s) = s"
| "formatValue lib (VStringPtr p) = (case p of None \<Rightarrow> [] | Some s \<Rightarrow> s)"
| "formatValue lib (VInt w) = itoa (sint w)"
| "formatValue lib (VInt8 w) = itoa (sint w)"
| "formatValue lib (VInt16 w) = itoa (sint w)"
| "formatValue lib (VInt32 w) = itoa (sint w)"
| "formatValue lib (VInt64 w) = itoa (sint w)"
| "formatValue lib (VUint w) = itoa (uint w)"
| "formatValue lib (VUint8 w) = itoa (uint w)"
| "formatValue lib (VUint16 w) = itoa (uint w)"
| "formatValue lib (VUint32 w) = itoa (uint w)"
| "formatValue lib (VUint64 w) = itoa (uint w)"
| "formatValue lib (VFloat32 f) = fmt_g32 lib f"
| "formatValue lib (VFloat64 f) = fmt_g64 lib f"
| "formatValue lib (VBool b) = (if b then ''t'' else ''f'')"
| "formatValue lib (VTime t off) =
     (if t = zero_time then []
      else if t mod Second \<noteq> 0 then time_format lib ''2006-01-02 15:04:05.999999'' t off
      else time_format lib ''2006-01-02 15:04:05'' t off)"
| "formatValue lib (VList xs) =
     array_text (map (\<lambda>e. if e = VNil then None else Some (formatValue lib e)) xs)"
| "formatValue lib (VInterval mo d mi) = formatInterval mo d mi"
| "formatValue lib (VMap kvs) =
     formatMapValue (map (\<lambda>(k, v). (k, formatValue lib v)) kvs)"
| "formatValue lib (VOrderedMap kvs) =
     formatOrderedMapValue (map (\<lambda>(k, v). (formatValue lib k, formatValue lib v)) kvs)"
| "formatValue lib (VDecimal v sc) = decimal_string v sc"
| "formatValue lib (VDuckInterval mo d mi) =
     (if duckdb_linked lib then formatInterval mo d mi else fmt_v lib (VDuckInterval mo d mi))"
| "formatValue lib (VDuckDecimal v sc) =
     (if duckdb_linked lib then decimal_string v sc else fmt_v lib (VDuckDecimal v sc))"
| "formatValue lib (VBigInt i) = itoa i"
| "formatValue lib (VStringer s) = s"
| "formatValue lib (VOther n) = fmt_v lib (VOther n)"

lemma formatValue_normalized: "formatValue lib (normalizeDriverValue lib v) = formatValue lib v"
  by (cases v) (simp_all add: normalizeDriverValue_def)

end
