(* ===== verification/Array_Text.thy ===== *)
theory Array_Text
  imports Text_Format
begin

text \<open>
  Arrays in text form: what PostgreSQL's array input reads of the text that \<^verbatim>\<open>formatArrayValue\<close> of
  \<^verbatim>\<open>server/conn.go\<close> writes.
\<close>

section \<open>Array input\<close>

definition upper :: "string \<Rightarrow> string" where
  "upper s = map (\<lambda>c. if CHR ''a'' \<le> c \<and> c \<le> CHR ''z'' then char_of (of_char c - 32 :: nat) else c) s"

fun read_quoted :: "string \<Rightarrow> (string \<times> string) option" where
  "read_quoted [] = None"
| "read_quoted (c # s) =
     (if c = CHR 0x22 then Some ([], s)
      else if c = CHR 0x5C
      then (case s of [] \<Rightarrow> None | d # s' \<Rightarrow> map_option (\<lambda>(x, rest). (d # x, rest)) (read_quoted s'))
      else map_option (\<lambda>(x, rest). (c # x, rest)) (read_quoted s))"

text \<open>An element is a quoted string, or what stands before the next comma or brace; the latter is the
  null value when it spells NULL. Blanks around an element without quotes do not count.\<close>

definition blank :: "char \<Rightarrow> bool" where
  "blank c \<longleftrightarrow> c \<in> {CHR '' '', CHR 0x09, CHR 0x0A, CHR 0x0B, CHR 0x0C, CHR 0x0D}"

definition strip :: "string \<Rightarrow> string" where
  "strip s = rev (dropWhile blank (rev (dropWhile blank s)))"

definition read_element :: "string \<Rightarrow> (string option \<times> string) option" where
  "read_element s =
     (if s \<noteq> [] \<and> hd s = CHR 0x22 then map_option (\<lambda>(x, rest). (Some x, rest)) (read_quoted (tl s))
      else
        let bare = takeWhile (\<lambda>c. c \<noteq> CHR '','' \<and> c \<noteq> CHR ''}'') s
        in Some (if upper (strip bare) = ''NULL'' then None else Some (strip bare), drop (length bare) s))"

fun read_elements :: "nat \<Rightarrow> string \<Rightarrow> string option list option" where
  "read_elements 0 s = None"
| "read_elements (Suc n) s =
     (case read_element s of
        None \<Rightarrow> None
      | Some (e, rest) \<Rightarrow>
          (case rest of
             [] \<Rightarrow> None
           | c # rest' \<Rightarrow>
               if c = CHR '','' then map_option (\<lambda>es. e # es) (read_elements n rest')
               else if c = CHR ''}'' \<and> rest' = [] then Some [e] else None))"

text \<open>Every element but the last takes a comma, so the length of the text bounds their number.\<close>

definition array_in :: "string \<Rightarrow> string option list option" where
  "array_in s =
     (if s = ''{}'' then Some []
      else case s of [] \<Rightarrow> None | c # s' \<Rightarrow> if c = CHR ''{'' then read_elements (length s') s' else None)"

section \<open>Runes of a valid text\<close>

lemma runes_unfold:
  "s \<noteq> [] \<Longrightarrow> runes s = (case rune_width s of Some n \<Rightarrow> take n s # runes (drop n s)
     | None \<Rightarrow> [CHR 0xEF, CHR 0xBF, CHR 0xBD] # runes (tl s))"
  by (subst runes.simps) simp

lemma runes_Nil [simp]: "runes [] = []"
  by (subst runes.simps) simp

lemma rune_width_le: "rune_width s = Some n \<Longrightarrow> n \<le> length s"
  by (cases s) (auto split: if_splits list.splits)

lemma length_runes: "length s \<le> length (concat (runes s))"
proof (induction s rule: length_induct)
  case (1 s)
  show ?case
  proof (cases "s = []")
    case False
    show ?thesis
    proof (cases "rune_width s")
      case None
      have "length (tl s) < length s" using False by simp
      then have "length (tl s) \<le> length (concat (runes (tl s)))" using 1 by blast
      then show ?thesis using False None by (simp add: runes_unfold)
    next
      case (Some n)
      have "length (drop n s) < length s" using False rune_width_pos [OF Some] by simp
      then have "length (drop n s) \<le> length (concat (runes (drop n s)))" using 1 by blast
      then show ?thesis using False Some rune_width_le [OF Some] by (simp add: runes_unfold)
    qed
  qed simp
qed

definition valid_utf8 :: "string \<Rightarrow> bool" where
  "valid_utf8 s \<longleftrightarrow> concat (runes s) = s"

lemma wide_rune:
  assumes "rune_width s = Some n" "n \<noteq> 1"
  shows "\<forall>c \<in> set (take n s). CHR 0x7F < c"
proof -
  have cont: "cont_byte c \<Longrightarrow> CHR 0x7F < c" "second_byte b c \<Longrightarrow> CHR 0x7F < c" for b c
    by (auto simp: cont_byte_def second_byte_def less_eq_char_def less_char_def split: if_splits)
  show ?thesis
    using assms cont by (cases s) (auto simp: not_le split: if_splits list.splits)
qed

lemma narrow_rune: "rune_width s = Some 1 \<Longrightarrow> take 1 s = [hd s] \<and> hd s \<le> CHR 0x7F"
  by (cases s) (auto split: if_splits list.splits)

text \<open>A text that is valid has, at its front, a rune of one byte below 128 or one of several bytes above.\<close>

lemma valid_step:
  assumes "valid_utf8 s" "s \<noteq> []"
  obtains n where "rune_width s = Some n" "0 < n" "runes s = take n s # runes (drop n s)" "valid_utf8 (drop n s)"
proof (cases "rune_width s")
  case None
  have "length (concat (runes s)) = 3 + length (concat (runes (tl s)))"
    using assms(2) None by (simp add: runes_unfold)
  moreover have "length (concat (runes s)) = length s" using assms(1) by (simp add: valid_utf8_def)
  ultimately have False using length_runes [of "tl s"] assms(2) by simp
  then show ?thesis ..
next
  case (Some n)
  have "runes s = take n s # runes (drop n s)" using assms(2) Some by (simp add: runes_unfold)
  moreover have "valid_utf8 (drop n s)"
  proof -
    have "take n s @ concat (runes (drop n s)) = take n s @ drop n s"
      using assms(1) calculation by (simp add: valid_utf8_def)
    then show ?thesis by (simp only: valid_utf8_def same_append_eq)
  qed
  ultimately show ?thesis using that Some rune_width_pos [OF Some] by blast
qed

definition special :: "char \<Rightarrow> bool" where
  "special c \<longleftrightarrow> c \<in> {CHR '','', CHR ''{'', CHR ''}'', CHR 0x22, CHR 0x5C, CHR '' ''}"

lemma special_ascii: "special c \<Longrightarrow> c \<le> CHR 0x7F"
  by (auto simp: special_def less_eq_char_def)

text \<open>A loop over the runes of a valid text that treats every byte of a rune alike is a loop over its bytes.\<close>

lemma concat_runes:
  assumes "valid_utf8 s"
    and one: "\<And>c. c \<le> CHR 0x7F \<Longrightarrow> F [c] = f c"
    and more: "\<And>r. \<forall>c \<in> set r. CHR 0x7F < c \<Longrightarrow> F r = concat (map f r)"
  shows "concat (map F (runes s)) = concat (map f s)"
  using assms(1)
proof (induction s rule: length_induct)
  case (1 s)
  show ?case
  proof (cases "s = []")
    case False
    from valid_step [OF "1.prems" False] obtain n where n: "rune_width s = Some n" "0 < n"
        "runes s = take n s # runes (drop n s)" "valid_utf8 (drop n s)" .
    have "F (take n s) = concat (map f (take n s))"
    proof (cases "n = 1")
      case True
      then show ?thesis using narrow_rune [of s] n(1) one by simp
    next
      case False
      then show ?thesis using wide_rune [OF n(1)] more by blast
    qed
    moreover have "concat (map F (runes (drop n s))) = concat (map f (drop n s))"
      using "1.IH" False n(2,4) by simp
    ultimately show ?thesis by (simp add: n(3) flip: concat_append map_append)
  qed simp
qed

lemma marks_Nil: "concat (map (\<lambda>x. if P x then [()] else []) xs) = [] \<longleftrightarrow> (\<forall>x \<in> set xs. \<not> P x)"
  by (induction xs) auto

lemma needsArrayQuoting_bytes:
  assumes "valid_utf8 s"
  shows "needsArrayQuoting s \<longleftrightarrow> s = [] \<or> (\<exists>c \<in> set s. special c)"
proof -
  let ?sp = "\<lambda>r. r \<in> {'','', ''{'', ''}'', [CHR 0x22], [CHR 0x5C], '' ''}"
  have "concat (map (\<lambda>r. if ?sp r then [()] else []) (runes s)) = concat (map (\<lambda>c. if special c then [()] else []) s)"
  proof (rule concat_runes [OF assms])
    fix r assume high: "\<forall>c \<in> set r. CHR 0x7F < c"
    then have "\<forall>c \<in> set r. \<not> special c" using special_ascii by fastforce
    moreover have "\<not> ?sp r" using high by (auto simp: less_char_def)
    ultimately show "(if ?sp r then [()] else []) = concat (map (\<lambda>c. if special c then [()] else []) r)" by simp
  qed (simp add: special_def)
  then have "(\<exists>r \<in> set (runes s). ?sp r) \<longleftrightarrow> (\<exists>c \<in> set s. special c)"
    using marks_Nil [of ?sp "runes s"] marks_Nil [of special s] by metis
  then show ?thesis by (simp only: needsArrayQuoting_def)
qed

definition escape :: "string \<Rightarrow> string" where
  "escape s = concat (map (\<lambda>c. if c = CHR 0x22 \<or> c = CHR 0x5C then [CHR 0x5C, c] else [c]) s)"

lemma quote_element_bytes:
  assumes "valid_utf8 s"
  shows "quote_element s = (if needsArrayQuoting s then [CHR 0x22] @ escape s @ [CHR 0x22] else s)"
proof -
  have "concat (map (\<lambda>r. (if r = [CHR 0x22] \<or> r = [CHR 0x5C] then [CHR 0x5C] else []) @ r) (runes s)) = escape s"
    unfolding escape_def
  proof (rule concat_runes [OF assms])
    fix r assume high: "\<forall>c \<in> set r. CHR 0x7F < c"
    then have "\<forall>c \<in> set r. c \<noteq> CHR 0x22 \<and> c \<noteq> CHR 0x5C" by (auto simp: less_char_def)
    then have "concat (map (\<lambda>c. if c = CHR 0x22 \<or> c = CHR 0x5C then [CHR 0x5C, c] else [c]) r) = r"
      by (induction r) auto
    then show "(if r = [CHR 0x22] \<or> r = [CHR 0x5C] then [CHR 0x5C] else []) @ r =
        concat (map (\<lambda>c. if c = CHR 0x22 \<or> c = CHR 0x5C then [CHR 0x5C, c] else [c]) r)"
      using high by (auto simp: less_char_def)
  qed simp
  then show ?thesis by (simp add: quote_element_def)
qed

section \<open>Reading back\<close>

lemma read_quoted_escape: "read_quoted (escape s @ CHR 0x22 # rest) = Some (s, rest)"
  by (induction s) (auto simp: escape_def)

definition element_text :: "string option \<Rightarrow> string" where
  "element_text e = (case e of None \<Rightarrow> ''NULL'' | Some s \<Rightarrow> quote_element s)"

definition read_back :: "string option \<Rightarrow> string option" where
  "read_back e = (case e of None \<Rightarrow> None | Some s \<Rightarrow> if upper s = ''NULL'' then None else Some s)"

lemma upper_NULL: "upper s = ''NULL'' \<Longrightarrow> s \<noteq> [] \<and> (\<forall>c \<in> set s. \<not> special c)"
proof -
  assume u: "upper s = ''NULL''"
  have "\<not> special c" if c: "c \<in> set s" for c
  proof
    assume sp: "special c"
    then have "(if CHR ''a'' \<le> c \<and> c \<le> CHR ''z'' then char_of (of_char c - 32 :: nat) else c) = c"
      by (auto simp: special_def less_eq_char_def)
    then have "c \<in> set (upper s)" using c unfolding upper_def set_map by force
    then show False using sp by (auto simp: u special_def)
  qed
  moreover have "s \<noteq> []" using u by (auto simp: upper_def)
  ultimately show ?thesis by blast
qed

text \<open>A text that the reader takes as it is: valid, and without a blank at either end.\<close>

definition array_safe :: "string \<Rightarrow> bool" where
  "array_safe s \<longleftrightarrow> valid_utf8 s \<and> (s \<noteq> [] \<longrightarrow> \<not> blank (hd s) \<and> \<not> blank (last s))"

lemma strip_safe: "s \<noteq> [] \<Longrightarrow> \<not> blank (hd s) \<Longrightarrow> \<not> blank (last s) \<Longrightarrow> strip s = s"
proof -
  have keep: "dropWhile blank t = t" if "t \<noteq> []" "\<not> blank (hd t)" for t using that by (cases t) auto
  assume "s \<noteq> []" "\<not> blank (hd s)" "\<not> blank (last s)"
  then show ?thesis using keep [of s] keep [of "rev s"] by (simp add: strip_def hd_rev)
qed

lemma read_element_text:
  assumes "\<And>s. e = Some s \<Longrightarrow> array_safe s" and "c = CHR '','' \<or> c = CHR ''}''"
  shows "read_element (element_text e @ c # rest) = Some (read_back e, c # rest)"
proof (cases "\<exists>s. e = Some s \<and> needsArrayQuoting s")
  case True
  then obtain s where s: "e = Some s" "needsArrayQuoting s" by blast
  have "element_text e = CHR 0x22 # escape s @ [CHR 0x22]"
    using quote_element_bytes [of s] assms(1) s by (simp add: element_text_def array_safe_def)
  moreover have "read_back e = Some s"
    using needsArrayQuoting_bytes [of s] assms(1) s upper_NULL [of s] by (auto simp: read_back_def array_safe_def)
  ultimately show ?thesis by (simp add: read_element_def read_quoted_escape)
next
  case False
  define s where "s = element_text e"
  have plain: "\<forall>c \<in> set s. \<not> special c" "s \<noteq> []" "read_back e = (if upper s = ''NULL'' then None else Some s)"
    using False needsArrayQuoting_bytes assms(1)
    by (auto simp: array_safe_def s_def element_text_def read_back_def quote_element_bytes special_def upper_def split: option.splits)
  have bare: "takeWhile (\<lambda>c. c \<noteq> CHR '','' \<and> c \<noteq> CHR ''}'') (s @ c # rest) = s"
    using plain(1) assms(2) by (auto simp: special_def takeWhile_append2)
  have "hd (s @ c # rest) \<noteq> CHR 0x22" using plain(1,2) by (cases s) (auto simp: special_def)
  moreover have "strip s = s"
    using False assms(1) plain(2)
    by (intro strip_safe) (auto simp: s_def element_text_def array_safe_def quote_element_bytes blank_def split: option.splits)
  ultimately show ?thesis using plain(3) bare by (simp add: read_element_def Let_def s_def [symmetric])
qed

lemma read_elements_text:
  assumes "\<And>s. Some s \<in> set es \<Longrightarrow> array_safe s" and "es \<noteq> []" and "length es \<le> n"
  shows "read_elements n (join_sep '','' (map element_text es) @ ''}'') = Some (map read_back es)"
  using assms
proof (induction es arbitrary: n)
  case (Cons e es)
  then obtain m where n: "n = Suc m" by (cases n) auto
  show ?case
  proof (cases es)
    case Nil
    then show ?thesis using read_element_text [of e "CHR ''}''" "[]"] Cons.prems(1) by (simp add: n)
  next
    case (Cons e' es')
    have "read_elements m (join_sep '','' (map element_text es) @ ''}'') = Some (map read_back es)"
      using Cons.IH [of m] Cons.prems Cons n by auto
    then show ?thesis using read_element_text [of e "CHR '',''"] Cons.prems(1) Cons by (simp add: n)
  qed
qed simp

lemma element_text_not_Nil: "element_text e \<noteq> []"
  by (auto simp: element_text_def quote_element_def needsArrayQuoting_def split: option.splits)

lemma join_length: "es \<noteq> [] \<Longrightarrow> length es \<le> Suc (length (join_sep '','' (map f es)))"
  by (induction es rule: induct_list012) auto

text \<open>\<^bold>\<open>C35\<close>. What a client reads of an array in text form. For every list of values whose text is valid UTF-8
and has no blank at its ends,
PostgreSQL's array input reads the text of the list as the texts of its elements, with the null values in
their places, except that an element whose text spells NULL, in any case, comes back as a null value: the
code does not quote it.\<close>

theorem array_text_roundtrip:
  assumes "\<forall>v \<in> set xs. v \<noteq> VNil \<longrightarrow> array_safe (formatValue lib v)"
  shows "array_in (formatValue lib (VList xs)) =
    Some (map (\<lambda>v. if v = VNil \<or> upper (formatValue lib v) = ''NULL'' then None else Some (formatValue lib v)) xs)"
proof (cases "xs = []")
  case False
  let ?es = "map (\<lambda>v. if v = VNil then None else Some (formatValue lib v)) xs"
  have shown: "formatValue lib (VList xs) = CHR ''{'' # (join_sep '','' (map element_text ?es) @ ''}'')"
    by (simp add: array_text_def element_text_def comp_def)
  have "read_elements (length (join_sep '','' (map element_text ?es) @ ''}'')) (join_sep '','' (map element_text ?es) @ ''}'')
      = Some (map read_back ?es)"
    using assms False join_length [of ?es element_text] by (intro read_elements_text) auto
  moreover have "join_sep '','' (map element_text ?es) \<noteq> []"
    using False element_text_not_Nil by (cases ?es rule: list.exhaust; cases "tl ?es") auto
  ultimately have "array_in (formatValue lib (VList xs)) = Some (map read_back ?es)"
    by (simp only: shown array_in_def) simp
  then show ?thesis by (simp add: read_back_def comp_def)
qed (simp add: array_in_def array_text_def)

theorem array_text_roundtrip_witness:
  "array_in (formatValue undefined (VList [VString ''a,b'', VNil, VString ''null'', VInt32 (-7)])) =
     Some [Some ''a,b'', None, None, Some ''-7'']"
proof -
  have "array_safe ''a,b''" "array_safe ''null''" "array_safe ''-7''" "itoa (sint (-7 :: 32 word)) = ''-7''"
    "upper ''null'' = ''NULL''" "upper ''a,b'' \<noteq> ''NULL''" "upper ''-7'' \<noteq> ''NULL''"
    by code_simp+
  then show ?thesis
    using array_text_roundtrip [of "[VString ''a,b'', VNil, VString ''null'', VInt32 (-7)]" undefined] by simp
qed

end
