(* ===== verification/Binary_Types.thy ===== *)
theory Binary_Types
  imports Text_Format
begin

text \<open>
  PostgreSQL types and the binary form of values (\<^verbatim>\<open>server/types.go\<close>): the type a DuckDB type is shown
  as, and the encoders and decoders of result values and parameters.
\<close>

unbundle bit_operations_syntax

section \<open>Type identifiers\<close>

definition OidBool :: int where "OidBool = 16"
definition OidBytea :: int where "OidBytea = 17"
definition OidInt8 :: int where "OidInt8 = 20"
definition OidInt2 :: int where "OidInt2 = 21"
definition OidInt4 :: int where "OidInt4 = 23"
definition OidText :: int where "OidText = 25"
definition OidOid :: int where "OidOid = 26"
definition OidFloat4 :: int where "OidFloat4 = 700"
definition OidFloat8 :: int where "OidFloat8 = 701"
definition OidVarchar :: int where "OidVarchar = 1043"
definition OidDate :: int where "OidDate = 1082"
definition OidTime :: int where "OidTime = 1083"
definition OidTimestamp :: int where "OidTimestamp = 1114"
definition OidTimestamptz :: int where "OidTimestamptz = 1184"
definition OidInterval :: int where "OidInterval = 1186"
definition OidNumeric :: int where "OidNumeric = 1700"
definition OidUUID :: int where "OidUUID = 2950"
definition OidTimetz :: int where "OidTimetz = 1266"
definition OidJSON :: int where "OidJSON = 114"
definition OidJSONB :: int where "OidJSONB = 3802"
definition OidBoolArray :: int where "OidBoolArray = 1000"
definition OidInt2Array :: int where "OidInt2Array = 1005"
definition OidInt4Array :: int where "OidInt4Array = 1007"
definition OidTextArray :: int where "OidTextArray = 1009"
definition OidVarcharArray :: int where "OidVarcharArray = 1015"
definition OidInt8Array :: int where "OidInt8Array = 1016"
definition OidFloat4Array :: int where "OidFloat4Array = 1021"
definition OidFloat8Array :: int where "OidFloat8Array = 1022"
definition OidTimestampArray :: int where "OidTimestampArray = 1115"
definition OidDateArray :: int where "OidDateArray = 1182"
definition OidTimeArray :: int where "OidTimeArray = 1183"
definition OidTimestamptzArray :: int where "OidTimestamptzArray = 1185"
definition OidIntervalArray :: int where "OidIntervalArray = 1187"
definition OidNumericArray :: int where "OidNumericArray = 1231"
definition OidTimetzArray :: int where "OidTimetzArray = 1270"
definition OidUUIDArray :: int where "OidUUIDArray = 2951"

lemmas oid_defs =
  OidBool_def OidBytea_def OidInt8_def OidInt2_def OidInt4_def OidText_def OidOid_def OidFloat4_def OidFloat8_def
  OidVarchar_def OidDate_def OidTime_def OidTimestamp_def OidTimestamptz_def OidInterval_def OidNumeric_def
  OidUUID_def OidTimetz_def OidJSON_def OidJSONB_def OidBoolArray_def OidInt2Array_def OidInt4Array_def
  OidTextArray_def OidVarcharArray_def OidInt8Array_def OidFloat4Array_def OidFloat8Array_def OidTimestampArray_def
  OidDateArray_def OidTimeArray_def OidTimestamptzArray_def OidIntervalArray_def OidNumericArray_def
  OidTimetzArray_def OidUUIDArray_def

definition elementToArrayOID :: "(int \<times> int) list" where
  "elementToArrayOID =
     [(OidBool, OidBoolArray), (OidInt2, OidInt2Array), (OidInt4, OidInt4Array), (OidInt8, OidInt8Array),
      (OidFloat4, OidFloat4Array), (OidFloat8, OidFloat8Array), (OidText, OidTextArray), (OidVarchar, OidVarcharArray),
      (OidDate, OidDateArray), (OidTime, OidTimeArray), (OidTimetz, OidTimetzArray), (OidTimestamp, OidTimestampArray),
      (OidTimestamptz, OidTimestamptzArray), (OidInterval, OidIntervalArray), (OidNumeric, OidNumericArray),
      (OidUUID, OidUUIDArray)]"

definition arrayElementOIDs :: "(int \<times> int) list" where
  "arrayElementOIDs =
     [(OidBoolArray, OidBool), (OidInt2Array, OidInt2), (OidInt4Array, OidInt4), (OidInt8Array, OidInt8),
      (OidFloat4Array, OidFloat4), (OidFloat8Array, OidFloat8), (OidTextArray, OidText), (OidVarcharArray, OidVarchar),
      (OidDateArray, OidDate), (OidTimeArray, OidTime), (OidTimetzArray, OidTimetz), (OidTimestampArray, OidTimestamp),
      (OidTimestamptzArray, OidTimestamptz), (OidIntervalArray, OidInterval), (OidNumericArray, OidNumeric),
      (OidUUIDArray, OidUUID)]"

record TypeInfo =
  ti_OID :: int
  ti_Size :: int
  ti_Typmod :: "32 word"

section \<open>DuckDB types\<close>

text \<open>\<^verbatim>\<open>strings.ToUpper\<close>, as far as the comparisons below can see it: besides the ASCII letters, the
  dotless i and the long s have an ASCII capital.\<close>

fun to_upper :: "string \<Rightarrow> string" where
  "to_upper [] = []"
| "to_upper (c # s) =
     (if c = CHR 0xC4 \<and> s \<noteq> [] \<and> hd s = CHR 0xB1 then CHR ''I'' # to_upper (tl s)
      else if c = CHR 0xC5 \<and> s \<noteq> [] \<and> hd s = CHR 0xBF then CHR ''S'' # to_upper (tl s)
      else (if CHR ''a'' \<le> c \<and> c \<le> CHR ''z'' then char_of (of_char c - 32 :: nat) else c) # to_upper s)"

text \<open>\<^verbatim>\<open>fmt.Sscanf(s, "%d", &n)\<close> of a text without leading blanks, for a 64-bit integer: a sign, one or more
  digits; what follows is not read.\<close>

definition sscanf_d :: "string \<Rightarrow> int option" where
  "sscanf_d s =
     (let neg = (s \<noteq> [] \<and> hd s = CHR ''-'');
          body = (if s \<noteq> [] \<and> (hd s = CHR ''-'' \<or> hd s = CHR ''+'') then tl s else s);
          ds = takeWhile (\<lambda>c. CHR ''0'' \<le> c \<and> c \<le> CHR ''9'') body;
          n = foldl (\<lambda>acc c. acc * 10 + (int (of_char c) - 48)) 0 ds;
          v = (if neg then - n else n)
      in if ds = [] \<or> v < - (2 ^ 63) \<or> 2 ^ 63 \<le> v then None else Some v)"

definition index_byte :: "string \<Rightarrow> char \<Rightarrow> nat option" where
  "index_byte s c = (let k = length (takeWhile (\<lambda>d. d \<noteq> c) s) in if k < length s then Some k else None)"

definition parseNumericTypmod :: "string \<Rightarrow> 32 word" where
  "parseNumericTypmod typeName =
     (case (index_byte typeName (CHR ''(''), index_byte typeName (CHR '')'')) of
        (Some lparen, Some rparen) \<Rightarrow>
          if rparen \<le> lparen then - 1
          else
            let inner = take (rparen - (lparen + 1)) (drop (lparen + 1) typeName)
            in (case index_byte inner (CHR '','') of
                  None \<Rightarrow> - 1
                | Some comma \<Rightarrow>
                    (case (sscanf_d (TrimSpace (take comma inner)), sscanf_d (TrimSpace (drop (comma + 1) inner))) of
                       (Some p, Some s) \<Rightarrow>
                         if p \<le> 0 \<or> s < 0 \<or> p > 38 then - 1
                         else ucast (push_bit 16 (of_int p :: 64 word) OR of_int s) + 4
                     | _ \<Rightarrow> - 1))
      | _ \<Rightarrow> - 1)"

definition type_info :: "int \<Rightarrow> int \<Rightarrow> TypeInfo" where
  "type_info oid sz = \<lparr>ti_OID = oid, ti_Size = sz, ti_Typmod = - 1\<rparr>"

definition scalarType :: "string \<Rightarrow> TypeInfo" where
  "scalarType typeName =
     (let u = to_upper typeName in
      if u = ''BOOLEAN'' \<or> u = ''BOOL'' then type_info OidBool 1
      else if u = ''TINYINT'' \<or> u = ''INT1'' then type_info OidInt2 2
      else if u = ''SMALLINT'' \<or> u = ''INT2'' then type_info OidInt2 2
      else if u = ''INTEGER'' \<or> u = ''INT4'' \<or> u = ''INT'' then type_info OidInt4 4
      else if u = ''BIGINT'' \<or> u = ''INT8'' then type_info OidInt8 8
      else if u = ''HUGEINT'' \<or> u = ''INT128'' then \<lparr>ti_OID = OidNumeric, ti_Size = - 1, ti_Typmod = 2490372\<rparr>
      else if u = ''UTINYINT'' \<or> u = ''USMALLINT'' then type_info OidInt4 4
      else if u = ''UINTEGER'' then type_info OidOid 4
      else if u = ''UBIGINT'' then \<lparr>ti_OID = OidNumeric, ti_Size = - 1, ti_Typmod = 1310724\<rparr>
      else if u = ''REAL'' \<or> u = ''FLOAT4'' \<or> u = ''FLOAT'' then type_info OidFloat4 4
      else if u = ''DOUBLE'' \<or> u = ''FLOAT8'' then type_info OidFloat8 8
      else if prefix ''DECIMAL'' u \<or> prefix ''NUMERIC'' u
      then \<lparr>ti_OID = OidNumeric, ti_Size = - 1, ti_Typmod = parseNumericTypmod typeName\<rparr>
      else if u = ''VARCHAR'' \<or> prefix ''VARCHAR('' u then type_info OidVarchar (- 1)
      else if u = ''TEXT'' \<or> u = ''STRING'' then type_info OidText (- 1)
      else if u = ''BLOB'' \<or> u = ''BYTEA'' then type_info OidBytea (- 1)
      else if u = ''DATE'' then type_info OidDate 4
      else if u = ''TIME'' then type_info OidTime 8
      else if u = ''TIME WITH TIME ZONE'' \<or> u = ''TIMETZ'' then type_info OidTimetz 12
      else if u = ''TIMESTAMP'' then type_info OidTimestamp 8
      else if u = ''TIMESTAMP WITH TIME ZONE'' \<or> u = ''TIMESTAMPTZ'' then type_info OidTimestamptz 8
      else if u = ''INTERVAL'' then type_info OidInterval 16
      else if u = ''UUID'' then type_info OidUUID 16
      else if u = ''JSON'' then type_info OidJSON (- 1)
      else type_info OidText (- 1))"

text \<open>A suffix of brackets makes a list type. The capitals of a name that ends in brackets end in them
  too, since both are ASCII and no rune changes into them.\<close>

function mapDuckDBType :: "string \<Rightarrow> TypeInfo" where
  "mapDuckDBType typeName =
     (if suffix ''[]'' (to_upper typeName)
      then let elemInfo = mapDuckDBType (take (length typeName - 2) typeName)
           in (case map_of elementToArrayOID (ti_OID elemInfo) of
                 Some arrayOID \<Rightarrow> \<lparr>ti_OID = arrayOID, ti_Size = - 1, ti_Typmod = ti_Typmod elemInfo\<rparr>
               | None \<Rightarrow> type_info OidText (- 1))
      else scalarType typeName)"
  by auto
termination
proof (relation "measure length")
  fix s assume "suffix ''[]'' (to_upper s)"
  then have "s \<noteq> []" by (auto simp: suffix_def)
  then show "(take (length s - 2) s, s) \<in> measure length" by simp
qed simp

declare mapDuckDBType.simps [simp del]

section \<open>Encoders\<close>

text \<open>The bytes of a value, or \<^verbatim>\<open>nil\<close>, which is sent as NULL; a number of more than 32767 groups of digits
  makes the encoder panic.\<close>

datatype encoded = Enc bytes | EncNil | EncPanic

text \<open>The type switch binds the value as an interface in a case with several types, so \<^verbatim>\<open>val != 0\<close> compares
  it with an \<^verbatim>\<open>int\<close>: an integer of another type is never equal to it.\<close>

fun encodeBool :: "govalue \<Rightarrow> encoded" where
  "encodeBool (VBool b) = Enc [if b then CHR 0x01 else CHR 0x00]"
| "encodeBool (VInt w) = Enc [if w \<noteq> 0 then CHR 0x01 else CHR 0x00]"
| "encodeBool (VInt8 w) = Enc [CHR 0x01]"
| "encodeBool (VInt16 w) = Enc [CHR 0x01]"
| "encodeBool (VInt32 w) = Enc [CHR 0x01]"
| "encodeBool (VInt64 w) = Enc [CHR 0x01]"
| "encodeBool _ = Enc [CHR 0x00]"

fun encodeInt2 :: "golib \<Rightarrow> govalue \<Rightarrow> encoded" where
  "encodeInt2 lib (VInt w) = Enc (put_be 2 (scast w :: 16 word))"
| "encodeInt2 lib (VInt8 w) = Enc (put_be 2 (scast w :: 16 word))"
| "encodeInt2 lib (VInt16 w) = Enc (put_be 2 w)"
| "encodeInt2 lib (VInt32 w) = Enc (put_be 2 (scast w :: 16 word))"
| "encodeInt2 lib (VInt64 w) = Enc (put_be 2 (scast w :: 16 word))"
| "encodeInt2 lib (VUint8 w) = Enc (put_be 2 (ucast w :: 16 word))"
| "encodeInt2 lib (VUint16 w) = Enc (put_be 2 w)"
| "encodeInt2 lib (VFloat32 f) = Enc (put_be 2 (of_int (f32_to_int lib 16 f) :: 16 word))"
| "encodeInt2 lib (VFloat64 f) = Enc (put_be 2 (of_int (f64_to_int lib 16 f) :: 16 word))"
| "encodeInt2 lib _ = EncNil"

fun encodeInt4 :: "golib \<Rightarrow> govalue \<Rightarrow> encoded" where
  "encodeInt4 lib (VInt w) = Enc (put_be 4 (scast w :: 32 word))"
| "encodeInt4 lib (VInt8 w) = Enc (put_be 4 (scast w :: 32 word))"
| "encodeInt4 lib (VInt16 w) = Enc (put_be 4 (scast w :: 32 word))"
| "encodeInt4 lib (VInt32 w) = Enc (put_be 4 w)"
| "encodeInt4 lib (VInt64 w) = Enc (put_be 4 (scast w :: 32 word))"
| "encodeInt4 lib (VUint8 w) = Enc (put_be 4 (ucast w :: 32 word))"
| "encodeInt4 lib (VUint16 w) = Enc (put_be 4 (ucast w :: 32 word))"
| "encodeInt4 lib (VUint32 w) = Enc (put_be 4 w)"
| "encodeInt4 lib (VFloat32 f) = Enc (put_be 4 (of_int (f32_to_int lib 32 f) :: 32 word))"
| "encodeInt4 lib (VFloat64 f) = Enc (put_be 4 (of_int (f64_to_int lib 32 f) :: 32 word))"
| "encodeInt4 lib _ = EncNil"

fun encodeInt8 :: "golib \<Rightarrow> govalue \<Rightarrow> encoded" where
  "encodeInt8 lib (VInt w) = Enc (put_be 8 w)"
| "encodeInt8 lib (VInt8 w) = Enc (put_be 8 (scast w :: 64 word))"
| "encodeInt8 lib (VInt16 w) = Enc (put_be 8 (scast w :: 64 word))"
| "encodeInt8 lib (VInt32 w) = Enc (put_be 8 (scast w :: 64 word))"
| "encodeInt8 lib (VInt64 w) = Enc (put_be 8 w)"
| "encodeInt8 lib (VUint8 w) = Enc (put_be 8 (ucast w :: 64 word))"
| "encodeInt8 lib (VUint16 w) = Enc (put_be 8 (ucast w :: 64 word))"
| "encodeInt8 lib (VUint32 w) = Enc (put_be 8 (ucast w :: 64 word))"
| "encodeInt8 lib (VUint64 w) = Enc (put_be 8 w)"
| "encodeInt8 lib (VFloat32 f) = Enc (put_be 8 (of_int (f32_to_int lib 64 f) :: 64 word))"
| "encodeInt8 lib (VFloat64 f) = Enc (put_be 8 (of_int (f64_to_int lib 64 f) :: 64 word))"
| "encodeInt8 lib _ = EncNil"

fun encodeFloat4 :: "golib \<Rightarrow> govalue \<Rightarrow> encoded" where
  "encodeFloat4 lib (VFloat32 f) = Enc (put_be 4 f)"
| "encodeFloat4 lib (VFloat64 f) = Enc (put_be 4 (f64_to_f32 lib f))"
| "encodeFloat4 lib (VInt w) = Enc (put_be 4 (int_to_f32 lib (sint w)))"
| "encodeFloat4 lib (VInt32 w) = Enc (put_be 4 (int_to_f32 lib (sint w)))"
| "encodeFloat4 lib (VInt64 w) = Enc (put_be 4 (int_to_f32 lib (sint w)))"
| "encodeFloat4 lib _ = EncNil"

fun encodeFloat8 :: "golib \<Rightarrow> govalue \<Rightarrow> encoded" where
  "encodeFloat8 lib (VFloat64 f) = Enc (put_be 8 f)"
| "encodeFloat8 lib (VFloat32 f) = Enc (put_be 8 (f32_to_f64 lib f))"
| "encodeFloat8 lib (VInt w) = Enc (put_be 8 (int_to_f64 lib (sint w)))"
| "encodeFloat8 lib (VInt32 w) = Enc (put_be 8 (int_to_f64 lib (sint w)))"
| "encodeFloat8 lib (VInt64 w) = Enc (put_be 8 (int_to_f64 lib (sint w)))"
| "encodeFloat8 lib _ = EncNil"

definition pgEpochDays :: int where
  "pgEpochDays = 10957"

definition pgEpochMicros :: int where
  "pgEpochMicros = pgEpochDays * 24 * 60 * 60 * 1000000"

text \<open>\<^verbatim>\<open>Unix()\<close> is the floor of the seconds; the division by the length of a day rounds towards zero.\<close>

definition date_bytes :: "int \<Rightarrow> bytes" where
  "date_bytes t = put_be 4 (of_int ((t div Second) sdiv 86400 - pgEpochDays) :: 32 word)"

fun encodeDate :: "golib \<Rightarrow> govalue \<Rightarrow> encoded" where
  "encodeDate lib (VTime t off) = Enc (date_bytes t)"
| "encodeDate lib (VString s) = (case time_parse lib ''2006-01-02'' s of None \<Rightarrow> EncNil | Some t \<Rightarrow> Enc (date_bytes t))"
| "encodeDate lib _ = EncNil"

definition timestamp_bytes :: "int \<Rightarrow> bytes" where
  "timestamp_bytes t = put_be 8 (of_int (t div 1000) - of_int pgEpochMicros :: 64 word)"

fun encodeTimestamp :: "golib \<Rightarrow> govalue \<Rightarrow> encoded" where
  "encodeTimestamp lib (VTime t off) = Enc (timestamp_bytes t)"
| "encodeTimestamp lib (VString s) =
     (case time_parse lib ''2006-01-02 15:04:05'' s of
        Some t \<Rightarrow> Enc (timestamp_bytes t)
      | None \<Rightarrow> (case time_parse lib ''2006-01-02T15:04:05Z'' s of Some t \<Rightarrow> Enc (timestamp_bytes t) | None \<Rightarrow> EncNil))"
| "encodeTimestamp lib _ = EncNil"

fun encodeBytea :: "govalue \<Rightarrow> encoded" where
  "encodeBytea (VBytes b) = Enc b"
| "encodeBytea (VString s) = Enc s"
| "encodeBytea _ = EncNil"

definition hex_digit :: "char \<Rightarrow> nat option" where
  "hex_digit c =
     (if CHR ''0'' \<le> c \<and> c \<le> CHR ''9'' then Some (of_char c - 48)
      else if CHR ''a'' \<le> c \<and> c \<le> CHR ''f'' then Some (of_char c - 87)
      else if CHR ''A'' \<le> c \<and> c \<le> CHR ''F'' then Some (of_char c - 55)
      else None)"

fun hex_decode :: "string \<Rightarrow> bytes option" where
  "hex_decode [] = Some []"
| "hex_decode [c] = None"
| "hex_decode (c # d # s) =
     (case (hex_digit c, hex_digit d) of
        (Some h, Some l) \<Rightarrow> map_option (\<lambda>bs. char_of (h * 16 + l) # bs) (hex_decode s)
      | _ \<Rightarrow> None)"

definition hex_char :: "nat \<Rightarrow> char" where
  "hex_char n = (if n < 10 then char_of (48 + n) else char_of (87 + n))"

definition hex_encode :: "bytes \<Rightarrow> string" where
  "hex_encode bs = concat (map (\<lambda>c. [hex_char (of_char c div 16), hex_char (of_char c mod 16)]) bs)"

definition uuid_of_text :: "string \<Rightarrow> encoded" where
  "uuid_of_text val =
     (let s = filter (\<lambda>c. c \<noteq> CHR ''-'') val
      in if length s \<noteq> 32 then EncNil else (case hex_decode s of None \<Rightarrow> EncNil | Some d \<Rightarrow> Enc d))"

text \<open>Numbers and driver values have a method \<^verbatim>\<open>String\<close> too; a time's never has the form of a UUID.\<close>

fun encodeUUID :: "golib \<Rightarrow> govalue \<Rightarrow> encoded" where
  "encodeUUID lib (VBytes b) = (if length b = 16 then Enc b else EncNil)"
| "encodeUUID lib (VString s) = uuid_of_text s"
| "encodeUUID lib (VStringer s) = uuid_of_text s"
| "encodeUUID lib (VBigInt i) = uuid_of_text (itoa i)"
| "encodeUUID lib (VDecimal v sc) = uuid_of_text (decimal_string v sc)"
| "encodeUUID lib (VDuckDecimal v sc) = uuid_of_text (fmt_v lib (VDuckDecimal v sc))"
| "encodeUUID lib _ = EncNil"

definition clock_bytes :: "int \<Rightarrow> int \<Rightarrow> bytes" where
  "clock_bytes t off =
     (let local = (t div Second + off) mod 86400
      in put_be 8 (of_int (local div 3600 * 3600000000 + local mod 3600 div 60 * 60000000 +
                           local mod 60 * 1000000 + t mod Second div 1000) :: 64 word))"

fun encodeTime :: "golib \<Rightarrow> govalue \<Rightarrow> encoded" where
  "encodeTime lib (VTime t off) = Enc (clock_bytes t off)"
| "encodeTime lib (VString s) =
     (case time_parse lib ''15:04:05'' s of
        Some t \<Rightarrow> Enc (clock_bytes t 0)
      | None \<Rightarrow> (case time_parse lib ''15:04:05.000000'' s of Some t \<Rightarrow> Enc (clock_bytes t 0) | None \<Rightarrow> EncNil))"
| "encodeTime lib _ = EncNil"

definition encodeInterval :: "golib \<Rightarrow> govalue \<Rightarrow> encoded" where
  "encodeInterval lib v =
     (case normalizeDriverValue lib v of
        VInterval months days micros \<Rightarrow> Enc (put_be 8 micros @ put_be 4 days @ put_be 4 months)
      | _ \<Rightarrow> EncNil)"

definition encodeText :: "golib \<Rightarrow> govalue \<Rightarrow> encoded" where
  "encodeText lib v = Enc (formatValue lib v)"

definition encodeJSON :: "golib \<Rightarrow> govalue \<Rightarrow> encoded" where
  "encodeJSON lib v = (case json_marshal lib v of None \<Rightarrow> encodeText lib v | Some b \<Rightarrow> Enc b)"

subsection \<open>Decimal numbers\<close>

text \<open>\<^verbatim>\<open>(*big.Int).SetString(s, 10)\<close>.\<close>

definition digits_value :: "string \<Rightarrow> nat" where
  "digits_value ds = foldl (\<lambda>acc c. acc * 10 + (of_char c - 48)) 0 ds"

definition big_set_string :: "string \<Rightarrow> int option" where
  "big_set_string s =
     (let neg = (s \<noteq> [] \<and> hd s = CHR ''-'');
          body = (if s \<noteq> [] \<and> (hd s = CHR ''-'' \<or> hd s = CHR ''+'') then tl s else s)
      in if body = [] \<or> (\<exists>c \<in> set body. \<not> (CHR ''0'' \<le> c \<and> c \<le> CHR ''9'')) then None
         else Some (if neg then - int (digits_value body) else int (digits_value body)))"

text \<open>The number and scale of a decimal text; the scale is an \<^verbatim>\<open>int16\<close>.\<close>

definition parse_decimal :: "string \<Rightarrow> (int \<times> 16 word) option" where
  "parse_decimal x =
     (let neg = (x \<noteq> [] \<and> hd x = CHR ''-'');
          s = (if neg then tl x else x);
          (digits, dscale) =
            (case index_byte s (CHR ''.'') of
               Some dotIdx \<Rightarrow> (take dotIdx s @ drop (dotIdx + 1) s, of_int (int (length s) - int dotIdx - 1))
             | None \<Rightarrow> (s, 0 :: 16 word))
      in map_option (\<lambda>v. (if neg then - v else v, dscale)) (big_set_string digits))"

text \<open>The groups of four digits, the most significant first.\<close>

fun groups :: "nat \<Rightarrow> nat list" where
  "groups n = (if n = 0 then [] else groups (n div 10000) @ [n mod 10000])"

declare groups.simps [simp del]

definition numeric_header :: "16 word \<Rightarrow> 16 word \<Rightarrow> 16 word \<Rightarrow> 16 word \<Rightarrow> bytes" where
  "numeric_header nd weight sign dscale = put_be 2 nd @ put_be 2 weight @ put_be 2 sign @ put_be 2 dscale"

definition numeric_bytes :: "int \<Rightarrow> 16 word \<Rightarrow> encoded" where
  "numeric_bytes val0 dscale =
     (let sign = (if val0 < 0 then 0x4000 else 0);
          val = nat \<bar>val0\<bar>
      in if val = 0 then Enc (numeric_header 0 0 0 dscale)
         else
           let fracGroups = (sint dscale + 3) sdiv 4;
               padding = fracGroups * 4 - sint dscale;
               padded = (if padding > 0 then val * 10 ^ nat padding else val);
               allDigits0 = groups padded;
               intGroups0 = int (length allDigits0) - fracGroups;
               allDigits = (if intGroups0 < 0 then replicate (nat (- intGroups0)) 0 @ allDigits0 else allDigits0);
               intGroups = (if intGroups0 < 0 then 0 else intGroups0);
               weight0 = of_int (intGroups - 1) :: 16 word;
               trimmed = rev (dropWhile (\<lambda>d. d = 0) (rev allDigits));
               digits = dropWhile (\<lambda>d. d = 0) trimmed;
               weight = weight0 - of_nat (length trimmed - length digits)
           in if length digits \<ge> 2 ^ 15 then EncPanic
              else Enc (numeric_header (of_nat (length digits)) weight sign dscale @
                        concat (map (\<lambda>d. put_be 2 (of_nat d :: 16 word)) digits)))"

definition encodeNumeric :: "golib \<Rightarrow> govalue \<Rightarrow> encoded" where
  "encodeNumeric lib v =
     (case normalizeDriverValue lib v of
        VDecimal value scale \<Rightarrow> numeric_bytes value (of_int scale)
      | VBigInt i \<Rightarrow> numeric_bytes i 0
      | VString s \<Rightarrow> (case parse_decimal s of None \<Rightarrow> encodeText lib v | Some (i, dscale) \<Rightarrow> numeric_bytes i dscale)
      | _ \<Rightarrow> encodeText lib v)"

subsection \<open>All types\<close>

definition encodeScalar :: "golib \<Rightarrow> govalue \<Rightarrow> int \<Rightarrow> encoded" where
  "encodeScalar lib v oid =
     (if oid = OidBool then encodeBool v
      else if oid = OidInt2 then encodeInt2 lib v
      else if oid = OidInt4 \<or> oid = OidOid then encodeInt4 lib v
      else if oid = OidInt8 then encodeInt8 lib v
      else if oid = OidFloat4 then encodeFloat4 lib v
      else if oid = OidFloat8 then encodeFloat8 lib v
      else if oid = OidNumeric then encodeNumeric lib v
      else if oid = OidDate then encodeDate lib v
      else if oid = OidTimestamp \<or> oid = OidTimestamptz then encodeTimestamp lib v
      else if oid = OidTime then encodeTime lib v
      else if oid = OidInterval then encodeInterval lib v
      else if oid = OidUUID then encodeUUID lib v
      else if oid = OidBytea then encodeBytea v
      else if oid = OidJSON \<or> oid = OidJSONB then encodeJSON lib v
      else encodeText lib v)"

text \<open>The elements of an array, written one after the other; a panic in one is a panic of the whole.\<close>

fun array_elements :: "encoded list \<Rightarrow> encoded" where
  "array_elements [] = Enc []"
| "array_elements (e # es) =
     (case (e, array_elements es) of
        (EncPanic, _) \<Rightarrow> EncPanic
      | (_, EncPanic) \<Rightarrow> EncPanic
      | (EncNil, Enc rest) \<Rightarrow> Enc (put_be 4 (- 1 :: 32 word) @ rest)
      | (Enc data, Enc rest) \<Rightarrow> Enc (put_be 4 (of_nat (length data) :: 32 word) @ data @ rest)
      | (_, EncNil) \<Rightarrow> EncNil)"

definition array_header :: "nat \<Rightarrow> bool \<Rightarrow> int \<Rightarrow> bytes" where
  "array_header n hasNull elementOID =
     put_be 4 (1 :: 32 word) @ put_be 4 (if hasNull then 1 else 0 :: 32 word) @ put_be 4 (of_int elementOID :: 32 word) @
     put_be 4 (of_nat n :: 32 word) @ put_be 4 (1 :: 32 word)"

text \<open>\<^verbatim>\<open>encodeArray\<close> calls \<^verbatim>\<open>encodeBinary\<close> for its elements, whose type is never an array.\<close>

fun encodeArray :: "golib \<Rightarrow> govalue \<Rightarrow> int \<Rightarrow> encoded" where
  "encodeArray lib (VList xs) elementOID =
     (case array_elements (map (\<lambda>v. if v = VNil then EncNil else encodeScalar lib v elementOID) xs) of
        Enc body \<Rightarrow> Enc (array_header (length xs) (VNil \<in> set xs) elementOID @ body)
      | r \<Rightarrow> r)"
| "encodeArray lib _ elementOID = EncNil"

definition encodeBinary :: "golib \<Rightarrow> govalue \<Rightarrow> int \<Rightarrow> encoded" where
  "encodeBinary lib v oid =
     (if v = VNil then EncNil
      else case map_of arrayElementOIDs oid of
             Some elemOID \<Rightarrow> encodeArray lib v elemOID
           | None \<Rightarrow> encodeScalar lib v oid)"

end
