(* ===== verification/Binary_Decode.thy ===== *)
theory Binary_Decode
  imports Binary_Types
begin

text \<open>
  The decoders of binary parameters (\<^verbatim>\<open>server/types.go\<close>), and how they fit the encoders.
\<close>

section \<open>Decoders\<close>

text \<open>An error names the type, the bytes that came and the bytes needed.\<close>

type_synonym 'a decoded = "string \<times> nat \<times> nat + 'a"

definition decodeBool :: "bytes \<Rightarrow> bool decoded" where
  "decodeBool data = (if length data < 1 then Inl (''bool'', length data, 1) else Inr (hd data \<noteq> CHR 0x00))"

definition decodeInt2 :: "bytes \<Rightarrow> 16 word decoded" where
  "decodeInt2 data = (case get_word 2 data of None \<Rightarrow> Inl (''int2'', length data, 2) | Some w \<Rightarrow> Inr w)"

definition decodeInt4 :: "bytes \<Rightarrow> 32 word decoded" where
  "decodeInt4 data = (case get_word 4 data of None \<Rightarrow> Inl (''int4'', length data, 4) | Some w \<Rightarrow> Inr w)"

definition decodeInt8 :: "bytes \<Rightarrow> 64 word decoded" where
  "decodeInt8 data = (case get_word 8 data of None \<Rightarrow> Inl (''int8'', length data, 8) | Some w \<Rightarrow> Inr w)"

definition decodeFloat4 :: "bytes \<Rightarrow> 32 word decoded" where
  "decodeFloat4 data = (case get_word 4 data of None \<Rightarrow> Inl (''float4'', length data, 4) | Some w \<Rightarrow> Inr w)"

definition decodeFloat8 :: "bytes \<Rightarrow> 64 word decoded" where
  "decodeFloat8 data = (case get_word 8 data of None \<Rightarrow> Inl (''float8'', length data, 8) | Some w \<Rightarrow> Inr w)"

text \<open>The nanoseconds since 1970 of midnight of the day; \<^verbatim>\<open>AddDate\<close> of days in UTC adds whole days.\<close>

definition decodeDate :: "bytes \<Rightarrow> int decoded" where
  "decodeDate data =
     (case get_word 4 data of
        None \<Rightarrow> Inl (''date'', length data, 4)
      | Some w \<Rightarrow> Inr ((pgEpochDays + sint (w :: 32 word)) * 86400 * Second))"

definition pgEpochUnix :: int where
  "pgEpochUnix = 946684800"

definition decodeTimestamp :: "bytes \<Rightarrow> int decoded" where
  "decodeTimestamp data =
     (case get_word 8 data of
        None \<Rightarrow> Inl (''timestamp'', length data, 8)
      | Some w \<Rightarrow>
          let micros = sint (w :: 64 word);
              secs0 = micros sdiv 1000000;
              rem0 = micros smod 1000000;
              secs = (if rem0 < 0 then secs0 - 1 else secs0);
              remainMicros = (if rem0 < 0 then rem0 + 1000000 else rem0)
          in Inr ((pgEpochUnix + secs) * Second + remainMicros * 1000))"

definition decodeTime :: "bytes \<Rightarrow> string decoded" where
  "decodeTime data =
     (case get_word 8 data of
        None \<Rightarrow> Inl (''time'', length data, 8)
      | Some w \<Rightarrow>
          let micros0 = sint (w :: 64 word);
              hours = micros0 sdiv 3600000000;
              micros1 = micros0 smod 3600000000;
              minutes = micros1 sdiv 60000000;
              micros2 = micros1 smod 60000000;
              seconds = micros2 sdiv 1000000;
              micros = micros2 smod 1000000
          in Inr (if micros > 0
                  then fmt_0d 2 hours @ '':'' @ fmt_0d 2 minutes @ '':'' @ fmt_0d 2 seconds @ ''.'' @ fmt_0d 6 micros
                  else fmt_0d 2 hours @ '':'' @ fmt_0d 2 minutes @ '':'' @ fmt_0d 2 seconds))"

definition plain_part :: "int \<Rightarrow> string \<Rightarrow> string list" where
  "plain_part n name = (if n = 0 then [] else [itoa n @ '' '' @ name])"

definition decodeInterval :: "bytes \<Rightarrow> string decoded" where
  "decodeInterval data =
     (if length data < 16 then Inl (''interval'', length data, 16)
      else
        let micros = get_be (take 8 data) :: 64 word;
            days = get_be (take 4 (drop 8 data)) :: 32 word;
            months = get_be (take 4 (drop 12 data)) :: 32 word;
            parts0 = (if sint months \<noteq> 0
                      then plain_part (sint months sdiv 12) ''year'' @ plain_part (sint months smod 12) ''month'' else []);
            parts1 = parts0 @ plain_part (sint days) ''day'';
            parts2 = (if sint micros \<noteq> 0 \<or> parts1 = [] then parts1 @ [time_part micros] else parts1)
        in Inr (join_sep '' '' parts2))"

definition decodeUUID :: "bytes \<Rightarrow> string decoded" where
  "decodeUUID data =
     (if length data \<noteq> 16 then Inl (''uuid'', length data, 16)
      else
        let s = hex_encode data
        in Inr (take 8 s @ ''-'' @ take 4 (drop 8 s) @ ''-'' @ take 4 (drop 12 s) @ ''-'' @ take 4 (drop 16 s) @ ''-'' @
                take 12 (drop 20 s)))"

text \<open>The text of a number with \<open>dscale\<close> implied decimal places.\<close>

definition fixed_point :: "int \<Rightarrow> nat \<Rightarrow> string" where
  "fixed_point val dscale =
     (if dscale = 0 then itoa val
      else
        let str0 = itoa val;
            isNeg = (str0 \<noteq> [] \<and> hd str0 = CHR ''-'');
            str1 = (if isNeg then tl str0 else str0);
            str = replicate (dscale + 1 - length str1) (CHR ''0'') @ str1;
            k = length str - dscale
        in (if isNeg then ''-'' else []) @ take k str @ ''.'' @ drop k str)"

definition group_at :: "bytes \<Rightarrow> nat \<Rightarrow> int" where
  "group_at data i = sint (get_be (take 2 (drop (8 + 2 * i) data)) :: 16 word)"

definition decodeNumeric :: "bytes \<Rightarrow> string decoded" where
  "decodeNumeric data =
     (if length data < 8 then Inl (''numeric'', length data, 8)
      else
        let ndigits = unat (get_be (take 2 data) :: 16 word);
            weight = sint (get_be (take 2 (drop 2 data)) :: 16 word);
            sign = get_be (take 2 (drop 4 data)) :: 16 word;
            dscale = unat (get_be (take 2 (drop 6 data)) :: 16 word)
        in if length data < 8 + 2 * ndigits then Inl (''numeric digits'', length data, 8 + 2 * ndigits)
           else if sign = 0xC000 then Inr ''NaN''
           else
             let val0 = foldl (\<lambda>v d. v * 10000 + d) 0 (map (group_at data) [0..<ndigits]);
                 exp = 4 * (weight - int ndigits + 1);
                 shift = int dscale + exp;
                 val1 = (if shift > 0 then val0 * 10 ^ nat shift
                         else if shift < 0 then val0 div 10 ^ nat (- shift) else val0);
                 val = (if sign = 0x4000 then - val1 else val1)
             in Inr (fixed_point val dscale))"

definition decodeBinary :: "bytes option \<Rightarrow> int \<Rightarrow> govalue decoded" where
  "decodeBinary data0 oid =
     (case data0 of
        None \<Rightarrow> Inr VNil
      | Some data \<Rightarrow>
          if oid = OidBool then map_sum id VBool (decodeBool data)
          else if oid = OidInt2 then map_sum id VInt16 (decodeInt2 data)
          else if oid = OidInt4 then map_sum id VInt32 (decodeInt4 data)
          else if oid = OidInt8 then map_sum id VInt64 (decodeInt8 data)
          else if oid = OidFloat4 then map_sum id VFloat32 (decodeFloat4 data)
          else if oid = OidFloat8 then map_sum id VFloat64 (decodeFloat8 data)
          else if oid = OidNumeric then map_sum id VString (decodeNumeric data)
          else if oid = OidDate then map_sum id (\<lambda>t. VTime t 0) (decodeDate data)
          else if oid = OidTimestamp \<or> oid = OidTimestamptz then map_sum id (\<lambda>t. VTime t 0) (decodeTimestamp data)
          else if oid = OidTime then map_sum id VString (decodeTime data)
          else if oid = OidInterval then map_sum id VString (decodeInterval data)
          else if oid = OidUUID then map_sum id VString (decodeUUID data)
          else if oid = OidBytea then Inr (VBytes data)
          else Inr (VString data))"

end
