(* ===== verification/Numeric_Roundtrip.thy ===== *)
theory Numeric_Roundtrip
  imports Binary_Decode
begin

text \<open>
  Numbers in binary form: the groups of four decimal digits that \<^verbatim>\<open>encodeNumeric\<close> writes are the number
  that \<^verbatim>\<open>decodeNumeric\<close> reads.
\<close>

section \<open>Groups of digits\<close>

definition gval :: "nat list \<Rightarrow> nat" where
  "gval ds = foldl (\<lambda>v d. v * 10000 + d) 0 ds"

lemma gval_Nil [simp]: "gval [] = 0"
  by (simp add: gval_def)

lemma gval_snoc [simp]: "gval (ds @ [d]) = gval ds * 10000 + d"
  by (simp add: gval_def)

lemma gval_groups: "gval (groups n) = n"
proof (induction n rule: groups.induct)
  case (1 n)
  then show ?case by (subst groups.simps) auto
qed

lemma groups_small: "d \<in> set (groups n) \<Longrightarrow> d < 10000"
proof (induction n rule: groups.induct)
  case (1 n)
  then show ?case by (subst (asm) groups.simps) (auto split: if_splits)
qed

lemma length_groups: "n < 10000 ^ k \<Longrightarrow> length (groups n) \<le> k"
proof (induction k arbitrary: n)
  case 0
  then show ?case by (simp add: groups.simps)
next
  case (Suc k)
  then have "n div 10000 < 10000 ^ k" by (simp add: less_mult_imp_div_less mult.commute)
  from Suc.IH [OF this] show ?case by (subst groups.simps) simp
qed

lemma gval_zeros: "gval (ds @ replicate z 0) = gval ds * 10000 ^ z"
proof (induction z)
  case (Suc z)
  have "gval (ds @ replicate (Suc z) 0) = gval ((ds @ replicate z 0) @ [0])"
    by (simp add: replicate_append_same)
  then show ?case using Suc by (simp only: gval_snoc) simp
qed simp

lemma gval_leading: "gval (replicate k 0 @ ds) = gval ds"
proof (induction ds rule: rev_induct)
  case Nil
  show ?case using gval_zeros [of "[]" k] by simp
next
  case (snoc d ds)
  then show ?case using gval_snoc [of "replicate k 0 @ ds" d] by simp
qed

lemma dropWhile_zeros: "\<exists>k. ds = replicate k (0 :: nat) @ dropWhile (\<lambda>d. d = 0) ds"
proof (induction ds)
  case (Cons d ds)
  show ?case
  proof (cases "d = 0")
    case True
    from Cons obtain k where "ds = replicate k 0 @ dropWhile (\<lambda>d. d = 0) ds" ..
    then have "d # ds = replicate (Suc k) 0 @ dropWhile (\<lambda>d. d = 0) (d # ds)" using True by simp
    then show ?thesis ..
  qed (rule exI [of _ 0], simp)
qed simp

text \<open>Stripping the zero groups at both ends.\<close>

lemma strip_zeros:
  fixes ds :: "nat list"
  defines "trimmed \<equiv> rev (dropWhile (\<lambda>d. d = 0) (rev ds))"
  shows "\<exists>l z. ds = replicate l 0 @ dropWhile (\<lambda>d. d = 0) trimmed @ replicate z 0 \<and>
    length trimmed - length (dropWhile (\<lambda>d. d = 0) trimmed) = l"
proof -
  obtain z where "rev ds = replicate z 0 @ dropWhile (\<lambda>d. d = 0) (rev ds)" using dropWhile_zeros by blast
  then have z: "ds = trimmed @ replicate z 0"
    unfolding trimmed_def by (metis rev_append rev_replicate rev_rev_ident)
  obtain l where l: "trimmed = replicate l 0 @ dropWhile (\<lambda>d. d = 0) trimmed" using dropWhile_zeros by blast
  have "length trimmed = l + length (dropWhile (\<lambda>d. d = 0) trimmed)" using arg_cong [OF l, of length] by simp
  then show ?thesis using z l by (metis add_diff_cancel_right' append_assoc)
qed

section \<open>Reading the groups\<close>

lemma put_be_2_at:
  "i < length ds \<Longrightarrow> take 2 (drop (2 * i) (concat (map (\<lambda>d. put_be 2 (f d)) ds))) = put_be 2 (f (ds ! i))"
proof (induction ds arbitrary: i)
  case (Cons d ds)
  then show ?case by (cases i) (auto simp: numeral_2_eq_2)
qed simp

lemma length_concat_put: "length (concat (map (\<lambda>d. put_be 2 (f d)) ds)) = 2 * length ds"
  by (induction ds) auto

lemma length_header [simp]: "length (numeric_header a b c d) = 8"
  by (simp add: numeric_header_def)

lemma header_fields:
  "get_be (take 2 (numeric_header a b c d @ rest)) = a"
  "get_be (take 2 (drop 2 (numeric_header a b c d @ rest))) = b"
  "get_be (take 2 (drop 4 (numeric_header a b c d @ rest))) = c"
  "get_be (take 2 (drop 6 (numeric_header a b c d @ rest))) = d"
  by (simp_all add: numeric_header_def)

lemma sint_small16: "d < 2 ^ 15 \<Longrightarrow> sint (of_nat d :: 16 word) = int d"
  by (simp add: sint_uint unsigned_of_nat take_bit_nat_eq_self signed_take_bit_int_eq_self)

lemma group_at_digits:
  assumes "i < length ds" "\<forall>d \<in> set ds. d < 10000"
  shows "group_at (numeric_header a b c e @ concat (map (\<lambda>d. put_be 2 (of_nat d :: 16 word)) ds)) i = int (ds ! i)"
proof -
  have "take 2 (drop (8 + 2 * i) (numeric_header a b c e @ concat (map (\<lambda>d. put_be 2 (of_nat d :: 16 word)) ds)))
      = put_be 2 (of_nat (ds ! i) :: 16 word)"
    using put_be_2_at [OF assms(1), of "\<lambda>d. of_nat d :: 16 word"] by simp
  moreover have "ds ! i < 2 ^ 15" using assms nth_mem by fastforce
  ultimately show ?thesis by (simp add: group_at_def sint_small16)
qed

lemma foldl_int_gval: "foldl (\<lambda>v d. v * 10000 + d) 0 (map int ds) = int (gval ds)"
  by (induction ds rule: rev_induct) auto

lemma digits10_hd: "hd (digits10 n) \<noteq> CHR ''-''"
proof (induction n rule: digits10.induct)
  case (1 n)
  have "digit_char n \<noteq> CHR ''-''" if "n < 10" for n
  proof
    assume "digit_char n = CHR ''-''"
    then have "of_char (digit_char n) = (of_char (CHR ''-'') :: nat)" by simp
    then show False using that by (simp add: digit_char_def)
  qed
  then show ?case using 1 by (subst digits10.simps) (simp add: hd_append)
qed

lemma fixed_point_decimal: "fixed_point v n = decimal_string v (int n)"
proof (cases "n = 0")
  case False
  define ds where "ds = digits10 (nat \<bar>v\<bar>)"
  define S where "S = replicate (n + 1 - length ds) (CHR ''0'') @ ds"
  have pad: "(if int n + 1 - int (length ds) > 0 then replicate (nat (int n + 1 - int (length ds))) (CHR ''0'') @ ds else ds) = S"
    by (simp add: S_def nat_diff_distrib nat_add_distrib)
  have dec: "decimal_string v (int n) = (if v < 0 then ''-'' else []) @ take (length S - n) S @ ''.'' @ drop (length S - n) S"
    using False unfolding decimal_string_def Let_def ds_def [symmetric] pad by simp
  have shown: "itoa v = (if v < 0 then CHR ''-'' # ds else ds)" by (simp add: itoa_def ds_def)
  have "hd ds \<noteq> CHR ''-''" "ds \<noteq> []" by (simp_all add: ds_def digits10_hd)
  then show ?thesis
    unfolding fixed_point_def Let_def shown using False by (cases "v < 0") (simp_all add: dec S_def)
qed (simp add: fixed_point_def decimal_string_def)

section \<open>Round trip\<close>

lemma sint_of_int16: "- (2 ^ 15) \<le> i \<Longrightarrow> i < 2 ^ 15 \<Longrightarrow> sint (of_int i :: 16 word) = i"
  by (simp add: signed_of_int signed_take_bit_int_eq_self)

lemma unat_of_nat16: "n < 2 ^ 16 \<Longrightarrow> unat (of_nat n :: 16 word) = n"
  by (simp add: unat_of_nat)

lemma uint_sint16: "0 \<le> sint (w :: 16 word) \<Longrightarrow> uint w = sint w"
proof -
  assume nonneg: "0 \<le> sint w"
  have "sint w = (uint w + 32768) mod 65536 - 32768"
    by (simp add: sint_uint signed_take_bit_eq_take_bit_shift take_bit_eq_mod)
  moreover have "0 \<le> uint w" "uint w < 65536" using uint_lt2p [of w] by simp_all
  moreover have "(u + 32768) mod 65536 - 32768 = u" if "0 \<le> u" "u < 65536" "32768 \<le> (u + 32768) mod 65536" for u :: int
  proof (cases "u < 32768")
    case False
    have "(u - 32768 + 65536) mod 65536 = u - 32768"
      using that False by (simp only: mod_add_self2) (simp add: mod_pos_pos_trivial)
    then have "(u + 32768) mod 65536 = u - 32768" by (simp add: add.commute)
    then show ?thesis using that by linarith
  qed (use that in simp)
  ultimately show ?thesis using nonneg by simp
qed

lemma unat_sint16: "0 \<le> sint (w :: 16 word) \<Longrightarrow> unat w = nat (sint w)"
  by (simp flip: uint_sint16)

lemma decode_groups:
  assumes nd: "length ds < 2 ^ 15" and small: "\<forall>d \<in> set ds. d < 10000"
    and W: "- (2 ^ 15) \<le> W" "W < 2 ^ 15" and sg: "sg \<in> {0, 0x4000 :: 16 word}"
    and shift: "shift = int (unat dscale) + 4 * (W - int (length ds) + 1)"
    and val: "val = (if shift > 0 then int (gval ds) * 10 ^ nat shift
                     else if shift < 0 then int (gval ds) div 10 ^ nat (- shift) else int (gval ds))"
  shows "decodeNumeric (numeric_header (of_nat (length ds)) (of_int W) sg dscale @
             concat (map (\<lambda>d. put_be 2 (of_nat d :: 16 word)) ds)) =
    Inr (decimal_string (if sg = 0 then val else - val) (int (unat dscale)))"
proof -
  let ?data = "numeric_header (of_nat (length ds)) (of_int W) sg dscale @ concat (map (\<lambda>d. put_be 2 (of_nat d :: 16 word)) ds)"
  have n: "unat (of_nat (length ds) :: 16 word) = length ds" using nd by (intro unat_of_nat16) simp
  have "map (group_at ?data) [0..<length ds] = map int ds"
    using group_at_digits [OF _ small] by (intro nth_equalityI) auto
  then have "foldl (\<lambda>v d. v * 10000 + d) 0 (map (group_at ?data) [0..<length ds]) = int (gval ds)"
    by (simp only: foldl_int_gval)
  note number = this
  have enough: "\<not> length ?data < 8" "\<not> length ?data < 8 + 2 * length ds" by (simp_all add: length_concat_put)
  have "decodeNumeric ?data = Inr (fixed_point (if sg = 0x4000 then - val else val) (unat dscale))"
    using enough sg
    unfolding decodeNumeric_def Let_def header_fields n number sint_of_int16 [OF W] shift [symmetric] val [symmetric]
    by (elim insertE emptyE) simp_all
  then show ?thesis using sg by (auto simp: fixed_point_decimal)
qed

text \<open>The groups of a number with its fraction padded to whole groups, and the shift that undoes it.\<close>

lemma shift_back:
  fixes g a p z :: nat
  assumes "g * 10000 ^ z = a * 10 ^ p"
  shows "(if 4 * int z - int p > 0 then int g * 10 ^ nat (4 * int z - int p)
          else if 4 * int z - int p < 0 then int g div 10 ^ nat (- (4 * int z - int p)) else int g) = int a"
proof -
  have "(10000 :: nat) ^ z = 10 ^ (4 * z)" by (simp add: power_mult)
  then have eq: "g * 10 ^ (4 * z) = a * 10 ^ p" using assms by simp
  consider "p < 4 * z" | "4 * z < p" | "4 * z = p" by linarith
  then show ?thesis
  proof cases
    case 1
    then have "g * 10 ^ (4 * z - p) * 10 ^ p = a * 10 ^ p" using eq by (simp add: mult.assoc flip: power_add)
    then have "g * 10 ^ (4 * z - p) = a" by simp
    moreover have "nat (4 * int z - int p) = 4 * z - p" using 1 by linarith
    ultimately show ?thesis using 1 by auto
  next
    case 2
    then have "g * 10 ^ (4 * z) = a * 10 ^ (p - 4 * z) * 10 ^ (4 * z)" using eq by (simp add: mult.assoc flip: power_add)
    then have "g = a * 10 ^ (p - 4 * z)" by simp
    moreover have "nat (- (4 * int z - int p)) = p - 4 * z" using 2 by linarith
    ultimately show ?thesis using 2 by simp
  next
    case 3
    then show ?thesis using eq by auto
  qed
qed

lemma numeric_nonzero:
  fixes dscale :: "16 word"
  assumes scale: "0 \<le> sint dscale" and size: "nat \<bar>v\<bar> < 10000 ^ k" and k: "k \<le> 20000" and v: "v \<noteq> 0"
  shows "\<exists>bs. numeric_bytes v dscale = Enc bs \<and> decodeNumeric bs = Inr (decimal_string v (sint dscale))"
proof -
  define s where "s = nat (sint dscale)"
  have s: "sint dscale = int s" "s < 2 ^ 15" using scale sint_lt [of dscale] by (simp_all add: s_def)
  have us: "unat dscale = s" using s by (simp add: s_def unat_sint16 scale)
  define F where "F = (s + 3) div 4"
  define p where "p = 4 * F - s"
  define a where "a = nat \<bar>v\<bar>"
  define G where "G = groups (a * 10 ^ p)"
  define D where "D = replicate (F - length G) 0 @ G"
  define trimmed where "trimmed = rev (dropWhile (\<lambda>d. d = 0) (rev D))"
  define ds where "ds = dropWhile (\<lambda>d. d = 0) trimmed"
  obtain l z where D: "D = replicate l 0 @ ds @ replicate z 0" and l: "length trimmed - length ds = l"
    using strip_zeros [of D] unfolding trimmed_def [symmetric] ds_def [symmetric] by blast
  define W where "W = int (length D) - int F - 1 - int l"
  have F: "F \<le> 8192" "s \<le> 4 * F" "p \<le> 3" using s(2) unfolding F_def p_def by simp_all
  have "length G \<le> Suc k"
  proof -
    have "(10 :: nat) ^ p \<le> 10 ^ 3" using F(3) by (rule power_increasing) simp
    then have "a * 10 ^ p \<le> a * 1000" by simp
    moreover have "a < 10000 ^ k" using size unfolding a_def .
    ultimately have "a * 10 ^ p < 10000 * 10000 ^ k" by linarith
    then have "a * 10 ^ p < 10000 ^ Suc k" by (simp only: power_Suc)
    then show ?thesis unfolding G_def by (rule length_groups)
  qed
  then have lD: "length D \<le> 20001" "length D = max F (length G)" using k F unfolding D_def by auto
  have gD: "gval D = a * 10 ^ p" unfolding D_def G_def by (simp only: gval_leading gval_groups)
  then have gds: "gval ds * 10000 ^ z = a * 10 ^ p"
    unfolding D by (metis gval_leading gval_zeros)
  have lds: "length D = l + length ds + z" using D by simp
  have small: "\<forall>d \<in> set ds. d < 10000"
  proof
    fix d assume "d \<in> set ds"
    then have "d \<in> set D" using D by simp
    then show "d < 10000" unfolding D_def G_def by (auto dest: groups_small)
  qed
  have enc: "numeric_bytes v dscale = Enc (numeric_header (of_nat (length ds)) (of_int W) (if v < 0 then 0x4000 else 0) dscale @
      concat (map (\<lambda>d. put_be 2 (of_nat d :: 16 word)) ds))"
  proof -
    have f: "(int s + 3) sdiv 4 = int F" by (simp add: F_def signed_divide_int_def zdiv_int)
    have pad: "int F * 4 - int s = int p" using F(2) by (simp add: p_def)
    have padded: "(if int p > 0 then a * 10 ^ nat (int p) else a) = a * 10 ^ p" by simp
    have all: "(if int (length G) - int F < 0 then replicate (nat (- (int (length G) - int F))) 0 @ G else G) = D"
      by (auto simp: D_def nat_diff_distrib)
    have ig: "(if int (length G) - int F < 0 then 0 else int (length G) - int F) = int (length D) - int F"
      by (auto simp: D_def)
    have w: "of_int (int (length D) - int F - 1) - of_nat l = (of_int W :: 16 word)" by (simp add: W_def)
    have "length ds < 2 ^ 15" "a \<noteq> 0" using lds lD(1) v by (simp_all add: a_def)
    then show ?thesis
      unfolding numeric_bytes_def Let_def s(1) f pad a_def [symmetric] padded G_def [symmetric] all ig
        trimmed_def [symmetric] ds_def [symmetric] l w by simp
  qed
  have range: "- (2 ^ 15) \<le> W" "W < 2 ^ 15" "length ds < 2 ^ 15" using lds lD(1) F(1) unfolding W_def by simp_all
  have shift: "4 * int z - int p = int (unat dscale) + 4 * (W - int (length ds) + 1)"
    using lds F(2) unfolding W_def p_def us by simp
  have "decodeNumeric (numeric_header (of_nat (length ds)) (of_int W) (if v < 0 then 0x4000 else 0) dscale @
      concat (map (\<lambda>d. put_be 2 (of_nat d :: 16 word)) ds)) = Inr (decimal_string v (sint dscale))"
    using decode_groups [OF range(3) small range(1,2) _ shift shift_back [OF gds, symmetric], of "if v < 0 then 0x4000 else 0"]
    unfolding s(1) us by (simp add: a_def split: if_splits)
  then show ?thesis using enc by blast
qed

lemma numeric_roundtrip:
  fixes dscale :: "16 word"
  assumes scale: "0 \<le> sint dscale" and size: "nat \<bar>v\<bar> < 10000 ^ k" and k: "k \<le> 20000"
  shows "\<exists>bs. numeric_bytes v dscale = Enc bs \<and> decodeNumeric bs = Inr (decimal_string v (sint dscale))"
proof (cases "v = 0")
  case True
  have us: "uint dscale = sint dscale" using scale by (rule uint_sint16)
  have "decodeNumeric (numeric_header 0 0 0 dscale) = Inr (decimal_string 0 (int (unat dscale)))"
    using decode_groups [of "[]" 0 0 "int (unat dscale) + 4 * (0 - int (length ([] :: nat list)) + 1)" dscale 0] by simp
  then show ?thesis using True by (simp add: numeric_bytes_def us)
qed (rule numeric_nonzero [OF scale size k])

end
