(* ===== verification/Binary_Roundtrip.thy ===== *)
theory Binary_Roundtrip
  imports Numeric_Roundtrip
begin

text \<open>
  Values in binary form: what a client reads back from the bytes of \<^verbatim>\<open>encodeBinary\<close>, and the sizes that
  \<^verbatim>\<open>mapDuckDBType\<close> promises for them.
\<close>

section \<open>Reading back what was written\<close>

definition reread :: "golib \<Rightarrow> govalue \<Rightarrow> int \<Rightarrow> govalue option" where
  "reread lib v oid =
     (case encodeBinary lib v oid of
        Enc bs \<Rightarrow> (case decodeBinary (Some bs) oid of Inr w \<Rightarrow> Some w | Inl e \<Rightarrow> None)
      | _ \<Rightarrow> None)"

lemmas binary_defs = reread_def encodeBinary_def decodeBinary_def encodeScalar_def arrayElementOIDs_def oid_defs

lemma reread_word:
  "reread lib (VInt16 i2) OidInt2 = Some (VInt16 i2)"
  "reread lib (VInt32 i4) OidInt4 = Some (VInt32 i4)"
  "reread lib (VInt64 i8) OidInt8 = Some (VInt64 i8)"
  "reread lib (VFloat32 f4) OidFloat4 = Some (VFloat32 f4)"
  "reread lib (VFloat64 f8) OidFloat8 = Some (VFloat64 f8)"
  "reread lib (VBool b) OidBool = Some (VBool b)"
  by (simp_all add: binary_defs decodeInt2_def decodeInt4_def decodeInt8_def decodeFloat4_def decodeFloat8_def decodeBool_def)

lemma reread_text:
  "reread lib (VBytes data) OidBytea = Some (VBytes data)"
  "reread lib (VString s) OidText = Some (VString s)"
  by (simp_all add: binary_defs encodeText_def normalizeDriverValue_def)

text \<open>A time keeps its microseconds.\<close>

lemma decode_micros:
  assumes "- (2 ^ 63) \<le> m" "m < 2 ^ 63"
  shows "decodeTimestamp (put_be 8 (of_int m :: 64 word)) = Inr ((m + pgEpochMicros) * 1000)"
proof -
  have sint: "sint (of_int m :: 64 word) = m" using assms by (simp add: signed_of_int signed_take_bit_int_eq_self)
  have "m sdiv 1000000 * 1000000 + m smod 1000000 = m" by (rule sdiv_mult_smod_eq)
  then show ?thesis
    by (simp add: decodeTimestamp_def sint Let_def Second_def pgEpochUnix_def pgEpochMicros_def pgEpochDays_def)
qed

lemma reread_timestamp:
  assumes "- (2 ^ 63) \<le> t div 1000 - pgEpochMicros" "t div 1000 - pgEpochMicros < 2 ^ 63" "oid \<in> {OidTimestamp, OidTimestamptz}"
  shows "reread lib (VTime t off) oid = Some (VTime (t div 1000 * 1000) 0)"
proof -
  have "timestamp_bytes t = put_be 8 (of_int (t div 1000 - pgEpochMicros) :: 64 word)"
    by (simp add: timestamp_bytes_def)
  then have "decodeTimestamp (timestamp_bytes t) = Inr (t div 1000 * 1000)"
    using decode_micros [OF assms(1,2)] by simp
  then show ?thesis using assms(3) by (auto simp: binary_defs)
qed

text \<open>A date keeps its day, except that the part of a day before 1970 counts for the day after.\<close>

definition day_of :: "int \<Rightarrow> int" where
  "day_of t = t div (86400 * Second)"

lemma date_day: "(t div Second) sdiv 86400 = day_of t + of_bool (t < 0 \<and> \<not> 86400 dvd t div Second)"
proof -
  have "t div Second div 86400 = day_of t"
    by (simp add: day_of_def Second_def zdiv_zmult2_eq [symmetric] mult.commute)
  moreover have "sgn (t div Second) \<noteq> 1 \<and> \<not> 86400 dvd t div Second \<longleftrightarrow> t < 0 \<and> \<not> 86400 dvd t div Second"
    by (auto simp: sgn_if Second_def)
  ultimately show ?thesis by (simp add: signed_divide_int_eq_divide_int)
qed

lemma reread_date:
  assumes "\<bar>day_of t\<bar> < 2 ^ 30"
  shows "reread lib (VTime t off) OidDate =
    Some (VTime ((day_of t + of_bool (t < 0 \<and> \<not> 86400 dvd t div Second)) * 86400 * Second) 0)"
proof -
  define d where "d = day_of t + of_bool (t < 0 \<and> \<not> 86400 dvd t div Second)"
  have "- (2 ^ 31) \<le> d - pgEpochDays" "d - pgEpochDays < 2 ^ 31"
    using assms by (auto simp: d_def pgEpochDays_def)
  then have "sint (of_int (d - pgEpochDays) :: 32 word) = d - pgEpochDays"
    by (simp add: signed_of_int signed_take_bit_int_eq_self del: of_int_diff)
  then have "decodeDate (date_bytes t) = Inr (d * 86400 * Second)"
    by (simp add: decodeDate_def date_bytes_def date_day d_def [symmetric] del: of_int_diff)
  then show ?thesis unfolding d_def by (simp add: binary_defs)
qed

text \<open>The text of a UUID is that of its 16 bytes.\<close>

lemma hex_digit_char: "n < 16 \<Longrightarrow> hex_digit (hex_char n) = Some n"
proof -
  assume "n < 16"
  then have "n \<in> set [0..<16]" by simp
  moreover have "\<forall>n \<in> set [0..<16]. hex_digit (hex_char n) = Some n" by code_simp
  ultimately show ?thesis by blast
qed

lemma hex_char_dash: "n < 16 \<Longrightarrow> hex_char n \<noteq> CHR ''-''"
proof -
  assume "n < 16"
  then have "n \<in> set [0..<16]" by simp
  moreover have "\<forall>n \<in> set [0..<16]. hex_char n \<noteq> CHR ''-''" by code_simp
  ultimately show ?thesis by blast
qed

lemma of_char_bounds: "of_char c div 16 < (16 :: nat)" "of_char c mod 16 < (16 :: nat)"
proof -
  have "of_char c < (256 :: nat)" using of_char_of [of "of_char c :: nat"] by (metis char_of_char mod_less_divisor zero_less_numeral)
  then show "of_char c div 16 < (16 :: nat)" by linarith
qed simp

lemma hex_decode_encode: "hex_decode (hex_encode bs) = Some bs"
  by (induction bs) (simp_all add: hex_encode_def hex_digit_char of_char_bounds)

lemma length_hex_encode: "length (hex_encode bs) = 2 * length bs"
  by (induction bs) (simp_all add: hex_encode_def)

lemma hex_encode_dash: "CHR ''-'' \<notin> set (hex_encode bs)"
  using hex_char_dash [OF of_char_bounds(1)] hex_char_dash [OF of_char_bounds(2)]
  by (induction bs) (auto simp: hex_encode_def dest: sym)

lemma dashes_removed:
  assumes "length s = 32" "CHR ''-'' \<notin> set s"
  shows "filter (\<lambda>c. c \<noteq> CHR ''-'') (take 8 s @ ''-'' @ take 4 (drop 8 s) @ ''-'' @ take 4 (drop 12 s) @ ''-'' @
           take 4 (drop 16 s) @ ''-'' @ take 12 (drop 20 s)) = s"
proof -
  have keep: "filter (\<lambda>c. c \<noteq> CHR ''-'') (take m (drop n s)) = take m (drop n s)" for m n
    using assms(2) by (auto simp: filter_id_conv dest: in_set_takeD in_set_dropD)
  have "s = take 8 s @ take 4 (drop 8 s) @ take 4 (drop 12 s) @ take 4 (drop 16 s) @ take 12 (drop 20 s)"
    using assms(1) append_take_drop_id [of 8 s] append_take_drop_id [of 4 "drop 8 s"]
      append_take_drop_id [of 4 "drop 12 s"] append_take_drop_id [of 4 "drop 16 s"] by simp
  then show ?thesis using keep [of 8 0] keep by simp
qed

lemma reread_uuid:
  assumes "length b = 16"
  shows "\<exists>u. reread lib (VBytes b) OidUUID = Some (VString u) \<and> encodeBinary lib (VString u) OidUUID = Enc b"
proof -
  obtain u where u: "decodeUUID b = Inr u" "filter (\<lambda>c. c \<noteq> CHR ''-'') u = hex_encode b"
    using dashes_removed [of "hex_encode b"] assms
    by (simp add: decodeUUID_def length_hex_encode hex_encode_dash Let_def)
  then have "uuid_of_text u = Enc b"
    using assms by (simp add: uuid_of_text_def length_hex_encode hex_decode_encode)
  then show ?thesis using u(1) assms by (simp add: binary_defs)
qed

text \<open>A decimal comes back as its text.\<close>

lemma reread_numeric:
  assumes "0 \<le> scale" "scale < 2 ^ 15" "nat \<bar>v\<bar> < 10000 ^ k" "k \<le> 20000"
  shows "reread lib (VDecimal v scale) OidNumeric = Some (VString (decimal_string v scale))"
proof -
  have sint: "sint (of_int scale :: 16 word) = scale" using assms(1,2) by (simp add: sint_of_int16)
  obtain bs where "numeric_bytes v (of_int scale) = Enc bs" "decodeNumeric bs = Inr (decimal_string v scale)"
    using numeric_roundtrip [of "of_int scale" v k] assms by (auto simp: sint)
  then show ?thesis by (simp add: binary_defs encodeNumeric_def normalizeDriverValue_def)
qed

section \<open>Sizes\<close>

text \<open>The types of a fixed size; \<^verbatim>\<open>timetz\<close> has size 12, but no binary form.\<close>

definition type_width :: "int \<Rightarrow> nat option" where
  "type_width oid = map_of [(OidBool, 1), (OidInt2, 2), (OidInt4, 4), (OidOid, 4), (OidInt8, 8), (OidFloat4, 4), (OidFloat8, 8),
     (OidDate, 4), (OidTime, 8), (OidTimestamp, 8), (OidTimestamptz, 8), (OidInterval, 16), (OidUUID, 16)] oid"

lemma width_int:
  "encodeBool v = Enc bs \<Longrightarrow> length bs = 1"
  "encodeInt2 lib v = Enc bs \<Longrightarrow> length bs = 2"
  "encodeInt4 lib v = Enc bs \<Longrightarrow> length bs = 4"
  "encodeInt8 lib v = Enc bs \<Longrightarrow> length bs = 8"
  by (cases v; auto)+

lemma width_float:
  "encodeFloat4 lib v = Enc bs \<Longrightarrow> length bs = 4"
  "encodeFloat8 lib v = Enc bs \<Longrightarrow> length bs = 8"
  by (cases v; auto)+

lemma width_time:
  "encodeDate lib v = Enc bs \<Longrightarrow> length bs = 4"
  "encodeTime lib v = Enc bs \<Longrightarrow> length bs = 8"
  "encodeTimestamp lib v = Enc bs \<Longrightarrow> length bs = 8"
  by (cases v; auto simp: date_bytes_def clock_bytes_def timestamp_bytes_def Let_def split: option.splits)+

lemma width_interval: "encodeInterval lib v = Enc bs \<Longrightarrow> length bs = 16"
  by (auto simp: encodeInterval_def split: govalue.splits)

lemma hex_decode_length: "hex_decode s = Some d \<Longrightarrow> length s = 2 * length d"
  by (induction s arbitrary: d rule: hex_decode.induct) (auto split: option.splits)

lemma uuid_of_text_length: "uuid_of_text s = Enc bs \<Longrightarrow> length bs = 16"
  by (auto simp: uuid_of_text_def Let_def split: if_splits option.splits dest: hex_decode_length)

lemma width_uuid: "encodeUUID lib v = Enc bs \<Longrightarrow> length bs = 16"
  by (cases v; auto simp: uuid_of_text_length split: if_splits)

lemma encodeScalar_width:
  assumes "encodeScalar lib v oid = Enc bs" "type_width oid = Some n"
  shows "length bs = n"
  using assms unfolding type_width_def encodeScalar_def
  by (auto simp: oid_defs width_int width_float width_time width_interval width_uuid split: if_splits)

lemma array_elements_length:
  assumes "array_elements es = Enc bs" "\<forall>d. Enc d \<in> set es \<longrightarrow> length d = n"
  shows "length bs = 4 * length es + n * length (filter (\<lambda>e. e \<noteq> EncNil) es)"
  using assms
proof (induction es arbitrary: bs)
  case (Cons e es)
  then show ?case by (auto split: encoded.splits)
qed simp

lemma encodeArray_width:
  assumes "encodeArray lib (VList xs) e = Enc bs" "type_width e = Some n"
  shows "length bs = 20 + 4 * length xs + n * length (filter (\<lambda>v. v \<noteq> VNil \<and> encodeScalar lib v e \<noteq> EncNil) xs)"
proof -
  define es where "es = map (\<lambda>v. if v = VNil then EncNil else encodeScalar lib v e) xs"
  obtain body where body: "array_elements es = Enc body" "bs = array_header (length xs) (VNil \<in> set xs) e @ body"
    using assms(1) by (auto simp: es_def split: encoded.splits)
  have "length d = n" if "Enc d \<in> set es" for d
    using that assms(2) by (auto simp: es_def split: if_splits intro: encodeScalar_width)
  then have "length body = 4 * length es + n * length (filter (\<lambda>e. e \<noteq> EncNil) es)"
    using array_elements_length [OF body(1)] by blast
  moreover have "length (filter (\<lambda>e. e \<noteq> EncNil) es) = length (filter (\<lambda>v. v \<noteq> VNil \<and> encodeScalar lib v e \<noteq> EncNil) xs)"
    unfolding es_def by (induction xs) auto
  ultimately show ?thesis by (simp add: body(2) es_def array_header_def)
qed

lemma scalarType_size:
  assumes "ti_OID (scalarType name) \<noteq> OidTimetz"
  shows "ti_Size (scalarType name) = (case type_width (ti_OID (scalarType name)) of None \<Rightarrow> - 1 | Some n \<Rightarrow> int n)"
  using assms by (auto simp: scalarType_def type_width_def type_info_def Let_def oid_defs)

lemma mapDuckDBType_size:
  assumes "ti_OID (mapDuckDBType name) \<noteq> OidTimetz"
  shows "ti_Size (mapDuckDBType name) = (case type_width (ti_OID (mapDuckDBType name)) of None \<Rightarrow> - 1 | Some n \<Rightarrow> int n)"
proof (cases "suffix ''[]'' (to_upper name)")
  case True
  have array: "type_width a = None" if "map_of elementToArrayOID e = Some a" for a e
    using that unfolding elementToArrayOID_def type_width_def by (auto simp: oid_defs split: if_splits)
  have "type_width OidText = None" by (simp add: type_width_def oid_defs)
  then show ?thesis
    using True by (subst (1 2) mapDuckDBType.simps) (auto simp: Let_def type_info_def array split: option.splits)
next
  case False
  then have "mapDuckDBType name = scalarType name" by (simp add: mapDuckDBType.simps)
  then show ?thesis using scalarType_size assms by simp
qed

lemma width_not_array: "type_width oid = Some n \<Longrightarrow> map_of arrayElementOIDs oid = None"
  unfolding type_width_def arrayElementOIDs_def by (auto simp: oid_defs split: if_splits)

text \<open>
  \<^bold>\<open>C34\<close>. The size announced for a column is the size of its values. When \<^verbatim>\<open>mapDuckDBType\<close> gives a type
  other than \<^verbatim>\<open>timetz\<close> a positive size, every value that \<^verbatim>\<open>encodeBinary\<close> writes for that type has as many
  bytes; and an array of a type of a fixed size takes 20 bytes, four for each element, and the size of the element for
  each that is not null.
\<close>

theorem binary_sizes:
  assumes "oid = ti_OID (mapDuckDBType name)" "oid \<noteq> OidTimetz" "encodeBinary lib v oid = Enc bs"
  shows "(0 < ti_Size (mapDuckDBType name) \<longrightarrow> int (length bs) = ti_Size (mapDuckDBType name)) \<and>
    (\<forall>e xs n. map_of arrayElementOIDs oid = Some e \<and> v = VList xs \<and> type_width e = Some n \<longrightarrow>
       ti_Size (mapDuckDBType name) = - 1 \<and>
       length bs = 20 + 4 * length xs + n * length (filter (\<lambda>v. v \<noteq> VNil \<and> encodeScalar lib v e \<noteq> EncNil) xs))"
proof (intro conjI allI impI)
  note sz = mapDuckDBType_size [of name, folded assms(1), OF assms(2)]
  assume "0 < ti_Size (mapDuckDBType name)"
  then obtain n where n: "type_width oid = Some n" "ti_Size (mapDuckDBType name) = int n"
    using sz by (cases "type_width oid") auto
  then have "encodeScalar lib v oid = Enc bs"
    using assms(3) width_not_array [OF n(1)] by (auto simp: encodeBinary_def split: if_splits)
  then show "int (length bs) = ti_Size (mapDuckDBType name)" using encodeScalar_width n by simp
next
  note sz = mapDuckDBType_size [of name, folded assms(1), OF assms(2)]
  fix e xs n
  assume e: "map_of arrayElementOIDs oid = Some e \<and> v = VList xs \<and> type_width e = Some n"
  then have "type_width oid = None" using width_not_array by fastforce
  then show "ti_Size (mapDuckDBType name) = - 1" using sz by simp
  show "length bs = 20 + 4 * length xs + n * length (filter (\<lambda>v. v \<noteq> VNil \<and> encodeScalar lib v e \<noteq> EncNil) xs)"
    using encodeArray_width [of lib xs e bs n] assms(3) e by (simp add: encodeBinary_def)
qed

theorem binary_sizes_witness:
  "\<forall>lib. \<exists>bs. encodeBinary lib (VList [VInt32 7, VNil]) OidInt4Array = Enc bs \<and> length bs = 32"
proof
  fix lib
  have oid: "OidInt4Array = ti_OID (mapDuckDBType ''INTEGER[]'')" by code_simp
  have ne: "OidInt4Array \<noteq> OidTimetz" by code_simp
  have e: "map_of arrayElementOIDs OidInt4Array = Some OidInt4" "type_width OidInt4 = Some 4" by code_simp+
  obtain bs where bs: "encodeBinary lib (VList [VInt32 7, VNil]) OidInt4Array = Enc bs"
    unfolding encodeBinary_def e by (simp add: encodeScalar_def oid_defs)
  have "length bs = 20 + 4 * length [VInt32 7, VNil] +
      4 * length (filter (\<lambda>v. v \<noteq> VNil \<and> encodeScalar lib v OidInt4 \<noteq> EncNil) [VInt32 7, VNil])"
    using binary_sizes [OF oid ne bs] e by blast
  then show "\<exists>bs. encodeBinary lib (VList [VInt32 7, VNil]) OidInt4Array = Enc bs \<and> length bs = 32"
    using bs by (simp add: encodeScalar_def oid_defs)
qed

text \<open>
  \<^bold>\<open>C33\<close>. What is sent in binary form reads back as it was. Booleans, integers, the bits of floating-point
  numbers, bytes and text come back unchanged; a time comes back to the microsecond, at any offset from UTC; a date comes
  back as its day, except that a time of day before 1970 falls on the day after; a decimal comes back as its exact text,
  whatever its sign, its number of digits and its scale; and the 16 bytes of a UUID come back as a text that encodes to
  the same bytes.
\<close>

theorem binary_roundtrip:
  assumes "- (2 ^ 63) \<le> t div 1000 - pgEpochMicros" "t div 1000 - pgEpochMicros < 2 ^ 63" "\<bar>day_of t\<bar> < 2 ^ 30"
    and "0 \<le> scale" "scale < 2 ^ 15" "nat \<bar>v\<bar> < 10000 ^ k" "k \<le> 20000" and "length uuid = 16"
  shows "reread lib (VBool b) OidBool = Some (VBool b) \<and>
    reread lib (VInt16 i2) OidInt2 = Some (VInt16 i2) \<and>
    reread lib (VInt32 i4) OidInt4 = Some (VInt32 i4) \<and>
    reread lib (VInt64 i8) OidInt8 = Some (VInt64 i8) \<and>
    reread lib (VFloat32 f4) OidFloat4 = Some (VFloat32 f4) \<and>
    reread lib (VFloat64 f8) OidFloat8 = Some (VFloat64 f8) \<and>
    reread lib (VBytes data) OidBytea = Some (VBytes data) \<and>
    reread lib (VString s) OidText = Some (VString s) \<and>
    reread lib (VTime t off) OidTimestamp = Some (VTime (t div 1000 * 1000) 0) \<and>
    reread lib (VTime t off) OidTimestamptz = Some (VTime (t div 1000 * 1000) 0) \<and>
    reread lib (VTime t off) OidDate =
      Some (VTime ((day_of t + of_bool (t < 0 \<and> \<not> 86400 dvd t div Second)) * 86400 * Second) 0) \<and>
    reread lib (VDecimal v scale) OidNumeric = Some (VString (decimal_string v scale)) \<and>
    (\<exists>u. reread lib (VBytes uuid) OidUUID = Some (VString u) \<and> encodeBinary lib (VString u) OidUUID = Enc uuid)"
  using reread_word reread_timestamp [OF assms(1,2)] reread_date [OF assms(3)] reread_numeric [OF assms(4-7)]
    reread_uuid [OF assms(8)] reread_text by simp

theorem binary_roundtrip_witness:
  "\<forall>lib. reread lib (VTime (- 3600 * Second) 0) OidDate = Some (VTime 0 0) \<and>
    reread lib (VDecimal (- 1234567) 2) OidNumeric = Some (VString ''-12345.67'')"
proof
  fix lib
  have shown: "decimal_string (- 1234567) 2 = ''-12345.67''"
    by (simp add: decimal_string_def digits10.simps digit_char_def Let_def) code_simp
  show "reread lib (VTime (- 3600 * Second) 0) OidDate = Some (VTime 0 0) \<and>
      reread lib (VDecimal (- 1234567) 2) OidNumeric = Some (VString ''-12345.67'')"
    using binary_roundtrip [of "- 3600 * Second" 2 "- 1234567" 2 "replicate 16 (CHR ''a'')" lib, where off = 0]
    by (simp add: day_of_def shown Second_def pgEpochMicros_def pgEpochDays_def)
qed

end
