(* ===== verification/SQL_Scan.thy ===== *)
theory SQL_Scan
  imports Binary_Types Startup_Options
begin

text \<open>
  How the server classifies a query without parsing it (\<^verbatim>\<open>server/sqlcore/query.go\<close> and the scanners of
  \<^verbatim>\<open>server/conn.go\<close>): comments, the keyword \<^verbatim>\<open>RETURNING\<close>, the statement after the common table expressions,
  whether rows come back, the command type.

  The scanners move an index over the text. Here a position is what follows it, with the byte before it where the code
  looks back; before the first byte that is the byte 0, which the code never compares with.
\<close>

section \<open>Comments in front of a query\<close>

text \<open>\<^verbatim>\<open>strings.Index\<close> of a text.\<close>

fun index_str :: "string \<Rightarrow> string \<Rightarrow> nat option" where
  "index_str [] t = (if t = [] then Some 0 else None)"
| "index_str (c # s) t = (if prefix t (c # s) then Some 0 else map_option Suc (index_str s t))"

lemma sublist_TrimSpace: "sublist (TrimSpace s) s"
proof -
  obtain p where p: "s = p @ trim_seqs go_space_runes s" using trim_seqs_suffix by (auto simp: suffix_def)
  obtain r where "rev (trim_seqs go_space_runes s) = r @ trim_seqs (map rev go_space_runes) (rev (trim_seqs go_space_runes s))"
    using trim_seqs_suffix by (auto simp: suffix_def)
  then have "trim_seqs go_space_runes s = TrimSpace s @ rev r"
    unfolding TrimSpace_def by (metis rev_append rev_rev_ident)
  then show ?thesis using p unfolding sublist_def by metis
qed

lemma length_TrimSpace: "length (TrimSpace s) \<le> length s"
  by (rule sublist_length_le [OF sublist_TrimSpace])

function StripLeadingComments :: "string \<Rightarrow> string" where
  "StripLeadingComments query0 =
     (let query = TrimSpace query0 in
      if prefix ''/*'' query
      then (case index_str query ''*/'' of
              None \<Rightarrow> query
            | Some e \<Rightarrow> StripLeadingComments (drop (e + 2) query))
      else if prefix ''--'' query
      then (case index_byte query (CHR 0x0A) of
              None \<Rightarrow> []
            | Some nl \<Rightarrow> StripLeadingComments (drop (nl + 1) query))
      else query)"
  by auto
termination
proof (relation "measure length")
  fix q0 q e assume "q = TrimSpace q0" "prefix ''/*'' q"
  then have "q \<noteq> []" "length q \<le> length q0" using length_TrimSpace by auto
  then show "(drop (e + 2) q, q0) \<in> measure length" by (cases q) auto
next
  fix q0 q nl assume "q = TrimSpace q0" "prefix ''--'' q"
  then have "q \<noteq> []" "length q \<le> length q0" using length_TrimSpace by auto
  then show "(drop (nl + 1) q, q0) \<in> measure length" by (cases q) auto
qed simp

declare StripLeadingComments.simps [simp del]

lemma sublist_StripLeadingComments: "sublist (StripLeadingComments q) q"
proof (induction q rule: StripLeadingComments.induct)
  case (1 q)
  have step: "sublist (StripLeadingComments (drop n (TrimSpace q))) q"
    if "sublist (StripLeadingComments (drop n (TrimSpace q))) (drop n (TrimSpace q))" for n
    using that sublist_drop [of n "TrimSpace q"] sublist_TrimSpace [of q] by (meson sublist_order.order.trans)
  show ?case
  proof (cases "prefix ''/*'' (TrimSpace q)")
    case True
    then show ?thesis
      using 1(1) [OF refl True] step sublist_TrimSpace
      by (subst StripLeadingComments.simps) (auto simp: Let_def split: option.splits)
  next
    case False
    then show ?thesis
      using 1(2) [OF refl False] step sublist_TrimSpace
      by (subst StripLeadingComments.simps) (auto simp: Let_def split: option.splits)
  qed
qed

lemma length_StripLeadingComments: "length (StripLeadingComments q) \<le> length q"
  by (rule sublist_length_le [OF sublist_StripLeadingComments])

definition IsEmptyQuery :: "string \<Rightarrow> bool" where
  "IsEmptyQuery query =
     list_all (\<lambda>r. r \<in> {CHR '';'', CHR '' '', CHR 0x09, CHR 0x0A, CHR 0x0D}) (StripLeadingComments query)"

text \<open>\<^verbatim>\<open>stripLeadingNoise\<close> repeats until the text does not change.\<close>

function stripLeadingNoise :: "string \<Rightarrow> string" where
  "stripLeadingNoise prev =
     (let query = dropWhile (\<lambda>c. c \<in> {CHR ''('', CHR '' '', CHR 0x09, CHR 0x0A, CHR 0x0D}) (StripLeadingComments prev)
      in if query = prev then query else stripLeadingNoise query)"
  by auto
termination
proof (relation "measure length")
  fix prev query :: string
  assume query: "query = dropWhile (\<lambda>c. c \<in> {CHR ''('', CHR '' '', CHR 0x09, CHR 0x0A, CHR 0x0D}) (StripLeadingComments prev)"
    and ne: "query \<noteq> prev"
  have "sublist query prev"
    unfolding query by (meson sublist_StripLeadingComments sublist_order.order.trans suffix_dropWhile suffix_imp_sublist)
  then have "length query < length prev"
    using ne by (auto simp: sublist_def)
  then show "(query, prev) \<in> measure length" by simp
qed simp

declare stripLeadingNoise.simps [simp del]

section \<open>Skipping strings, identifiers and comments\<close>

definition isWSChar :: "char \<Rightarrow> bool" where
  "isWSChar c \<longleftrightarrow> c = CHR '' '' \<or> c = CHR 0x0A \<or> c = CHR 0x09 \<or> c = CHR 0x0D"

definition isReturningTrailer :: "char \<Rightarrow> bool" where
  "isReturningTrailer c \<longleftrightarrow> c = CHR '' '' \<or> c = CHR 0x0A \<or> c = CHR 0x09 \<or> c = CHR 0x0D \<or>
     c = CHR '';'' \<or> c = CHR ''*'' \<or> c = CHR ''('' \<or> c = CHR '','' \<or> c = CHR 0x22 \<or> c = CHR ''-'' \<or> c = CHR ''/'' \<or>
     c = CHR ''$''"

text \<open>The loops behind the opening byte. Each gives the byte it stopped after and what follows; a text that ends
  inside the construct is read to its end, or, for a block comment and a dollar quote, to where the closing mark no
  longer fits.\<close>

fun skip_string :: "bool \<Rightarrow> char \<Rightarrow> string \<Rightarrow> char \<times> string" where
  "skip_string estring p [] = (p, [])"
| "skip_string estring p (c # s) =
     (if c = CHR 0x27
      then if s \<noteq> [] \<and> hd s = CHR 0x27 then skip_string estring (CHR 0x27) (tl s) else (c, s)
      else if estring \<and> c = CHR 0x5C then (if s = [] then (c, []) else skip_string estring (hd s) (tl s))
      else skip_string estring c s)"

fun skip_ident :: "char \<Rightarrow> string \<Rightarrow> char \<times> string" where
  "skip_ident p [] = (p, [])"
| "skip_ident p (c # s) =
     (if c = CHR 0x22
      then if s \<noteq> [] \<and> hd s = CHR 0x22 then skip_ident (CHR 0x22) (tl s) else (c, s)
      else skip_ident c s)"

fun skip_line :: "char \<Rightarrow> string \<Rightarrow> char \<times> string" where
  "skip_line p [] = (p, [])"
| "skip_line p (c # s) = (if c = CHR 0x0A then (p, c # s) else skip_line c s)"

fun skip_block :: "char \<Rightarrow> string \<Rightarrow> char \<times> string" where
  "skip_block p (c # d # s) = (if c = CHR ''*'' \<and> d = CHR ''/'' then (d, s) else skip_block c (d # s))"
| "skip_block p s = (p, s)"

text \<open>\<^verbatim>\<open>parseDollarTag\<close> at the start of the text.\<close>

definition tag_char :: "char \<Rightarrow> bool" where
  "tag_char c \<longleftrightarrow> CHR ''A'' \<le> c \<and> c \<le> CHR ''Z'' \<or> CHR ''0'' \<le> c \<and> c \<le> CHR ''9'' \<or> c = CHR ''_''"

definition parseDollarTag :: "string \<Rightarrow> string option" where
  "parseDollarTag s =
     (if s = [] \<or> hd s \<noteq> CHR ''$'' then None
      else let name = takeWhile tag_char (tl s); rest = dropWhile tag_char (tl s)
           in if rest \<noteq> [] \<and> hd rest = CHR ''$'' then Some (''$'' @ name @ ''$'') else None)"

fun skip_dollar :: "string \<Rightarrow> char \<Rightarrow> string \<Rightarrow> char \<times> string" where
  "skip_dollar tag p [] = (p, [])"
| "skip_dollar tag p (c # s) =
     (if length (c # s) < length tag then (p, c # s)
      else if c = CHR ''$'' \<and> take (length tag) (c # s) = tag then (CHR ''$'', drop (length tag) (c # s))
      else skip_dollar tag c s)"

text \<open>One turn of the loops of \<^verbatim>\<open>scanForReturning\<close> and \<^verbatim>\<open>skipBalancedParens\<close> at a byte that is not a
  parenthesis.\<close>

definition skip_one :: "char \<Rightarrow> char \<Rightarrow> string \<Rightarrow> char \<times> string" where
  "skip_one p c s =
     (if c = CHR 0x27 then skip_string (p = CHR ''E'') c s
      else if c = CHR 0x22 then skip_ident c s
      else if c = CHR ''$''
      then (case parseDollarTag (c # s) of
              Some tag \<Rightarrow> skip_dollar tag (CHR ''$'') (drop (length tag) (c # s))
            | None \<Rightarrow> (c, s))
      else if c = CHR ''-'' \<and> s \<noteq> [] \<and> hd s = CHR ''-'' then skip_line (CHR ''-'') (tl s)
      else if c = CHR ''/'' \<and> s \<noteq> [] \<and> hd s = CHR ''*'' then skip_block (CHR ''*'') (tl s)
      else (c, s))"

lemma suffix_skip_string: "suffix (snd (skip_string e p s)) s"
proof (induction e p s rule: skip_string.induct)
  case (2 e p c s)
  then show ?case by (cases s) (auto intro: suffix_ConsI)
qed simp

lemma suffix_skip_ident: "suffix (snd (skip_ident p s)) s"
proof (induction p s rule: skip_ident.induct)
  case (2 p c s)
  then show ?case by (cases s) (auto intro: suffix_ConsI)
qed simp

lemma suffix_skip_line: "suffix (snd (skip_line p s)) s"
  by (induction p s rule: skip_line.induct) (auto intro: suffix_ConsI)

lemma suffix_skip_block: "suffix (snd (skip_block p s)) s"
  by (induction p s rule: skip_block.induct) (auto intro: suffix_ConsI)

lemma suffix_skip_dollar: "suffix (snd (skip_dollar tag p s)) s"
proof (induction tag p s rule: skip_dollar.induct)
  case (2 tag p c s)
  show ?case
  proof (cases "length (c # s) < length tag \<or> c = CHR ''$'' \<and> take (length tag) (c # s) = tag")
    case True
    then show ?thesis using suffix_drop [of "length tag" "c # s"] by (simp only: skip_dollar.simps) (auto simp del: drop_Cons')
  next
    case False
    then have "skip_dollar tag p (c # s) = skip_dollar tag c s" by (simp only: skip_dollar.simps) auto
    then show ?thesis using 2 False by (simp add: suffix_ConsI)
  qed
qed simp

lemma suffix_tl: "suffix t (tl s) \<Longrightarrow> suffix t s"
  by (cases s) (auto intro: suffix_ConsI)

lemma suffix_skip_one: "suffix (snd (skip_one p c s)) s"
proof -
  have "suffix (snd (skip_dollar tag (CHR ''$'') (drop (length tag) (c # s)))) s" if "parseDollarTag (c # s) = Some tag" for tag
  proof -
    have "tag \<noteq> []" using that by (auto simp: parseDollarTag_def Let_def split: if_splits)
    then have "drop (length tag) (c # s) = drop (length tag - 1) s" by (cases tag) auto
    then show ?thesis using suffix_skip_dollar suffix_drop suffix_order.trans by metis
  qed
  then show ?thesis
    unfolding skip_one_def
    using suffix_skip_string suffix_skip_ident suffix_tl [OF suffix_skip_line] suffix_tl [OF suffix_skip_block]
    by (auto simp del: drop_Cons' split: option.splits)
qed

lemma length_skip_one: "length (snd (skip_one p c s)) \<le> length s"
  by (rule suffix_length_le [OF suffix_skip_one])

section \<open>The keyword RETURNING\<close>

function scan_returning :: "bool \<Rightarrow> nat \<Rightarrow> char \<Rightarrow> string \<Rightarrow> bool" where
  "scan_returning topLevelOnly depth p [] = False"
| "scan_returning topLevelOnly depth p (c # s) =
     (if c = CHR ''('' then scan_returning topLevelOnly (depth + 1) c s
      else if c = CHR '')'' then scan_returning topLevelOnly (depth - 1) c s
      else if c = CHR ''R'' \<and> (\<not> topLevelOnly \<or> depth = 0) \<and> prefix ''RETURNING'' (c # s) \<and> isWSChar p \<and>
              (drop 9 (c # s) = [] \<or> isReturningTrailer (hd (drop 9 (c # s))))
      then True
      else scan_returning topLevelOnly depth (fst (skip_one p c s)) (snd (skip_one p c s)))"
  by pat_completeness auto
termination
  by (relation "measure (\<lambda>(_, _, _, s). length s)") (auto simp: case_prod_beta length_skip_one less_Suc_eq_le)

definition scanForReturning :: "string \<Rightarrow> bool \<Rightarrow> bool" where
  "scanForReturning upper topLevelOnly = scan_returning topLevelOnly 0 (CHR 0x00) upper"

definition containsReturning :: "string \<Rightarrow> bool" where
  "containsReturning upper = scanForReturning upper True"

definition containsReturningAnyDepth :: "string \<Rightarrow> bool" where
  "containsReturningAnyDepth upper = scanForReturning upper False"

section \<open>The statement after common table expressions\<close>

text \<open>\<^verbatim>\<open>skipBalancedParens\<close>, behind an opening parenthesis.\<close>

function paren_loop :: "nat \<Rightarrow> char \<Rightarrow> string \<Rightarrow> string" where
  "paren_loop depth p [] = []"
| "paren_loop depth p (c # s) =
     (if depth = 0 then c # s
      else if c = CHR ''('' then paren_loop (depth + 1) c s
      else if c = CHR '')'' then paren_loop (depth - 1) c s
      else paren_loop depth (fst (skip_one p c s)) (snd (skip_one p c s)))"
  by pat_completeness auto
termination
  by (relation "measure (\<lambda>(_, _, s). length s)") (auto simp: case_prod_beta length_skip_one less_Suc_eq_le)

definition skipBalancedParens :: "string \<Rightarrow> string" where
  "skipBalancedParens rest = paren_loop 1 (CHR ''('') rest"

lemma suffix_paren_loop: "suffix (paren_loop d p s) s"
proof (induction d p s rule: paren_loop.induct)
  case (2 d p c s)
  have "suffix (snd (skip_one p c s)) s" by (rule suffix_skip_one)
  then have "suffix t s" if "suffix t (snd (skip_one p c s))" for t using that suffix_order.trans by blast
  then show ?case using 2 by (auto intro: suffix_ConsI)
qed simp

function skipWhitespaceAndComments :: "string \<Rightarrow> string" where
  "skipWhitespaceAndComments [] = []"
| "skipWhitespaceAndComments (c # s) =
     (if isWSChar c then skipWhitespaceAndComments s
      else if c = CHR ''-'' \<and> s \<noteq> [] \<and> hd s = CHR ''-'' then skipWhitespaceAndComments (snd (skip_line (CHR ''-'') (tl s)))
      else if c = CHR ''/'' \<and> s \<noteq> [] \<and> hd s = CHR ''*'' then skipWhitespaceAndComments (snd (skip_block (CHR ''*'') (tl s)))
      else c # s)"
  by pat_completeness auto
termination
proof (relation "measure length")
  fix c and s :: string
  show "(snd (skip_line (CHR ''-'') (tl s)), c # s) \<in> measure length"
    using suffix_length_le [OF suffix_tl [OF suffix_skip_line]] by (simp add: less_Suc_eq_le)
  show "(snd (skip_block (CHR ''*'') (tl s)), c # s) \<in> measure length"
    using suffix_length_le [OF suffix_tl [OF suffix_skip_block]] by (simp add: less_Suc_eq_le)
qed auto

lemma suffix_skipWS: "suffix (skipWhitespaceAndComments s) s"
proof (induction s rule: skipWhitespaceAndComments.induct)
  case (2 c s)
  have line: "suffix (snd (skip_line (CHR ''-'') (tl s))) s" by (rule suffix_tl [OF suffix_skip_line])
  have block: "suffix (snd (skip_block (CHR ''*'') (tl s))) s" by (rule suffix_tl [OF suffix_skip_block])
  show ?case using 2 suffix_order.trans [OF _ line] suffix_order.trans [OF _ block] by (auto intro: suffix_ConsI)
qed simp

definition at_char :: "string \<Rightarrow> char \<Rightarrow> bool" where
  "at_char s c \<longleftrightarrow> s \<noteq> [] \<and> hd s = c"

definition word_end :: "string \<Rightarrow> bool" where
  "word_end s \<longleftrightarrow> s = [] \<or> isWSChar (hd s) \<or> hd s = CHR ''/'' \<or> hd s = CHR ''-''"

text \<open>One common table expression: its name, columns, \<^verbatim>\<open>AS\<close> and body.\<close>

definition skip_cte :: "string \<Rightarrow> string" where
  "skip_cte upper =
     (let name = (if at_char upper (CHR 0x22) then snd (skip_ident (CHR 0x22) (tl upper))
                  else dropWhile (\<lambda>c. \<not> isWSChar c \<and> c \<noteq> CHR ''('' \<and> c \<noteq> CHR ''/'' \<and> c \<noteq> CHR ''-'') upper);
          r1 = skipWhitespaceAndComments name;
          columns = skipWhitespaceAndComments (skipBalancedParens (tl r1));
          r2 = (if at_char r1 (CHR ''('') \<and> prefix ''AS'' columns \<and>
                   (drop 2 columns = [] \<or> isWSChar (hd (drop 2 columns)) \<or> hd (drop 2 columns) = CHR ''('')
                then columns else r1);
          r3 = (if prefix ''AS'' r2 \<and> (word_end (drop 2 r2) \<or> hd (drop 2 r2) = CHR ''('')
                then skipWhitespaceAndComments (drop 2 r2) else r2);
          r4 = (if at_char r3 (CHR ''('') then skipBalancedParens (tl r3) else r3)
      in skipWhitespaceAndComments r4)"

lemma suffix_skip_cte: "suffix (skip_cte s) s"
proof -
  have ws: "suffix t u \<Longrightarrow> suffix (skipWhitespaceAndComments t) u" for t u
    using suffix_skipWS suffix_order.trans by blast
  have par: "suffix t u \<Longrightarrow> suffix (skipBalancedParens (tl t)) u" for t u
    unfolding skipBalancedParens_def using suffix_tl [OF suffix_paren_loop] suffix_order.trans by blast
  have drp: "suffix t u \<Longrightarrow> suffix (drop n t) u" for t u :: string and n
    using suffix_drop suffix_order.trans by blast
  have "suffix (snd (skip_ident (CHR 0x22) (tl s))) s" by (rule suffix_tl [OF suffix_skip_ident])
  then show ?thesis
    unfolding skip_cte_def Let_def by (intro ws) (auto intro!: ws par drp suffix_dropWhile)
qed

function skip_ctes :: "string \<Rightarrow> string" where
  "skip_ctes upper =
     (if upper = [] then []
      else let rest = skip_cte upper
           in if at_char rest (CHR '','') then skip_ctes (skipWhitespaceAndComments (tl rest)) else rest)"
  by auto
termination
proof (relation "measure length")
  fix upper rest assume rest: "rest = skip_cte upper" "at_char rest (CHR '','')"
  have "length (skipWhitespaceAndComments (tl rest)) \<le> length (tl rest)" by (rule suffix_length_le [OF suffix_skipWS])
  moreover have "length rest \<le> length upper" "rest \<noteq> []"
    using rest suffix_length_le [OF suffix_skip_cte] by (auto simp: at_char_def)
  ultimately show "(skipWhitespaceAndComments (tl rest), upper) \<in> measure length" by (cases rest) auto
qed simp

declare skip_ctes.simps [simp del]

lemma suffix_skip_ctes: "suffix (skip_ctes s) s"
proof (induction s rule: skip_ctes.induct)
  case (1 s)
  have a: "suffix (skip_cte s) s" by (rule suffix_skip_cte)
  have "suffix (skipWhitespaceAndComments (tl (skip_cte s))) s"
    using suffix_skipWS suffix_tl [OF suffix_order.refl] a suffix_order.trans by metis
  then show ?case
    using 1 a suffix_order.trans by (subst skip_ctes.simps) (auto simp: Let_def)
qed

definition outerStatementOfCTE :: "string \<Rightarrow> string" where
  "outerStatementOfCTE upper =
     (if \<not> prefix ''WITH'' upper \<or> \<not> word_end (drop 4 upper) then []
      else
        let r = skipWhitespaceAndComments (drop 4 upper);
            r' = (if prefix ''RECURSIVE'' r \<and> word_end (drop 9 r) then skipWhitespaceAndComments (drop 9 r) else r)
        in skip_ctes r')"

lemma length_outerStatementOfCTE:
  assumes "outerStatementOfCTE upper \<noteq> []"
  shows "length (outerStatementOfCTE upper) < length upper"
proof -
  have pre: "prefix ''WITH'' upper" using assms by (auto simp: outerStatementOfCTE_def split: if_splits)
  have ws: "length (skipWhitespaceAndComments t) \<le> length t" for t by (rule suffix_length_le [OF suffix_skipWS])
  have ct: "length (skip_ctes t) \<le> length t" for t by (rule suffix_length_le [OF suffix_skip_ctes])
  define r where "r = skipWhitespaceAndComments (drop 4 upper)"
  have "length (skip_ctes (if prefix ''RECURSIVE'' r \<and> word_end (drop 9 r) then skipWhitespaceAndComments (drop 9 r) else r)) \<le> length r"
    using ct [of r] ct [of "skipWhitespaceAndComments (drop 9 r)"] ws [of "drop 9 r"] by (auto simp del: drop_Cons')
  moreover have "length r \<le> length (drop 4 upper)" unfolding r_def by (rule ws)
  moreover have "length (drop 4 upper) < length upper" using pre by (auto simp: prefix_def)
  ultimately show ?thesis
    using assms by (auto simp: outerStatementOfCTE_def Let_def r_def split: if_splits)
qed

section \<open>Classification\<close>

definition describeSupportsLimit :: "string \<Rightarrow> bool" where
  "describeSupportsLimit upper =
     (let s = TrimSpace upper in
      prefix ''SELECT'' s \<or> prefix ''WITH'' s \<or> prefix ''VALUES'' s \<or> prefix ''TABLE'' s \<or> prefix ''FROM'' s)"

definition with_keyword :: "string \<Rightarrow> bool" where
  "with_keyword upper \<longleftrightarrow> prefix ''WITH'' upper \<and> word_end (drop 4 upper)"

definition dml_keyword :: "string \<Rightarrow> bool" where
  "dml_keyword upper \<longleftrightarrow> prefix ''INSERT'' upper \<or> prefix ''UPDATE'' upper \<or> prefix ''DELETE'' upper"

definition queryReturnsResults :: "string \<Rightarrow> bool" where
  "queryReturnsResults query =
     (let upper = to_upper (stripLeadingNoise query) in
      prefix ''SELECT'' upper \<or> with_keyword upper \<or> prefix ''VALUES'' upper \<or> prefix ''SHOW'' upper \<or>
      prefix ''TABLE'' upper \<or> prefix ''EXECUTE'' upper \<or> prefix ''EXPLAIN'' upper \<or> prefix ''DESCRIBE'' upper \<or>
      prefix ''SUMMARIZE'' upper \<or> prefix ''FROM'' upper \<or> dml_keyword upper \<and> containsReturning upper)"

definition isDMLReturning :: "string \<Rightarrow> bool" where
  "isDMLReturning query =
     (let upper = to_upper (stripLeadingNoise query) in
      if dml_keyword upper then containsReturning upper
      else if with_keyword upper then containsReturningAnyDepth upper
      else False)"

definition isWithDML :: "string \<Rightarrow> bool" where
  "isWithDML query = dml_keyword (outerStatementOfCTE (to_upper (stripLeadingNoise query)))"

definition command_of :: "string \<Rightarrow> string" where
  "command_of upperQuery =
     (let is = (\<lambda>t. prefix t upperQuery); has = contains_str upperQuery in
      if is ''SELECT'' then ''SELECT''
      else if is ''INSERT'' then ''INSERT''
      else if is ''UPDATE'' then ''UPDATE''
      else if is ''DELETE'' then ''DELETE''
      else if is ''CREATE TABLE'' \<or> is ''CREATE TEMPORARY TABLE'' \<or> is ''CREATE TEMP TABLE'' \<or> is ''CREATE UNLOGGED TABLE''
      then ''CREATE TABLE''
      else if is ''CREATE INDEX'' \<or> is ''CREATE UNIQUE INDEX'' then ''CREATE INDEX''
      else if is ''CREATE VIEW'' \<or> is ''CREATE OR REPLACE VIEW'' then ''CREATE VIEW''
      else if is ''CREATE SCHEMA'' then ''CREATE SCHEMA''
      else if is ''CREATE'' then ''CREATE''
      else if is ''DROP TABLE'' then ''DROP TABLE''
      else if is ''DROP INDEX'' then ''DROP INDEX''
      else if is ''DROP VIEW'' then ''DROP VIEW''
      else if is ''DROP SCHEMA'' then ''DROP SCHEMA''
      else if is ''DROP'' then ''DROP''
      else if has ''ADD CONSTRAINT'' \<or> has ''ADD PRIMARY KEY'' \<or> has ''ADD UNIQUE'' \<or> has ''ADD FOREIGN KEY'' \<or> has ''ADD CHECK''
      then ''ALTER TABLE ADD CONSTRAINT''
      else if is ''ALTER'' then ''ALTER TABLE''
      else if is ''TRUNCATE'' then ''TRUNCATE TABLE''
      else if is ''BEGIN'' then ''BEGIN''
      else if is ''COMMIT'' then ''COMMIT''
      else if is ''ROLLBACK'' then ''ROLLBACK''
      else if is ''SET'' then ''SET''
      else if is ''COPY'' then ''COPY''
      else ''SELECT'')"

function getCommandType :: "string \<Rightarrow> string" where
  "getCommandType upperQuery0 =
     (let upperQuery = StripLeadingComments upperQuery0; outer = outerStatementOfCTE upperQuery
      in if with_keyword upperQuery \<and> outer \<noteq> [] then getCommandType outer else command_of upperQuery)"
  by auto
termination
proof (relation "measure length")
  fix q0 q r assume "q = StripLeadingComments q0" "r = outerStatementOfCTE q" "with_keyword q \<and> r \<noteq> []"
  then show "(r, q0) \<in> measure length"
    using length_outerStatementOfCTE [of q] length_StripLeadingComments [of q0] by simp
qed simp

declare getCommandType.simps [simp del]

definition buildCommandTagFromRowCount :: "string \<Rightarrow> int \<Rightarrow> string" where
  "buildCommandTagFromRowCount cmdType rowCount =
     (if cmdType = ''INSERT'' then ''INSERT 0 '' @ itoa rowCount
      else if cmdType = ''UPDATE'' then ''UPDATE '' @ itoa rowCount
      else if cmdType = ''DELETE'' then ''DELETE '' @ itoa rowCount
      else ''SELECT '' @ itoa rowCount)"

definition buildCommandTag :: "string \<Rightarrow> int \<Rightarrow> string" where
  "buildCommandTag cmdType rowsAffected =
     (if cmdType = ''INSERT'' then ''INSERT 0 '' @ itoa rowsAffected
      else if cmdType = ''UPDATE'' then ''UPDATE '' @ itoa rowsAffected
      else if cmdType = ''DELETE'' then ''DELETE '' @ itoa rowsAffected
      else cmdType)"

definition shouldHandleCopyBeforeTranspile :: "string \<Rightarrow> bool" where
  "shouldHandleCopyBeforeTranspile query = prefix ''COPY'' (to_upper (TrimSpace query))"

end
