(* ===== verification/SQL_Rewrite.thy ===== *)
theory SQL_Rewrite
  imports SQL_Scan
begin

text \<open>
  How the server changes the text of a query before it runs (\<^verbatim>\<open>server/conn.go\<close>): casts for parameters, the names
  of catalogs, and which commands DuckDB is asked to check first.
\<close>

section \<open>Parameters\<close>

definition is_digit :: "char \<Rightarrow> bool" where
  "is_digit c \<longleftrightarrow> CHR ''0'' \<le> c \<and> c \<le> CHR ''9''"

text \<open>The number after a dollar sign, in a Go \<^verbatim>\<open>int\<close>.\<close>

definition dollar_number :: "string \<Rightarrow> 64 word" where
  "dollar_number s = foldl (\<lambda>n c. n * 10 + of_nat (of_char c - 48)) 0 (takeWhile is_digit s)"

fun count_params :: "int \<Rightarrow> string \<Rightarrow> int" where
  "count_params m [] = m"
| "count_params m (c # s) =
     (if c = CHR ''$'' \<and> s \<noteq> [] \<and> CHR ''1'' \<le> hd s \<and> hd s \<le> CHR ''9''
      then count_params (max m (sint (dollar_number s))) s
      else count_params m s)"

definition countDollarParams :: "string \<Rightarrow> int" where
  "countDollarParams query = count_params 0 query"

text \<open>The pattern of a dollar sign and digits.\<close>

fun hasParameterPlaceholders :: "string \<Rightarrow> bool" where
  "hasParameterPlaceholders [] = False"
| "hasParameterPlaceholders (c # s) = (c = CHR ''$'' \<and> s \<noteq> [] \<and> is_digit (hd s) \<or> hasParameterPlaceholders s)"

definition pgOIDToCast :: "(int \<times> string) list" where
  "pgOIDToCast =
     [(16, ''BOOLEAN''), (20, ''BIGINT''), (21, ''SMALLINT''), (23, ''INTEGER''), (25, ''TEXT''), (26, ''INTEGER''),
      (700, ''REAL''), (701, ''DOUBLE''), (1042, ''TEXT''), (1043, ''VARCHAR''), (1082, ''DATE''), (1083, ''TIME''),
      (1114, ''TIMESTAMP''), (1184, ''TIMESTAMPTZ''), (1186, ''INTERVAL''), (1700, ''NUMERIC''), (2950, ''UUID'')]"

text \<open>Every match of a placeholder that no digit follows gets its cast. The byte behind the placeholder is part of
  the match, so that the search goes on after it.\<close>

function cast_matches :: "string \<Rightarrow> string \<Rightarrow> string \<Rightarrow> string" where
  "cast_matches placeholder castType [] = []"
| "cast_matches placeholder castType (c # s) =
     (let rest = drop (length placeholder) (c # s)
      in if placeholder \<noteq> [] \<and> prefix placeholder (c # s) \<and> (rest = [] \<or> \<not> is_digit (hd rest))
         then placeholder @ ''::'' @ castType @ take 1 rest @ cast_matches placeholder castType (drop 1 rest)
         else c # cast_matches placeholder castType s)"
  by pat_completeness auto
termination
  by (relation "measure (\<lambda>(_, _, s). length s)") (auto simp: Let_def neq_Nil_conv)

definition cast_type :: "int \<Rightarrow> string" where
  "cast_type oid =
     (if oid \<noteq> 0 then (case map_of pgOIDToCast oid of Some t \<Rightarrow> t | None \<Rightarrow> ''TEXT'') else ''TEXT'')"

definition castParams :: "string \<Rightarrow> int list \<Rightarrow> string" where
  "castParams query paramTypes =
     foldl (\<lambda>q i. cast_matches (''$'' @ digits10 (i + 1)) (cast_type (paramTypes ! i)) q) query (rev [0..<length paramTypes])"

section \<open>Commands that are not checked with EXPLAIN\<close>

definition hasCommandPrefix :: "string \<Rightarrow> string \<Rightarrow> bool" where
  "hasCommandPrefix query p =
     (prefix p query \<and>
      (drop (length p) query = [] \<or>
       hd (drop (length p) query) \<in> {CHR '' '', CHR 0x09, CHR 0x0A, CHR 0x0D, CHR '';''}))"

definition utilityPrefixes :: "string list" where
  "utilityPrefixes =
     [''ATTACH'', ''DETACH'', ''USE'', ''INSTALL'', ''LOAD'', ''UNLOAD'', ''CREATE SECRET'', ''DROP SECRET'',
      ''CREATE PERSISTENT SECRET'', ''CREATE TEMPORARY SECRET'', ''CREATE OR REPLACE SECRET'',
      ''CREATE OR REPLACE PERSISTENT SECRET'', ''CREATE OR REPLACE TEMPORARY SECRET'', ''PRAGMA'', ''CHECKPOINT'',
      ''FORCE CHECKPOINT'', ''EXPORT DATABASE'', ''IMPORT DATABASE'', ''CALL'', ''SET'', ''RESET'']"

definition isDuckDBUtilityCommand :: "string \<Rightarrow> bool" where
  "isDuckDBUtilityCommand query = list_ex (hasCommandPrefix (to_upper (StripLeadingComments query))) utilityPrefixes"

section \<open>Names of catalogs\<close>

text \<open>\<^verbatim>\<open>strings.EqualFold\<close>: besides the ASCII letters, the Kelvin sign and the long s fold to ASCII letters; how
  other letters fold is a parameter.\<close>

definition fold_rune :: "(string \<Rightarrow> string) \<Rightarrow> string \<Rightarrow> string" where
  "fold_rune other r =
     (if length r \<le> 1 then to_lower r
      else if r = [CHR 0xE2, CHR 0x84, CHR 0xAA] then ''k''
      else if r = [CHR 0xC5, CHR 0xBF] then ''s''
      else other r)"

definition EqualFold :: "(string \<Rightarrow> string) \<Rightarrow> string \<Rightarrow> string \<Rightarrow> bool" where
  "EqualFold other s t \<longleftrightarrow> map (fold_rune other) (runes s) = map (fold_rune other) (runes t)"

fun undouble :: "string \<Rightarrow> string" where
  "undouble (c # d # s) = (if c = CHR 0x22 \<and> d = CHR 0x22 then c # undouble s else c # undouble (d # s))"
| "undouble s = s"

record catalog_names =
  cn_passthrough :: bool
  cn_logicalCatalogMapping :: bool
  cn_database :: string

definition physicalDuckLakeCatalog :: string where
  "physicalDuckLakeCatalog = ''ducklake''"

definition rewriteDirectQuery :: "(string \<Rightarrow> string) \<Rightarrow> catalog_names \<Rightarrow> string \<Rightarrow> string" where
  "rewriteDirectQuery other c query =
     (if cn_passthrough c \<or> \<not> cn_logicalCatalogMapping c \<or> TrimSpace (cn_database c) = [] then query
      else
        let stripped = TrimSpace (StripLeadingComments query);
            hasSemicolon = suffix '';'' stripped;
            trimmed = TrimSpace (if hasSemicolon then butlast stripped else stripped);
            semicolon = (if hasSemicolon then '';'' else []);
            target = TrimSpace (drop 3 trimmed);
            unquoted = (if length target \<ge> 2 \<and> hd target = CHR 0x22 \<and> last target = CHR 0x22
                        then undouble (butlast (tl target)) else target)
        in if stripped = [] then query
           else if EqualFold other trimmed ''SHOW DATABASES'' then ''SELECT current_database() AS database_name'' @ semicolon
           else if length trimmed < 3 \<or> \<not> EqualFold other (take 3 trimmed) ''USE'' then query
           else if target = [] then query
           else if EqualFold other unquoted (cn_database c) \<or> EqualFold other unquoted physicalDuckLakeCatalog
           then ''USE '' @ physicalDuckLakeCatalog @ ''.main'' @ semicolon
           else if EqualFold other unquoted ''iceberg'' then ''USE iceberg.public'' @ semicolon
           else query)"

end
