(* ===== verification/Query_Errors.thy ===== *)
theory Query_Errors
  imports SQL_Rewrite
begin

text \<open>
  Errors of the database (\<^verbatim>\<open>server/conn.go\<close>, \<^verbatim>\<open>server/transient.go\<close>): the SQLSTATE that a client
  sees, which errors a statement is tried again for, and the loops that do so. An error is its text.
\<close>

section \<open>Kinds of errors\<close>

definition isQueryCancelled :: "string \<Rightarrow> bool" where
  "isQueryCancelled msg = contains_str msg ''context canceled''"

definition isDuckLakeTransactionConflict :: "string \<Rightarrow> bool" where
  "isDuckLakeTransactionConflict msg = contains_str msg ''Transaction conflict''"

definition isDuckLakeMetadataConnectionLost :: "string \<Rightarrow> bool" where
  "isDuckLakeMetadataConnectionLost msg =
     (contains_str msg ''DuckLake transaction'' \<and> contains_str msg ''SSL connection has been closed unexpectedly'')"

definition isTransactionAborted :: "string \<Rightarrow> bool" where
  "isTransactionAborted msg = contains_str msg ''Current transaction is aborted''"

definition isTransientDuckLakeError :: "string \<Rightarrow> bool" where
  "isTransientDuckLakeError msg =
     list_ex (contains_str msg)
       [''name resolution'', ''could not translate host name'', ''could not connect to server'', ''Connection refused'',
        ''connection reset by peer'', ''connection timed out'', ''server closed the connection unexpectedly'',
        ''SSL connection has been closed unexpectedly'', ''Current transaction is aborted'', ''no route to host'',
        ''network is unreachable'']"

definition isConnectionBroken :: "string \<Rightarrow> bool" where
  "isConnectionBroken msg =
     list_ex (contains_str (to_lower msg))
       [''ssl connection has been closed'', ''connection refused'', ''broken pipe'', ''connection reset'',
        ''network is unreachable'', ''no route to host'', ''i/o timeout'', ''use of closed network connection'']"

definition isAlterTableNotTableError :: "string \<Rightarrow> bool" where
  "isAlterTableNotTableError msg =
     (contains_str (to_lower msg) ''cannot use alter table'' \<and> contains_str (to_lower msg) ''not a table'' \<or>
      contains_str (to_lower msg) ''can only modify view with alter view statement'')"

definition isDropTableOnViewError :: "string \<Rightarrow> bool" where
  "isDropTableOnViewError msg = (contains_str msg ''is of type View'' \<and> contains_str msg ''trying to drop type Table'')"

section \<open>SQLSTATE\<close>

definition catalogErrorCode :: "string \<Rightarrow> string" where
  "catalogErrorCode msg =
     (let has = contains_str (to_lower msg) in
      if has ''schema'' \<and> has ''does not exist'' then ''3F000''
      else if has ''table with name'' \<and> has ''does not exist'' then ''42P01''
      else if has ''view with name'' \<and> has ''does not exist'' then ''42P01''
      else if has ''function'' \<and> (has ''does not exist'' \<or> has ''with these arguments'') then ''42883''
      else if has ''no function matches'' then ''42883''
      else if has ''type'' \<and> has ''does not exist'' then ''42704''
      else if has ''does not exist'' then ''42704''
      else if has ''already exists''
      then (if has ''function'' then ''42723'' else if has ''schema'' then ''42P06'' else ''42P07'')
      else ''42000'')"

definition binderErrorCode :: "string \<Rightarrow> string" where
  "binderErrorCode msg =
     (let has = contains_str (to_lower msg) in
      if has ''referenced column'' \<and> has ''not found'' then ''42703''
      else if has ''column'' \<and> has ''does not exist'' then ''42703''
      else if has ''ambiguous'' then ''42702''
      else if has ''referenced table'' \<and> has ''not found'' then ''42P01''
      else if has ''no function matches'' then ''42883''
      else ''42601'')"

definition conversionErrorCode :: "string \<Rightarrow> string" where
  "conversionErrorCode msg =
     (let has = contains_str (to_lower msg) in
      if has ''out of range'' \<or> has ''overflow'' \<or> has ''would be out of range'' then ''22003'' else ''22P02'')"

definition constraintErrorCode :: "string \<Rightarrow> string" where
  "constraintErrorCode msg =
     (let has = contains_str (to_lower msg) in
      if has ''duplicate key'' \<or> has ''unique'' then ''23505''
      else if has ''not null'' \<or> has ''null value'' then ''23502''
      else if has ''foreign key'' then ''23503''
      else if has ''check constraint'' then ''23514''
      else ''23000'')"

definition classifyErrorCode :: "string \<Rightarrow> string" where
  "classifyErrorCode msg =
     (if isQueryCancelled msg then ''57014''
      else if isDuckLakeTransactionConflict msg then ''40001''
      else if prefix ''Catalog Error:'' msg then catalogErrorCode msg
      else if prefix ''Binder Error:'' msg then binderErrorCode msg
      else if prefix ''Parser Error:'' msg then ''42601''
      else if prefix ''Conversion Error:'' msg then conversionErrorCode msg
      else if prefix ''Out of Range Error:'' msg then ''22003''
      else if prefix ''Constraint Error:'' msg then constraintErrorCode msg
      else if prefix ''Permission Error:'' msg then ''42501''
      else if prefix ''Transaction Error:'' msg \<or> prefix ''TransactionContext Error:'' msg then ''25000''
      else if prefix ''Dependency Error:'' msg then ''2BP01''
      else ''XX000'')"

definition userErrorSQLSTATEClasses :: "string list" where
  "userErrorSQLSTATEClasses = [''0A'', ''22'', ''23'', ''25'', ''28'', ''2B'', ''3D'', ''3F'', ''42'', ''44'']"

definition isUserQueryError :: "string \<Rightarrow> bool" where
  "isUserQueryError msg = (take 2 (classifyErrorCode msg) \<in> set userErrorSQLSTATEClasses)"

section \<open>Trying again\<close>

text \<open>The function that is tried works on a state; the pauses between the attempts are not modelled.\<close>

definition conflictMaxRetries :: nat where
  "conflictMaxRetries = 5"

definition retries_exhausted :: "string \<Rightarrow> string" where
  "retries_exhausted lastErr =
     ''DuckLake transaction conflict: retries exhausted after '' @ digits10 conflictMaxRetries @ '' attempts: '' @ lastErr"

fun retry_loop :: "nat \<Rightarrow> string \<Rightarrow> ('s \<Rightarrow> 's \<times> (string + 'a)) \<Rightarrow> 's \<Rightarrow> 's \<times> (string + 'a)" where
  "retry_loop 0 lastErr fn st = (st, Inl (retries_exhausted lastErr))"
| "retry_loop (Suc n) lastErr fn st =
     (case fn st of
        (st', Inr r) \<Rightarrow> (st', Inr r)
      | (st', Inl err) \<Rightarrow> if \<not> isDuckLakeTransactionConflict err then (st', Inl err) else retry_loop n err fn st')"

definition retryOnConflict :: "('s \<Rightarrow> 's \<times> (string + 'a)) \<Rightarrow> 's \<Rightarrow> 's \<times> (string + 'a)" where
  "retryOnConflict fn st = retry_loop conflictMaxRetries [] fn st"

definition recoverAbortedTransaction ::
  "string \<Rightarrow> bool \<Rightarrow> ('s \<Rightarrow> 's \<times> string option) \<Rightarrow> ('s \<Rightarrow> 's \<times> (string + 'a)) \<Rightarrow> 's \<Rightarrow> 's \<times> (string + 'a)" where
  "recoverAbortedTransaction err canRollback rollback retry st =
     (if \<not> canRollback \<or> \<not> isTransactionAborted err then (st, Inl err)
      else case rollback st of
             (st', Some rollbackErr) \<Rightarrow>
               (st', Inl (''DuckLake aborted transaction recovery rollback failed: '' @ rollbackErr @
                          '' (original error: '' @ err @ '')''))
           | (st', None) \<Rightarrow> retry st')"

definition transientMaxRetries :: nat where
  "transientMaxRetries = 3"

fun attach_loop :: "nat \<Rightarrow> string \<Rightarrow> ('s \<Rightarrow> 's \<times> string option) \<Rightarrow> 's \<Rightarrow> 's \<times> string option" where
  "attach_loop 0 err fn st = (st, Some err)"
| "attach_loop (Suc n) err fn st =
     (case fn st of
        (st', None) \<Rightarrow> (st', None)
      | (st', Some e) \<Rightarrow> if \<not> isTransientDuckLakeError e then (st', Some e) else attach_loop n e fn st')"

definition retryOnTransientAttach :: "('s \<Rightarrow> 's \<times> string option) \<Rightarrow> 's \<Rightarrow> 's \<times> string option" where
  "retryOnTransientAttach fn st =
     (case fn st of
        (st', None) \<Rightarrow> (st', None)
      | (st', Some e) \<Rightarrow> if \<not> isTransientDuckLakeError e then (st', Some e) else attach_loop transientMaxRetries e fn st')"

end
