(* ===== verification/Go_Regexp.thy ===== *)
theory Go_Regexp
  imports SQL_Rewrite
begin

text \<open>
  The regular expressions of Go's \<^verbatim>\<open>regexp\<close> that the server uses: matching is leftmost, and of the matches at a
  position the one that a backtracking search finds first. A text is the list of its runes.
\<close>

section \<open>Expressions and matches\<close>

datatype re =
    Empty
  | Rune "string \<Rightarrow> bool"
  | Then re re
  | Or re re
  | Many re
  | Few re
  | Group nat re
  | BeginText
  | EndText
  | WordBoundary

text \<open>A state of the search: the rune before the position, the runes after it, and the groups found so far.\<close>

type_synonym re_state = "string \<times> string list \<times> (nat \<times> string) list"

definition word_rune :: "string \<Rightarrow> bool" where
  "word_rune r \<longleftrightarrow>
     (case r of [c] \<Rightarrow> CHR ''0'' \<le> c \<and> c \<le> CHR ''9'' \<or> CHR ''A'' \<le> c \<and> c \<le> CHR ''Z'' \<or> CHR ''a'' \<le> c \<and> c \<le> CHR ''z'' \<or> c = CHR ''_''
      | _ \<Rightarrow> False)"

abbreviation left :: "re_state \<Rightarrow> nat" where
  "left st \<equiv> length (fst (snd st))"

definition step_rune :: "(string \<Rightarrow> bool) \<Rightarrow> re_state \<Rightarrow> re_state list" where
  "step_rune P st =
     (case st of (p, s, g) \<Rightarrow> (case s of [] \<Rightarrow> [] | r # s' \<Rightarrow> if P r then [(r, s', g)] else []))"

definition close_group :: "nat \<Rightarrow> re_state \<Rightarrow> re_state \<Rightarrow> re_state" where
  "close_group n st st' =
     (case st' of (p, s, g) \<Rightarrow> (p, s, (n, concat (take (left st - length s) (fst (snd st)))) # g))"

text \<open>The states after a match, the preferred one first. A repetition goes on only after a match that read something.\<close>

function matches :: "re \<Rightarrow> re_state \<Rightarrow> re_state list" where
  "matches Empty st = [st]"
| "matches (Rune P) st = step_rune P st"
| "matches (Then a b) st = concat (map (\<lambda>st'. matches b st') (matches a st))"
| "matches (Or a b) st = matches a st @ matches b st"
| "matches (Many a) st = concat (map (\<lambda>st'. if left st' < left st then matches (Many a) st' else []) (matches a st)) @ [st]"
| "matches (Few a) st = st # concat (map (\<lambda>st'. if left st' < left st then matches (Few a) st' else []) (matches a st))"
| "matches (Group n a) st = map (close_group n st) (matches a st)"
| "matches BeginText st = (if fst st = [] then [st] else [])"
| "matches EndText st = (if fst (snd st) = [] then [st] else [])"
| "matches WordBoundary st =
     (if word_rune (fst st) \<noteq> (fst (snd st) \<noteq> [] \<and> word_rune (hd (fst (snd st)))) then [st] else [])"
  by pat_completeness auto
termination
  by (relation "measures [\<lambda>(r, st). size r, \<lambda>(r, st). left st]") auto

fun search :: "re \<Rightarrow> string \<Rightarrow> string list \<Rightarrow> (nat \<times> string) list option" where
  "search r p s =
     (case matches r (p, s, []) of
        st # _ \<Rightarrow> Some (snd (snd st))
      | [] \<Rightarrow> (case s of [] \<Rightarrow> None | c # s' \<Rightarrow> search r c s'))"

definition FindStringSubmatch :: "re \<Rightarrow> string \<Rightarrow> (nat \<times> string) list option" where
  "FindStringSubmatch r s = search r [] (runes s)"

definition MatchString :: "re \<Rightarrow> string \<Rightarrow> bool" where
  "MatchString r s \<longleftrightarrow> FindStringSubmatch r s \<noteq> None"

definition group_text :: "nat \<Rightarrow> (nat \<times> string) list \<Rightarrow> string" where
  "group_text n g = (case map_of g n of Some s \<Rightarrow> s | None \<Rightarrow> [])"

section \<open>Building expressions\<close>

text \<open>Letters match regardless of their case.\<close>

definition fold_lit :: "string \<Rightarrow> re" where
  "fold_lit s = foldr (\<lambda>c. Then (Rune (\<lambda>r. fold_rune id r = to_lower [c]))) s Empty"

definition re_blank :: re where
  "re_blank = Rune (\<lambda>r. r \<in> {[CHR 0x09], [CHR 0x0A], [CHR 0x0C], [CHR 0x0D], [CHR 0x20]})"

definition re_not_blank :: re where
  "re_not_blank = Rune (\<lambda>r. r \<notin> {[CHR 0x09], [CHR 0x0A], [CHR 0x0C], [CHR 0x0D], [CHR 0x20]})"

definition re_dot :: re where
  "re_dot = Rune (\<lambda>r. r \<noteq> [CHR 0x0A])"

definition re_not :: "char \<Rightarrow> re" where
  "re_not c = Rune (\<lambda>r. r \<noteq> [c])"

abbreviation some :: "re \<Rightarrow> re" where
  "some r \<equiv> Then r (Many r)"

definition re_seq :: "re list \<Rightarrow> re" where
  "re_seq rs = foldr Then rs Empty"

definition optionally :: "re \<Rightarrow> re" where
  "optionally r = Or r Empty"

section \<open>Queries about the session\<close>

definition pg_catalog_prefix :: re where
  "pg_catalog_prefix = optionally (re_seq [fold_lit ''pg_catalog'', Many re_blank, fold_lit ''.'', Many re_blank])"

definition pgCursors_head :: "re list" where
  "pgCursors_head =
     [BeginText, Many re_blank, fold_lit ''SELECT'', some re_blank, some re_dot, some re_blank, fold_lit ''FROM'',
      some re_blank, pg_catalog_prefix, fold_lit ''pg_cursors'', some re_blank, fold_lit ''WHERE'', some re_blank,
      fold_lit ''name'', Many re_blank, fold_lit ''='', Many re_blank]"

definition pgCursorsLiteralRegex :: re where
  "pgCursorsLiteralRegex =
     re_seq (pgCursors_head @ [fold_lit [CHR 0x27], Group 1 (Many (re_not (CHR 0x27))), fold_lit [CHR 0x27]])"

definition pgCursorsParamRegex :: re where
  "pgCursorsParamRegex = re_seq (pgCursors_head @ [fold_lit ''$1'', Many re_blank, EndText])"

definition matchPgCursorsQuery :: "string \<Rightarrow> (string \<times> bool) option" where
  "matchPgCursorsQuery query =
     (if \<not> contains_str query ''pg_cursors'' then None
      else case FindStringSubmatch pgCursorsLiteralRegex query of
             Some m \<Rightarrow> Some (group_text 1 m, False)
           | None \<Rightarrow> if MatchString pgCursorsParamRegex query then Some ([], True) else None)"

definition pgStatActivityRegex :: re where
  "pgStatActivityRegex =
     re_seq [WordBoundary, fold_lit ''FROM'', some re_blank, pg_catalog_prefix, fold_lit ''pg_stat_activity'', WordBoundary]"

definition matchPgStatActivityQuery :: "string \<Rightarrow> bool" where
  "matchPgStatActivityQuery query = (contains_str query ''pg_stat_activity'' \<and> MatchString pgStatActivityRegex query)"

end
