(* ===== verification/Client_Conn.thy ===== *)
theory Client_Conn
  imports Query_Errors Go_Regexp Wire
begin

text \<open>
  A client's connection (\<^verbatim>\<open>clientConn\<close> of \<^verbatim>\<open>server/conn.go\<close>): its prepared statements, portals,
  cursors and transaction status, the messages it writes, and its calls to the database.

  A prepared statement is shared by the name it was parsed under and by the portals bound to it, so statements live in a
  store and names and portals hold addresses. What is written goes to the list of messages; from some point on the
  client may be gone, and every write fails. What the client sends is a list of messages, each its type and its body;
  when the list ends, reading fails. The database, the parser of PostgreSQL's grammar, the transpiler that rewrites its
  trees, the file system, the stream to a worker and the other connections are parameters.
\<close>

section \<open>Parameters\<close>

datatype txStatus = txStatusIdle | txStatusTransaction | txStatusError

text \<open>A result set: its columns, the names of their types, the rows as scanning gives them, and the error that ends
  the iteration.\<close>

record rowset =
  rs_Columns :: "string + string list"
  rs_ColumnTypes :: "string + string list"
  rs_rows :: "(string + govalue list) list"
  rs_Err :: "string option"

text \<open>The statements about cursors that the parser of PostgreSQL's grammar finds: a declaration with its name and its
  query, deparsed, empty if that failed; a fetch with its name, whether it goes forward, its count and whether it only
  moves; the name to close.\<close>

datatype cursor_stmt =
    DeclareCursorStmt string string
  | FetchStmt string bool int bool
  | ClosePortalStmt string

record transpiled =
  tr_SQL :: string
  tr_Statements :: "string list"
  tr_CleanupStatements :: "string list"
  tr_ParamCount :: nat
  tr_IsNoOp :: bool
  tr_NoOpTag :: string
  tr_IsIgnoredSet :: bool
  tr_Error :: "string option"
  tr_FallbackToNative :: bool

text \<open>What \<^verbatim>\<open>pg_stat_activity\<close> shows of a connection.\<close>

record conn_info =
  ci_pid :: "32 word"
  ci_database :: string
  ci_username :: string
  ci_applicationName :: string
  ci_clientAddr :: string
  ci_clientPort :: "32 word"
  ci_backendStart :: int
  ci_queryStart :: "int option"
  ci_zone :: int
  ci_currentQuery :: string
  ci_txStatus :: txStatus
  ci_workerID :: "32 word"

text \<open>The stream that uploads data to a worker: opening it with the statement to run, sending a chunk, closing it and
  waiting for the number of rows, and giving it up.\<close>

record 'd upload =
  up_open :: "'d \<Rightarrow> string \<Rightarrow> 'd \<times> string option"
  up_send :: "'d \<Rightarrow> bytes \<Rightarrow> 'd \<times> string option"
  up_finish :: "'d \<Rightarrow> 'd \<times> (string + int)"
  up_cancel :: "'d \<Rightarrow> 'd"

text \<open>Beside the database: the error that ends reading and whether it is \<^verbatim>\<open>io.EOF\<close>, temporary files, the
  records of a CSV text up to the first that cannot be read with that error, the bulk loader of DuckDB, and the upload to
  a worker if the executor is remote.\<close>

record 'd world =
  w_Exec :: "'d \<Rightarrow> string \<Rightarrow> govalue list \<Rightarrow> 'd \<times> (string + int)"
  w_Query :: "'d \<Rightarrow> string \<Rightarrow> govalue list \<Rightarrow> 'd \<times> (string + rowset)"
  w_ctxDone :: "'d \<Rightarrow> bool"
  w_parseCursor :: "string \<Rightarrow> cursor_stmt option"
  w_parseStatements :: "string \<Rightarrow> (string + string) list option"
  w_Transpile :: "bool \<Rightarrow> string \<Rightarrow> string + transpiled"
  w_AlterView :: "string \<Rightarrow> string option"
  w_DropView :: "string \<Rightarrow> string option"
  w_listConns :: "'d \<Rightarrow> conn_info list"
  w_progressFn :: "(32 word \<Rightarrow> 64 word \<times> 64 word \<times> 64 word \<times> bool) option"
  w_writeErr :: string
  w_readErr :: string
  w_readEOF :: bool
  w_CreateTemp :: "'d \<Rightarrow> 'd \<times> (string + string)"
  w_WriteFile :: "'d \<Rightarrow> string \<Rightarrow> bytes \<Rightarrow> 'd \<times> string option"
  w_RemoveFile :: "'d \<Rightarrow> string \<Rightarrow> 'd"
  w_csv :: "char \<Rightarrow> bytes \<Rightarrow> string list list \<times> string"
  w_append :: "('d \<Rightarrow> string list \<Rightarrow> govalue list list \<Rightarrow> 'd \<times> (string + int)) option"
  w_upload :: "'d upload option"
  w_quote :: "string \<Rightarrow> string"
  w_fold :: "string \<Rightarrow> string"
  w_lib :: golib

section \<open>State\<close>

datatype cursorOp = cursorOpNone | cursorOpDeclare | cursorOpFetch | cursorOpClose | cursorOpPgCursorsQuery | cursorOpPgStatActivity

record cursorState =
  cu_query :: string
  cu_open :: "rowset option"
  cu_exhausted :: bool

record preparedStmt =
  ps_query :: string
  ps_convertedQuery :: string
  ps_paramTypes :: "int list"
  ps_numParams :: int
  ps_isIgnoredSet :: bool
  ps_isNoOp :: bool
  ps_noOpTag :: string
  ps_described :: bool
  ps_statements :: "string list"
  ps_cleanupStatements :: "string list"
  ps_cursorOp :: cursorOp
  ps_cursorName :: string
  ps_cursorQuery :: string
  ps_fetchCount :: int

record portal =
  po_stmt :: nat
  po_paramValues :: "bytes option list"
  po_paramFormats :: "int list"
  po_resultFormats :: "int list"
  po_described :: bool

record field =
  fd_name :: string
  fd_OID :: int
  fd_Size :: int
  fd_Typmod :: "32 word"
  fd_format :: int

datatype backend =
    ParseComplete | BindComplete | CloseComplete | NoData | EmptyQueryResponse
  | ParameterDescription "int list"
  | RowDescription "field list"
  | DataRow "bytes option list"
  | CommandComplete string
  | ErrorResponse string string string
  | NoticeResponse string string string
  | ReadyForQuery txStatus
  | CopyOutResponse "16 word" bool
  | CopyInResponse "16 word" bool
  | CopyData bytes
  | CopyDone

datatype call = ExecCall string "govalue list" | QueryCall string "govalue list"

text \<open>The type and the body of a message of the client.\<close>

type_synonym frontend = "char \<times> bytes"

definition MsgQuery :: char where "MsgQuery = CHR ''Q''"
definition MsgTerminate :: char where "MsgTerminate = CHR ''X''"
definition MsgParse :: char where "MsgParse = CHR ''P''"
definition MsgBind :: char where "MsgBind = CHR ''B''"
definition MsgDescribe :: char where "MsgDescribe = CHR ''D''"
definition MsgExecute :: char where "MsgExecute = CHR ''E''"
definition MsgSync :: char where "MsgSync = CHR ''S''"
definition MsgClose :: char where "MsgClose = CHR ''C''"
definition MsgFlush :: char where "MsgFlush = CHR ''H''"
definition MsgCopyFail :: char where "MsgCopyFail = CHR ''f''"

record 'd conn =
  c_stmts :: "string \<Rightarrow> nat option"
  c_store :: "nat \<Rightarrow> preparedStmt"
  c_fresh :: nat
  c_portals :: "string \<Rightarrow> portal option"
  c_cursors :: "string \<Rightarrow> cursorState option"
  c_txStatus :: txStatus
  c_names :: catalog_names
  c_in :: "frontend list"
  c_out :: "backend list"
  c_limit :: "nat option"
  c_failed :: bool
  c_db :: 'd
  c_calls :: "call list"
  c_panic :: bool

section \<open>Writing\<close>

definition emit :: "backend \<Rightarrow> 'd conn \<Rightarrow> 'd conn \<times> bool" where
  "emit m c =
     (if (case c_limit c of None \<Rightarrow> True | Some n \<Rightarrow> length (c_out c) < n)
      then (c\<lparr>c_out := c_out c @ [m]\<rparr>, True) else (c\<lparr>c_failed := True\<rparr>, False))"

text \<open>Most writes ignore the error.\<close>

definition put :: "backend \<Rightarrow> 'd conn \<Rightarrow> 'd conn" where
  "put m c = fst (emit m c)"

definition sendError :: "string \<Rightarrow> string \<Rightarrow> string \<Rightarrow> 'd conn \<Rightarrow> 'd conn" where
  "sendError severity code message c = put (ErrorResponse severity code message) c"

definition sendNotice :: "string \<Rightarrow> string \<Rightarrow> string \<Rightarrow> 'd conn \<Rightarrow> 'd conn" where
  "sendNotice severity code message c = put (NoticeResponse severity code message) c"

definition ready :: "'d conn \<Rightarrow> 'd conn" where
  "ready c = put (ReadyForQuery (c_txStatus c)) c"

text \<open>The error of a failed write is returned by every later flush.\<close>

definition flush :: "'d world \<Rightarrow> 'd conn \<Rightarrow> string option" where
  "flush w c = (if c_failed c then Some (w_writeErr w) else None)"

definition panic :: "'d conn \<Rightarrow> 'd conn" where
  "panic c = c\<lparr>c_panic := True\<rparr>"

section \<open>Rows\<close>

definition OidChar :: int where "OidChar = 18"
definition OidName :: int where "OidName = 19"

definition pgCatalogColumnOIDs :: "(string \<times> int) list" where
  "pgCatalogColumnOIDs =
     map (\<lambda>n. (n, OidName))
       [''nspname'', ''relname'', ''attname'', ''typname'', ''datname'', ''rolname'', ''collname'', ''conname'', ''proname'',
        ''usename'', ''current_database()'', ''current_database'', ''TABLE_SCHEM'', ''TABLE_CATALOG'', ''table_schem'', ''table_name''] @
     map (\<lambda>n. (n, OidChar))
       [''typtype'', ''typcategory'', ''typalign'', ''typstorage'', ''relkind'', ''relpersistence'', ''attidentity'', ''attgenerated''] @
     map (\<lambda>n. (n, OidText)) [''table_type'', ''adsrc'', ''description''] @ [(''attlen'', OidInt2)]"

definition mapTypeOIDWithColumnName :: "string \<Rightarrow> string \<Rightarrow> int" where
  "mapTypeOIDWithColumnName colName colType =
     (case map_of pgCatalogColumnOIDs colName of Some oid \<Rightarrow> oid | None \<Rightarrow> ti_OID (mapDuckDBType colType))"

definition mapTypeSizeWithColumnName :: "string \<Rightarrow> string \<Rightarrow> int" where
  "mapTypeSizeWithColumnName colName colType =
     (case map_of pgCatalogColumnOIDs colName of
        Some oid \<Rightarrow>
          if oid = OidName then 64 else if oid = OidChar then 1 else if oid = OidText then - 1 else if oid = OidInt2 then 2
          else ti_Size (mapDuckDBType colType)
      | None \<Rightarrow> ti_Size (mapDuckDBType colType))"

text \<open>The format code of a column: a single code is for all columns, a column beyond the codes is in text form.\<close>

definition format_of :: "int list \<Rightarrow> nat \<Rightarrow> int" where
  "format_of formatCodes i =
     (if length formatCodes = 1 then formatCodes ! 0 else if i < length formatCodes then formatCodes ! i else 0)"

definition trim_prefix :: "string \<Rightarrow> string \<Rightarrow> string" where
  "trim_prefix p s = (if prefix p s then drop (length p) s else s)"

definition row_field :: "string \<Rightarrow> string \<Rightarrow> int \<Rightarrow> field" where
  "row_field col colType format =
     (let displayCol = trim_prefix ''memory.main.'' col
      in \<lparr>fd_name = displayCol, fd_OID = mapTypeOIDWithColumnName displayCol colType,
          fd_Size = mapTypeSizeWithColumnName displayCol colType, fd_Typmod = ti_Typmod (mapDuckDBType colType),
          fd_format = format\<rparr>)"

text \<open>A column without a type makes the server panic.\<close>

definition sendRowDescriptionWithFormats :: "string list \<Rightarrow> string list \<Rightarrow> int list \<Rightarrow> 'd conn \<Rightarrow> 'd conn \<times> bool" where
  "sendRowDescriptionWithFormats cols colTypes formatCodes c =
     (if length colTypes < length cols then (panic c, False)
      else emit (RowDescription (map (\<lambda>i. row_field (cols ! i) (colTypes ! i) (format_of formatCodes i)) [0..<length cols])) c)"

definition sendRowDescription :: "string list \<Rightarrow> string list \<Rightarrow> 'd conn \<Rightarrow> 'd conn \<times> bool" where
  "sendRowDescription cols colTypes c = sendRowDescriptionWithFormats cols colTypes [] c"

definition field_bytes :: "field \<Rightarrow> bytes" where
  "field_bytes f =
     fd_name f @ [CHR 0x00] @ put_be 4 (0 :: 32 word) @ put_be 2 (0 :: 16 word) @ put_be 4 (of_int (fd_OID f) :: 32 word) @
     put_be 2 (of_int (fd_Size f) :: 16 word) @ put_be 4 (fd_Typmod f) @ put_be 2 (of_int (fd_format f) :: 16 word)"

definition row_description_bytes :: "field list \<Rightarrow> bytes" where
  "row_description_bytes fs = put_be 2 (of_nat (length fs) :: 16 word) @ concat (map field_bytes fs)"

text \<open>A value of a row: null, its bytes, or a panic of the encoder.\<close>

definition text_value :: "golib \<Rightarrow> govalue \<Rightarrow> int option \<Rightarrow> encoded" where
  "text_value lib v oid =
     (if oid = Some OidJSON \<or> oid = Some OidJSONB then encodeJSON lib v
      else if oid = Some OidDate
      then (case v of
              VTime t off \<Rightarrow> if t \<noteq> zero_time then Enc (time_format lib ''2006-01-02'' t off) else Enc (formatValue lib v)
            | _ \<Rightarrow> Enc (formatValue lib v))
      else Enc (formatValue lib v))"

definition row_value :: "golib \<Rightarrow> int list \<Rightarrow> int list \<Rightarrow> nat \<Rightarrow> govalue \<Rightarrow> encoded" where
  "row_value lib formatCodes typeOIDs i v =
     (if v = VNil then EncNil
      else if format_of formatCodes i = 1 \<and> i < length typeOIDs then encodeBinary lib (normalizeDriverValue lib v) (typeOIDs ! i)
      else text_value lib v (if i < length typeOIDs then Some (typeOIDs ! i) else None))"

fun cell :: "encoded \<Rightarrow> bytes option" where
  "cell (Enc b) = Some b"
| "cell _ = None"

definition sendDataRowWithFormats :: "golib \<Rightarrow> govalue list \<Rightarrow> int list \<Rightarrow> int list \<Rightarrow> 'd conn \<Rightarrow> 'd conn \<times> bool" where
  "sendDataRowWithFormats lib values formatCodes typeOIDs c =
     (let cells = map (\<lambda>i. row_value lib formatCodes typeOIDs i (values ! i)) [0..<length values]
      in if EncPanic \<in> set cells then (panic c, False) else emit (DataRow (map cell cells)) c)"

definition cell_bytes :: "bytes option \<Rightarrow> bytes" where
  "cell_bytes v = (case v of None \<Rightarrow> put_be 4 (- 1 :: 32 word) | Some b \<Rightarrow> put_be 4 (of_nat (length b) :: 32 word) @ b)"

definition data_row_bytes :: "bytes option list \<Rightarrow> bytes" where
  "data_row_bytes vs = put_be 2 (of_nat (length vs) :: 16 word) @ concat (map cell_bytes vs)"

definition parameter_description_bytes :: "int list \<Rightarrow> bytes" where
  "parameter_description_bytes oids =
     put_be 2 (of_nat (length oids) :: 16 word) @
     concat (map (\<lambda>oid. put_be 4 (of_int oid :: 32 word)) oids)"

text \<open>The loop over the rows of a result: up to a limit, until the rows end, a row cannot be scanned, or a write
  fails. It gives the number of rows sent and the rows left.\<close>

datatype row_end = RowsEnd | RowsLimit | ScanError string | WriteError

fun send_rows ::
  "golib \<Rightarrow> int list \<Rightarrow> int list \<Rightarrow> int option \<Rightarrow> int \<Rightarrow> (string + govalue list) list \<Rightarrow> 'd conn \<Rightarrow>
   'd conn \<times> int \<times> (string + govalue list) list \<times> row_end" where
  "send_rows lib formats oids lim n [] c =
     (case lim of Some m \<Rightarrow> if n \<ge> m then (c, n, [], RowsLimit) else (c, n, [], RowsEnd) | None \<Rightarrow> (c, n, [], RowsEnd))"
| "send_rows lib formats oids lim n (r # rs) c =
     (if (case lim of Some m \<Rightarrow> n \<ge> m | None \<Rightarrow> False) then (c, n, r # rs, RowsLimit)
      else case r of
             Inl err \<Rightarrow> (c, n, rs, ScanError err)
           | Inr values \<Rightarrow>
               (case sendDataRowWithFormats lib values formats oids c of
                  (c', True) \<Rightarrow> send_rows lib formats oids lim (n + 1) rs c'
                | (c', False) \<Rightarrow> (c', n, rs, WriteError)))"

section \<open>The database\<close>

definition exec :: "'d world \<Rightarrow> string \<Rightarrow> govalue list \<Rightarrow> 'd conn \<Rightarrow> 'd conn \<times> (string + int)" where
  "exec w query args c =
     (case w_Exec w (c_db c) query args of
        (d, r) \<Rightarrow> (c\<lparr>c_db := d, c_calls := c_calls c @ [ExecCall query args]\<rparr>, r))"

definition run_query :: "'d world \<Rightarrow> string \<Rightarrow> govalue list \<Rightarrow> 'd conn \<Rightarrow> 'd conn \<times> (string + rowset)" where
  "run_query w query args c =
     (case w_Query w (c_db c) query args of
        (d, r) \<Rightarrow> (c\<lparr>c_db := d, c_calls := c_calls c @ [QueryCall query args]\<rparr>, r))"

definition isCallerCancellation :: "'d world \<Rightarrow> string \<Rightarrow> 'd conn \<Rightarrow> bool" where
  "isCallerCancellation w err c = (isQueryCancelled err \<and> w_ctxDone w (c_db c))"

definition setTxError :: "'d conn \<Rightarrow> 'd conn" where
  "setTxError c = (if c_txStatus c = txStatusTransaction then c\<lparr>c_txStatus := txStatusError\<rparr> else c)"

definition closeCursor :: "string \<Rightarrow> 'd conn \<Rightarrow> 'd conn" where
  "closeCursor name c = c\<lparr>c_cursors := (c_cursors c)(name := None)\<rparr>"

definition closeAllCursors :: "'d conn \<Rightarrow> 'd conn" where
  "closeAllCursors c = c\<lparr>c_cursors := (\<lambda>_. None)\<rparr>"

definition updateTxStatus :: "string \<Rightarrow> 'd conn \<Rightarrow> 'd conn" where
  "updateTxStatus cmdType c =
     (if cmdType = ''BEGIN'' then c\<lparr>c_txStatus := txStatusTransaction\<rparr>
      else if cmdType = ''COMMIT'' \<or> cmdType = ''ROLLBACK'' then closeAllCursors (c\<lparr>c_txStatus := txStatusIdle\<rparr>)
      else c)"

end
