(* ===== verification/Cursors.thy ===== *)
theory Cursors
  imports Client_Conn
begin

text \<open>
  Cursors, which DuckDB does not have and the connection emulates (\<^verbatim>\<open>server/conn.go\<close>), and the queries about the
  session that it answers itself. A cursor is opened by the first fetch and keeps the rows that are left.
\<close>

section \<open>Opening\<close>

definition cancel_message :: string where
  "cancel_message = ''canceling statement due to user request''"

definition type_oids :: "string list \<Rightarrow> int list" where
  "type_oids colTypes = map (\<lambda>t. ti_OID (mapDuckDBType t)) colTypes"

definition openCursor :: "'d world \<Rightarrow> string \<Rightarrow> cursorState \<Rightarrow> 'd conn \<Rightarrow> 'd conn \<times> (string + rowset)" where
  "openCursor w name cursor c =
     (case cu_open cursor of
        Some rs \<Rightarrow> (c, Inr rs)
      | None \<Rightarrow>
          (case run_query w (cu_query cursor) [] c of
             (c1, Inl err) \<Rightarrow> (c1, Inl err)
           | (c1, Inr rs) \<Rightarrow>
               (case (rs_Columns rs, rs_ColumnTypes rs) of
                  (Inl err, _) \<Rightarrow> (c1, Inl err)
                | (Inr cols, Inl err) \<Rightarrow> (c1, Inl err)
                | (Inr cols, Inr colTypes) \<Rightarrow>
                    (c1\<lparr>c_cursors := (c_cursors c1)(name \<mapsto> cursor\<lparr>cu_open := Some rs\<rparr>)\<rparr>, Inr rs))))"

definition cursor_missing :: "'d world \<Rightarrow> string \<Rightarrow> string" where
  "cursor_missing w name = ''cursor '' @ w_quote w name @ '' does not exist''"

definition getCursorSchema :: "'d world \<Rightarrow> string \<Rightarrow> 'd conn \<Rightarrow> 'd conn \<times> (string + string list \<times> string list)" where
  "getCursorSchema w name c =
     (case c_cursors c name of
        None \<Rightarrow> (c, Inl (cursor_missing w name))
      | Some cursor \<Rightarrow>
          (case openCursor w name cursor c of
             (c1, Inl err) \<Rightarrow> (c1, Inl err)
           | (c1, Inr rs) \<Rightarrow> (c1, Inr (projr (rs_Columns rs), projr (rs_ColumnTypes rs)))))"

text \<open>An error while a cursor opens or its rows come.\<close>

definition cursor_error :: "'d world \<Rightarrow> string \<Rightarrow> 'd conn \<Rightarrow> 'd conn" where
  "cursor_error w err c =
     setTxError (if isCallerCancellation w err c then sendError ''ERROR'' ''57014'' cancel_message c
                 else sendError ''ERROR'' ''42000'' err c)"

section \<open>Fetching\<close>

datatype fetched = Fetched int | FetchFailed | FetchBroken

definition keep_rows :: "string \<Rightarrow> cursorState \<Rightarrow> rowset \<Rightarrow> (string + govalue list) list \<Rightarrow> bool \<Rightarrow> 'd conn \<Rightarrow> 'd conn" where
  "keep_rows name cursor rs rest ended c =
     c\<lparr>c_cursors := (c_cursors c)(name \<mapsto>
         cursor\<lparr>cu_open := Some (rs\<lparr>rs_rows := rest\<rparr>), cu_exhausted := cu_exhausted cursor \<or> ended\<rparr>)\<rparr>"

text \<open>The loop of a fetch and the checks after it. The error of the rows shows once they have ended.\<close>

definition fetch_rows ::
  "'d world \<Rightarrow> string \<Rightarrow> cursorState \<Rightarrow> rowset \<Rightarrow> int list \<Rightarrow> int \<Rightarrow> 'd conn \<Rightarrow> 'd conn \<times> fetched" where
  "fetch_rows w name cursor rs formats howMany c =
     (case send_rows (w_lib w) formats (type_oids (projr (rs_ColumnTypes rs))) (Some howMany) 0 (rs_rows rs) c of
        (c1, n, rest, e) \<Rightarrow>
          let c2 = keep_rows name cursor rs rest (e = RowsEnd) c1;
              ended = (cu_exhausted cursor \<or> e = RowsEnd)
          in case e of
               ScanError err \<Rightarrow> (setTxError (sendError ''ERROR'' ''42000'' err c2), FetchFailed)
             | WriteError \<Rightarrow> (c2, FetchBroken)
             | _ \<Rightarrow> (case (if ended then rs_Err rs else None) of
                       Some err \<Rightarrow> (cursor_error w err c2, FetchFailed)
                     | None \<Rightarrow> (c2, Fetched n)))"

definition move_rows :: "string \<Rightarrow> cursorState \<Rightarrow> rowset \<Rightarrow> int \<Rightarrow> 'd conn \<Rightarrow> 'd conn \<times> int" where
  "move_rows name cursor rs howMany c =
     (let n = min (nat howMany) (length (rs_rows rs))
      in (keep_rows name cursor rs (drop n (rs_rows rs)) (int n < howMany) c, int n))"

text \<open>\<^verbatim>\<open>FETCH\<close> and \<^verbatim>\<open>MOVE\<close> of the simple protocol and of a statement in a batch, without the ready message:
  whether an error was sent, and the error of a failed write.\<close>

definition fetch_cursor :: "'d world \<Rightarrow> string \<Rightarrow> bool \<Rightarrow> int \<Rightarrow> bool \<Rightarrow> 'd conn \<Rightarrow> 'd conn \<times> bool \<times> string option" where
  "fetch_cursor w name forward howMany ismove c =
     (if \<not> forward then (sendError ''ERROR'' ''0A000'' ''cursor can only scan forward'' c, True, None)
      else case c_cursors c name of
        None \<Rightarrow> (sendError ''ERROR'' ''34000'' (cursor_missing w name) c, True, None)
      | Some cursor \<Rightarrow>
          (case openCursor w name cursor c of
             (c1, Inl err) \<Rightarrow> (cursor_error w err c1, True, None)
           | (c1, Inr rs) \<Rightarrow>
               if howMany < 0 then (sendError ''ERROR'' ''0A000'' ''cursor can only scan forward'' c1, True, None)
               else if ismove
               then (case move_rows name cursor rs howMany c1 of
                       (c2, n) \<Rightarrow> (put (CommandComplete (''MOVE '' @ itoa n)) c2, False, None))
               else
                 (case sendRowDescription (projr (rs_Columns rs)) (projr (rs_ColumnTypes rs)) c1 of
                    (c2, False) \<Rightarrow> (c2, False, Some (w_writeErr w))
                  | (c2, True) \<Rightarrow>
                      (case fetch_rows w name cursor rs [] howMany c2 of
                         (c3, Fetched n) \<Rightarrow> (put (CommandComplete (''FETCH '' @ itoa n)) c3, False, None)
                       | (c3, FetchFailed) \<Rightarrow> (c3, True, None)
                       | (c3, FetchBroken) \<Rightarrow> (c3, False, Some (w_writeErr w))))))"

definition declare_cursor :: "'d world \<Rightarrow> string \<Rightarrow> string \<Rightarrow> 'd conn \<Rightarrow> 'd conn \<times> bool" where
  "declare_cursor w name inner c =
     (let declared = (\<lambda>sql. let c1 = closeCursor name c
                            in (put (CommandComplete ''DECLARE CURSOR'')
                                  (c1\<lparr>c_cursors := (c_cursors c1)(name \<mapsto> \<lparr>cu_query = sql, cu_open = None, cu_exhausted = False\<rparr>)\<rparr>), False))
      in if inner = [] then (sendError ''ERROR'' ''42601'' ''could not deparse cursor query'' c, True)
         else if cn_passthrough (c_names c) then declared inner
         else case w_Transpile w False inner of
                Inl err \<Rightarrow> (sendError ''ERROR'' ''42601'' (''syntax error in cursor query: '' @ err) c, True)
              | Inr result \<Rightarrow> declared (if tr_FallbackToNative result then inner else tr_SQL result))"

definition close_cursor :: "'d world \<Rightarrow> string \<Rightarrow> 'd conn \<Rightarrow> 'd conn \<times> bool" where
  "close_cursor w name c =
     (if name = [] then (put (CommandComplete ''CLOSE CURSOR'') (closeAllCursors c), False)
      else if c_cursors c name = None then (sendError ''ERROR'' ''34000'' (cursor_missing w name) c, True)
      else (put (CommandComplete ''CLOSE CURSOR'') (closeCursor name c), False))"

section \<open>Queries about cursors and connections\<close>

definition fixed_field :: "string \<Rightarrow> int \<Rightarrow> int \<Rightarrow> int \<Rightarrow> field" where
  "fixed_field name oid typSize format =
     \<lparr>fd_name = name, fd_OID = oid, fd_Size = typSize, fd_Typmod = - 1, fd_format = format\<rparr>"

definition sendPgCursorsRowDescriptionWithFormats :: "int list \<Rightarrow> 'd conn \<Rightarrow> 'd conn \<times> bool" where
  "sendPgCursorsRowDescriptionWithFormats formatCodes c =
     emit (RowDescription [fixed_field ''?column?'' 23 4 (if formatCodes = [] then 0 else formatCodes ! 0)]) c"

text \<open>The row that says that a cursor exists.\<close>

definition sendPgCursorsRow :: "'d world \<Rightarrow> int list \<Rightarrow> 'd conn \<Rightarrow> 'd conn \<times> bool" where
  "sendPgCursorsRow w formatCodes c = sendDataRowWithFormats (w_lib w) [VInt64 1] formatCodes [23] c"

definition pgStatActivityColumns :: "(string \<times> int \<times> int) list" where
  "pgStatActivityColumns =
     [(''datid'', 23, 4), (''datname'', 25, - 1), (''pid'', 23, 4), (''usesysid'', 23, 4), (''usename'', 25, - 1),
      (''application_name'', 25, - 1), (''client_addr'', 25, - 1), (''client_port'', 23, 4), (''backend_start'', 1184, 8),
      (''xact_start'', 1184, 8), (''query_start'', 1184, 8), (''state_change'', 1184, 8), (''wait_event_type'', 25, - 1),
      (''wait_event'', 25, - 1), (''state'', 25, - 1), (''backend_xid'', 28, 4), (''backend_xmin'', 28, 4), (''query'', 25, - 1),
      (''backend_type'', 25, - 1), (''leader_pid'', 23, 4), (''worker_id'', 23, 4), (''query_progress'', 701, 8),
      (''rows_processed'', 20, 8), (''total_rows_to_process'', 20, 8)]"

definition pgStatActivityTypeOIDs :: "int list" where
  "pgStatActivityTypeOIDs = map (\<lambda>(name, oid, typSize). oid) pgStatActivityColumns"

definition sendPgStatActivityRowDescriptionWithFormats :: "int list \<Rightarrow> 'd conn \<Rightarrow> 'd conn \<times> bool" where
  "sendPgStatActivityRowDescriptionWithFormats formatCodes c =
     emit (RowDescription (map (\<lambda>i. case pgStatActivityColumns ! i of
                                      (name, oid, typSize) \<Rightarrow> fixed_field name oid typSize (format_of formatCodes i))
                            [0..<length pgStatActivityColumns])) c"

definition activity_state :: "conn_info \<Rightarrow> bool \<Rightarrow> string" where
  "activity_state conn stalled =
     (if ci_currentQuery conn \<noteq> [] then (if stalled then ''active (stuck)'' else ''active'')
      else case ci_txStatus conn of
             txStatusTransaction \<Rightarrow> ''idle in transaction''
           | txStatusError \<Rightarrow> ''idle in transaction (aborted)''
           | txStatusIdle \<Rightarrow> ''idle'')"

text \<open>Without progress from workers the percentage is \<open>-1\<close>, in the bits of a 64-bit floating-point number.\<close>

definition activity_values :: "'d world \<Rightarrow> conn_info \<Rightarrow> govalue list" where
  "activity_values w conn =
     (let (pct, rows, total, stalled) =
            (case w_progressFn w of Some f \<Rightarrow> f (ci_pid conn) | None \<Rightarrow> (0xBFF0000000000000, 0, 0, False))
      in [VInt32 0, VString (ci_database conn), VInt32 (ci_pid conn), VInt32 10, VString (ci_username conn),
          VString (ci_applicationName conn), VString (ci_clientAddr conn), VInt32 (ci_clientPort conn),
          VTime (ci_backendStart conn) (ci_zone conn), VNil,
          (case ci_queryStart conn of Some t \<Rightarrow> VTime t (ci_zone conn) | None \<Rightarrow> VNil), VNil, VNil, VNil,
          VString (activity_state conn stalled), VNil, VNil, VString (ci_currentQuery conn), VString ''client backend'', VNil,
          VInt32 (ci_workerID conn), VFloat64 pct, VInt64 rows, VInt64 total])"

definition sendPgStatActivityDataRow :: "'d world \<Rightarrow> conn_info \<Rightarrow> int list \<Rightarrow> 'd conn \<Rightarrow> 'd conn \<times> bool" where
  "sendPgStatActivityDataRow w conn formatCodes c =
     sendDataRowWithFormats (w_lib w) (activity_values w conn) formatCodes pgStatActivityTypeOIDs c"

definition sorted_conns :: "'d world \<Rightarrow> 'd conn \<Rightarrow> conn_info list" where
  "sorted_conns w c = sort_key (\<lambda>i. sint (ci_pid i)) (w_listConns w (c_db c))"

fun activity_rows :: "'d world \<Rightarrow> int list \<Rightarrow> conn_info list \<Rightarrow> 'd conn \<Rightarrow> 'd conn \<times> bool" where
  "activity_rows w formatCodes [] c = (c, True)"
| "activity_rows w formatCodes (i # is) c =
     (case sendPgStatActivityDataRow w i formatCodes c of
        (c1, True) \<Rightarrow> activity_rows w formatCodes is c1
      | (c1, False) \<Rightarrow> (c1, False))"

definition handlePgCursorsQuery :: "'d world \<Rightarrow> string \<Rightarrow> 'd conn \<Rightarrow> 'd conn \<times> string option" where
  "handlePgCursorsQuery w cursorName c =
     (case sendPgCursorsRowDescriptionWithFormats [] c of
        (c1, False) \<Rightarrow> (c1, Some (w_writeErr w))
      | (c1, True) \<Rightarrow>
          if c_cursors c cursorName = None then (ready (put (CommandComplete ''SELECT 0'') c1), None)
          else (case sendPgCursorsRow w [] c1 of
                  (c2, False) \<Rightarrow> (c2, Some (w_writeErr w))
                | (c2, True) \<Rightarrow> (ready (put (CommandComplete ''SELECT 1'') c2), None)))"

definition handlePgStatActivity :: "'d world \<Rightarrow> 'd conn \<Rightarrow> 'd conn \<times> string option" where
  "handlePgStatActivity w c =
     (case sendPgStatActivityRowDescriptionWithFormats [] c of
        (c1, False) \<Rightarrow> (c1, Some (w_writeErr w))
      | (c1, True) \<Rightarrow>
          (case activity_rows w [] (sorted_conns w c) c1 of
             (c2, False) \<Rightarrow> (c2, Some (w_writeErr w))
           | (c2, True) \<Rightarrow>
               (ready (put (CommandComplete (''SELECT '' @ digits10 (length (sorted_conns w c)))) c2), None)))"

end
