(* ===== verification/Copy_Options.thy ===== *)
theory Copy_Options
  imports Go_Regexp
begin

text \<open>
  The options of COPY (\<^verbatim>\<open>server/conn.go\<close>): they are found in the text of the statement by regular
  expressions, since the parser of PostgreSQL's grammar is not asked about COPY.
\<close>

section \<open>Expressions\<close>

definition re_any :: "char list \<Rightarrow> re" where
  "re_any cs = Rune (\<lambda>r. \<exists>c \<in> set cs. r = [c])"

definition re_quote :: re where
  "re_quote = re_any [CHR 0x27, CHR 0x22]"

definition keyword_re :: "string \<Rightarrow> re" where
  "keyword_re k = re_seq [WordBoundary, fold_lit k, WordBoundary]"

definition copyToStdoutRegex :: re where
  "copyToStdoutRegex =
     re_seq [fold_lit ''COPY'', some re_blank, Group 1 (Then re_dot (Few re_dot)), some re_blank, fold_lit ''TO'',
       some re_blank, fold_lit ''STDOUT'']"

definition copyFromStdinRegex :: re where
  "copyFromStdinRegex =
     re_seq [fold_lit ''COPY'', some re_blank, Group 1 (some re_not_blank), Many re_blank,
       optionally (re_seq [fold_lit ''('', Group 2 (some (re_not (CHR '')''))), fold_lit '')'', Many re_blank]),
       fold_lit ''FROM'', some re_blank, fold_lit ''STDIN'']"

definition copyBinaryRegex :: re where
  "copyBinaryRegex =
     re_seq [WordBoundary, fold_lit ''FORMAT'', some re_blank,
       Or (re_seq [optionally (re_any [CHR 0x22]), fold_lit ''binary'', optionally (re_any [CHR 0x22])]) (fold_lit ''BINARY''),
       WordBoundary]"

definition copyWithCSVRegex :: re where
  "copyWithCSVRegex = keyword_re ''CSV''"

definition copyWithHeaderRegex :: re where
  "copyWithHeaderRegex = keyword_re ''HEADER''"

text \<open>The expression for the delimiter ends in a word boundary after the closing quote.\<close>

definition copyDelimiterRegex :: re where
  "copyDelimiterRegex =
     re_seq [WordBoundary, fold_lit ''DELIMITER'', some re_blank, re_quote, Group 1 re_dot, re_quote, WordBoundary]"

definition copyNullRegex :: re where
  "copyNullRegex =
     re_seq [WordBoundary, fold_lit ''NULL'', some re_blank, re_any [CHR 0x27], Group 1 (Many (re_not (CHR 0x27))), re_any [CHR 0x27]]"

definition copyQuoteRegex :: re where
  "copyQuoteRegex =
     re_seq [WordBoundary, fold_lit ''QUOTE'', some re_blank, re_quote, Group 1 re_dot, re_quote, Many re_blank]"

definition copyEscapeRegex :: re where
  "copyEscapeRegex =
     re_seq [WordBoundary, fold_lit ''ESCAPE'', some re_blank, re_quote, Group 1 re_dot, re_quote, Many re_blank]"

section \<open>Options\<close>

definition stripPublicSchema :: "string \<Rightarrow> string" where
  "stripPublicSchema tableName =
     (let quoted = [CHR 0x22] @ ''public'' @ [CHR 0x22] @ ''.''
      in if prefix quoted tableName then drop (length quoted) tableName
         else if prefix ''public.'' (to_lower tableName) then drop (length ''public.'') tableName
         else tableName)"

record CopyFromOptions =
  cf_TableName :: string
  cf_ColumnList :: string
  cf_Delimiter :: string
  cf_HasHeader :: bool
  cf_NullString :: string
  cf_Quote :: string
  cf_Escape :: string
  cf_IsBinary :: bool

definition option_text :: "re \<Rightarrow> string \<Rightarrow> string option" where
  "option_text r query = map_option (group_text 1) (FindStringSubmatch r query)"

definition copy_delimiter :: "string \<Rightarrow> string" where
  "copy_delimiter query =
     (case option_text copyDelimiterRegex query of
        Some d \<Rightarrow> d
      | None \<Rightarrow> if MatchString copyWithCSVRegex (to_upper query) then '','' else [CHR 0x09])"

definition copy_header :: "string \<Rightarrow> bool" where
  "copy_header query \<longleftrightarrow>
     MatchString copyWithCSVRegex (to_upper query) \<and> MatchString copyWithHeaderRegex (to_upper query)"

definition ParseCopyFromOptions :: "string \<Rightarrow> CopyFromOptions option" where
  "ParseCopyFromOptions query =
     (case FindStringSubmatch copyFromStdinRegex query of
        None \<Rightarrow> None
      | Some m \<Rightarrow>
          let opts = \<lparr>cf_TableName = stripPublicSchema (group_text 1 m),
                cf_ColumnList = (if group_text 2 m \<noteq> [] then ''('' @ group_text 2 m @ '')'' else []),
                cf_Delimiter = [CHR 0x09], cf_HasHeader = False, cf_NullString = [CHR 0x5C] @ ''N'', cf_Quote = [],
                cf_Escape = [], cf_IsBinary = False\<rparr>
          in if MatchString copyBinaryRegex (to_upper query) then Some (opts\<lparr>cf_IsBinary := True\<rparr>)
             else Some (opts\<lparr>
               cf_Delimiter := copy_delimiter query,
               cf_HasHeader := copy_header query,
               cf_NullString := (case option_text copyNullRegex query of Some t \<Rightarrow> t | None \<Rightarrow> [CHR 0x5C] @ ''N''),
               cf_Quote := (case option_text copyQuoteRegex query of
                   Some t \<Rightarrow> t
                 | None \<Rightarrow> if MatchString copyWithCSVRegex (to_upper query) then [CHR 0x22] else []),
               cf_Escape := (case option_text copyEscapeRegex query of Some t \<Rightarrow> t | None \<Rightarrow> [])\<rparr>))"

record CopyToOptions =
  ct_Source :: string
  ct_Delimiter :: string
  ct_HasHeader :: bool
  ct_IsQuery :: bool

definition is_query :: "string \<Rightarrow> bool" where
  "is_query source \<longleftrightarrow> prefix ''('' source \<and> suffix '')'' source"

definition ParseCopyToOptions :: "string \<Rightarrow> CopyToOptions option" where
  "ParseCopyToOptions query =
     (case FindStringSubmatch copyToStdoutRegex query of
        None \<Rightarrow> None
      | Some m \<Rightarrow>
          let source = TrimSpace (group_text 1 m)
          in Some \<lparr>ct_Source = source, ct_Delimiter = copy_delimiter query, ct_HasHeader = copy_header query,
                ct_IsQuery = is_query source\<rparr>)"

section \<open>The statement for DuckDB\<close>

definition sql_quoted :: "string \<Rightarrow> string" where
  "sql_quoted s = [CHR 0x27] @ s @ [CHR 0x27]"

definition BuildDuckDBCopyFromSQL :: "string \<Rightarrow> string \<Rightarrow> string \<Rightarrow> CopyFromOptions \<Rightarrow> string" where
  "BuildDuckDBCopyFromSQL tableName columnList filePath opts =
     (let copyOptions =
            [''FORMAT CSV'', ''AUTO_DETECT FALSE'', ''STRICT_MODE FALSE'', ''PARALLEL FALSE'', ''MAX_LINE_SIZE 10485760''] @
            (if cf_HasHeader opts then [''HEADER''] else []) @
            [''NULL '' @ sql_quoted (cf_NullString opts), ''DELIMITER '' @ sql_quoted (cf_Delimiter opts)] @
            (if cf_Quote opts \<noteq> []
             then [''QUOTE '' @ sql_quoted (cf_Quote opts),
                   ''ESCAPE '' @ sql_quoted (if cf_Escape opts = [] then cf_Quote opts else cf_Escape opts)]
             else if cf_Escape opts \<noteq> [] then [''ESCAPE '' @ sql_quoted (cf_Escape opts)] else [])
      in ''COPY '' @ tableName @ '' '' @ columnList @ '' FROM '' @ sql_quoted filePath @ '' ('' @ join_sep '', '' copyOptions @ '')'')"

end
