(* ===== verification/Copy.thy ===== *)
theory Copy
  imports Cursors Copy_Options Binary_Decode
begin

text \<open>
  COPY (\<^verbatim>\<open>server/conn.go\<close>, \<^verbatim>\<open>server/flightclient/copyfromstdin.go\<close>): rows sent to the client in
  text or in PostgreSQL's binary format, and rows that the client sends, loaded through a temporary file, through a stream
  to a remote worker, or by statements of the server's own. A handler gives the connection and the error of a failed
  write or read, if any.
\<close>

section \<open>Answers\<close>

definition copy_error :: "string \<Rightarrow> string \<Rightarrow> 'd conn \<Rightarrow> 'd conn \<times> string option" where
  "copy_error code message c = (ready (setTxError (sendError ''ERROR'' code message c)), None)"

definition copy_tag :: "int \<Rightarrow> 'd conn \<Rightarrow> 'd conn \<times> string option" where
  "copy_tag n c = (ready (put (CommandComplete (''COPY '' @ itoa n)) c), None)"

section \<open>Rows to the client\<close>

definition formatCopyValue :: "golib \<Rightarrow> govalue \<Rightarrow> string" where
  "formatCopyValue lib v =
     (case v of
        VNil \<Rightarrow> [CHR 0x5C] @ ''N''
      | VList xs \<Rightarrow> formatValue lib v
      | VMap kvs \<Rightarrow> formatValue lib v
      | VOrderedMap kvs \<Rightarrow> formatValue lib v
      | _ \<Rightarrow> fmt_v lib v)"

text \<open>A field; a column without a type makes the server panic.\<close>

definition copy_field :: "golib \<Rightarrow> int list \<Rightarrow> nat \<Rightarrow> govalue \<Rightarrow> encoded" where
  "copy_field lib typeOIDs i v =
     (if i \<ge> length typeOIDs then EncPanic
      else if typeOIDs ! i = OidJSON \<or> typeOIDs ! i = OidJSONB then encodeJSON lib v
      else Enc (formatCopyValue lib v))"

definition enc_bytes :: "encoded \<Rightarrow> bytes" where
  "enc_bytes e = (case e of Enc b \<Rightarrow> b | _ \<Rightarrow> [])"

definition copy_line :: "golib \<Rightarrow> int list \<Rightarrow> string \<Rightarrow> govalue list \<Rightarrow> bytes option" where
  "copy_line lib typeOIDs delimiter values =
     (let fields = map (\<lambda>i. copy_field lib typeOIDs i (values ! i)) [0..<length values]
      in if EncPanic \<in> set fields then None else Some (join_sep delimiter (map enc_bytes fields) @ [CHR 0x0A]))"

text \<open>The loop over the rows, each written as one message; it gives the number of rows sent. A row that cannot be
  written to a message makes the server panic.\<close>

fun copy_rows ::
  "(bool \<Rightarrow> govalue list \<Rightarrow> bytes option) \<Rightarrow> int \<Rightarrow> (string + govalue list) list \<Rightarrow> 'd conn \<Rightarrow> 'd conn \<times> int \<times> row_end" where
  "copy_rows line n [] c = (c, n, RowsEnd)"
| "copy_rows line n (r # rs) c =
     (case r of
        Inl err \<Rightarrow> (c, n, ScanError err)
      | Inr values \<Rightarrow>
          (case line (n = 0) values of
             None \<Rightarrow> (panic c, n, WriteError)
           | Some b \<Rightarrow>
               (case emit (CopyData b) c of
                  (c1, True) \<Rightarrow> copy_rows line (n + 1) rs c1
                | (c1, False) \<Rightarrow> (c1, n, WriteError))))"

definition copy_out_end :: "'d world \<Rightarrow> int \<Rightarrow> 'd conn \<Rightarrow> 'd conn \<times> string option" where
  "copy_out_end w n c = (case emit CopyDone c of (c1, False) \<Rightarrow> (c1, Some (w_writeErr w)) | (c1, True) \<Rightarrow> copy_tag n c1)"

text \<open>In text format: after a row that cannot be scanned the error is sent, and then the end of the data.\<close>

definition copy_out_text :: "'d world \<Rightarrow> string \<Rightarrow> rowset \<Rightarrow> string list \<Rightarrow> string list \<Rightarrow> 'd conn \<Rightarrow> 'd conn \<times> string option" where
  "copy_out_text w query rs cols colTypes c =
     (let delimiter = copy_delimiter query in
      case emit (CopyOutResponse (of_nat (length cols)) True) c of
        (c1, False) \<Rightarrow> (c1, Some (w_writeErr w))
      | (c1, True) \<Rightarrow>
          (case (if copy_header query then emit (CopyData (join_sep delimiter cols @ [CHR 0x0A])) c1 else (c1, True)) of
             (c2, False) \<Rightarrow> (c2, Some (w_writeErr w))
           | (c2, True) \<Rightarrow>
               (case copy_rows (\<lambda>first. copy_line (w_lib w) (type_oids colTypes) delimiter) 0 (rs_rows rs) c2 of
                  (c3, n, WriteError) \<Rightarrow> (c3, Some (w_writeErr w))
                | (c3, n, ScanError err) \<Rightarrow> copy_out_end w n (sendError ''ERROR'' ''42000'' err c3)
                | (c3, n, _) \<Rightarrow>
                    (case rs_Err rs of
                       Some err \<Rightarrow> copy_error ''42000'' err c3
                     | None \<Rightarrow> copy_out_end w n c3))))"

definition binaryHeader :: bytes where
  "binaryHeader = ''PGCOPY'' @ [CHR 0x0A, CHR 0xFF, CHR 0x0D, CHR 0x0A, CHR 0x00] @ replicate 8 (CHR 0x00)"

definition tuple_field :: "golib \<Rightarrow> int list \<Rightarrow> nat \<Rightarrow> govalue \<Rightarrow> encoded" where
  "tuple_field lib typeOIDs i v =
     (if v = VNil then EncNil else if i \<ge> length typeOIDs then EncPanic else encodeBinary lib v (typeOIDs ! i))"

definition encodeTuple :: "golib \<Rightarrow> int list \<Rightarrow> govalue list \<Rightarrow> bytes option" where
  "encodeTuple lib typeOIDs values =
     (let fields = map (\<lambda>i. tuple_field lib typeOIDs i (values ! i)) [0..<length values]
      in if EncPanic \<in> set fields then None
         else Some (put_be 2 (of_nat (length values) :: 16 word) @ concat (map (\<lambda>e. cell_bytes (cell e)) fields)))"

definition binary_line :: "golib \<Rightarrow> int list \<Rightarrow> bool \<Rightarrow> govalue list \<Rightarrow> bytes option" where
  "binary_line lib typeOIDs firstRow values =
     map_option (\<lambda>b. (if firstRow then binaryHeader else []) @ b) (encodeTuple lib typeOIDs values)"

definition handleCopyOutBinary :: "'d world \<Rightarrow> rowset \<Rightarrow> string list \<Rightarrow> 'd conn \<Rightarrow> 'd conn \<times> string option" where
  "handleCopyOutBinary w rs cols c =
     (case rs_ColumnTypes rs of
        Inl err \<Rightarrow> copy_error ''42000'' err c
      | Inr colTypes \<Rightarrow>
          (case emit (CopyOutResponse (of_nat (length cols)) False) c of
             (c1, False) \<Rightarrow> (c1, Some (w_writeErr w))
           | (c1, True) \<Rightarrow>
               (case copy_rows (binary_line (w_lib w) (type_oids colTypes)) 0 (rs_rows rs) c1 of
                  (c2, n, WriteError) \<Rightarrow> (c2, Some (w_writeErr w))
                | (c2, n, ScanError err) \<Rightarrow> copy_error ''42000'' err c2
                | (c2, n, _) \<Rightarrow>
                    (case rs_Err rs of
                       Some err \<Rightarrow> copy_error ''42000'' err c2
                     | None \<Rightarrow>
                         (case emit (CopyData ((if n = 0 then binaryHeader else []) @ [CHR 0xFF, CHR 0xFF])) c2 of
                            (c3, False) \<Rightarrow> (c3, Some (w_writeErr w))
                          | (c3, True) \<Rightarrow> copy_out_end w n c3)))))"

definition copy_select :: "'d world \<Rightarrow> string \<Rightarrow> 'd conn \<Rightarrow> string" where
  "copy_select w source c =
     (let selectQuery = (if is_query source then butlast (tl source) else ''SELECT * FROM '' @ source)
      in if cn_passthrough (c_names c) then selectQuery
         else case w_Transpile w False selectQuery of
                Inr result \<Rightarrow> if tr_FallbackToNative result then selectQuery else tr_SQL result
              | Inl err \<Rightarrow> selectQuery)"

definition handleCopyOut :: "'d world \<Rightarrow> string \<Rightarrow> 'd conn \<Rightarrow> 'd conn \<times> string option" where
  "handleCopyOut w query c =
     (case FindStringSubmatch copyToStdoutRegex query of
        None \<Rightarrow> copy_error ''42601'' ''Invalid COPY TO STDOUT syntax'' c
      | Some m \<Rightarrow>
          (case run_query w (copy_select w (TrimSpace (group_text 1 m)) c) [] c of
             (c1, Inl err) \<Rightarrow> copy_error ''42000'' err c1
           | (c1, Inr rs) \<Rightarrow>
               (case rs_Columns rs of
                  Inl err \<Rightarrow> copy_error ''42000'' err c1
                | Inr cols \<Rightarrow>
                    if MatchString copyBinaryRegex query then handleCopyOutBinary w rs cols c1
                    else (case rs_ColumnTypes rs of
                            Inl err \<Rightarrow> copy_error ''42000'' err c1
                          | Inr colTypes \<Rightarrow> copy_out_text w query rs cols colTypes c1))))"

end
