(* ===== verification/Copy_In.thy ===== *)
theory Copy_In
  imports Copy
begin

text \<open>
  COPY from the client (\<^verbatim>\<open>server/conn.go\<close>, \<^verbatim>\<open>server/flightclient/copyfromstdin.go\<close>). The data
  messages are read until the client says that they are all, gives up, or sends something else.
\<close>

section \<open>Reading the data\<close>

datatype copy_stop = Finished | GaveUp string | Unexpected string | ReadFailed

definition end_marker :: "bytes \<Rightarrow> bool" where
  "end_marker body \<longleftrightarrow> body = [CHR 0x5C, CHR ''.'', CHR 0x0A] \<or> body = [CHR 0x5C, CHR ''.'']"

text \<open>\<^verbatim>\<open>%c\<close> of a byte: the rune with that number.\<close>

definition byte_rune :: "char \<Rightarrow> string" where
  "byte_rune ch =
     (let n = of_char ch :: nat in if n < 128 then [ch] else [char_of (192 + n div 64), char_of (128 + n mod 64)])"

definition trim_nul :: "bytes \<Rightarrow> bytes" where
  "trim_nul b = rev (dropWhile (\<lambda>x. x = CHR 0x00) (rev b))"

text \<open>What ends the data, of a message that is not data.\<close>

definition copy_stop :: "frontend \<Rightarrow> copy_stop" where
  "copy_stop m =
     (if fst m = MsgCopyDone then Finished
      else if fst m = MsgCopyFail then GaveUp (trim_nul (snd m))
      else Unexpected (''unexpected message type during COPY: '' @ byte_rune (fst m)))"

text \<open>Data kept in memory; the marker of the end of a text is left out where the format has one.\<close>

fun buffer_data :: "bool \<Rightarrow> bytes \<Rightarrow> frontend list \<Rightarrow> bytes \<times> copy_stop \<times> frontend list" where
  "buffer_data markers buf [] = (buf, ReadFailed, [])"
| "buffer_data markers buf (m # ms) =
     (if fst m = MsgCopyData then buffer_data markers (if markers \<and> end_marker (snd m) then buf else buf @ snd m) ms
      else (buf, copy_stop m, ms))"

text \<open>Data written to a file; a failed write ends it too.\<close>

fun spool_data :: "'d world \<Rightarrow> string \<Rightarrow> 'd \<Rightarrow> frontend list \<Rightarrow> 'd \<times> (string + copy_stop) \<times> frontend list" where
  "spool_data w path d [] = (d, Inr ReadFailed, [])"
| "spool_data w path d (m # ms) =
     (if fst m = MsgCopyData
      then if end_marker (snd m) then spool_data w path d ms
           else (case w_WriteFile w d path (snd m) of
                   (d1, Some err) \<Rightarrow> (d1, Inl err, ms)
                 | (d1, None) \<Rightarrow> spool_data w path d1 ms)
      else (d, Inr (copy_stop m), ms))"

text \<open>The answer if the data did not end as it should.\<close>

definition copy_stopped :: "'d world \<Rightarrow> copy_stop \<Rightarrow> 'd conn \<Rightarrow> 'd conn \<times> string option" where
  "copy_stopped w stop c =
     (case stop of
        GaveUp message \<Rightarrow> copy_error ''57014'' (''COPY failed: '' @ message) c
      | Unexpected message \<Rightarrow> copy_error ''08P01'' message c
      | _ \<Rightarrow> (c, Some (w_readErr w)))"

section \<open>Through a temporary file\<close>

definition load_file :: "'d world \<Rightarrow> CopyFromOptions \<Rightarrow> string \<Rightarrow> string + copy_stop \<Rightarrow> 'd conn \<Rightarrow> 'd conn \<times> string option" where
  "load_file w opts tmpPath stop c =
     (case stop of
        Inl err \<Rightarrow> copy_error ''58000'' (''failed to write to temp file: '' @ err) c
      | Inr Finished \<Rightarrow>
          (case exec w (BuildDuckDBCopyFromSQL (cf_TableName opts) (cf_ColumnList opts) tmpPath opts) [] c of
             (c1, Inl err) \<Rightarrow> copy_error ''22P02'' (''COPY failed: '' @ err) c1
           | (c1, Inr n) \<Rightarrow> copy_tag n c1)
      | Inr s \<Rightarrow> copy_stopped w s c)"

text \<open>The file is removed when the handler returns.\<close>

definition copy_in_file :: "'d world \<Rightarrow> CopyFromOptions \<Rightarrow> 'd conn \<Rightarrow> 'd conn \<times> string option" where
  "copy_in_file w opts c =
     (case w_CreateTemp w (c_db c) of
        (d, Inl err) \<Rightarrow> copy_error ''58000'' (''failed to create temp file: '' @ err) (c\<lparr>c_db := d\<rparr>)
      | (d, Inr tmpPath) \<Rightarrow>
          (case spool_data w tmpPath d (c_in c) of
             (d1, stop, rest) \<Rightarrow>
               (case load_file w opts tmpPath stop (c\<lparr>c_db := d1, c_in := rest\<rparr>) of
                  (c1, r) \<Rightarrow> (c1\<lparr>c_db := w_RemoveFile w (c_db c1) tmpPath\<rparr>, r))))"

section \<open>Through a stream to a worker\<close>

record copyDataWireReader =
  rd_pending :: bytes
  rd_done :: bool
  rd_cancelled :: bool
  rd_cancelMsg :: string
  rd_protoErr :: string

datatype read_error = ReadEOF | ReadError string

definition errCopyAborted :: string where
  "errCopyAborted = ''copy data stream aborted''"

text \<open>The messages up to the next data: the error if there is none.\<close>

fun next_data ::
  "'d world \<Rightarrow> copyDataWireReader \<Rightarrow> frontend list \<Rightarrow> read_error option \<times> copyDataWireReader \<times> frontend list" where
  "next_data w r [] = (Some (if w_readEOF w then ReadEOF else ReadError (w_readErr w)), r\<lparr>rd_done := True\<rparr>, [])"
| "next_data w r (m # ms) =
     (if fst m = MsgCopyData
      then if end_marker (snd m) \<or> snd m = [] then next_data w r ms else (None, r\<lparr>rd_pending := snd m\<rparr>, ms)
      else (case copy_stop m of
              GaveUp message \<Rightarrow>
                (Some (ReadError errCopyAborted), r\<lparr>rd_done := True, rd_cancelled := True, rd_cancelMsg := message\<rparr>, ms)
            | Unexpected message \<Rightarrow> (Some (ReadError errCopyAborted), r\<lparr>rd_done := True, rd_protoErr := message\<rparr>, ms)
            | _ \<Rightarrow> (Some ReadEOF, r\<lparr>rd_done := True\<rparr>, ms)))"

definition take_pending :: "nat \<Rightarrow> copyDataWireReader \<Rightarrow> bytes \<times> copyDataWireReader" where
  "take_pending k r = (take k (rd_pending r), r\<lparr>rd_pending := drop k (rd_pending r)\<rparr>)"

text \<open>A read of at most \<open>k\<close> bytes: the bytes, the error, and the reader and the messages left.\<close>

definition wire_Read ::
  "'d world \<Rightarrow> nat \<Rightarrow> copyDataWireReader \<Rightarrow> frontend list \<Rightarrow>
   bytes \<times> read_error option \<times> copyDataWireReader \<times> frontend list" where
  "wire_Read w k r ms =
     (if rd_pending r \<noteq> [] then (case take_pending k r of (b, r1) \<Rightarrow> (b, None, r1, ms))
      else if rd_done r
      then ([], Some (if rd_cancelled r \<or> rd_protoErr r \<noteq> [] then ReadError errCopyAborted else ReadEOF), r, ms)
      else case next_data w r ms of
             (Some e, r1, ms1) \<Rightarrow> ([], Some e, r1, ms1)
           | (None, r1, ms1) \<Rightarrow> (case take_pending k r1 of (b, r2) \<Rightarrow> (b, None, r2, ms1)))"

definition CopyFromStdinChunkSize :: nat where
  "CopyFromStdinChunkSize = 1048576"

definition CopyFromStdinPathPlaceholder :: string where
  "CopyFromStdinPathPlaceholder = ''__DUCKGRES_COPY_PATH__''"

text \<open>The bytes that the reader has still to give: at least one is taken by a read without an error.\<close>

definition unread :: "copyDataWireReader \<Rightarrow> frontend list \<Rightarrow> nat" where
  "unread r ms = length (rd_pending r) + sum_list (map (\<lambda>m. length (snd m)) ms)"

lemma next_data_unread:
  "next_data w r ms = (None, r1, ms1) \<Longrightarrow> rd_pending r = [] \<Longrightarrow> rd_pending r1 \<noteq> [] \<and> unread r1 ms1 \<le> unread r ms"
  by (induction w r ms rule: next_data.induct) (auto simp: unread_def split: if_splits copy_stop.splits)

lemma wire_Read_unread:
  assumes "wire_Read w k r ms = (b, None, r1, ms1)" "k > 0"
  shows "unread r1 ms1 < unread r ms"
proof (cases "rd_pending r = []")
  case False
  then show ?thesis using assms by (cases k; cases "rd_pending r") (auto simp: wire_Read_def take_pending_def unread_def)
next
  case True
  obtain r2 where n: "next_data w r ms = (None, r2, ms1)" "take_pending k r2 = (b, r1)"
    using True assms(1) by (auto simp: wire_Read_def split: if_splits prod.splits option.splits)
  have "rd_pending r2 \<noteq> []" "unread r2 ms1 \<le> unread r ms" using next_data_unread [OF n(1) True] by simp_all
  moreover have "unread r1 ms1 < unread r2 ms1"
    using n(2) \<open>rd_pending r2 \<noteq> []\<close> assms(2) by (cases k; cases "rd_pending r2") (auto simp: take_pending_def unread_def)
  ultimately show ?thesis by simp
qed

function send_chunks ::
  "'d world \<Rightarrow> 'd upload \<Rightarrow> 'd \<Rightarrow> copyDataWireReader \<Rightarrow> frontend list \<Rightarrow>
   'd \<times> string option \<times> copyDataWireReader \<times> frontend list" where
  "send_chunks w up d r ms =
     (case wire_Read w CopyFromStdinChunkSize r ms of
        (b, e, r1, ms1) \<Rightarrow>
          (case (if b \<noteq> [] then up_send up d b else (d, None)) of
             (d1, Some err) \<Rightarrow> (d1, Some (''flight doput send chunk: '' @ err), r1, ms1)
           | (d1, None) \<Rightarrow>
               (case e of
                  Some ReadEOF \<Rightarrow> (d1, None, r1, ms1)
                | Some (ReadError err) \<Rightarrow> (d1, Some (''read csv stream: '' @ err), r1, ms1)
                | None \<Rightarrow> send_chunks w up d1 r1 ms1)))"
  by pat_completeness auto
termination
  by (relation "measure (\<lambda>(w, up, d, r, ms). unread r ms)")
    (auto simp: CopyFromStdinChunkSize_def dest: wire_Read_unread [OF sym])

declare send_chunks.simps [simp del]

definition CopyFromStdin ::
  "'d world \<Rightarrow> 'd upload \<Rightarrow> string \<Rightarrow> copyDataWireReader \<Rightarrow> frontend list \<Rightarrow> 'd \<Rightarrow>
   'd \<times> (string + int) \<times> copyDataWireReader \<times> frontend list" where
  "CopyFromStdin w up copySQL r ms d =
     (case up_open up d copySQL of
        (d1, Some err) \<Rightarrow> (up_cancel up d1, Inl err, r, ms)
      | (d1, None) \<Rightarrow>
          (case send_chunks w up d1 r ms of
             (d2, Some err, r1, ms1) \<Rightarrow> (up_cancel up d2, Inl err, r1, ms1)
           | (d2, None, r1, ms1) \<Rightarrow> (case up_finish up d2 of (d3, res) \<Rightarrow> (up_cancel up d3, res, r1, ms1))))"

definition new_reader :: copyDataWireReader where
  "new_reader = \<lparr>rd_pending = [], rd_done = False, rd_cancelled = False, rd_cancelMsg = [], rd_protoErr = []\<rparr>"

definition handleCopyInRemoteStreaming :: "'d world \<Rightarrow> 'd upload \<Rightarrow> CopyFromOptions \<Rightarrow> 'd conn \<Rightarrow> 'd conn \<times> string option" where
  "handleCopyInRemoteStreaming w up opts c =
     (case CopyFromStdin w up (BuildDuckDBCopyFromSQL (cf_TableName opts) (cf_ColumnList opts) CopyFromStdinPathPlaceholder opts)
             new_reader (c_in c) (c_db c) of
        (d, res, r, ms) \<Rightarrow>
          let c1 = c\<lparr>c_db := d, c_in := ms\<rparr>
          in if rd_cancelled r then copy_error ''57014'' (''COPY failed: '' @ rd_cancelMsg r) c1
             else if rd_protoErr r \<noteq> [] then copy_error ''08P01'' (rd_protoErr r) c1
             else case res of
                    Inl err \<Rightarrow> copy_error ''22P02'' (''COPY failed: '' @ err) c1
                  | Inr n \<Rightarrow> copy_tag n c1)"

section \<open>By statements of the server\<close>

definition splitQualifiedName :: "string \<Rightarrow> string list" where
  "splitQualifiedName name =
     (let (parts, current, inQuotes) =
        foldl (\<lambda>(parts, current, inQuotes) ch.
            if ch = CHR 0x22 then (parts, current, \<not> inQuotes)
            else if ch = CHR ''.'' \<and> \<not> inQuotes then (parts @ [current], [], inQuotes)
            else (parts, current @ [ch], inQuotes))
          ([], [], False) name
      in parts @ [current])"

definition batchSize :: nat where
  "batchSize = 1000"

definition column_names :: "string \<Rightarrow> string list \<Rightarrow> string" where
  "column_names columnList cols =
     (if columnList = [] then ''('' @ join_sep '', '' (map (\<lambda>col. [CHR 0x22] @ col @ [CHR 0x22]) cols) @ '')'' else columnList)"

text \<open>The placeholders of a batch are numbered through its rows.\<close>

fun value_clauses :: "nat \<Rightarrow> 'a list list \<Rightarrow> string list" where
  "value_clauses i [] = []"
| "value_clauses i (row # rows) =
     (''('' @ join_sep '', '' (map (\<lambda>j. ''$'' @ digits10 j) [i..<i + length row]) @ '')'') # value_clauses (i + length row) rows"

definition insert_sql :: "string \<Rightarrow> string \<Rightarrow> 'a list list \<Rightarrow> string" where
  "insert_sql tableName colNames batch =
     ''INSERT INTO '' @ tableName @ '' '' @ colNames @ '' VALUES '' @ join_sep '', '' (value_clauses 1 batch)"

function insert_batches ::
  "'d world \<Rightarrow> string \<Rightarrow> string \<Rightarrow> nat \<Rightarrow> govalue list list \<Rightarrow> 'd conn \<Rightarrow> 'd conn \<times> (string + int)" where
  "insert_batches w tableName colNames start rows c =
     (if rows = [] then (c, Inr (int start))
      else let batch = take batchSize rows in
        case exec w (insert_sql tableName colNames batch) (concat batch) c of
          (c1, Inl err) \<Rightarrow>
            (c1, Inl (''batch INSERT failed at rows '' @ digits10 (start + 1) @ ''-'' @ digits10 (start + length batch) @ '': '' @ err))
        | (c1, Inr n) \<Rightarrow> insert_batches w tableName colNames (start + length batch) (drop batchSize rows) c1)"
  by pat_completeness auto
termination
  by (relation "measure (\<lambda>(w, t, cn, s, rows, c). length rows)") (auto simp: batchSize_def)

declare insert_batches.simps [simp del]

definition batchInsertRows ::
  "'d world \<Rightarrow> string \<Rightarrow> string \<Rightarrow> string list \<Rightarrow> govalue list list \<Rightarrow> 'd conn \<Rightarrow> 'd conn \<times> (string + int)" where
  "batchInsertRows w tableName columnList cols rows c = insert_batches w tableName (column_names columnList cols) 0 rows c"

definition errDuckDBAppenderUnavailable :: string where
  "errDuckDBAppenderUnavailable = ''duckdb Appender support not linked in this build''"

definition appendWithDuckDBAppender :: "'d world \<Rightarrow> string \<Rightarrow> govalue list list \<Rightarrow> 'd conn \<Rightarrow> 'd conn \<times> (string + int)" where
  "appendWithDuckDBAppender w tableName rows c =
     (case w_append w of
        None \<Rightarrow> (c, Inl errDuckDBAppenderUnavailable)
      | Some fn \<Rightarrow> (case fn (c_db c) (splitQualifiedName tableName) rows of (d, r) \<Rightarrow> (c\<lparr>c_db := d\<rparr>, r)))"

text \<open>The answer to the rows that were loaded.\<close>

definition copy_loaded :: "'d conn \<times> (string + int) \<Rightarrow> 'd conn \<times> string option" where
  "copy_loaded r =
     (case r of (c, Inl err) \<Rightarrow> copy_error ''22P02'' (''COPY failed: '' @ err) c | (c, Inr n) \<Rightarrow> copy_tag n c)"

section \<open>CSV with binary columns\<close>

definition csv_row :: "CopyFromOptions \<Rightarrow> string list \<Rightarrow> string list \<Rightarrow> govalue list" where
  "csv_row opts colTypes record =
     map (\<lambda>j. if record ! j = cf_NullString opts then VNil
              else if j < length colTypes \<and> colTypes ! j = ''BLOB'' then VBytes (record ! j)
              else VString (record ! j))
       [0..<length record]"

definition csv_load :: "'d world \<Rightarrow> CopyFromOptions \<Rightarrow> string list \<Rightarrow> string list \<Rightarrow> bytes \<Rightarrow> 'd conn \<Rightarrow> 'd conn \<times> string option" where
  "csv_load w opts cols colTypes data c =
     (case w_csv w (hd (cf_Delimiter opts)) data of
        (records, err) \<Rightarrow>
          if cf_HasHeader opts \<and> records = []
          then copy_error ''22P02'' (''COPY failed: error reading CSV header: '' @ err) c
          else
            let records1 = (if cf_HasHeader opts then tl records else records);
                rows = map (csv_row opts colTypes) (filter (\<lambda>r. length r = length cols) records1)
            in if rows = [] then copy_tag 0 c
               else copy_loaded (batchInsertRows w (cf_TableName opts) (cf_ColumnList opts) cols rows c))"

definition handleCopyInCSVWithBlob ::
  "'d world \<Rightarrow> CopyFromOptions \<Rightarrow> string list \<Rightarrow> string list \<Rightarrow> 'd conn \<Rightarrow> 'd conn \<times> string option" where
  "handleCopyInCSVWithBlob w opts cols colTypes c =
     (case emit (CopyInResponse (of_nat (length cols)) True) c of
        (c1, False) \<Rightarrow> (c1, Some (w_writeErr w))
      | (c1, True) \<Rightarrow>
          (case buffer_data True [] (c_in c1) of
             (data, stop, rest) \<Rightarrow>
               let c2 = c1\<lparr>c_in := rest\<rparr>
               in if stop = Finished then csv_load w opts cols colTypes data c2 else copy_stopped w stop c2))"

section \<open>Binary format\<close>

definition OidBpchar :: int where "OidBpchar = 1042"

text \<open>The text of a failed decoding.\<close>

definition decode_error :: "string \<times> nat \<times> nat \<Rightarrow> string" where
  "decode_error e =
     (case e of (name, got, need) \<Rightarrow>
        (if name = ''uuid'' then ''invalid UUID binary data'' else ''insufficient data for '' @ name) @
        '': got '' @ digits10 got @ '' bytes, need '' @ (if name = ''numeric'' then ''at least '' else []) @ digits10 need)"

definition decodeBinaryCopy :: "bytes \<Rightarrow> int \<Rightarrow> govalue decoded" where
  "decodeBinaryCopy data oid =
     (if data = []
      then Inr (if oid \<in> {OidText, OidVarchar, OidBpchar, OidName, OidJSON, OidJSONB} then VString []
                else if oid = OidBytea then VBytes [] else VNil)
      else if oid = OidBool then map_sum id VBool (decodeBool data)
      else if oid = OidInt2 \<or> oid = OidInt4 \<or> oid = OidInt8 \<or> oid = OidOid
      then (if length data = 2 then map_sum id VInt16 (decodeInt2 data)
            else if length data = 4 then map_sum id VInt32 (decodeInt4 data)
            else if length data = 8 then map_sum id VInt64 (decodeInt8 data)
            else Inr (VString data))
      else if oid = OidFloat4
      then (if length data = 8 then map_sum id VFloat64 (decodeFloat8 data) else map_sum id VFloat32 (decodeFloat4 data))
      else if oid = OidFloat8
      then (if length data = 4 then map_sum id VFloat32 (decodeFloat4 data) else map_sum id VFloat64 (decodeFloat8 data))
      else if oid = OidNumeric then map_sum id VString (decodeNumeric data)
      else if oid = OidDate then map_sum id (\<lambda>t. VTime t 0) (decodeDate data)
      else if oid = OidTimestamp \<or> oid = OidTimestamptz then map_sum id (\<lambda>t. VTime t 0) (decodeTimestamp data)
      else if oid = OidTime then map_sum id VString (decodeTime data)
      else if oid = OidInterval then map_sum id VString (decodeInterval data)
      else if oid = OidUUID then map_sum id VString (decodeUUID data)
      else if oid = OidBytea then Inr (VBytes data)
      else Inr (VString data))"

text \<open>A failed parse is an error, or a panic: a length below \<open>-1\<close> is a slice out of range, and so is a field
  without a type.\<close>

datatype 'a copied = Copied 'a | CopyBad string | CopyPanic

text \<open>The \<open>n\<close> fields of a tuple from the \<open>i\<close>th on, and the data after them.\<close>

fun copy_fields :: "int list \<Rightarrow> nat \<Rightarrow> nat \<Rightarrow> bytes \<Rightarrow> (govalue list \<times> bytes) copied" where
  "copy_fields typeOIDs i 0 b = Copied ([], b)"
| "copy_fields typeOIDs i (Suc n) b =
     (case get_word 4 b of
        None \<Rightarrow> CopyBad (''truncated binary COPY data at field '' @ digits10 i @ '' length'')
      | Some (len :: 32 word) \<Rightarrow>
          let rest = drop 4 b;
              more = (\<lambda>v rest'. case copy_fields typeOIDs (i + 1) n rest' of
                                  Copied (vs, b') \<Rightarrow> Copied (v # vs, b') | CopyBad e \<Rightarrow> CopyBad e | CopyPanic \<Rightarrow> CopyPanic)
          in if sint len = - 1 then more VNil rest
             else if sint len > int (length rest) then CopyBad (''truncated binary COPY data at field '' @ digits10 i @ '' data'')
             else if sint len < 0 \<or> i \<ge> length typeOIDs then CopyPanic
             else let k = nat (sint len) in
                  (case decodeBinaryCopy (take k rest) (typeOIDs ! i) of
                     Inl e \<Rightarrow> CopyBad (''failed to decode field '' @ digits10 i @ '' (OID '' @ itoa (typeOIDs ! i) @ '', '' @
                       digits10 k @ '' bytes): '' @ decode_error e)
                   | Inr v \<Rightarrow> more v (drop k rest)))"

lemma copy_fields_shorter: "copy_fields typeOIDs i n b = Copied (vs, b') \<Longrightarrow> length b' \<le> length b"
proof (induction n arbitrary: i b vs b')
  case (Suc n)
  then show ?case
    by (fastforce simp: Let_def split: option.splits if_splits copied.splits prod.splits sum.splits)
qed simp

function copy_tuples :: "int list \<Rightarrow> nat \<Rightarrow> bytes \<Rightarrow> govalue list list copied" where
  "copy_tuples typeOIDs numCols b =
     (if b = [] then Copied []
      else case get_word 2 b of
        None \<Rightarrow> CopyBad ''truncated binary COPY data at tuple header''
      | Some (count :: 16 word) \<Rightarrow>
          if sint count = - 1 then Copied []
          else if sint count \<noteq> int numCols
          then CopyBad (''binary COPY field count mismatch: got '' @ itoa (sint count) @ '', expected '' @ digits10 numCols)
          else
            (case copy_fields typeOIDs 0 numCols (drop 2 b) of
               Copied (vs, b') \<Rightarrow>
                 (case copy_tuples typeOIDs numCols b' of Copied rows \<Rightarrow> Copied (vs # rows) | r \<Rightarrow> r)
             | CopyBad e \<Rightarrow> CopyBad e
             | CopyPanic \<Rightarrow> CopyPanic))"
  by pat_completeness auto
termination
proof (relation "measure (\<lambda>(oids, n, b). length b)", simp, goal_cases)
  case (1 oids n b w r vs b')
  then have "length b' \<le> length b - 2" "b \<noteq> []" using copy_fields_shorter [of oids 0 n "drop 2 b"] by auto
  then show ?case by (cases b) auto
qed

declare copy_tuples.simps [simp del]

definition copySignature :: bytes where
  "copySignature = ''PGCOPY'' @ [CHR 0x0A, CHR 0xFF, CHR 0x0D, CHR 0x0A, CHR 0x00]"

definition parse_copy_data :: "int list \<Rightarrow> nat \<Rightarrow> bytes \<Rightarrow> govalue list list copied" where
  "parse_copy_data typeOIDs numCols data =
     (if length data < 19 then CopyBad ''binary COPY data too short for header''
      else if take 11 data \<noteq> copySignature then CopyBad ''invalid binary COPY signature''
      else let extLen = unat (get_be (take 4 (drop 15 data)) :: 32 word)
           in copy_tuples typeOIDs numCols (drop (19 + extLen) data))"

text \<open>A whole table goes through the bulk loader, and if that fails through statements, as does a part of its columns.\<close>

definition parseBinaryCopyAndInsert ::
  "'d world \<Rightarrow> bytes \<Rightarrow> string \<Rightarrow> string \<Rightarrow> string list \<Rightarrow> int list \<Rightarrow> 'd conn \<Rightarrow> 'd conn \<times> string option" where
  "parseBinaryCopyAndInsert w data tableName columnList cols typeOIDs c =
     (case parse_copy_data typeOIDs (length cols) data of
        CopyPanic \<Rightarrow> (panic c, None)
      | CopyBad err \<Rightarrow> copy_loaded (c, Inl err)
      | Copied rows \<Rightarrow>
          if rows = [] then copy_loaded (c, Inr 0)
          else (case (if columnList = [] then appendWithDuckDBAppender w tableName rows c else (c, Inl [])) of
                  (c1, Inr n) \<Rightarrow> copy_loaded (c1, Inr n)
                | (c1, Inl err) \<Rightarrow> copy_loaded (batchInsertRows w tableName columnList cols rows c1)))"

definition handleCopyInBinary ::
  "'d world \<Rightarrow> CopyFromOptions \<Rightarrow> string list \<Rightarrow> string list \<Rightarrow> 'd conn \<Rightarrow> 'd conn \<times> string option" where
  "handleCopyInBinary w opts cols colTypes c =
     (case emit (CopyInResponse (of_nat (length cols)) False) c of
        (c1, False) \<Rightarrow> (c1, Some (w_writeErr w))
      | (c1, True) \<Rightarrow>
          (case buffer_data False [] (c_in c1) of
             (data, stop, rest) \<Rightarrow>
               let c2 = c1\<lparr>c_in := rest\<rparr>
               in if stop = Finished
                  then parseBinaryCopyAndInsert w data (cf_TableName opts) (cf_ColumnList opts) cols (type_oids colTypes) c2
                  else copy_stopped w stop c2))"

section \<open>The statement\<close>

text \<open>The query that asks for the columns, in the order of the statement if it names them.\<close>

definition column_query :: "CopyFromOptions \<Rightarrow> string" where
  "column_query opts =
     ''SELECT '' @ (if cf_ColumnList opts \<noteq> [] then butlast (tl (cf_ColumnList opts)) else ''*'') @ '' FROM '' @
     cf_TableName opts @ '' LIMIT 0''"

definition or_none :: "string + string list \<Rightarrow> string list" where
  "or_none r = (case r of Inr xs \<Rightarrow> xs | Inl err \<Rightarrow> [])"

definition handleCopyIn :: "'d world \<Rightarrow> string \<Rightarrow> 'd conn \<Rightarrow> 'd conn \<times> string option" where
  "handleCopyIn w query c =
     (case ParseCopyFromOptions query of
        None \<Rightarrow> copy_error ''42601'' ''Invalid COPY FROM STDIN syntax'' c
      | Some opts \<Rightarrow>
          (case run_query w (column_query opts) [] c of
             (c1, Inl err) \<Rightarrow>
               copy_error ''42P01'' (''relation '' @ [CHR 0x22] @ cf_TableName opts @ [CHR 0x22] @ '' does not exist'') c1
           | (c1, Inr testRows) \<Rightarrow>
               let cols = or_none (rs_Columns testRows); colTypes = or_none (rs_ColumnTypes testRows)
               in if cf_IsBinary opts then handleCopyInBinary w opts cols colTypes c1
                  else if ''BLOB'' \<in> set colTypes then handleCopyInCSVWithBlob w opts cols colTypes c1
                  else (case emit (CopyInResponse (of_nat (length cols)) True) c1 of
                          (c2, False) \<Rightarrow> (c2, Some (w_writeErr w))
                        | (c2, True) \<Rightarrow>
                            (case w_upload w of
                               Some up \<Rightarrow> handleCopyInRemoteStreaming w up opts c2
                             | None \<Rightarrow> copy_in_file w opts c2))))"

definition handleCopy :: "'d world \<Rightarrow> string \<Rightarrow> 'd conn \<Rightarrow> 'd conn \<times> string option" where
  "handleCopy w query c =
     (if MatchString copyToStdoutRegex (to_upper query) then handleCopyOut w query c
      else if MatchString copyFromStdinRegex (to_upper query) then handleCopyIn w query c
      else case exec w query [] c of
             (c1, Inl err) \<Rightarrow> copy_error ''42000'' err c1
           | (c1, Inr n) \<Rightarrow> copy_tag n c1)"

end
