(* ===== verification/Simple_Query.thy ===== *)
theory Simple_Query
  imports Copy_In
begin

text \<open>
  The simple query protocol (\<^verbatim>\<open>handleQuery\<close> of \<^verbatim>\<open>server/conn.go\<close>): single statements, batches, and
  the sequences of statements that a writable common table expression is rewritten to. A handler gives the connection and
  the error of a failed write or read, if any.
\<close>

section \<open>Running a statement\<close>

text \<open>A statement that fails because its target is a view runs again as a statement about a view.\<close>

definition run_exec :: "'d world \<Rightarrow> string \<Rightarrow> govalue list \<Rightarrow> 'd conn \<Rightarrow> 'd conn \<times> (string + int)" where
  "run_exec w query args c =
     (case exec w query args c of
        (c1, Inr n) \<Rightarrow> (c1, Inr n)
      | (c1, Inl err) \<Rightarrow>
          (case (if isAlterTableNotTableError err then w_AlterView w query else None) of
             Some altered \<Rightarrow> exec w altered args c1
           | None \<Rightarrow>
               (case (if isDropTableOnViewError err then w_DropView w query else None) of
                  Some altered \<Rightarrow> exec w altered args c1
                | None \<Rightarrow> (c1, Inl err))))"

definition rollback :: "'d world \<Rightarrow> 'd conn \<Rightarrow> 'd conn \<times> string option" where
  "rollback w c = (case exec w ''ROLLBACK'' [] c of (c1, Inl err) \<Rightarrow> (c1, Some err) | (c1, Inr n) \<Rightarrow> (c1, None))"

text \<open>Outside a transaction a statement is tried again after a conflict, and once more after a rollback if the
  connection was left in an aborted transaction.\<close>

definition recovering ::
  "'d world \<Rightarrow> ('d conn \<Rightarrow> 'd conn \<times> (string + 'a)) \<Rightarrow> 'd conn \<Rightarrow> 'd conn \<times> (string + 'a)" where
  "recovering w run c =
     (let idle = (c_txStatus c = txStatusIdle) in
      case run c of
        (c1, Inr r) \<Rightarrow> (c1, Inr r)
      | (c1, Inl err) \<Rightarrow>
          (case (if idle \<and> isDuckLakeTransactionConflict err then retryOnConflict run c1 else (c1, Inl err)) of
             (c2, Inr r) \<Rightarrow> (c2, Inr r)
           | (c2, Inl err2) \<Rightarrow> recoverAbortedTransaction err2 idle (rollback w) run c2))"

definition statement_error :: "'d world \<Rightarrow> string \<Rightarrow> 'd conn \<Rightarrow> 'd conn" where
  "statement_error w err c =
     setTxError (sendError ''ERROR'' (classifyErrorCode err) (if isCallerCancellation w err c then cancel_message else err) c)"

definition internal_error :: "string \<Rightarrow> 'd conn \<Rightarrow> 'd conn" where
  "internal_error err c = setTxError (sendError ''ERROR'' ''42000'' err c)"

text \<open>A statement without rows: a nested BEGIN is only a warning. The second result says whether an error was sent.\<close>

definition exec_command ::
  "'d world \<Rightarrow> ('d conn \<Rightarrow> 'd conn \<times> (string + int)) \<Rightarrow> string \<Rightarrow> 'd conn \<Rightarrow> 'd conn \<times> bool" where
  "exec_command w run cmdType c =
     (if cmdType = ''BEGIN'' \<and> c_txStatus c = txStatusTransaction
      then (put (CommandComplete ''BEGIN'') (sendNotice ''WARNING'' ''25001'' ''there is already a transaction in progress'' c), False)
      else case recovering w run c of
             (c1, Inl err) \<Rightarrow> (statement_error w err c1, True)
           | (c1, Inr n) \<Rightarrow> (put (CommandComplete (buildCommandTag cmdType n)) (updateTxStatus cmdType c1), False))"

section \<open>Rows\<close>

definition executeSelectQuery :: "'d world \<Rightarrow> string \<Rightarrow> string \<Rightarrow> 'd conn \<Rightarrow> 'd conn \<times> string option" where
  "executeSelectQuery w query cmdType c =
     (case recovering w (run_query w query []) c of
        (c1, Inl err) \<Rightarrow> (ready (statement_error w err c1), None)
      | (c1, Inr rs) \<Rightarrow>
          (case (rs_Columns rs, rs_ColumnTypes rs) of
             (Inl err, _) \<Rightarrow> (ready (internal_error err c1), None)
           | (Inr cols, Inl err) \<Rightarrow> (ready (internal_error err c1), None)
           | (Inr cols, Inr colTypes) \<Rightarrow>
               (case sendRowDescription cols colTypes c1 of
                  (c2, False) \<Rightarrow> (c2, Some (w_writeErr w))
                | (c2, True) \<Rightarrow>
                    (case send_rows (w_lib w) [] (type_oids colTypes) None 0 (rs_rows rs) c2 of
                       (c3, n, rest, ScanError err) \<Rightarrow> (ready (internal_error err c3), None)
                     | (c3, n, rest, WriteError) \<Rightarrow> (c3, Some (w_writeErr w))
                     | (c3, n, rest, _) \<Rightarrow>
                         (case rs_Err rs of
                            Some err \<Rightarrow> (ready (cursor_error w err c3), None)
                          | None \<Rightarrow>
                              (ready (put (CommandComplete (buildCommandTagFromRowCount cmdType n)) (updateTxStatus cmdType c3)), None))))))"

definition streamRowsToClient :: "'d world \<Rightarrow> rowset \<Rightarrow> string \<Rightarrow> 'd conn \<Rightarrow> 'd conn \<times> string option" where
  "streamRowsToClient w rs cmdType c =
     (case (rs_Columns rs, rs_ColumnTypes rs) of
        (Inl err, _) \<Rightarrow> (ready (internal_error err c), None)
      | (Inr cols, Inl err) \<Rightarrow> (ready (internal_error err c), None)
      | (Inr cols, Inr colTypes) \<Rightarrow>
          (case sendRowDescription cols colTypes c of
             (c1, False) \<Rightarrow> (c1, Some (w_writeErr w))
           | (c1, True) \<Rightarrow>
               (case send_rows (w_lib w) [] (type_oids colTypes) None 0 (rs_rows rs) c1 of
                  (c2, n, rest, ScanError err) \<Rightarrow> (ready (internal_error err c2), None)
                | (c2, n, rest, WriteError) \<Rightarrow> (c2, Some (w_writeErr w))
                | (c2, n, rest, _) \<Rightarrow>
                    (case rs_Err rs of
                       Some err \<Rightarrow> (ready (cursor_error w err c2), None)
                     | None \<Rightarrow>
                         let c3 = ready (put (CommandComplete (buildCommandTagFromRowCount cmdType n)) c2) in (c3, flush w c3)))))"

section \<open>Statements of a passthrough user\<close>

definition executeQueryDirect :: "'d world \<Rightarrow> string \<Rightarrow> string \<Rightarrow> 'd conn \<Rightarrow> 'd conn \<times> string option" where
  "executeQueryDirect w query cmdType c =
     (if \<not> queryReturnsResults query then (ready (fst (exec_command w (exec w query []) cmdType c)), None)
      else executeSelectQuery w query cmdType c)"

section \<open>A sequence of statements for one\<close>

definition executeCleanup :: "'d world \<Rightarrow> string list \<Rightarrow> 'd conn \<Rightarrow> 'd conn" where
  "executeCleanup w cleanup c = foldl (\<lambda>c stmt. fst (exec w stmt [] c)) c cleanup"

text \<open>In a transaction of the client the sequence runs without its own.\<close>

definition hasOurTransaction :: "string list \<Rightarrow> string list \<Rightarrow> bool" where
  "hasOurTransaction statements cleanup \<longleftrightarrow>
     length statements \<ge> 2 \<and> to_upper (TrimSpace (statements ! 0)) = ''BEGIN'' \<and>
     cleanup \<noteq> [] \<and> to_upper (TrimSpace (last cleanup)) = ''COMMIT''"

definition unwrapped :: "txStatus \<Rightarrow> string list \<Rightarrow> string list \<Rightarrow> string list \<times> string list" where
  "unwrapped tx statements cleanup =
     (if hasOurTransaction statements cleanup \<and> tx = txStatusTransaction then (tl statements, butlast cleanup)
      else (statements, cleanup))"

fun run_setup :: "'d world \<Rightarrow> govalue list \<Rightarrow> string list \<Rightarrow> 'd conn \<Rightarrow> 'd conn \<times> string option" where
  "run_setup w args [] c = (c, None)"
| "run_setup w args (stmt # stmts) c =
     (case exec w stmt args c of
        (c1, Inl err) \<Rightarrow> (c1, Some err)
      | (c1, Inr n) \<Rightarrow> run_setup w args stmts c1)"

text \<open>A failed statement of the sequence: the clean-up runs, then the error is sent.\<close>

definition sequence_error :: "'d world \<Rightarrow> string list \<Rightarrow> string \<Rightarrow> 'd conn \<Rightarrow> 'd conn" where
  "sequence_error w cleanup err c = sendError ''ERROR'' ''42000'' err (executeCleanup w cleanup (setTxError c))"

definition executeMultiStatement :: "'d world \<Rightarrow> string list \<Rightarrow> string list \<Rightarrow> 'd conn \<Rightarrow> 'd conn \<times> string option" where
  "executeMultiStatement w statements0 cleanup0 c =
     (if statements0 = [] then (ready (put EmptyQueryResponse c), None)
      else
        let (statements, cleanup) = unwrapped (c_txStatus c) statements0 cleanup0;
            finalStmt = last statements;
            cmdType = getCommandType (to_upper (TrimSpace finalStmt))
        in case run_setup w [] (butlast statements) c of
             (c1, Some err) \<Rightarrow> (ready (sequence_error w cleanup err c1), None)
           | (c1, None) \<Rightarrow>
               if queryReturnsResults finalStmt
               then (case run_query w finalStmt [] c1 of
                       (c2, Inl err) \<Rightarrow> (ready (sequence_error w cleanup err c2), None)
                     | (c2, Inr rs) \<Rightarrow> streamRowsToClient w rs cmdType (executeCleanup w cleanup c2))
               else (case exec w finalStmt [] c1 of
                       (c2, Inl err) \<Rightarrow> (ready (sequence_error w cleanup err c2), None)
                     | (c2, Inr n) \<Rightarrow>
                         let c3 = ready (put (CommandComplete (buildCommandTag cmdType n)) (executeCleanup w cleanup c2))
                         in (c3, flush w c3)))"

section \<open>Batches\<close>

definition remove_first :: "string \<Rightarrow> string \<Rightarrow> string" where
  "remove_first t s = (case index_str s t of Some i \<Rightarrow> take i s @ drop (i + length t) s | None \<Rightarrow> s)"

definition validateWithDuckDB :: "'d world \<Rightarrow> string \<Rightarrow> 'd conn \<Rightarrow> 'd conn \<times> string option" where
  "validateWithDuckDB w query c =
     (if isDuckDBUtilityCommand query \<or> prefix ''EXPLAIN'' (to_upper (TrimSpace (StripLeadingComments query))) \<or>
         hasParameterPlaceholders query
      then (c, None)
      else case exec w (''EXPLAIN '' @ query) [] c of
             (c1, Inl err) \<Rightarrow> (c1, Some (remove_first ''EXPLAIN '' err))
           | (c1, Inr n) \<Rightarrow> (c1, None))"

definition syntax_error :: "string \<Rightarrow> 'd conn \<Rightarrow> 'd conn" where
  "syntax_error err c = sendError ''ERROR'' ''42601'' (''syntax error: '' @ err) c"

text \<open>The rows of a statement in a batch: whether an error was sent, and the error of a failed write.\<close>

definition batch_select :: "'d world \<Rightarrow> string \<Rightarrow> string \<Rightarrow> 'd conn \<Rightarrow> 'd conn \<times> bool \<times> string option" where
  "batch_select w query cmdType c =
     (case recovering w (run_query w query []) c of
        (c1, Inl err) \<Rightarrow> (statement_error w err c1, True, None)
      | (c1, Inr rs) \<Rightarrow>
          (case (rs_Columns rs, rs_ColumnTypes rs) of
             (Inl err, _) \<Rightarrow> (internal_error err c1, True, None)
           | (Inr cols, Inl err) \<Rightarrow> (internal_error err c1, True, None)
           | (Inr cols, Inr colTypes) \<Rightarrow>
               (case sendRowDescription cols colTypes c1 of
                  (c2, False) \<Rightarrow> (c2, False, Some (w_writeErr w))
                | (c2, True) \<Rightarrow>
                    (case send_rows (w_lib w) [] (type_oids colTypes) None 0 (rs_rows rs) c2 of
                       (c3, n, rest, ScanError err) \<Rightarrow> (sendError ''ERROR'' ''42000'' err c3, True, None)
                     | (c3, n, rest, WriteError) \<Rightarrow> (c3, False, Some (w_writeErr w))
                     | (c3, n, rest, _) \<Rightarrow>
                         (put (CommandComplete (buildCommandTagFromRowCount cmdType n)) (updateTxStatus cmdType c3), False, None)))))"

definition batch_transpiled :: "'d world \<Rightarrow> transpiled \<Rightarrow> 'd conn \<Rightarrow> 'd conn \<times> bool \<times> string option" where
  "batch_transpiled w result c =
     (case tr_Error result of
        Some err \<Rightarrow> (sendError ''ERROR'' ''42704'' err c, True, None)
      | None \<Rightarrow>
          if tr_IsIgnoredSet result then (put (CommandComplete ''SET'') c, False, None)
          else if tr_IsNoOp result then (put (CommandComplete (tr_NoOpTag result)) c, False, None)
          else if tr_Statements result \<noteq> []
          then (sendError ''ERROR'' ''0A000'' ''writable CTEs not supported in multi-statement queries'' c, True, None)
          else
            let query = rewriteDirectQuery (w_fold w) (c_names c) (tr_SQL result);
                cmdType = getCommandType (to_upper query)
            in if cmdType = ''COPY'' then (sendError ''ERROR'' ''0A000'' ''COPY not supported in multi-statement queries'' c, True, None)
               else if \<not> queryReturnsResults query
               then (case exec_command w (run_exec w query []) cmdType c of (c1, e) \<Rightarrow> (c1, e, None))
               else batch_select w query cmdType c)"

definition batch_cursors :: "'d world \<Rightarrow> string \<Rightarrow> 'd conn \<Rightarrow> 'd conn" where
  "batch_cursors w cursorName c =
     (let c1 = fst (sendPgCursorsRowDescriptionWithFormats [] c)
      in if c_cursors c cursorName = None then put (CommandComplete ''SELECT 0'') c1
         else put (CommandComplete ''SELECT 1'') (fst (sendPgCursorsRow w [] c1)))"

definition batch_activity :: "'d world \<Rightarrow> int list \<Rightarrow> 'd conn \<Rightarrow> 'd conn" where
  "batch_activity w formatCodes c =
     put (CommandComplete (''SELECT '' @ digits10 (length (sorted_conns w c))))
       (foldl (\<lambda>c i. fst (sendPgStatActivityDataRow w i formatCodes c)) c (sorted_conns w c))"

definition executeSingleStatement :: "'d world \<Rightarrow> string \<Rightarrow> 'd conn \<Rightarrow> 'd conn \<times> bool \<times> string option" where
  "executeSingleStatement w query c =
     (case w_parseCursor w query of
        Some (DeclareCursorStmt name inner) \<Rightarrow> (case declare_cursor w name inner c of (c1, e) \<Rightarrow> (c1, e, None))
      | Some (FetchStmt name forward howMany ismove) \<Rightarrow> fetch_cursor w name forward howMany ismove c
      | Some (ClosePortalStmt name) \<Rightarrow> (case close_cursor w name c of (c1, e) \<Rightarrow> (c1, e, None))
      | None \<Rightarrow>
          (case matchPgCursorsQuery query of
             Some (cursorName, _) \<Rightarrow> (batch_cursors w cursorName c, False, None)
           | None \<Rightarrow>
               if matchPgStatActivityQuery query
               then (batch_activity w [] (fst (sendPgStatActivityRowDescriptionWithFormats [] c)), False, None)
               else
                 (case w_Transpile w False query of
                    Inl err \<Rightarrow> (syntax_error err c, True, None)
                  | Inr result \<Rightarrow>
                      (case (if tr_FallbackToNative result then validateWithDuckDB w query c else (c, None)) of
                         (c1, Some err) \<Rightarrow> (syntax_error err c1, True, None)
                       | (c1, None) \<Rightarrow> batch_transpiled w result c1))))"

text \<open>A panic ends the handler.\<close>

fun batch_loop :: "'d world \<Rightarrow> (string + string) list \<Rightarrow> 'd conn \<Rightarrow> 'd conn \<times> string option" where
  "batch_loop w [] c = (ready c, None)"
| "batch_loop w (Inl err # stmts) c = (ready (syntax_error err c), None)"
| "batch_loop w (Inr sql # stmts) c =
     (case executeSingleStatement w sql c of
        (c1, _, Some fatalErr) \<Rightarrow> (c1, Some fatalErr)
      | (c1, True, None) \<Rightarrow> (ready c1, None)
      | (c1, False, None) \<Rightarrow> if c_panic c1 then (c1, None) else batch_loop w stmts c1)"

definition handleMultiStatementQuery :: "'d world \<Rightarrow> (string + string) list \<Rightarrow> 'd conn \<Rightarrow> 'd conn \<times> string option" where
  "handleMultiStatementQuery w stmts c = batch_loop w stmts c"

section \<open>A query message\<close>

definition query_transpiled :: "'d world \<Rightarrow> transpiled \<Rightarrow> 'd conn \<Rightarrow> 'd conn \<times> string option" where
  "query_transpiled w result c =
     (case tr_Error result of
        Some err \<Rightarrow> (ready (sendError ''ERROR'' ''42704'' err c), None)
      | None \<Rightarrow>
          if tr_IsIgnoredSet result then (ready (put (CommandComplete ''SET'') c), None)
          else if tr_IsNoOp result then (ready (put (CommandComplete (tr_NoOpTag result)) c), None)
          else if tr_Statements result \<noteq> [] then executeMultiStatement w (tr_Statements result) (tr_CleanupStatements result) c
          else
            let query = rewriteDirectQuery (w_fold w) (c_names c) (tr_SQL result);
                cmdType = getCommandType (to_upper query)
            in if cmdType = ''COPY'' then handleCopy w query c
               else if \<not> queryReturnsResults query
               then (ready (fst (exec_command w (run_exec w query []) cmdType c)), None)
               else executeSelectQuery w query cmdType c)"

definition query_cursor :: "'d world \<Rightarrow> cursor_stmt \<Rightarrow> 'd conn \<Rightarrow> 'd conn \<times> string option" where
  "query_cursor w stmt c =
     (case stmt of
        DeclareCursorStmt name inner \<Rightarrow> (ready (fst (declare_cursor w name inner c)), None)
      | FetchStmt name forward howMany ismove \<Rightarrow>
          (case fetch_cursor w name forward howMany ismove c of
             (c1, _, Some err) \<Rightarrow> (c1, Some err)
           | (c1, _, None) \<Rightarrow> (ready c1, None))
      | ClosePortalStmt name \<Rightarrow> (ready (fst (close_cursor w name c)), None))"

definition handleQuery :: "'d world \<Rightarrow> bytes \<Rightarrow> 'd conn \<Rightarrow> 'd conn \<times> string option" where
  "handleQuery w body c =
     (let query = TrimSpace (trim_nul body) in
      if query = [] \<or> IsEmptyQuery query then (ready (put EmptyQueryResponse c), None)
      else case w_parseCursor w query of
        Some stmt \<Rightarrow> query_cursor w stmt c
      | None \<Rightarrow>
          (case matchPgCursorsQuery query of
             Some (cursorName, _) \<Rightarrow> handlePgCursorsQuery w cursorName c
           | None \<Rightarrow>
               if matchPgStatActivityQuery query then handlePgStatActivity w c
               else if cn_passthrough (c_names c)
               then let cmdType = getCommandType (to_upper query)
                    in if cmdType = ''COPY'' then handleCopy w query c else executeQueryDirect w query cmdType c
               else if shouldHandleCopyBeforeTranspile query then handleCopy w query c
               else
                 (case w_parseStatements w query of
                    Some stmts \<Rightarrow> handleMultiStatementQuery w stmts c
                  | None \<Rightarrow>
                      (case w_Transpile w False query of
                         Inl err \<Rightarrow> (ready (syntax_error err c), None)
                       | Inr result \<Rightarrow>
                           (case (if tr_FallbackToNative result then validateWithDuckDB w query c else (c, None)) of
                              (c1, Some err) \<Rightarrow> (ready (syntax_error err c1), None)
                            | (c1, None) \<Rightarrow> query_transpiled w result c1)))))"

end
