(* ===== verification/Extended_Query.thy ===== *)
theory Extended_Query
  imports Simple_Query
begin

text \<open>
  The extended query protocol (\<^verbatim>\<open>server/conn.go\<close>): Parse, Bind, Describe, Execute and Close over prepared
  statements and portals.
\<close>

section \<open>Reading the body of a message\<close>

text \<open>A count that is negative makes the server panic when it allocates.\<close>

datatype 'a parsed = Parsed 'a bytes | Malformed | Panics

definition bind_parsed :: "'a parsed \<Rightarrow> ('a \<Rightarrow> bytes \<Rightarrow> 'b parsed) \<Rightarrow> 'b parsed" where
  "bind_parsed r f = (case r of Parsed a rest \<Rightarrow> f a rest | Malformed \<Rightarrow> Malformed | Panics \<Rightarrow> Panics)"

definition readCString :: "bytes \<Rightarrow> string parsed" where
  "readCString b =
     (case index_byte b (CHR 0x00) of Some n \<Rightarrow> Parsed (take n b) (drop (n + 1) b) | None \<Rightarrow> Malformed)"

definition read_int16 :: "bytes \<Rightarrow> int parsed" where
  "read_int16 b = (case get_word 2 b of Some (w :: 16 word) \<Rightarrow> Parsed (sint w) (drop 2 b) | None \<Rightarrow> Malformed)"

definition read_int32 :: "bytes \<Rightarrow> int parsed" where
  "read_int32 b = (case get_word 4 b of Some (w :: 32 word) \<Rightarrow> Parsed (sint w) (drop 4 b) | None \<Rightarrow> Malformed)"

definition read_value :: "bytes \<Rightarrow> bytes option parsed" where
  "read_value b =
     bind_parsed (read_int32 b) (\<lambda>n rest.
       if n = - 1 then Parsed None rest
       else if n < 0 then Panics
       else if length rest < nat n then Malformed
       else Parsed (Some (take (nat n) rest)) (drop (nat n) rest))"

fun read_times :: "nat \<Rightarrow> (bytes \<Rightarrow> 'a parsed) \<Rightarrow> bytes \<Rightarrow> 'a list parsed" where
  "read_times 0 f b = Parsed [] b"
| "read_times (Suc n) f b =
     bind_parsed (f b) (\<lambda>a rest. bind_parsed (read_times n f rest) (\<lambda>as rest'. Parsed (a # as) rest'))"

definition read_list :: "(bytes \<Rightarrow> 'a parsed) \<Rightarrow> bytes \<Rightarrow> 'a list parsed" where
  "read_list f b = bind_parsed (read_int16 b) (\<lambda>n rest. if n < 0 then Panics else read_times (nat n) f rest)"

section \<open>Parameters\<close>

definition param_value :: "int list \<Rightarrow> int list \<Rightarrow> nat \<Rightarrow> bytes option \<Rightarrow> govalue decoded" where
  "param_value paramTypes paramFormats i v =
     (case v of
        None \<Rightarrow> Inr VNil
      | Some b \<Rightarrow>
          let typeOID = (if i < length paramTypes then paramTypes ! i else 0);
              format = format_of paramFormats i
          in if typeOID = 0 \<or> format = 0 then Inr (VString b) else decodeBinary (Some b) typeOID)"

fun collect :: "nat \<Rightarrow> 'a decoded list \<Rightarrow> string + 'a list" where
  "collect i [] = Inr []"
| "collect i (Inl e # rs) = Inl (''parameter '' @ digits10 i @ '': '' @ decode_error e)"
| "collect i (Inr a # rs) = map_sum id (\<lambda>as. a # as) (collect (i + 1) rs)"

definition decodeParams :: "preparedStmt \<Rightarrow> portal \<Rightarrow> string + govalue list" where
  "decodeParams ps p =
     collect 1 (map (\<lambda>i. param_value (ps_paramTypes ps) (po_paramFormats p) i (po_paramValues p ! i))
       [0..<length (po_paramValues p)])"

definition params_error :: "string \<Rightarrow> 'd conn \<Rightarrow> 'd conn" where
  "params_error err c = sendError ''ERROR'' ''08P01'' (''insufficient data left in message: '' @ err) c"

section \<open>Parse\<close>

definition plain_stmt :: "string \<Rightarrow> preparedStmt" where
  "plain_stmt query =
     \<lparr>ps_query = query, ps_convertedQuery = query, ps_paramTypes = [], ps_numParams = 0, ps_isIgnoredSet = False,
      ps_isNoOp = False, ps_noOpTag = [], ps_described = False, ps_statements = [], ps_cleanupStatements = [],
      ps_cursorOp = cursorOpNone, ps_cursorName = [], ps_cursorQuery = [], ps_fetchCount = 0\<rparr>"

definition store_stmt :: "string \<Rightarrow> preparedStmt \<Rightarrow> 'd conn \<Rightarrow> 'd conn" where
  "store_stmt name ps c =
     put ParseComplete (c\<lparr>c_stmts := (c_stmts c)(name \<mapsto> c_fresh c), c_store := (c_store c)(c_fresh c := ps), c_fresh := c_fresh c + 1\<rparr>)"

definition cursor_query :: "'d world \<Rightarrow> string \<Rightarrow> 'd conn \<Rightarrow> string" where
  "cursor_query w inner c =
     (if cn_passthrough (c_names c) \<or> inner = [] then inner
      else case w_Transpile w True inner of
             Inr result \<Rightarrow> if tr_FallbackToNative result then inner else tr_SQL result
           | Inl err \<Rightarrow> inner)"

definition parse_cursor :: "'d world \<Rightarrow> string \<Rightarrow> string \<Rightarrow> cursor_stmt \<Rightarrow> 'd conn \<Rightarrow> 'd conn" where
  "parse_cursor w stmtName query stmt c =
     (case stmt of
        DeclareCursorStmt name inner \<Rightarrow>
          store_stmt stmtName ((plain_stmt query)\<lparr>ps_cursorOp := cursorOpDeclare, ps_cursorName := name,
            ps_cursorQuery := cursor_query w inner c\<rparr>) c
      | FetchStmt name forward howMany ismove \<Rightarrow>
          if \<not> forward \<or> howMany < 0 then sendError ''ERROR'' ''0A000'' ''cursor can only scan forward'' c
          else store_stmt stmtName ((plain_stmt query)\<lparr>ps_cursorOp := cursorOpFetch, ps_cursorName := name, ps_fetchCount := howMany\<rparr>) c
      | ClosePortalStmt name \<Rightarrow>
          store_stmt stmtName ((plain_stmt query)\<lparr>ps_cursorOp := cursorOpClose, ps_cursorName := name\<rparr>) c)"

definition parse_transpiled :: "'d world \<Rightarrow> string \<Rightarrow> string \<Rightarrow> int list \<Rightarrow> transpiled \<Rightarrow> 'd conn \<Rightarrow> 'd conn" where
  "parse_transpiled w stmtName query paramTypes result c =
     (case tr_Error result of
        Some err \<Rightarrow> sendError ''ERROR'' ''42704'' err c
      | None \<Rightarrow>
          (case (if tr_FallbackToNative result then validateWithDuckDB w query c else (c, None)) of
             (c1, Some err) \<Rightarrow> syntax_error err c1
           | (c1, None) \<Rightarrow>
               store_stmt stmtName
                 ((plain_stmt query)\<lparr>
                    ps_convertedQuery := castParams (rewriteDirectQuery (w_fold w) (c_names c1) (tr_SQL result)) paramTypes,
                    ps_paramTypes := paramTypes, ps_numParams := int (tr_ParamCount result),
                    ps_isIgnoredSet := tr_IsIgnoredSet result, ps_isNoOp := tr_IsNoOp result, ps_noOpTag := tr_NoOpTag result,
                    ps_statements := tr_Statements result, ps_cleanupStatements := tr_CleanupStatements result\<rparr>) c1))"

definition parse_statement :: "'d world \<Rightarrow> string \<Rightarrow> string \<Rightarrow> int list \<Rightarrow> 'd conn \<Rightarrow> 'd conn" where
  "parse_statement w stmtName query paramTypes c =
     (case w_parseCursor w query of
        Some stmt \<Rightarrow> parse_cursor w stmtName query stmt c
      | None \<Rightarrow>
          (case matchPgCursorsQuery query of
             Some (cursorName, parameterized) \<Rightarrow>
               store_stmt stmtName
                 ((plain_stmt query)\<lparr>ps_cursorOp := cursorOpPgCursorsQuery, ps_cursorName := cursorName,
                    ps_numParams := (if parameterized then 1 else 0), ps_paramTypes := (if parameterized then [25] else [])\<rparr>) c
           | None \<Rightarrow>
               if matchPgStatActivityQuery query
               then store_stmt stmtName ((plain_stmt query)\<lparr>ps_cursorOp := cursorOpPgStatActivity\<rparr>) c
               else if cn_passthrough (c_names c)
               then store_stmt stmtName
                      ((plain_stmt query)\<lparr>ps_convertedQuery := castParams query paramTypes, ps_paramTypes := paramTypes,
                         ps_numParams := countDollarParams query\<rparr>) c
               else (case w_Transpile w True query of
                       Inl err \<Rightarrow> syntax_error err c
                     | Inr result \<Rightarrow> parse_transpiled w stmtName query paramTypes result c)))"

definition parse_message :: "bytes \<Rightarrow> (string \<times> string \<times> int list) parsed" where
  "parse_message body =
     bind_parsed (readCString body) (\<lambda>stmtName b1.
     bind_parsed (readCString b1) (\<lambda>query b2.
     bind_parsed (read_list read_int32 b2) (\<lambda>paramTypes b3. Parsed (stmtName, query, paramTypes) b3)))"

definition handleParse :: "'d world \<Rightarrow> bytes \<Rightarrow> 'd conn \<Rightarrow> 'd conn" where
  "handleParse w body c =
     (case parse_message body of
        Malformed \<Rightarrow> sendError ''ERROR'' ''08P01'' ''invalid Parse message'' c
      | Panics \<Rightarrow> panic c
      | Parsed (stmtName, query, paramTypes) rest \<Rightarrow> parse_statement w stmtName query paramTypes c)"

section \<open>Bind\<close>

definition bind_rest :: "bytes \<Rightarrow> (int list \<times> bytes option list \<times> int list) parsed" where
  "bind_rest b =
     bind_parsed (read_list read_int16 b) (\<lambda>paramFormats b1.
     bind_parsed (read_list read_value b1) (\<lambda>paramValues b2.
     bind_parsed (read_list read_int16 b2) (\<lambda>resultFormats b3. Parsed (paramFormats, paramValues, resultFormats) b3)))"

definition handleBind :: "'d world \<Rightarrow> bytes \<Rightarrow> 'd conn \<Rightarrow> 'd conn" where
  "handleBind w body c =
     (let invalid = sendError ''ERROR'' ''08P01'' ''invalid Bind message'' c in
      case bind_parsed (readCString body) (\<lambda>portalName b1.
             bind_parsed (readCString b1) (\<lambda>stmtName b2. Parsed (portalName, stmtName) b2)) of
        Malformed \<Rightarrow> invalid
      | Panics \<Rightarrow> panic c
      | Parsed (portalName, stmtName) rest \<Rightarrow>
          (case c_stmts c stmtName of
             None \<Rightarrow> sendError ''ERROR'' ''26000'' (''prepared statement '' @ w_quote w stmtName @ '' does not exist'') c
           | Some a \<Rightarrow>
               (case bind_rest rest of
                  Malformed \<Rightarrow> invalid
                | Panics \<Rightarrow> panic c
                | Parsed (paramFormats, paramValues, resultFormats) _ \<Rightarrow>
                    put BindComplete
                      (c\<lparr>c_portals := (c_portals c)(portalName \<mapsto>
                          \<lparr>po_stmt = a, po_paramValues = paramValues, po_paramFormats = paramFormats,
                           po_resultFormats = resultFormats, po_described = ps_described (c_store c a)\<rparr>)\<rparr>))))"

section \<open>Close\<close>

definition handleClose :: "bytes \<Rightarrow> 'd conn \<Rightarrow> 'd conn" where
  "handleClose body c =
     (if length body < 2 then sendError ''ERROR'' ''08P01'' ''invalid Close message'' c
      else let closeType = hd body; name = trim_nul (tl body)
           in put CloseComplete
                (if closeType = CHR ''S'' then c\<lparr>c_stmts := (c_stmts c)(name := None)\<rparr>
                 else if closeType = CHR ''P'' then c\<lparr>c_portals := (c_portals c)(name := None)\<rparr>
                 else c))"

section \<open>Describe\<close>

definition describe_query :: "string \<Rightarrow> string" where
  "describe_query convertedQuery =
     (let q = rev (dropWhile (\<lambda>ch. ch = CHR '';'') (rev (TrimSpace convertedQuery))); upperDesc = to_upper q
      in if \<not> contains_str upperDesc ''LIMIT'' \<and> describeSupportsLimit upperDesc then q @ '' LIMIT 0'' else q)"

definition rejected_returning :: string where
  "rejected_returning = ''DML with RETURNING clause cannot be described without executing the mutation; use simple query protocol or skip the Describe step''"

text \<open>The part that a statement and a portal share: the classification, the trial run with the given parameters, and the
  answer. The second result says whether the rows were described.\<close>

definition describe_rows :: "'d world \<Rightarrow> preparedStmt \<Rightarrow> (string + govalue list) \<Rightarrow> int list \<Rightarrow> 'd conn \<Rightarrow> 'd conn \<times> bool" where
  "describe_rows w ps args0 formats c =
     (if \<not> queryReturnsResults (ps_query ps) then (put NoData c, False)
      else if isDMLReturning (ps_query ps) then (sendError ''ERROR'' ''0A000'' rejected_returning c, False)
      else if isWithDML (ps_query ps) then (put NoData c, False)
      else case args0 of
        Inl err \<Rightarrow> (params_error err c, False)
      | Inr args \<Rightarrow>
          (case run_query w (describe_query (ps_convertedQuery ps)) args c of
             (c1, Inl err) \<Rightarrow> (put NoData c1, False)
           | (c1, Inr rs) \<Rightarrow>
               if or_none (rs_Columns rs) = [] then (put NoData c1, False)
               else (fst (sendRowDescriptionWithFormats (or_none (rs_Columns rs)) (or_none (rs_ColumnTypes rs)) formats c1), True)))"

definition describe_fetch :: "'d world \<Rightarrow> preparedStmt \<Rightarrow> int list \<Rightarrow> 'd conn \<Rightarrow> 'd conn \<times> bool" where
  "describe_fetch w ps formats c =
     (case getCursorSchema w (ps_cursorName ps) c of
        (c1, Inl err) \<Rightarrow> (put NoData c1, False)
      | (c1, Inr (cols, colTypes)) \<Rightarrow>
          if cols = [] then (put NoData c1, False)
          else (fst (sendRowDescriptionWithFormats cols colTypes formats c1), True))"

definition describe_stmt :: "'d world \<Rightarrow> preparedStmt \<Rightarrow> (string + govalue list) \<Rightarrow> int list \<Rightarrow> 'd conn \<Rightarrow> 'd conn \<times> bool" where
  "describe_stmt w ps args formats c =
     (case ps_cursorOp ps of
        cursorOpDeclare \<Rightarrow> (put NoData c, False)
      | cursorOpClose \<Rightarrow> (put NoData c, False)
      | cursorOpFetch \<Rightarrow> describe_fetch w ps formats c
      | cursorOpPgCursorsQuery \<Rightarrow> (fst (sendPgCursorsRowDescriptionWithFormats formats c), True)
      | cursorOpPgStatActivity \<Rightarrow> (fst (sendPgStatActivityRowDescriptionWithFormats formats c), True)
      | cursorOpNone \<Rightarrow> describe_rows w ps args formats c)"

definition parameter_types :: "preparedStmt \<Rightarrow> int list" where
  "parameter_types ps =
     (if int (length (ps_paramTypes ps)) < ps_numParams ps then replicate (nat (ps_numParams ps)) 25 else ps_paramTypes ps)"

definition sendParameterDescription :: "int list \<Rightarrow> 'd conn \<Rightarrow> 'd conn" where
  "sendParameterDescription paramTypes c = put (ParameterDescription (map (\<lambda>oid. if oid = 0 then 25 else oid) paramTypes)) c"

definition mark_stmt :: "nat \<Rightarrow> 'd conn \<Rightarrow> 'd conn" where
  "mark_stmt a c = c\<lparr>c_store := (c_store c)(a := (c_store c a)\<lparr>ps_described := True\<rparr>)\<rparr>"

definition mark_portal :: "string \<Rightarrow> portal \<Rightarrow> 'd conn \<Rightarrow> 'd conn" where
  "mark_portal name p c = c\<lparr>c_portals := (c_portals c)(name \<mapsto> p\<lparr>po_described := True\<rparr>)\<rparr>"

definition describe_S :: "'d world \<Rightarrow> string \<Rightarrow> 'd conn \<Rightarrow> 'd conn" where
  "describe_S w name c =
     (case c_stmts c name of
        None \<Rightarrow> sendError ''ERROR'' ''26000'' (''prepared statement '' @ w_quote w name @ '' does not exist'') c
      | Some a \<Rightarrow>
          let ps = c_store c a; c1 = sendParameterDescription (parameter_types ps) c
          in (case describe_stmt w ps (Inr (replicate (nat (ps_numParams ps)) VNil)) [] c1 of
                (c2, described) \<Rightarrow> if described \<and> \<not> c_panic c2 then mark_stmt a c2 else c2))"

text \<open>A portal that does not exist may be a cursor.\<close>

definition describe_P :: "'d world \<Rightarrow> string \<Rightarrow> 'd conn \<Rightarrow> 'd conn" where
  "describe_P w name c =
     (case c_portals c name of
        None \<Rightarrow>
          (if c_cursors c name = None
           then sendError ''ERROR'' ''34000'' (''portal '' @ w_quote w name @ '' does not exist'') c
           else case getCursorSchema w name c of
                  (c1, Inl err) \<Rightarrow> put NoData c1
                | (c1, Inr (cols, colTypes)) \<Rightarrow> fst (sendRowDescription cols colTypes c1))
      | Some p \<Rightarrow>
          let ps = c_store c (po_stmt p)
          in (case describe_stmt w ps (decodeParams ps p) (po_resultFormats p) c of
                (c1, described) \<Rightarrow>
                  if described
                  then let c2 = mark_portal name p c1
                       in if ps_cursorOp ps = cursorOpNone then mark_stmt (po_stmt p) c2 else c2
                  else c1))"

definition handleDescribe :: "'d world \<Rightarrow> bytes \<Rightarrow> 'd conn \<Rightarrow> 'd conn" where
  "handleDescribe w body c =
     (if length body < 2 then sendError ''ERROR'' ''08P01'' ''invalid Describe message'' c
      else let descType = hd body; name = trim_nul (tl body)
           in if descType = CHR ''S'' then describe_S w name c
              else if descType = CHR ''P'' then describe_P w name c
              else sendError ''ERROR'' ''08P01'' ''invalid Describe type'' c)"

section \<open>Execute\<close>

text \<open>The types of the columns; a type too many makes the server panic, a missing one counts as unknown.\<close>

definition padded_oids :: "string list \<Rightarrow> string list \<Rightarrow> int list" where
  "padded_oids cols colTypes = map (\<lambda>i. if i < length colTypes then ti_OID (mapDuckDBType (colTypes ! i)) else 0) [0..<length cols]"

text \<open>The rows of a portal: a description unless the client has one, up to the given number of rows, and the tag. The
  error of the rows shows only if none are left.\<close>

definition portal_rows ::
  "'d world \<Rightarrow> string list \<Rightarrow> string list \<Rightarrow> rowset \<Rightarrow> int list \<Rightarrow> bool \<Rightarrow> int \<Rightarrow> ('d conn \<Rightarrow> 'd conn) \<Rightarrow> string \<Rightarrow> 'd conn \<Rightarrow> 'd conn" where
  "portal_rows w cols colTypes rs formats described maxRows finish cmdType c =
     (if length colTypes > length cols then panic c
      else
        case (if \<not> described \<and> cols \<noteq> [] then sendRowDescriptionWithFormats cols colTypes formats c else (c, True)) of
          (c1, False) \<Rightarrow> c1
        | (c1, True) \<Rightarrow>
            (case send_rows (w_lib w) formats (padded_oids cols colTypes) (if maxRows > 0 then Some maxRows else None) 0 (rs_rows rs) c1 of
               (c2, n, rest, ScanError err) \<Rightarrow> internal_error err c2
             | (c2, n, rest, WriteError) \<Rightarrow> c2
             | (c2, n, rest, _) \<Rightarrow>
                 (case (if rest = [] then rs_Err rs else None) of
                    Some err \<Rightarrow> cursor_error w err c2
                  | None \<Rightarrow> put (CommandComplete (buildCommandTagFromRowCount cmdType n)) (finish c2))))"

definition streamRowsToClientExtended :: "'d world \<Rightarrow> rowset \<Rightarrow> string \<Rightarrow> int list \<Rightarrow> bool \<Rightarrow> 'd conn \<Rightarrow> 'd conn" where
  "streamRowsToClientExtended w rs cmdType resultFormats described c =
     (case (rs_Columns rs, rs_ColumnTypes rs) of
        (Inl err, _) \<Rightarrow> internal_error err c
      | (Inr cols, Inl err) \<Rightarrow> internal_error err c
      | (Inr cols, Inr colTypes) \<Rightarrow> portal_rows w cols colTypes rs resultFormats described 0 id cmdType c)"

definition executeMultiStatementExtended ::
  "'d world \<Rightarrow> string list \<Rightarrow> string list \<Rightarrow> govalue list \<Rightarrow> int list \<Rightarrow> bool \<Rightarrow> 'd conn \<Rightarrow> 'd conn" where
  "executeMultiStatementExtended w statements0 cleanup0 args resultFormats described c =
     (if statements0 = [] then put EmptyQueryResponse c
      else
        let (statements, cleanup) = unwrapped (c_txStatus c) statements0 cleanup0;
            finalStmt = last statements;
            cmdType = getCommandType (to_upper (TrimSpace finalStmt))
        in case run_setup w args (butlast statements) c of
             (c1, Some err) \<Rightarrow> sequence_error w cleanup err c1
           | (c1, None) \<Rightarrow>
               if queryReturnsResults finalStmt
               then (case run_query w finalStmt args c1 of
                       (c2, Inl err) \<Rightarrow> sequence_error w cleanup err c2
                     | (c2, Inr rs) \<Rightarrow> streamRowsToClientExtended w rs cmdType resultFormats described (executeCleanup w cleanup c2))
               else (case exec w finalStmt args c1 of
                       (c2, Inl err) \<Rightarrow> sequence_error w cleanup err c2
                     | (c2, Inr n) \<Rightarrow> put (CommandComplete (buildCommandTag cmdType n)) (executeCleanup w cleanup c2)))"

definition handleDeclareCursorExtended :: "preparedStmt \<Rightarrow> 'd conn \<Rightarrow> 'd conn" where
  "handleDeclareCursorExtended ps c =
     (let c1 = closeCursor (ps_cursorName ps) c
      in put (CommandComplete ''DECLARE CURSOR'')
           (c1\<lparr>c_cursors := (c_cursors c1)(ps_cursorName ps \<mapsto> \<lparr>cu_query = ps_cursorQuery ps, cu_open = None, cu_exhausted = False\<rparr>)\<rparr>))"

definition handleFetchCursorExtended :: "'d world \<Rightarrow> preparedStmt \<Rightarrow> portal \<Rightarrow> 'd conn \<Rightarrow> 'd conn" where
  "handleFetchCursorExtended w ps p c =
     (case c_cursors c (ps_cursorName ps) of
        None \<Rightarrow> sendError ''ERROR'' ''34000'' (cursor_missing w (ps_cursorName ps)) c
      | Some cursor \<Rightarrow>
          (case openCursor w (ps_cursorName ps) cursor c of
             (c1, Inl err) \<Rightarrow> cursor_error w err c1
           | (c1, Inr rs) \<Rightarrow>
               (case (if \<not> po_described p \<and> projr (rs_Columns rs) \<noteq> []
                      then sendRowDescriptionWithFormats (projr (rs_Columns rs)) (projr (rs_ColumnTypes rs)) (po_resultFormats p) c1
                      else (c1, True)) of
                  (c2, False) \<Rightarrow> c2
                | (c2, True) \<Rightarrow>
                    (case fetch_rows w (ps_cursorName ps) cursor rs (po_resultFormats p) (ps_fetchCount ps) c2 of
                       (c3, Fetched n) \<Rightarrow> put (CommandComplete (''FETCH '' @ itoa n)) c3
                     | (c3, _) \<Rightarrow> c3))))"

definition handlePgCursorsQueryExtended :: "'d world \<Rightarrow> preparedStmt \<Rightarrow> portal \<Rightarrow> 'd conn \<Rightarrow> 'd conn" where
  "handlePgCursorsQueryExtended w ps p c =
     (let cursorName = (if ps_cursorName ps = [] \<and> po_paramValues p \<noteq> [] \<and> hd (po_paramValues p) \<noteq> None
                        then the (hd (po_paramValues p)) else ps_cursorName ps);
          c1 = (if ps_described ps then c else fst (sendPgCursorsRowDescriptionWithFormats (po_resultFormats p) c))
      in if c_cursors c cursorName = None then put (CommandComplete ''SELECT 0'') c1
         else put (CommandComplete ''SELECT 1'') (fst (sendPgCursorsRow w (po_resultFormats p) c1)))"

definition handlePgStatActivityExtended :: "'d world \<Rightarrow> preparedStmt \<Rightarrow> portal \<Rightarrow> 'd conn \<Rightarrow> 'd conn" where
  "handlePgStatActivityExtended w ps p c =
     batch_activity w (po_resultFormats p)
       (if ps_described ps \<or> po_described p then c
        else fst (sendPgStatActivityRowDescriptionWithFormats (po_resultFormats p) c))"

definition execute_statement :: "'d world \<Rightarrow> preparedStmt \<Rightarrow> portal \<Rightarrow> int \<Rightarrow> govalue list \<Rightarrow> 'd conn \<Rightarrow> 'd conn" where
  "execute_statement w ps p maxRows args c =
     (let cmdType = getCommandType (to_upper (TrimSpace (ps_query ps))) in
      if ps_isIgnoredSet ps then put (CommandComplete ''SET'') c
      else if ps_isNoOp ps then put (CommandComplete (ps_noOpTag ps)) c
      else if ps_statements ps \<noteq> []
      then executeMultiStatementExtended w (ps_statements ps) (ps_cleanupStatements ps) args (po_resultFormats p) (po_described p) c
      else if \<not> queryReturnsResults (ps_query ps) then fst (exec_command w (run_exec w (ps_convertedQuery ps) args) cmdType c)
      else case recovering w (run_query w (ps_convertedQuery ps) args) c of
             (c1, Inl err) \<Rightarrow> statement_error w err c1
           | (c1, Inr rs) \<Rightarrow>
               (case rs_Columns rs of
                  Inl err \<Rightarrow> internal_error err c1
                | Inr cols \<Rightarrow>
                    portal_rows w cols (or_none (rs_ColumnTypes rs)) rs (po_resultFormats p) (po_described p) maxRows
                      (updateTxStatus cmdType) cmdType c1))"

definition execute_portal :: "'d world \<Rightarrow> preparedStmt \<Rightarrow> portal \<Rightarrow> int \<Rightarrow> 'd conn \<Rightarrow> 'd conn" where
  "execute_portal w ps p maxRows c =
     (case ps_cursorOp ps of
        cursorOpDeclare \<Rightarrow> handleDeclareCursorExtended ps c
      | cursorOpFetch \<Rightarrow> handleFetchCursorExtended w ps p c
      | cursorOpClose \<Rightarrow> fst (close_cursor w (ps_cursorName ps) c)
      | cursorOpPgCursorsQuery \<Rightarrow> handlePgCursorsQueryExtended w ps p c
      | cursorOpPgStatActivity \<Rightarrow> handlePgStatActivityExtended w ps p c
      | cursorOpNone \<Rightarrow>
          if TrimSpace (ps_query ps) = [] \<or> IsEmptyQuery (TrimSpace (ps_query ps)) then put EmptyQueryResponse c
          else case decodeParams ps p of
                 Inl err \<Rightarrow> params_error err c
               | Inr args \<Rightarrow> execute_statement w ps p maxRows args c)"

definition handleExecute :: "'d world \<Rightarrow> bytes \<Rightarrow> 'd conn \<Rightarrow> 'd conn" where
  "handleExecute w body c =
     (case bind_parsed (readCString body) (\<lambda>portalName b1.
             bind_parsed (read_int32 b1) (\<lambda>maxRows b2. Parsed (portalName, maxRows) b2)) of
        Parsed (portalName, maxRows) rest \<Rightarrow>
          (case c_portals c portalName of
             None \<Rightarrow> sendError ''ERROR'' ''34000'' (''portal '' @ w_quote w portalName @ '' does not exist'') c
           | Some p \<Rightarrow> execute_portal w (c_store c (po_stmt p)) p maxRows c)
      | _ \<Rightarrow> sendError ''ERROR'' ''08P01'' ''invalid Execute message'' c)"

section \<open>The message loop\<close>

text \<open>One message: the connection, and whether the loop ends.\<close>

definition handle_message :: "'d world \<Rightarrow> frontend \<Rightarrow> 'd conn \<Rightarrow> 'd conn \<times> bool" where
  "handle_message w m c =
     (let msgType = fst m; body = snd m in
      if msgType = MsgQuery
      then (case handleQuery w body c of (c1, Some err) \<Rightarrow> (c1, isConnectionBroken err) | (c1, None) \<Rightarrow> (c1, False))
      else if msgType = MsgParse then (handleParse w body c, False)
      else if msgType = MsgBind then (handleBind w body c, False)
      else if msgType = MsgDescribe then (handleDescribe w body c, False)
      else if msgType = MsgExecute then (handleExecute w body c, False)
      else if msgType = MsgSync then (case emit (ReadyForQuery (c_txStatus c)) c of (c1, ok) \<Rightarrow> (c1, \<not> ok))
      else if msgType = MsgClose then (handleClose body c, False)
      else if msgType = MsgTerminate then (c, True)
      else (c, False))"

text \<open>The loop reads a message of the client and handles it, until there are no more, the client leaves or its
  connection breaks, or the server panics. A handler may read further messages, so the loop goes round at most once for
  each message that is there at the start.\<close>

fun message_rounds :: "nat \<Rightarrow> 'd world \<Rightarrow> 'd conn \<Rightarrow> 'd conn" where
  "message_rounds 0 w c = c"
| "message_rounds (Suc n) w c =
     (case c_in c of
        [] \<Rightarrow> c
      | m # ms \<Rightarrow>
          (case handle_message w m (c\<lparr>c_in := ms\<rparr>) of
             (c1, stop) \<Rightarrow> if stop \<or> c_panic c1 then c1 else message_rounds n w c1))"

definition messageLoop :: "'d world \<Rightarrow> 'd conn \<Rightarrow> 'd conn" where
  "messageLoop w c = message_rounds (length (c_in c)) w c"

end
