(* ===== verification/Protocol_Answers.thy ===== *)
theory Protocol_Answers
  imports Extended_Query
begin

text \<open>
  The connection against the protocol: every message of a client gets an answer that the protocol of PostgreSQL allows,
  and prepared statements and portals are what the protocol says they are.
\<close>

section \<open>What a step writes\<close>

text \<open>A step that keeps statements and portals, reads nothing and writes the given messages.\<close>

definition says :: "'d conn \<Rightarrow> backend list \<Rightarrow> 'd conn \<Rightarrow> bool" where
  "says c ms c' \<longleftrightarrow>
     c_out c' = c_out c @ ms \<and> c_limit c' = c_limit c \<and> c_stmts c' = c_stmts c \<and> c_store c' = c_store c \<and>
     c_portals c' = c_portals c \<and> c_fresh c' = c_fresh c \<and> c_names c' = c_names c \<and> c_in c' = c_in c \<and>
     c_failed c' = c_failed c"

lemma says_refl [simp]: "says c [] c"
  by (simp add: says_def)

lemma says_trans: "says c ms c' \<Longrightarrow> says c' ms' c'' \<Longrightarrow> says c (ms @ ms') c''"
  by (simp add: says_def)

lemma says_quiet: "says c [] c' \<Longrightarrow> says c' ms c'' \<Longrightarrow> says c ms c''"
  by (simp add: says_def)

lemma says_silent: "says c ms c' \<Longrightarrow> says c' [] c'' \<Longrightarrow> says c ms c''"
  by (simp add: says_def)

text \<open>A step with the client still there: either the server panics, or it says something of the given form.\<close>

definition answers :: "'d conn \<Rightarrow> 'd conn \<Rightarrow> (backend list \<Rightarrow> bool) \<Rightarrow> bool" where
  "answers c c' P \<longleftrightarrow> c_panic c' \<or> (\<exists>ms. says c ms c' \<and> P ms)"

lemma answersI: "says c ms c' \<Longrightarrow> P ms \<Longrightarrow> answers c c' P"
  by (auto simp: answers_def)

lemma answers_panic: "c_panic c' \<Longrightarrow> answers c c' P"
  by (simp add: answers_def)

lemma answers_after: "says c ms c1 \<Longrightarrow> answers c1 c2 P \<Longrightarrow> (\<And>ms'. P ms' \<Longrightarrow> Q (ms @ ms')) \<Longrightarrow> answers c c2 Q"
  unfolding answers_def using says_trans by blast

lemma answers_quiet: "says c [] c1 \<Longrightarrow> answers c1 c2 P \<Longrightarrow> answers c c2 P"
  unfolding answers_def using says_quiet by blast

lemma answers_then:
  assumes "answers c c1 P" "\<And>ms. P ms \<Longrightarrow> says c ms c1 \<Longrightarrow> says c1 ms' c2 \<and> Q (ms @ ms')" "c_panic c1 \<Longrightarrow> c_panic c2"
  shows "answers c c2 Q"
  using assms unfolding answers_def using says_trans by blast

lemma answers_mono: "answers c c' P \<Longrightarrow> (\<And>ms. P ms \<Longrightarrow> Q ms) \<Longrightarrow> answers c c' Q"
  unfolding answers_def by blast

section \<open>Single steps\<close>

lemma emit_open: "c_limit c = None \<Longrightarrow> emit m c = (put m c, True)"
  by (simp add: emit_def put_def)

lemma says_put: "c_limit c = None \<Longrightarrow> says c [m] (put m c)"
  by (simp add: put_def emit_def says_def)

lemma says_error: "c_limit c = None \<Longrightarrow> says c [ErrorResponse s d t] (sendError s d t c)"
  by (simp add: sendError_def says_put)

lemma says_exec: "exec w q a c = (c', r) \<Longrightarrow> says c [] c'"
  by (auto simp: exec_def says_def split: prod.splits)

lemma says_run_query: "run_query w q a c = (c', r) \<Longrightarrow> says c [] c'"
  by (auto simp: run_query_def says_def split: prod.splits)

lemma says_setTxError: "says c [] (setTxError c)"
  by (simp add: setTxError_def says_def)

lemma says_updateTxStatus: "says c [] (updateTxStatus t c)"
  by (simp add: updateTxStatus_def closeAllCursors_def says_def)

lemma says_cursors: "says c [] (c\<lparr>c_cursors := f\<rparr>)"
  by (simp add: says_def)

lemma panic_put [simp]: "c_panic (put m c) = c_panic c"
  by (simp add: put_def emit_def)

lemma panic_error [simp]: "c_panic (sendError s d t c) = c_panic c"
  by (simp add: sendError_def)

lemma panic_setTxError [simp]: "c_panic (setTxError c) = c_panic c"
  by (simp add: setTxError_def)

lemma panic_ready [simp]: "c_panic (ready c) = c_panic c"
  by (simp add: ready_def)

lemma limit_says: "says c ms c' \<Longrightarrow> c_limit c' = c_limit c"
  by (simp add: says_def)

section \<open>Answers to a statement\<close>

definition data_rows :: "backend list \<Rightarrow> bool" where
  "data_rows ms \<longleftrightarrow> (\<forall>m \<in> set ms. \<exists>vs. m = DataRow vs)"

definition row_header :: "backend list \<Rightarrow> bool" where
  "row_header ms \<longleftrightarrow> ms = [] \<or> (\<exists>fs. ms = [RowDescription fs])"

text \<open>A statement that succeeds ends in its tag, which counts the rows that were sent; one that fails ends in an error.\<close>

definition succeeded :: "backend list \<Rightarrow> bool" where
  "succeeded ms \<longleftrightarrow>
     ms = [EmptyQueryResponse] \<or>
     (\<exists>s d t tag. ms = [NoticeResponse s d t, CommandComplete tag]) \<or>
     (\<exists>h rows tag. ms = h @ rows @ [CommandComplete tag] \<and> row_header h \<and> data_rows rows \<and>
        (rows \<noteq> [] \<longrightarrow> suffix (itoa (int (length rows))) tag))"

definition failed :: "backend list \<Rightarrow> bool" where
  "failed ms \<longleftrightarrow> (\<exists>h rows s d t. ms = h @ rows @ [ErrorResponse s d t] \<and> row_header h \<and> data_rows rows)"

lemma data_rows_simps [simp]: "data_rows []" "data_rows (ms @ ms') \<longleftrightarrow> data_rows ms \<and> data_rows ms'" "data_rows [DataRow vs]"
  by (auto simp: data_rows_def)

lemma row_header_simps [simp]: "row_header []" "row_header [RowDescription fs]"
  by (auto simp: row_header_def)

lemma succeeded_tag: "succeeded [CommandComplete tag]"
  unfolding succeeded_def by force

lemma succeeded_empty: "succeeded [EmptyQueryResponse]"
  by (simp add: succeeded_def)

lemma failed_error: "failed [ErrorResponse s d t]"
  unfolding failed_def by force

lemma succeeded_rows:
  "row_header h \<Longrightarrow> data_rows rows \<Longrightarrow> suffix (itoa (int (length rows))) tag \<Longrightarrow> succeeded (h @ rows @ [CommandComplete tag])"
  unfolding succeeded_def by blast

lemma failed_rows: "row_header h \<Longrightarrow> data_rows rows \<Longrightarrow> failed (h @ rows @ [ErrorResponse s d t])"
  unfolding failed_def by blast

section \<open>Rows\<close>

lemma says_row_description:
  assumes "sendRowDescriptionWithFormats cols types f c = (c', ok)" "c_limit c = None"
  shows "c_panic c' \<and> \<not> ok \<or> (\<exists>fs. says c [RowDescription fs] c') \<and> ok"
  using assms by (auto simp: sendRowDescriptionWithFormats_def panic_def emit_open split: if_splits intro: says_put)

lemma says_data_row:
  assumes "sendDataRowWithFormats lib vs f oids c = (c', ok)" "c_limit c = None"
  shows "c_panic c' \<and> \<not> ok \<or> (\<exists>cells. says c [DataRow cells] c') \<and> ok"
  using assms by (auto simp: sendDataRowWithFormats_def panic_def emit_open Let_def split: if_splits intro: says_put)

lemma says_send_rows:
  assumes "send_rows lib f oids lim n rs c = (c', n', rest, e)" "c_limit c = None"
  shows "c_panic c' \<and> e = WriteError \<or>
    e \<noteq> WriteError \<and> (\<exists>rows. says c rows c' \<and> data_rows rows \<and> n' = n + int (length rows))"
  using assms
proof (induction lib f oids lim n rs c rule: send_rows.induct)
  case (1 lib f oids lim n c)
  then have "c' = c \<and> n' = n \<and> e \<noteq> WriteError" by (auto split: option.splits if_splits)
  then show ?case by (auto intro!: exI [of _ "[]"])
next
  case (2 lib f oids lim n r rs c)
  show ?case
  proof (cases "case lim of Some m \<Rightarrow> n \<ge> m | None \<Rightarrow> False")
    case True
    then have "c' = c \<and> n' = n \<and> e \<noteq> WriteError" using 2(2) by auto
    then show ?thesis by (auto intro!: exI [of _ "[]"])
  next
    case False
    note go = False
    show ?thesis
    proof (cases r)
      case (Inl err)
      then have "c' = c \<and> n' = n \<and> e \<noteq> WriteError" using 2(2) go by auto
      then show ?thesis by (auto intro!: exI [of _ "[]"])
    next
      case (Inr vs)
      obtain c1 ok where row: "sendDataRowWithFormats lib vs f oids c = (c1, ok)" by fastforce
      show ?thesis
      proof (cases ok)
        case True
        with row says_data_row [OF row 2(3)] obtain cells where cells: "says c [DataRow cells] c1" by auto
        have "send_rows lib f oids lim (n + 1) rs c1 = (c', n', rest, e)" using 2(2) go Inr row True by simp
        then have "c_panic c' \<and> e = WriteError \<or>
            e \<noteq> WriteError \<and> (\<exists>rows. says c1 rows c' \<and> data_rows rows \<and> n' = n + 1 + int (length rows))"
          using 2(1) [OF go Inr row [symmetric]] True limit_says [OF cells] 2(3) by auto
        then show ?thesis
          using says_trans [OF cells] by (auto intro!: exI [of _ "DataRow cells # _"] simp: data_rows_def)
      next
        case False
        then show ?thesis using says_data_row [OF row 2(3)] 2(2) go Inr row by auto
      qed
    qed
  qed
qed

section \<open>Statements\<close>

definition quiet_run :: "('d conn \<Rightarrow> 'd conn \<times> 'r) \<Rightarrow> bool" where
  "quiet_run run \<longleftrightarrow> (\<forall>c c' r. run c = (c', r) \<longrightarrow> says c [] c')"

lemma quiet_runD: "quiet_run run \<Longrightarrow> run c = (c', r) \<Longrightarrow> says c [] c'"
  by (auto simp: quiet_run_def)

lemma quiet_exec: "quiet_run (exec w q a)"
  by (auto simp: quiet_run_def intro: says_exec)

lemma quiet_run_query: "quiet_run (run_query w q a)"
  by (auto simp: quiet_run_def intro: says_run_query)

lemma quiet_run_exec: "quiet_run (run_exec w q a)"
  unfolding quiet_run_def run_exec_def
  by (auto split: prod.splits sum.splits option.splits if_splits intro: says_exec says_quiet dest: says_exec)

lemma quiet_rollback: "quiet_run (rollback w)"
  unfolding quiet_run_def rollback_def by (auto split: prod.splits sum.splits intro: says_exec)

lemma quiet_retry_loop: "quiet_run run \<Longrightarrow> retry_loop n e run c = (c', r) \<Longrightarrow> says c [] c'"
proof (induction n arbitrary: e c)
  case (Suc n)
  obtain c1 r1 where r1: "run c = (c1, r1)" by fastforce
  then have "says c [] c1" using Suc.prems(1) by (rule quiet_runD [rotated])
  then show ?case using Suc r1 by (auto split: sum.splits if_splits intro: says_quiet)
qed simp

lemma quiet_retryOnConflict: "quiet_run run \<Longrightarrow> quiet_run (retryOnConflict run)"
  unfolding quiet_run_def retryOnConflict_def using quiet_retry_loop unfolding quiet_run_def by blast

lemma quiet_recover:
  "quiet_run run \<Longrightarrow> recoverAbortedTransaction e can (rollback w) run c = (c', r) \<Longrightarrow> says c [] c'"
  unfolding recoverAbortedTransaction_def
  by (auto split: if_splits prod.splits option.splits dest: quiet_runD [OF quiet_rollback] quiet_runD intro: says_quiet)

lemma quiet_recovering:
  assumes run: "quiet_run run"
  shows "quiet_run (recovering w run)"
  unfolding quiet_run_def
proof (intro allI impI)
  fix c c' r assume rec: "recovering w run c = (c', r)"
  obtain c1 r1 where r1: "run c = (c1, r1)" by fastforce
  have s1: "says c [] c1" using run r1 by (rule quiet_runD)
  show "says c [] c'"
  proof (cases r1)
    case (Inr x)
    then show ?thesis using rec r1 s1 by (simp add: recovering_def)
  next
    case (Inl err)
    obtain c2 r2 where r2: "(if c_txStatus c = txStatusIdle \<and> isDuckLakeTransactionConflict err then retryOnConflict run c1 else (c1, Inl err)) = (c2, r2)"
      by fastforce
    have s2: "says c1 [] c2" using r2 quiet_runD [OF quiet_retryOnConflict [OF run]] by (auto split: if_splits)
    have "says c2 [] c'"
      using rec r1 Inl r2 quiet_recover [OF run] by (cases r2) (auto simp: recovering_def)
    then show ?thesis using s1 s2 says_quiet by blast
  qed
qed

lemma says_statement_error: "c_limit c = None \<Longrightarrow> \<exists>s d t. says c [ErrorResponse s d t] (statement_error w err c)"
  unfolding statement_error_def by (blast intro: says_silent says_error says_setTxError)

lemma says_internal_error: "c_limit c = None \<Longrightarrow> says c [ErrorResponse ''ERROR'' ''42000'' err] (internal_error err c)"
  unfolding internal_error_def by (blast intro: says_silent says_error says_setTxError)

lemma says_cursor_error: "c_limit c = None \<Longrightarrow> \<exists>s d t. says c [ErrorResponse s d t] (cursor_error w err c)"
  unfolding cursor_error_def using says_silent [OF says_error says_setTxError] by (cases "isCallerCancellation w err c") (simp; blast)+

lemma says_exec_command:
  assumes run: "quiet_run run" and open_: "c_limit c = None" and r: "exec_command w run t c = (c', e)"
  shows "\<exists>ms. says c ms c' \<and> (if e then failed ms else succeeded ms)"
proof (cases "t = ''BEGIN'' \<and> c_txStatus c = txStatusTransaction")
  case True
  have n: "says c [NoticeResponse ''WARNING'' ''25001'' ''there is already a transaction in progress'']
      (sendNotice ''WARNING'' ''25001'' ''there is already a transaction in progress'' c)"
    using open_ by (simp add: sendNotice_def says_put)
  have "says c [NoticeResponse ''WARNING'' ''25001'' ''there is already a transaction in progress'', CommandComplete ''BEGIN''] c' \<and> \<not> e"
    using True r says_trans [OF n says_put [of _ "CommandComplete ''BEGIN''"]] limit_says [OF n] open_
    by (auto simp: exec_command_def)
  then show ?thesis by (auto simp: succeeded_def)
next
  case False
  obtain c1 r1 where r1: "recovering w run c = (c1, r1)" by fastforce
  have s1: "says c [] c1" using quiet_recovering [OF run] r1 by (rule quiet_runD)
  have o1: "c_limit c1 = None" using limit_says [OF s1] open_ by simp
  show ?thesis
  proof (cases r1)
    case (Inl err)
    then have "c' = statement_error w err c1" "e" using r r1 False by (auto simp: exec_command_def)
    then show ?thesis using says_statement_error [OF o1] says_quiet [OF s1] failed_error by metis
  next
    case (Inr n)
    have s2: "says c [] (updateTxStatus t c1)" using s1 says_updateTxStatus says_silent by blast
    have "says (updateTxStatus t c1) [CommandComplete (buildCommandTag t n)] c'" "\<not> e"
      using r r1 False Inr says_put limit_says [OF s2] open_ by (auto simp: exec_command_def)
    then show ?thesis using says_quiet [OF s2] succeeded_tag by auto
  qed
qed

section \<open>Answers to a query message\<close>

text \<open>The answers to the statements of a query: only the last may be an error.\<close>

inductive batch_answer :: "backend list \<Rightarrow> bool" where
  batch_none: "batch_answer []"
| batch_error: "failed u \<Longrightarrow> batch_answer u"
| batch_more: "succeeded u \<Longrightarrow> batch_answer us \<Longrightarrow> batch_answer (u @ us)"

lemma batch_one: "succeeded u \<Longrightarrow> batch_answer u"
  using batch_more [OF _ batch_none] by simp

text \<open>The answers to COPY to the client: its data, and then the end and the tag or an error.\<close>

definition copied_out :: "backend list \<Rightarrow> bool" where
  "copied_out ms \<longleftrightarrow>
     (\<exists>n b rows fin. ms = CopyOutResponse n b # rows @ fin \<and> (\<forall>m \<in> set rows. \<exists>x. m = CopyData x) \<and>
        ((\<exists>tag. fin = [CopyDone, CommandComplete tag]) \<or> (\<exists>s d t. fin = [ErrorResponse s d t])))"

text \<open>The client's part of COPY from the client: data, and then a message that ends it. The tag is sent only if that
  message says that the data are complete. The client may leave before it has sent one.\<close>

definition copy_dialog :: "frontend list \<Rightarrow> frontend list \<Rightarrow> txStatus \<Rightarrow> backend list \<Rightarrow> bool" where
  "copy_dialog used rest t out \<longleftrightarrow>
     (\<forall>m \<in> set (butlast used). fst m = MsgCopyData) \<and>
     ((\<exists>s d e. out = [ErrorResponse s d e, ReadyForQuery t]) \<or>
      (\<exists>tag. out = [CommandComplete tag, ReadyForQuery t] \<and> used \<noteq> [] \<and> fst (last used) = MsgCopyDone) \<or>
      rest = [] \<and> (\<forall>m \<in> set used. fst m = MsgCopyData))"

definition copied_in :: "'d conn \<Rightarrow> 'd conn \<Rightarrow> bool" where
  "copied_in c c' \<longleftrightarrow>
     (\<exists>n b used rest out. c_in c = used @ rest \<and> says (c\<lparr>c_in := rest\<rparr>) (CopyInResponse n b # out) c' \<and>
        copy_dialog used rest (c_txStatus c') out)"

text \<open>A handler of a query: the answers, and then one ready message with the status of the transaction. It gives an
  error only after a failed write or when the client has left.\<close>

definition answered :: "'d conn \<Rightarrow> 'd conn \<times> string option \<Rightarrow> bool" where
  "answered c r \<longleftrightarrow>
     c_panic (fst r) \<or>
     (snd r = None \<or> c_failed (fst r) \<or> c_in (fst r) = []) \<and>
     ((\<exists>ms. says c (ms @ [ReadyForQuery (c_txStatus (fst r))]) (fst r) \<and> (batch_answer ms \<or> copied_out ms)) \<or>
      copied_in c (fst r))"

lemma tx_put [simp]: "c_txStatus (put m c) = c_txStatus c"
  by (simp add: put_def emit_def)

lemma answered_ready_if:
  assumes "says c ms c1" "c_limit c = None" "batch_answer ms \<or> copied_out ms" "x = None \<or> x = flush w (ready c1)"
  shows "answered c (ready c1, x)"
proof -
  have "says c1 [ReadyForQuery (c_txStatus c1)] (ready c1)"
    using limit_says [OF assms(1)] assms(2) by (simp add: ready_def says_put)
  then have "says c (ms @ [ReadyForQuery (c_txStatus (ready c1))]) (ready c1)"
    using says_trans [OF assms(1)] by (simp add: ready_def)
  then show ?thesis using assms(3,4) by (auto simp: answered_def flush_def split: if_splits)
qed

lemma answered_ready: "says c ms c1 \<Longrightarrow> c_limit c = None \<Longrightarrow> batch_answer ms \<Longrightarrow> answered c (ready c1, None)"
  "says c ms c1 \<Longrightarrow> c_limit c = None \<Longrightarrow> batch_answer ms \<Longrightarrow> answered c (ready c1, flush w (ready c1))"
  by (blast intro: answered_ready_if)+

lemma answered_panic: "c_panic c1 \<Longrightarrow> answered c (c1, x)"
  by (simp add: answered_def)

lemma copied_in_quiet: "says c [] c1 \<Longrightarrow> copied_in c1 c' \<Longrightarrow> copied_in c c'"
  by (fastforce simp: copied_in_def says_def)

lemma answered_quiet: "says c [] c1 \<Longrightarrow> answered c1 r \<Longrightarrow> answered c r"
  unfolding answered_def using says_quiet copied_in_quiet by blast

text \<open>A header and rows, as all the loops write them.\<close>

lemma header_and_rows:
  assumes "(if b then sendRowDescriptionWithFormats cols types f c else (c, True)) = (c1, ok)" "c_limit c = None"
    and "ok \<Longrightarrow> send_rows lib g oids lim 0 rs c1 = (c2, n, rest, e)"
  shows "\<not> ok \<and> c_panic c1 \<or> ok \<and> e = WriteError \<and> c_panic c2 \<or>
    ok \<and> e \<noteq> WriteError \<and> (\<exists>h rows. says c (h @ rows) c2 \<and> row_header h \<and> data_rows rows \<and> n = int (length rows))"
proof (cases ok)
  case False
  then have "sendRowDescriptionWithFormats cols types f c = (c1, False)" using assms(1) by (auto split: if_splits)
  then show ?thesis using says_row_description [OF _ assms(2)] False by blast
next
  case True
  obtain h where h: "says c h c1" "row_header h"
  proof (cases b)
    case b: True
    then obtain fs where "says c [RowDescription fs] c1" using assms(1,2) True says_row_description by fastforce
    then show thesis using that by simp
  next
    case False
    then have "says c [] c1" using assms(1) by simp
    then show thesis by (rule that) simp
  qed
  have "c_limit c1 = None" using limit_says [OF h(1)] assms(2) by simp
  from says_send_rows [OF assms(3) [OF True] this] show ?thesis
    using True h says_trans [OF h(1)] by fastforce
qed

lemma suffix_tags:
  "suffix (itoa n) (buildCommandTagFromRowCount t n)" "suffix (itoa n) (''FETCH '' @ itoa n)"
  unfolding buildCommandTagFromRowCount_def by (auto simp: suffix_def)

text \<open>The end of a loop over rows: an error of the rows, or the tag.\<close>

lemma rows_end_error:
  assumes "says c (h @ rows) c2" "c_limit c = None" "row_header h" "data_rows rows"
  shows "\<exists>ms. says c ms (cursor_error w err c2) \<and> failed ms" "\<exists>ms. says c ms (internal_error err c2) \<and> failed ms"
    "\<exists>ms. says c ms (sendError s d t c2) \<and> failed ms"
proof -
  have l: "c_limit c2 = None" using limit_says [OF assms(1)] assms(2) by simp
  show "\<exists>ms. says c ms (cursor_error w err c2) \<and> failed ms"
    using says_cursor_error [OF l, of w err] says_trans [OF assms(1)] failed_rows [OF assms(3,4)] by fastforce
  show "\<exists>ms. says c ms (internal_error err c2) \<and> failed ms"
    using says_internal_error [OF l, of err] says_trans [OF assms(1)] failed_rows [OF assms(3,4)] by fastforce
  show "\<exists>ms. says c ms (sendError s d t c2) \<and> failed ms"
    using says_error [OF l, of s d t] says_trans [OF assms(1)] failed_rows [OF assms(3,4)] by fastforce
qed

lemma rows_end_tag:
  assumes "says c (h @ rows) c2" "c_limit c = None" "row_header h" "data_rows rows" "suffix (itoa (int (length rows))) tag"
    and "says c2 [] c3"
  shows "\<exists>ms. says c ms (put (CommandComplete tag) c3) \<and> succeeded ms"
proof -
  have s: "says c (h @ rows) c3" using says_silent [OF assms(1,6)] .
  have "says c3 [CommandComplete tag] (put (CommandComplete tag) c3)"
    using says_put limit_says [OF s] assms(2) by simp
  then have "says c (h @ rows @ [CommandComplete tag]) (put (CommandComplete tag) c3)"
    using says_trans [OF s] by simp
  then show ?thesis using succeeded_rows [OF assms(3-5)] by blast
qed

lemma answered_executeSelectQuery:
  assumes l: "c_limit c = None"
  shows "answered c (executeSelectQuery w q t c)"
proof -
  obtain c1 r1 where r1: "recovering w (run_query w q []) c = (c1, r1)" by fastforce
  have s1: "says c [] c1" using quiet_recovering [OF quiet_run_query] r1 by (rule quiet_runD)
  have l1: "c_limit c1 = None" using limit_says [OF s1] l by simp
  show ?thesis
  proof (cases r1)
    case (Inl err)
    obtain s d m where "says c1 [ErrorResponse s d m] (statement_error w err c1)" using says_statement_error [OF l1] by blast
    then have "answered c (ready (statement_error w err c1), None)"
      using answered_ready(1) [OF says_quiet [OF s1] l batch_error [OF failed_error]] by blast
    then show ?thesis using r1 Inl by (simp add: executeSelectQuery_def)
  next
    case (Inr rs)
    have bad: "answered c (ready (internal_error err c1), None)" for err
      using answered_ready(1) [OF says_quiet [OF s1 says_internal_error [OF l1]] l batch_error [OF failed_error]] .
    show ?thesis
    proof (cases "\<exists>cols types. rs_Columns rs = Inr cols \<and> rs_ColumnTypes rs = Inr types")
      case False
      then show ?thesis using bad r1 Inr by (cases "rs_Columns rs"; cases "rs_ColumnTypes rs") (auto simp: executeSelectQuery_def)
    next
      case True
      then obtain cols types where ct: "rs_Columns rs = Inr cols" "rs_ColumnTypes rs = Inr types" by blast
      obtain c2 ok where d: "sendRowDescription cols types c1 = (c2, ok)" by fastforce
      obtain c3 n rest e where sr: "send_rows (w_lib w) [] (type_oids types) None 0 (rs_rows rs) c2 = (c3, n, rest, e)"
        using prod_cases4 by blast
      consider "\<not> ok" "c_panic c2" | "ok" "e = WriteError" "c_panic c3"
        | h rows where "ok" "e \<noteq> WriteError" "says c1 (h @ rows) c3" "row_header h" "data_rows rows" "n = int (length rows)"
        using header_and_rows [of True cols types "[]" c1 c2 ok, OF _ l1 sr] d by (auto simp: sendRowDescription_def)
      then show ?thesis
      proof cases
        case 3
        note tail = says_quiet [OF s1 3(3)] l 3(4,5)
        have err: "answered c (ready (internal_error x c3), None)" "answered c (ready (cursor_error w x c3), None)" for x
          using rows_end_error [OF tail] answered_ready(1) [OF _ l batch_error] by metis+
        have tag: "answered c (ready (put (CommandComplete (buildCommandTagFromRowCount t n)) (updateTxStatus t c3)), None)"
          using rows_end_tag [OF tail _ says_updateTxStatus, of "buildCommandTagFromRowCount t n"] suffix_tags(1) [of n t] 3(6)
            answered_ready(1) [OF _ l batch_one] by metis
        show ?thesis
          using r1 Inr ct d sr 3(1,2) err tag
          by (cases e; cases "rs_Err rs") (simp_all add: executeSelectQuery_def)
      qed (use r1 Inr ct d sr in \<open>simp_all add: executeSelectQuery_def answered_panic\<close>)
    qed
  qed
qed

lemma answered_streamRowsToClient:
  assumes l: "c_limit c = None"
  shows "answered c (streamRowsToClient w rs t c)"
proof (cases "\<exists>cols types. rs_Columns rs = Inr cols \<and> rs_ColumnTypes rs = Inr types")
  case False
  have "answered c (ready (internal_error err c), None)" for err
    using answered_ready(1) [OF says_internal_error [OF l] l batch_error [OF failed_error]] .
  then show ?thesis
    using False by (cases "rs_Columns rs"; cases "rs_ColumnTypes rs") (auto simp: streamRowsToClient_def)
next
  case True
  then obtain cols types where ct: "rs_Columns rs = Inr cols" "rs_ColumnTypes rs = Inr types" by blast
  obtain c2 ok where d: "sendRowDescription cols types c = (c2, ok)" by fastforce
  obtain c3 n rest e where sr: "send_rows (w_lib w) [] (type_oids types) None 0 (rs_rows rs) c2 = (c3, n, rest, e)"
    using prod_cases4 by blast
  consider "\<not> ok" "c_panic c2" | "ok" "e = WriteError" "c_panic c3"
    | h rows where "ok" "e \<noteq> WriteError" "says c (h @ rows) c3" "row_header h" "data_rows rows" "n = int (length rows)"
    using header_and_rows [of True cols types "[]" c c2 ok, OF _ l sr] d by (auto simp: sendRowDescription_def)
  then show ?thesis
  proof cases
    case 3
    note tail = 3(3) l 3(4,5)
    have err: "answered c (ready (internal_error x c3), None)" "answered c (ready (cursor_error w x c3), None)" for x
      using rows_end_error [OF tail] answered_ready(1) [OF _ l batch_error] by metis+
    have tag: "answered c (ready (put (CommandComplete (buildCommandTagFromRowCount t n)) c3),
        flush w (ready (put (CommandComplete (buildCommandTagFromRowCount t n)) c3)))"
      using rows_end_tag [OF tail _ says_refl, of "buildCommandTagFromRowCount t n"] suffix_tags(1) [of n t] 3(6)
        answered_ready(2) [OF _ l batch_one] by metis
    show ?thesis
      using ct d sr 3(1,2) err tag by (cases e; cases "rs_Err rs") (simp_all add: streamRowsToClient_def Let_def)
  qed (use ct d sr in \<open>simp_all add: streamRowsToClient_def answered_panic\<close>)
qed

lemma quiet_run_setup: "run_setup w args stmts c = (c', r) \<Longrightarrow> says c [] c'"
proof (induction stmts arbitrary: c)
  case (Cons stmt stmts)
  obtain c1 r1 where r1: "exec w stmt args c = (c1, r1)" by fastforce
  then show ?case using Cons says_quiet [OF says_exec [OF r1]] says_exec [OF r1] by (cases r1) auto
qed simp

lemma says_executeCleanup: "says c [] (executeCleanup w cleanup c)"
  unfolding executeCleanup_def
proof (induction cleanup arbitrary: c)
  case (Cons stmt stmts)
  obtain c1 r1 where r1: "exec w stmt [] c = (c1, r1)" by fastforce
  then show ?case using Cons says_quiet [OF says_exec [OF r1]] by simp
qed simp

lemma says_sequence_error:
  "c_limit c = None \<Longrightarrow> says c [ErrorResponse ''ERROR'' ''42000'' err] (sequence_error w cleanup err c)"
proof -
  assume l: "c_limit c = None"
  have s: "says c [] (executeCleanup w cleanup (setTxError c))"
    by (rule says_quiet [OF says_setTxError says_executeCleanup])
  then show ?thesis unfolding sequence_error_def using says_quiet [OF s says_error] limit_says [OF s] l by simp
qed

lemma answered_executeMultiStatement:
  assumes l: "c_limit c = None"
  shows "answered c (executeMultiStatement w ss cl c)"
proof (cases "ss = []")
  case True
  then show ?thesis
    using answered_ready(1) [OF says_put [OF l] l batch_one [OF succeeded_empty]] by (simp add: executeMultiStatement_def)
next
  case False
  obtain st cu where u: "unwrapped (c_txStatus c) ss cl = (st, cu)" by fastforce
  obtain c1 r1 where r1: "run_setup w [] (butlast st) c = (c1, r1)" by fastforce
  have s1: "says c [] c1" using quiet_run_setup [OF r1] .
  have fail: "answered c (ready (sequence_error w cu err c2), None)" if "says c [] c2" for c2 err
    using answered_ready(1) [OF says_quiet [OF that says_sequence_error] l batch_error [OF failed_error]]
      limit_says [OF that] l by simp
  obtain c2 r2 where r2: "run_query w (last st) [] c1 = (c2, r2)" by fastforce
  obtain c3 r3 where r3: "exec w (last st) [] c1 = (c3, r3)" by fastforce
  have s2: "says c [] c2" "says c [] c3" using says_quiet [OF s1] says_run_query [OF r2] says_exec [OF r3] by blast+
  have clean: "says c [] (executeCleanup w cu x)" if "says c [] x" for x using says_quiet [OF that says_executeCleanup] .
  have done_: "answered c (ready (put (CommandComplete tag) (executeCleanup w cu c3)),
      flush w (ready (put (CommandComplete tag) (executeCleanup w cu c3))))" for tag
    using answered_ready(2) [OF says_quiet [OF clean [OF s2(2)] says_put] l batch_one [OF succeeded_tag]]
      limit_says [OF clean [OF s2(2)]] l by simp
  have rows: "answered c (streamRowsToClient w rs t (executeCleanup w cu c2))" for rs t
    using answered_quiet [OF clean [OF s2(1)] answered_streamRowsToClient] limit_says [OF clean [OF s2(1)]] l by simp
  show ?thesis
    using False u r1 r2 r3 fail [OF s1] fail [OF s2(1)] fail [OF s2(2)] done_ rows
    by (cases r1; cases r2; cases r3) (auto simp: executeMultiStatement_def Let_def)
qed

section \<open>Cursors\<close>

lemma says_openCursor: "openCursor w name cu c = (c', r) \<Longrightarrow> says c [] c'"
  unfolding openCursor_def
  by (auto split: option.splits prod.splits sum.splits dest: says_run_query intro: says_silent [OF _ says_cursors])

lemma says_getCursorSchema: "getCursorSchema w name c = (c', r) \<Longrightarrow> says c [] c'"
  unfolding getCursorSchema_def by (auto split: option.splits prod.splits sum.splits dest: says_openCursor)

lemma says_keep_rows: "says c ms c' \<Longrightarrow> says c ms (keep_rows name cu rs rest b c')"
  unfolding keep_rows_def by (rule says_silent [OF _ says_cursors])

lemma says_closeCursor: "says c [] (closeCursor name c)" "says c [] (closeAllCursors c)"
  by (simp_all add: closeCursor_def closeAllCursors_def says_def)

lemma says_fetch_rows:
  assumes r: "fetch_rows w name cu rs f m c1 = (c', r)" and h: "says c h c1" "row_header h" and l: "c_limit c = None"
  shows "r = FetchBroken \<and> c_panic c' \<or> r = FetchFailed \<and> (\<exists>ms. says c ms c' \<and> failed ms) \<or>
    (\<exists>rows. r = Fetched (int (length rows)) \<and> says c (h @ rows) c' \<and> data_rows rows)"
proof -
  have l1: "c_limit c1 = None" using limit_says [OF h(1)] l by simp
  obtain c2 n rest e where sr: "send_rows (w_lib w) f (type_oids (projr (rs_ColumnTypes rs))) (Some m) 0 (rs_rows rs) c1 = (c2, n, rest, e)"
    using prod_cases4 by blast
  define c3 where "c3 = keep_rows name cu rs rest (e = RowsEnd) c2"
  note res = r [unfolded fetch_rows_def sr prod.case Let_def c3_def [symmetric]]
  have p: "c_panic c3 = c_panic c2" by (simp add: c3_def keep_rows_def)
  consider "c_panic c2" "e = WriteError" | rows where "e \<noteq> WriteError" "says c (h @ rows) c3" "data_rows rows" "n = int (length rows)"
    using says_send_rows [OF sr l1] says_trans [OF h(1)] says_keep_rows [of c "h @ _" c2] unfolding c3_def by fastforce
  then show ?thesis
  proof cases
    case 1
    then show ?thesis using res p by auto
  next
    case 2
    have err: "\<exists>ms. says c ms (setTxError (sendError ''ERROR'' ''42000'' x c3)) \<and> failed ms"
      "\<exists>ms. says c ms (cursor_error w x c3) \<and> failed ms" for x
      using rows_end_error(1,2) [OF 2(2) l h(2) 2(3)] by (simp_all add: internal_error_def)
    show ?thesis
      using res 2 err by (cases e) (auto split: option.splits if_splits)
  qed
qed

definition stmt_answered :: "'d conn \<Rightarrow> 'd conn \<times> bool \<times> string option \<Rightarrow> bool" where
  "stmt_answered c r \<longleftrightarrow>
     c_panic (fst r) \<or>
     snd (snd r) = None \<and> (\<exists>ms. says c ms (fst r) \<and> (if fst (snd r) then failed ms else succeeded ms))"

lemma stmt_failed: "says c ms c' \<Longrightarrow> failed ms \<Longrightarrow> stmt_answered c (c', True, None)"
  by (auto simp: stmt_answered_def)

lemma stmt_succeeded: "says c ms c' \<Longrightarrow> succeeded ms \<Longrightarrow> stmt_answered c (c', False, None)"
  by (auto simp: stmt_answered_def)

lemma stmt_panic: "c_panic c' \<Longrightarrow> stmt_answered c (c', e, x)"
  by (simp add: stmt_answered_def)

lemma stmt_answered_fetch:
  assumes l: "c_limit c = None"
  shows "stmt_answered c (fetch_cursor w name fwd m mv c)"
proof -
  have error: "stmt_answered c (sendError s d t x, True, None)" if "says c [] x" for s d t x
    using stmt_failed [OF says_quiet [OF that says_error] failed_error] limit_says [OF that] l by simp
  show ?thesis
  proof (cases "c_cursors c name")
    case None
    then show ?thesis using error [OF says_refl] by (simp add: fetch_cursor_def)
  next
    case (Some cu)
    obtain c1 r1 where r1: "openCursor w name cu c = (c1, r1)" by fastforce
    have s1: "says c [] c1" using says_openCursor [OF r1] .
    have l1: "c_limit c1 = None" using limit_says [OF s1] l by simp
    show ?thesis
    proof (cases r1)
      case (Inl err)
      obtain s d t where "says c1 [ErrorResponse s d t] (cursor_error w err c1)" using says_cursor_error [OF l1] by blast
      then have "stmt_answered c (cursor_error w err c1, True, None)" using stmt_failed [OF says_quiet [OF s1] failed_error] by blast
      then show ?thesis using Some r1 Inl error [OF says_refl] by (simp add: fetch_cursor_def)
    next
      case (Inr rs)
      obtain c2 n where mv: "move_rows name cu rs m c1 = (c2, n)" by fastforce
      have "says c [] c2" using mv says_keep_rows [OF s1] by (auto simp: move_rows_def Let_def)
      then have moved: "stmt_answered c (put (CommandComplete (''MOVE '' @ itoa n)) c2, False, None)"
        using stmt_succeeded [OF says_quiet [OF _ says_put] succeeded_tag] limit_says l by metis
      obtain c3 ok where d: "sendRowDescription (projr (rs_Columns rs)) (projr (rs_ColumnTypes rs)) c1 = (c3, ok)" by fastforce
      obtain c4 r4 where f: "fetch_rows w name cu rs [] m c3 = (c4, r4)" by fastforce
      have fetched: "stmt_answered c
          (case (ok, r4) of (False, _) \<Rightarrow> (c3, False, Some (w_writeErr w))
           | (True, Fetched n) \<Rightarrow> (put (CommandComplete (''FETCH '' @ itoa n)) c4, False, None)
           | (True, FetchFailed) \<Rightarrow> (c4, True, None) | (True, FetchBroken) \<Rightarrow> (c4, False, Some (w_writeErr w)))"
      proof (cases ok)
        case False
        then have "c_panic c3" using says_row_description [OF d [unfolded sendRowDescription_def] l1] by blast
        then show ?thesis using False stmt_panic by simp
      next
        case True
        then obtain fs where fs: "says c [RowDescription fs] c3"
          using d says_row_description [OF _ l1] says_quiet [OF s1] by (fastforce simp: sendRowDescription_def)
        consider "r4 = FetchBroken" "c_panic c4" | ms where "r4 = FetchFailed" "says c ms c4" "failed ms"
          | rows where "r4 = Fetched (int (length rows))" "says c ([RowDescription fs] @ rows) c4" "data_rows rows"
          using says_fetch_rows [OF f fs row_header_simps(2) l] by blast
        then show ?thesis
        proof cases
          case 3
          obtain ms where "says c ms (put (CommandComplete (''FETCH '' @ itoa (int (length rows)))) c4)" "succeeded ms"
            using rows_end_tag [OF 3(2) l row_header_simps(2) 3(3) suffix_tags(2) says_refl] by blast
          then show ?thesis using True 3(1) stmt_succeeded by simp
        qed (use True stmt_panic stmt_failed in simp_all)
      qed
      then show ?thesis
        using Some r1 Inr mv moved d f error [OF says_refl] error [OF s1]
        by (cases ok; cases r4) (simp_all add: fetch_cursor_def)
    qed
  qed
qed

end
