(* ===== verification/Protocol_Copy.thy ===== *)
theory Protocol_Copy
  imports Protocol_Answers
begin

text \<open>
  COPY against the protocol: the data to the client end in the tag or in an error, and the data of the client are
  answered by the tag only if the client has sent them all.
\<close>

section \<open>Answers\<close>

lemma copy_error_answer:
  assumes "c_limit c = None"
  shows "\<exists>s d e. says c [ErrorResponse s d e, ReadyForQuery (c_txStatus (fst (copy_error code m c)))] (fst (copy_error code m c))"
  using assms by (auto simp: copy_error_def ready_def says_def put_def emit_def sendError_def setTxError_def)

lemma copy_tag_answer:
  assumes "c_limit c = None"
  shows "\<exists>tag. says c [CommandComplete tag, ReadyForQuery (c_txStatus (fst (copy_tag n c)))] (fst (copy_tag n c))"
  using assms by (auto simp: copy_tag_def ready_def says_def put_def emit_def)

lemma answered_copy_error:
  assumes "says c [] c1" "c_limit c = None"
  shows "answered c (copy_error code m c1)"
proof -
  have l: "c_limit c1 = None" using limit_says [OF assms(1)] assms(2) by simp
  have "says c [ErrorResponse ''ERROR'' code m] (setTxError (sendError ''ERROR'' code m c1))"
    by (rule says_quiet [OF assms(1) says_silent [OF says_error [OF l] says_setTxError]])
  then show ?thesis unfolding copy_error_def using answered_ready assms(2) batch_error [OF failed_error] by blast
qed

lemma answered_copy_tag:
  assumes "says c [] c1" "c_limit c = None"
  shows "answered c (copy_tag n c1)"
proof -
  have l: "c_limit c1 = None" using limit_says [OF assms(1)] assms(2) by simp
  have "says c [CommandComplete (''COPY '' @ itoa n)] (put (CommandComplete (''COPY '' @ itoa n)) c1)"
    by (rule says_quiet [OF assms(1) says_put [OF l]])
  then show ?thesis unfolding copy_tag_def using answered_ready assms(2) batch_one [OF succeeded_tag] by blast
qed

section \<open>Data to the client\<close>

text \<open>What is asked of the database: its rows can be scanned. After a row that cannot be, the text format sends an
  error and still the end of the data and the tag.\<close>

definition scans :: "'d world \<Rightarrow> bool" where
  "scans w \<longleftrightarrow>
     (\<forall>d q args d' rs. w_Query w d q args = (d', Inr rs) \<longrightarrow> (\<forall>r \<in> set (rs_rows rs). \<exists>vs. r = Inr vs))"

definition copy_data :: "backend list \<Rightarrow> bool" where
  "copy_data ms \<longleftrightarrow> (\<forall>m \<in> set ms. \<exists>x. m = CopyData x)"

lemma says_copy_rows:
  assumes "copy_rows line n rs c = (c', n', e)" "c_limit c = None"
  shows "c_panic c' \<and> e = WriteError \<or> e \<noteq> WriteError \<and> (\<exists>rows. says c rows c' \<and> copy_data rows)"
  using assms
proof (induction line n rs c rule: copy_rows.induct)
  case (1 line n c)
  then show ?case by (auto intro!: exI [of _ "[]"] simp: copy_data_def)
next
  case (2 line n r rs c)
  show ?case
  proof (cases r)
    case (Inl err)
    then show ?thesis using "2.prems" by (auto intro!: exI [of _ "[]"] simp: copy_data_def)
  next
    case (Inr vs)
    show ?thesis
    proof (cases "line (n = 0) vs")
      case None
      then show ?thesis using "2.prems" Inr by (auto simp: panic_def)
    next
      case (Some b)
      have s: "says c [CopyData b] (put (CopyData b) c)" by (rule says_put [OF "2.prems"(2)])
      have "copy_rows line (n + 1) rs (put (CopyData b) c) = (c', n', e)"
        using "2.prems" Inr Some by (simp add: emit_open)
      then have "c_panic c' \<and> e = WriteError \<or> e \<noteq> WriteError \<and> (\<exists>rows. says (put (CopyData b) c) rows c' \<and> copy_data rows)"
        using "2.IH" [OF Inr Some emit_open [OF "2.prems"(2), symmetric]] limit_says [OF s] "2.prems"(2) by simp
      then show ?thesis using says_trans [OF s] by (auto intro!: exI [of _ "CopyData b # _"] simp: copy_data_def)
    qed
  qed
qed

lemma copy_rows_scanned: "copy_rows line n rs c = (c', n', ScanError err) \<Longrightarrow> \<exists>r \<in> set rs. \<forall>vs. r \<noteq> Inr vs"
proof (induction line n rs c rule: copy_rows.induct)
  case (2 line n r rs c)
  then show ?case by (auto split: sum.splits option.splits prod.splits bool.splits)
qed simp

lemma copied_out_simps:
  "copy_data rows \<Longrightarrow> copied_out (CopyOutResponse n b # rows @ [CopyDone, CommandComplete tag])"
  "copy_data rows \<Longrightarrow> copied_out (CopyOutResponse n b # rows @ [ErrorResponse s d t])"
  unfolding copied_out_def copy_data_def by blast+

lemma answered_out_error:
  assumes "says c (CopyOutResponse n b # rows) c1" "copy_data rows" "c_limit c = None"
  shows "answered c (copy_error code m c1)"
proof -
  have l: "c_limit c1 = None" using limit_says [OF assms(1)] assms(3) by simp
  have "says c (CopyOutResponse n b # rows @ [ErrorResponse ''ERROR'' code m]) (setTxError (sendError ''ERROR'' code m c1))"
    using says_trans [OF assms(1) says_silent [OF says_error [OF l] says_setTxError]] by simp
  then show ?thesis unfolding copy_error_def using answered_ready_if assms(3) copied_out_simps(2) [OF assms(2)] by blast
qed

lemma answered_out_end:
  assumes "says c (CopyOutResponse n b # rows) c1" "copy_data rows" "c_limit c = None"
  shows "answered c (copy_out_end w k c1)"
proof -
  have l: "c_limit c1 = None" using limit_says [OF assms(1)] assms(3) by simp
  have d: "says c (CopyOutResponse n b # rows @ [CopyDone]) (put CopyDone c1)"
    using says_trans [OF assms(1) says_put [OF l]] by simp
  have "says c (CopyOutResponse n b # rows @ [CopyDone, CommandComplete (''COPY '' @ itoa k)])
      (put (CommandComplete (''COPY '' @ itoa k)) (put CopyDone c1))"
    using says_trans [OF d says_put] limit_says [OF d] assms(3) by simp
  then have "answered c (copy_tag k (put CopyDone c1))"
    unfolding copy_tag_def using answered_ready_if assms(3) copied_out_simps(1) [OF assms(2)] by blast
  then show ?thesis by (simp add: copy_out_end_def emit_open [OF l])
qed

lemma answered_handleCopyOutBinary:
  assumes l: "c_limit c = None"
  shows "answered c (handleCopyOutBinary w rs cols c)"
proof (cases "rs_ColumnTypes rs")
  case (Inl err)
  then show ?thesis using answered_copy_error [OF says_refl l] by (simp add: handleCopyOutBinary_def)
next
  case (Inr types)
  define c1 where "c1 = put (CopyOutResponse (of_nat (length cols)) False) c"
  have s1: "says c [CopyOutResponse (of_nat (length cols)) False] c1" unfolding c1_def by (rule says_put [OF l])
  have l1: "c_limit c1 = None" using limit_says [OF s1] l by simp
  obtain c2 n e where r: "copy_rows (binary_line (w_lib w) (type_oids types)) 0 (rs_rows rs) c1 = (c2, n, e)"
    using prod_cases3 by blast
  consider "c_panic c2" "e = WriteError" | rows where "e \<noteq> WriteError" "says c1 rows c2" "copy_data rows"
    using says_copy_rows [OF r l1] by blast
  then show ?thesis
  proof cases
    case 1
    then show ?thesis using Inr r emit_open [OF l] by (simp add: handleCopyOutBinary_def c1_def answered_panic)
  next
    case 2
    have s2: "says c (CopyOutResponse (of_nat (length cols)) False # rows) c2" using says_trans [OF s1 2(2)] by simp
    have l2: "c_limit c2 = None" using limit_says [OF s2] l by simp
    have s3: "says c (CopyOutResponse (of_nat (length cols)) False # rows @ [CopyData x]) (put (CopyData x) c2)" for x
      using says_trans [OF s2 says_put [OF l2]] by simp
    have "answered c (copy_out_end w k (put (CopyData x) c2))" for k x
      using answered_out_end [OF s3 _ l] 2(3) by (simp add: copy_data_def)
    then show ?thesis
      using Inr r emit_open [OF l] emit_open [OF l2] answered_out_error [OF s2 2(3) l] 2(1)
      by (cases e) (auto simp: handleCopyOutBinary_def c1_def split: option.split)
  qed
qed

lemma answered_copy_out_text:
  assumes l: "c_limit c = None" and sc: "\<forall>r \<in> set (rs_rows rs). \<exists>vs. r = Inr vs"
  shows "answered c (copy_out_text w query rs cols types c)"
proof -
  define c1 where "c1 = put (CopyOutResponse (of_nat (length cols)) True) c"
  have s1: "says c [CopyOutResponse (of_nat (length cols)) True] c1" unfolding c1_def by (rule says_put [OF l])
  have l1: "c_limit c1 = None" using limit_says [OF s1] l by simp
  obtain c2 ok where h: "(if copy_header query then emit (CopyData (join_sep (copy_delimiter query) cols @ [CHR 0x0A])) c1
      else (c1, True)) = (c2, ok)" by fastforce
  have "ok \<and> (\<exists>hs. says c1 hs c2 \<and> copy_data hs)"
  proof (cases "copy_header query")
    case True
    then have "c2 = put (CopyData (join_sep (copy_delimiter query) cols @ [CHR 0x0A])) c1" "ok" using h emit_open [OF l1] by auto
    then show ?thesis using says_put [OF l1] by (auto simp: copy_data_def intro!: exI [of _ "[CopyData _]"])
  next
    case False
    then show ?thesis using h by (auto simp: copy_data_def intro!: exI [of _ "[]"])
  qed
  then obtain hs where hs: "ok" "says c1 hs c2" "copy_data hs" by blast
  have s2: "says c (CopyOutResponse (of_nat (length cols)) True # hs) c2" using says_trans [OF s1 hs(2)] by simp
  have l2: "c_limit c2 = None" using limit_says [OF s2] l by simp
  obtain c3 n e where r: "copy_rows (\<lambda>first. copy_line (w_lib w) (type_oids types) (copy_delimiter query)) 0 (rs_rows rs) c2 = (c3, n, e)"
    using prod_cases3 by blast
  have e: "\<forall>err. e \<noteq> ScanError err" using copy_rows_scanned r sc by fastforce
  note eval = copy_out_text_def Let_def emit_open [OF l] c1_def [symmetric] h r
  consider "c_panic c3" "e = WriteError" | rows where "e \<noteq> WriteError" "says c2 rows c3" "copy_data rows"
    using says_copy_rows [OF r l2] by blast
  then show ?thesis
  proof cases
    case 1
    then show ?thesis using hs(1) by (simp add: eval answered_panic)
  next
    case 2
    have s3: "says c (CopyOutResponse (of_nat (length cols)) True # hs @ rows) c3" using says_trans [OF s2 2(2)] by simp
    have d: "copy_data (hs @ rows)" using hs(3) 2(3) by (auto simp: copy_data_def)
    show ?thesis
      using hs(1) e 2(1) answered_out_error [OF s3 d l] answered_out_end [OF s3 d l]
      by (cases e) (simp_all add: eval split: option.split)
  qed
qed

lemma answered_handleCopyOut:
  assumes l: "c_limit c = None" and sc: "scans w"
  shows "answered c (handleCopyOut w query c)"
proof (cases "FindStringSubmatch copyToStdoutRegex query")
  case None
  then show ?thesis using answered_copy_error [OF says_refl l] by (simp add: handleCopyOut_def)
next
  case (Some m)
  obtain c1 r1 where r1: "run_query w (copy_select w (TrimSpace (group_text 1 m)) c) [] c = (c1, r1)" by fastforce
  have s1: "says c [] c1" using says_run_query [OF r1] .
  have l1: "c_limit c1 = None" using limit_says [OF s1] l by simp
  have "\<forall>r \<in> set (rs_rows rs). \<exists>vs. r = Inr vs" if "r1 = Inr rs" for rs
    using sc r1 that unfolding scans_def run_query_def by (auto split: prod.splits)
  then show ?thesis
    using Some r1 answered_copy_error [OF s1 l] answered_quiet [OF s1 answered_handleCopyOutBinary [OF l1]]
      answered_quiet [OF s1 answered_copy_out_text [OF l1]]
    by (auto simp: handleCopyOut_def split: sum.split)
qed

section \<open>Data of the client\<close>

text \<open>A loader reads the data and answers.\<close>

definition loads :: "'d conn \<Rightarrow> 'd conn \<times> string option \<Rightarrow> bool" where
  "loads c r \<longleftrightarrow>
     c_panic (fst r) \<or>
     (snd r = None \<or> c_in (fst r) = []) \<and>
     (\<exists>used rest out. c_in c = used @ rest \<and> says (c\<lparr>c_in := rest\<rparr>) out (fst r) \<and>
        copy_dialog used rest (c_txStatus (fst r)) out)"

lemma answered_loads:
  assumes "says c [CopyInResponse n b] c1" "loads c1 r"
  shows "answered c r"
proof -
  consider "c_panic (fst r)" | used rest out where "snd r = None \<or> c_in (fst r) = []"
      "c_in c1 = used @ rest" "says (c1\<lparr>c_in := rest\<rparr>) out (fst r)" "copy_dialog used rest (c_txStatus (fst r)) out"
    using assms(2) unfolding loads_def by blast
  then show ?thesis
  proof cases
    case 2
    have "says (c\<lparr>c_in := rest\<rparr>) (CopyInResponse n b # out) (fst r)" "c_in c = used @ rest"
      using assms(1) 2(2,3) by (auto simp: says_def)
    then show ?thesis using 2(1,4) unfolding answered_def copied_in_def by blast
  qed (simp add: answered_def)
qed

text \<open>What has been read when the data end.\<close>

definition read_to :: "frontend list \<Rightarrow> copy_stop \<Rightarrow> frontend list \<Rightarrow> bool" where
  "read_to ms stop rest \<longleftrightarrow>
     (\<exists>used. ms = used @ rest \<and> (\<forall>m \<in> set (butlast used). fst m = MsgCopyData) \<and>
        (stop = Finished \<longrightarrow> used \<noteq> [] \<and> fst (last used) = MsgCopyDone) \<and>
        (stop = ReadFailed \<longrightarrow> rest = [] \<and> (\<forall>m \<in> set used. fst m = MsgCopyData)))"

lemma read_to_data:
  assumes "fst m = MsgCopyData" "read_to ms stop rest"
  shows "read_to (m # ms) stop rest"
proof -
  obtain used where u: "ms = used @ rest" "\<forall>m \<in> set (butlast used). fst m = MsgCopyData"
      "stop = Finished \<longrightarrow> used \<noteq> [] \<and> fst (last used) = MsgCopyDone"
      "stop = ReadFailed \<longrightarrow> rest = [] \<and> (\<forall>m \<in> set used. fst m = MsgCopyData)"
    using assms(2) unfolding read_to_def by blast
  then show ?thesis unfolding read_to_def using assms(1) by (intro exI [of _ "m # used"]) auto
qed

lemma read_to_stop: "fst m \<noteq> MsgCopyData \<Longrightarrow> read_to (m # ms) (copy_stop m) ms"
  unfolding read_to_def by (rule exI [of _ "[m]"]) (auto simp: copy_stop_def split: if_splits)

lemma read_to_nil: "read_to [] ReadFailed []"
  by (simp add: read_to_def)

lemma buffer_data_read: "buffer_data mk buf ms = (data, stop, rest) \<Longrightarrow> read_to ms stop rest"
  by (induction mk buf ms rule: buffer_data.induct) (auto simp: read_to_nil read_to_data read_to_stop split: if_splits)

definition read_some :: "frontend list \<Rightarrow> frontend list \<Rightarrow> bool" where
  "read_some ms rest \<longleftrightarrow> (\<exists>used. ms = used @ rest \<and> (\<forall>m \<in> set used. fst m = MsgCopyData))"

lemma read_some_refl: "read_some ms ms"
  by (auto simp: read_some_def)

lemma read_some_data: "fst m = MsgCopyData \<Longrightarrow> read_some ms rest \<Longrightarrow> read_some (m # ms) rest"
  unfolding read_some_def by (metis append_Cons set_ConsD)

lemma spool_data_read:
  "spool_data w path d ms = (d', stop, rest) \<Longrightarrow> (case stop of Inr s \<Rightarrow> read_to ms s rest | Inl err \<Rightarrow> read_some ms rest)"
proof (induction w path d ms rule: spool_data.induct)
  case (2 w path d m ms)
  show ?case
  proof (cases "fst m = MsgCopyData")
    case False
    then show ?thesis using "2.prems" by (auto simp: read_to_stop)
  next
    case True
    have more: "case stop of Inr s \<Rightarrow> read_to (m # ms) s rest | Inl err \<Rightarrow> read_some (m # ms) rest"
      if "case stop of Inr s \<Rightarrow> read_to ms s rest | Inl err \<Rightarrow> read_some ms rest"
      using that True by (auto simp: read_to_data read_some_data split: sum.splits)
    show ?thesis
    proof (cases "end_marker (snd m)")
      case marker: True
      then show ?thesis using 2 True more by simp
    next
      case False
      then show ?thesis
        using "2.prems" True "2.IH"(2) [OF True False] more read_some_data [OF True read_some_refl]
        by (auto split: prod.splits option.splits)
    qed
  qed
qed (auto simp: read_to_nil)

lemma loads_error:
  assumes "read_to (c_in c) s rest \<or> read_some (c_in c) rest" "says (c\<lparr>c_in := rest\<rparr>) [] c1" "c_limit c = None"
  shows "loads c (copy_error code m c1)"
proof -
  obtain used where u: "c_in c = used @ rest" "\<forall>m \<in> set (butlast used). fst m = MsgCopyData"
    using assms(1) unfolding read_to_def read_some_def by (meson in_set_butlastD)
  have "c_limit c1 = None" using limit_says [OF assms(2)] assms(3) by simp
  from copy_error_answer [OF this] obtain s' d e where
    "says c1 [ErrorResponse s' d e, ReadyForQuery (c_txStatus (fst (copy_error code m c1)))] (fst (copy_error code m c1))"
    by blast
  moreover have "snd (copy_error code m c1) = None" by (simp add: copy_error_def)
  ultimately show ?thesis using u says_quiet [OF assms(2)] unfolding loads_def copy_dialog_def by blast
qed

lemma loads_tag:
  assumes "read_to (c_in c) Finished rest \<or> read_to (c_in c) ReadFailed rest" "says (c\<lparr>c_in := rest\<rparr>) [] c1" "c_limit c = None"
  shows "loads c (copy_tag n c1)"
proof -
  have "c_limit c1 = None" using limit_says [OF assms(2)] assms(3) by simp
  from copy_tag_answer [OF this] obtain tag where
    "says c1 [CommandComplete tag, ReadyForQuery (c_txStatus (fst (copy_tag n c1)))] (fst (copy_tag n c1))"
    by blast
  moreover have "snd (copy_tag n c1) = None" by (simp add: copy_tag_def)
  ultimately show ?thesis using assms(1) says_quiet [OF assms(2)] unfolding loads_def copy_dialog_def read_to_def by blast
qed

lemma loads_loaded:
  assumes "read_to (c_in c) Finished rest" "says (c\<lparr>c_in := rest\<rparr>) [] (fst x)" "c_limit c = None"
  shows "loads c (copy_loaded x)"
  using loads_error [OF disjI1 [OF assms(1)] assms(2,3)] loads_tag [OF disjI1 [OF assms(1)] assms(2,3)]
  by (auto simp: copy_loaded_def split: prod.split sum.split)

lemma loads_stopped:
  assumes "read_to (c_in c) s rest" "says (c\<lparr>c_in := rest\<rparr>) [] c1" "c_limit c = None" "s \<noteq> Finished"
  shows "loads c (copy_stopped w s c1)"
proof (cases "s = ReadFailed")
  case True
  then have "rest = []" "\<forall>m \<in> set (c_in c). fst m = MsgCopyData" using assms(1) by (auto simp: read_to_def)
  moreover from this have "copy_dialog (c_in c) [] (c_txStatus c1) []" by (auto simp: copy_dialog_def dest: in_set_butlastD)
  moreover have "c_in c1 = rest" using assms(2) by (simp add: says_def)
  ultimately have "loads c (c1, x)" for x using assms(2) unfolding loads_def by (metis append_Nil2 fst_conv)
  then show ?thesis using True by (simp add: copy_stopped_def)
next
  case False
  then show ?thesis
    using loads_error [OF disjI1 [OF assms(1)] assms(2,3)] assms(4) by (cases s) (auto simp: copy_stopped_def)
qed

lemma says_insert_batches: "insert_batches w t cn k rows c = (c', r) \<Longrightarrow> says c [] c'"
proof (induction w t cn k rows c rule: insert_batches.induct)
  case (1 w t cn k rows c)
  show ?case
  proof (cases "rows = []")
    case True
    then show ?thesis using "1.prems" by (simp add: insert_batches.simps)
  next
    case False
    obtain c1 r1 where e: "exec w (insert_sql t cn (take batchSize rows)) (concat (take batchSize rows)) c = (c1, r1)" by fastforce
    have "says c1 [] c'"
      using "1.prems" False e "1.IH" [OF False refl e [symmetric]] insert_batches.simps [of w t cn k rows c]
      by (cases r1) (auto simp: Let_def)
    then show ?thesis using says_quiet [OF says_exec [OF e]] by blast
  qed
qed

lemma says_db: "says c [] (c\<lparr>c_db := d\<rparr>)"
  by (simp add: says_def)

lemma says_batchInsertRows: "says c [] (fst (batchInsertRows w t cl cols rows c))"
  unfolding batchInsertRows_def using says_insert_batches by (metis prod.collapse)

lemma loads_csv:
  assumes "read_to (c_in c) Finished rest" "says (c\<lparr>c_in := rest\<rparr>) [] c1" "c_limit c = None"
  shows "loads c (csv_load w opts cols types data c1)"
proof -
  note quiet = says_quiet [OF assms(2) says_batchInsertRows]
  show ?thesis
    using loads_error [OF disjI1 [OF assms(1)] assms(2,3)] loads_tag [OF disjI1 [OF assms(1)] assms(2,3)]
      loads_loaded [OF assms(1) quiet assms(3)]
    by (auto simp: csv_load_def Let_def split: prod.split)
qed

lemma loads_binary:
  assumes "read_to (c_in c) Finished rest" "says (c\<lparr>c_in := rest\<rparr>) [] c1" "c_limit c = None"
  shows "loads c (parseBinaryCopyAndInsert w data t cl cols oids c1)"
proof -
  have done_: "loads c (copy_loaded x)" if "says c1 [] (fst x)" for x
    by (rule loads_loaded [OF assms(1) says_quiet [OF assms(2) that] assms(3)])
  have app: "says c1 [] (fst (appendWithDuckDBAppender w t rows c1))" for rows
    by (auto simp: appendWithDuckDBAppender_def says_db split: option.split prod.split)
  have rows: "loads c (case x of (c2, Inr n) \<Rightarrow> copy_loaded (c2, Inr n)
      | (c2, Inl err) \<Rightarrow> copy_loaded (batchInsertRows w t cl cols rows c2))" if "says c1 [] (fst x)" for x rows
    using done_ [OF says_quiet [OF that says_batchInsertRows]] done_ that by (auto split: prod.split sum.split)
  have "says c1 [] (fst (if cl = [] then appendWithDuckDBAppender w t rows c1 else (c1, Inl [])))" for rows
    using app by simp
  from rows [OF this] show ?thesis
    using done_ unfolding parseBinaryCopyAndInsert_def by (auto simp: loads_def panic_def split: copied.split)
qed

lemma answered_handleCopyInCSVWithBlob:
  assumes l: "c_limit c = None"
  shows "answered c (handleCopyInCSVWithBlob w opts cols types c)"
proof -
  define c1 where "c1 = put (CopyInResponse (of_nat (length cols)) True) c"
  have s1: "says c [CopyInResponse (of_nat (length cols)) True] c1" unfolding c1_def by (rule says_put [OF l])
  have l1: "c_limit c1 = None" using limit_says [OF s1] l by simp
  obtain data stop rest where b: "buffer_data True [] (c_in c1) = (data, stop, rest)" using prod_cases3 by blast
  note read = buffer_data_read [OF b]
  have "loads c1 (handleCopyInCSVWithBlob w opts cols types c)"
    using loads_csv [OF _ says_refl l1] loads_stopped [OF read says_refl l1] read
    by (cases "stop = Finished") (simp_all add: handleCopyInCSVWithBlob_def emit_open [OF l] c1_def [symmetric] b Let_def)
  from answered_loads [OF s1 this] show ?thesis .
qed

lemma answered_handleCopyInBinary:
  assumes l: "c_limit c = None"
  shows "answered c (handleCopyInBinary w opts cols types c)"
proof -
  define c1 where "c1 = put (CopyInResponse (of_nat (length cols)) False) c"
  have s1: "says c [CopyInResponse (of_nat (length cols)) False] c1" unfolding c1_def by (rule says_put [OF l])
  have l1: "c_limit c1 = None" using limit_says [OF s1] l by simp
  obtain data stop rest where b: "buffer_data False [] (c_in c1) = (data, stop, rest)" using prod_cases3 by blast
  note read = buffer_data_read [OF b]
  have "loads c1 (handleCopyInBinary w opts cols types c)"
    using loads_binary [OF _ says_refl l1] loads_stopped [OF read says_refl l1] read
    by (cases "stop = Finished") (simp_all add: handleCopyInBinary_def emit_open [OF l] c1_def [symmetric] b Let_def)
  from answered_loads [OF s1 this] show ?thesis .
qed

lemma loads_after: "loads c r \<Longrightarrow> loads c ((fst r)\<lparr>c_db := d\<rparr>, snd r)"
  unfolding loads_def using says_silent [OF _ says_db [of "fst r" d]] by fastforce

lemma loads_load_file:
  assumes "case stop of Inr s \<Rightarrow> read_to (c_in c) s rest | Inl err \<Rightarrow> read_some (c_in c) rest"
    and s1: "says (c\<lparr>c_in := rest\<rparr>) [] c1" and l: "c_limit c = None"
  shows "loads c (load_file w opts path stop c1)"
proof (cases stop)
  case (Inl err)
  then show ?thesis using loads_error [OF disjI2 s1 l] assms(1) by (simp add: load_file_def)
next
  case (Inr s)
  then have read: "read_to (c_in c) s rest" using assms(1) by simp
  obtain c2 r2 where ex: "exec w (BuildDuckDBCopyFromSQL (cf_TableName opts) (cf_ColumnList opts) path opts) [] c1 = (c2, r2)"
    by fastforce
  note s2 = says_quiet [OF s1 says_exec [OF ex]]
  show ?thesis
    using Inr ex loads_stopped [OF read s1 l, of w] loads_error [OF disjI1 [OF read] s2 l] loads_tag [OF disjI1 s2 l] read
    by (cases s; cases r2) (auto simp: load_file_def)
qed

lemma loads_file:
  assumes l: "c_limit c = None"
  shows "loads c (copy_in_file w opts c)"
proof -
  obtain d r where t: "w_CreateTemp w (c_db c) = (d, r)" by fastforce
  show ?thesis
  proof (cases r)
    case (Inl err)
    then show ?thesis
      using loads_error [OF disjI2 [OF read_some_refl] _ l, of "c\<lparr>c_db := d\<rparr>"] t by (simp add: copy_in_file_def says_db)
  next
    case (Inr path)
    obtain d1 stop rest where sp: "spool_data w path d (c_in c) = (d1, stop, rest)" using prod_cases3 by blast
    have "says (c\<lparr>c_in := rest\<rparr>) [] (c\<lparr>c_db := d1, c_in := rest\<rparr>)" by (simp add: says_def)
    from loads_load_file [OF spool_data_read [OF sp] this l]
    have "loads c (load_file w opts path stop (c\<lparr>c_db := d1, c_in := rest\<rparr>))" .
    then show ?thesis
      using t Inr sp loads_after by (simp add: copy_in_file_def case_prod_unfold)
  qed
qed

section \<open>The stream to a worker\<close>

lemma read_some_trans: "read_some ms ms1 \<Longrightarrow> read_some ms1 ms2 \<Longrightarrow> read_some ms ms2"
  unfolding read_some_def by (metis Un_iff append_assoc set_append)

lemma read_some_to:
  assumes "read_some ms ms1" "read_to ms1 s rest"
  shows "read_to ms s rest"
proof -
  obtain used where "ms = used @ ms1" "\<forall>m \<in> set used. fst m = MsgCopyData" using assms(1) read_some_def by blast
  then show ?thesis using assms(2) by (induction used arbitrary: ms) (auto simp: read_to_data)
qed

lemma next_data_read:
  assumes "next_data w r ms = (e, r1, ms1)"
  shows "(case e of None \<Rightarrow> read_some ms ms1 \<and> rd_done r1 = rd_done r
    | Some ReadEOF \<Rightarrow> read_to ms Finished ms1 \<or> read_to ms ReadFailed ms1
    | Some (ReadError x) \<Rightarrow> \<exists>s. read_to ms s ms1)"
  using assms
proof (induction w r ms rule: next_data.induct)
  case (1 w r)
  have "\<exists>s. read_to [] s []" using read_to_nil by blast
  then show ?case using 1 by (auto simp: read_to_nil split: if_splits)
next
  case (2 w r m ms)
  show ?case
  proof (cases "fst m = MsgCopyData")
    case True
    then show ?thesis
      using 2 read_some_data [OF True] read_to_data [OF True] read_some_refl [of ms]
      by (auto split: if_splits option.splits read_error.splits) blast+
  next
    case False
    have s: "copy_stop m \<noteq> ReadFailed" by (simp add: copy_stop_def)
    show ?thesis
      using False s 2(2) read_to_stop [OF False, of ms]
      by (cases "copy_stop m") (auto intro: exI)
  qed
qed

lemma wire_Read_read:
  assumes "wire_Read w k r ms = (b, e, r1, ms1)" "\<not> rd_done r"
  shows "(case e of None \<Rightarrow> read_some ms ms1 \<and> \<not> rd_done r1
    | Some ReadEOF \<Rightarrow> read_to ms Finished ms1 \<or> read_to ms ReadFailed ms1
    | Some (ReadError x) \<Rightarrow> \<exists>s. read_to ms s ms1)"
proof (cases "rd_pending r = []")
  case False
  then show ?thesis using assms by (auto simp: wire_Read_def take_pending_def read_some_refl)
next
  case True
  obtain e' r' ms' where n: "next_data w r ms = (e', r', ms')" using prod_cases3 by blast
  from next_data_read [OF n] show ?thesis
    using True assms n by (cases e') (auto simp: wire_Read_def take_pending_def split: read_error.splits)
qed

lemma send_chunks_read:
  assumes "send_chunks w up d r ms = (d', e, r1, ms1)" "\<not> rd_done r"
  shows "(case e of None \<Rightarrow> read_to ms Finished ms1 \<or> read_to ms ReadFailed ms1
    | Some x \<Rightarrow> (\<exists>s. read_to ms s ms1) \<or> read_some ms ms1)"
  using assms
proof (induction w up d r ms rule: send_chunks.induct)
  case (1 w up d r ms)
  obtain b e1 r2 ms2 where rd: "wire_Read w CopyFromStdinChunkSize r ms = (b, e1, r2, ms2)" using prod_cases4 by blast
  obtain d1 se where se: "(if b \<noteq> [] then up_send up d b else (d, None)) = (d1, se)" by fastforce
  note w = wire_Read_read [OF rd "1.prems"(2)]
  note eq = "1.prems"(1) [unfolded send_chunks.simps [of w up d r ms] rd, simplified, unfolded se]
  show ?case
  proof (cases se)
    case (Some err)
    then have "ms1 = ms2" "e \<noteq> None" using eq by auto
    then show ?thesis using w by (auto split: option.splits read_error.splits)
  next
    case None
    show ?thesis
    proof (cases e1)
      case (Some x)
      then show ?thesis using None eq w by (cases x) auto
    next
      case e1: None
      then have "read_some ms ms2" "\<not> rd_done r2" using w by simp_all
      moreover have "send_chunks w up d1 r2 ms2 = (d', e, r1, ms1)" using eq None e1 by simp
      ultimately have "case e of None \<Rightarrow> read_to ms2 Finished ms1 \<or> read_to ms2 ReadFailed ms1
          | Some x \<Rightarrow> (\<exists>s. read_to ms2 s ms1) \<or> read_some ms2 ms1"
        using "1.IH" [OF rd [symmetric] refl refl se [symmetric] None e1] by simp
      then show ?thesis
        using read_some_to [OF \<open>read_some ms ms2\<close>] read_some_trans [OF \<open>read_some ms ms2\<close>] by (auto split: option.splits)
    qed
  qed
qed

lemma loads_stream:
  assumes l: "c_limit c = None"
  shows "loads c (handleCopyInRemoteStreaming w up opts c)"
proof -
  define sql where "sql = BuildDuckDBCopyFromSQL (cf_TableName opts) (cf_ColumnList opts) CopyFromStdinPathPlaceholder opts"
  obtain d res r ms where cs: "CopyFromStdin w up sql new_reader (c_in c) (c_db c) = (d, res, r, ms)" using prod_cases4 by blast
  have read: "(case res of Inr n \<Rightarrow> read_to (c_in c) Finished ms \<or> read_to (c_in c) ReadFailed ms
      | Inl err \<Rightarrow> (\<exists>s. read_to (c_in c) s ms) \<or> read_some (c_in c) ms)"
  proof -
    obtain d1 e1 where o: "up_open up (c_db c) sql = (d1, e1)" by fastforce
    obtain d2 e2 r2 ms2 where s: "send_chunks w up d1 new_reader (c_in c) = (d2, e2, r2, ms2)" using prod_cases4 by blast
    have "\<not> rd_done new_reader" by (simp add: new_reader_def)
    from send_chunks_read [OF s this] show ?thesis
      using cs o s read_some_refl [of "c_in c"]
      by (cases e1; cases e2) (auto simp: CopyFromStdin_def split: prod.splits sum.split)
  qed
  have s1: "says (c\<lparr>c_in := ms\<rparr>) [] (c\<lparr>c_db := d, c_in := ms\<rparr>)" by (simp add: says_def)
  have err: "loads c (copy_error code m (c\<lparr>c_db := d, c_in := ms\<rparr>))" for code m
    using read loads_error [OF _ s1 l] by (auto split: sum.splits)
  show ?thesis
    using err read loads_tag [OF _ s1 l]
    by (auto simp: handleCopyInRemoteStreaming_def cs [unfolded sql_def] Let_def split: sum.split)
qed

lemma answered_handleCopyIn:
  assumes l: "c_limit c = None"
  shows "answered c (handleCopyIn w query c)"
proof (cases "ParseCopyFromOptions query")
  case None
  then show ?thesis using answered_copy_error [OF says_refl l] by (simp add: handleCopyIn_def)
next
  case (Some opts)
  obtain c1 r1 where r1: "run_query w (column_query opts) [] c = (c1, r1)" by fastforce
  have s1: "says c [] c1" using says_run_query [OF r1] .
  have l1: "c_limit c1 = None" using limit_says [OF s1] l by simp
  have in_: "says c1 [CopyInResponse n True] (put (CopyInResponse n True) c1)" for n by (rule says_put [OF l1])
  have l2: "c_limit (put (CopyInResponse n True) c1) = None" for n using limit_says [OF in_] l1 by simp
  have csv: "answered c1 (copy_in_file w opts (put (CopyInResponse n True) c1))"
    "answered c1 (handleCopyInRemoteStreaming w up opts (put (CopyInResponse n True) c1))" for n up
    using answered_loads [OF in_] loads_file [OF l2] loads_stream [OF l2] by blast+
  show ?thesis
    using Some r1 answered_copy_error [OF s1 l] answered_quiet [OF s1] csv emit_open [OF l1]
      answered_handleCopyInBinary [OF l1] answered_handleCopyInCSVWithBlob [OF l1]
    by (auto simp: handleCopyIn_def Let_def split: sum.split option.split)
qed

lemma answered_handleCopy:
  assumes l: "c_limit c = None" and sc: "scans w"
  shows "answered c (handleCopy w query c)"
proof -
  obtain c1 r1 where r1: "exec w query [] c = (c1, r1)" by fastforce
  note s1 = says_exec [OF r1]
  show ?thesis
    using answered_handleCopyOut [OF l sc] answered_handleCopyIn [OF l] answered_copy_error [OF s1 l] answered_copy_tag [OF s1 l] r1
    by (auto simp: handleCopy_def split: sum.split)
qed

end
