(* ===== verification/Protocol_Simple.thy ===== *)
theory Protocol_Simple
  imports Protocol_Copy
begin

text \<open>
  Every query message is answered as the protocol asks: the answers to its statements, of which only the last may be an
  error, and then one ready message.
\<close>

section \<open>Statements that the connection answers itself\<close>

lemma stmt_answered_declare:
  assumes l: "c_limit c = None" and r: "declare_cursor w name inner c = (c', e)"
  shows "stmt_answered c (c', e, None)"
proof -
  have error: "stmt_answered c (sendError s d t c, True, None)" for s d t
    using stmt_failed [OF says_error [OF l] failed_error] .
  have declared: "stmt_answered c (put (CommandComplete t) ((closeCursor name c)\<lparr>c_cursors := f\<rparr>), False, None)" for t f
  proof -
    have s: "says c [] ((closeCursor name c)\<lparr>c_cursors := f\<rparr>)" by (rule says_quiet [OF says_closeCursor(1) says_cursors])
    show ?thesis using stmt_succeeded [OF says_quiet [OF s says_put] succeeded_tag] limit_says [OF s] l by simp
  qed
  show ?thesis
    using r error declared unfolding declare_cursor_def Let_def by (auto split: if_splits sum.splits)
qed

lemma stmt_answered_close:
  assumes l: "c_limit c = None" and r: "close_cursor w name c = (c', e)"
  shows "stmt_answered c (c', e, None)"
proof -
  have error: "stmt_answered c (sendError s d t c, True, None)" for s d t
    using stmt_failed [OF says_error [OF l] failed_error] .
  have closed: "stmt_answered c (put (CommandComplete t) x, False, None)" if "says c [] x" for t x
    using stmt_succeeded [OF says_quiet [OF that says_put] succeeded_tag] limit_says [OF that] l by simp
  show ?thesis
    using r error closed [OF says_closeCursor(1)] closed [OF says_closeCursor(2)]
    unfolding close_cursor_def by (auto split: if_splits)
qed

lemma panic_data_row: "c_panic c \<Longrightarrow> c_panic (fst (sendDataRowWithFormats lib vs f oids c))"
  by (simp add: sendDataRowWithFormats_def panic_def emit_def Let_def)

lemma answers_data_row:
  "c_limit c = None \<Longrightarrow> answers c (fst (sendDataRowWithFormats lib vs f oids c)) (\<lambda>ms. \<exists>cells. ms = [DataRow cells])"
  using says_data_row [of lib vs f oids c] unfolding answers_def by (metis prod.collapse)

lemma answers_activity_fold:
  "c_limit c = None \<Longrightarrow>
     answers c (foldl (\<lambda>c i. fst (sendPgStatActivityDataRow w i f c)) c is) (\<lambda>ms. data_rows ms \<and> length ms = length is)"
proof (induction "is" arbitrary: c)
  case Nil
  show ?case by (auto intro: answersI [OF says_refl])
next
  case (Cons i "is")
  define c1 where "c1 = fst (sendPgStatActivityDataRow w i f c)"
  consider "c_panic c1" | cells where "says c [DataRow cells] c1"
    using answers_data_row [OF Cons.prems] unfolding c1_def sendPgStatActivityDataRow_def answers_def by blast
  then show ?case
  proof cases
    case 1
    have "c_panic (foldl (\<lambda>c i. fst (sendPgStatActivityDataRow w i f c)) x ys)" if "c_panic x" for x ys
      using that by (induction ys arbitrary: x) (auto simp: sendPgStatActivityDataRow_def panic_data_row)
    then show ?thesis using 1 by (simp add: c1_def answers_panic)
  next
    case 2
    then show ?thesis
      using answers_after [OF 2 Cons.IH] limit_says [OF 2] Cons.prems by (simp add: c1_def data_rows_def)
  qed
qed

lemma answers_batch_activity:
  assumes h: "says c h c1" "row_header h" and l: "c_limit c = None"
  shows "answers c (batch_activity w f c1) succeeded"
proof -
  define c2 where "c2 = foldl (\<lambda>c i. fst (sendPgStatActivityDataRow w i f c)) c1 (sorted_conns w c1)"
  have l1: "c_limit c1 = None" using limit_says [OF h(1)] l by simp
  have eq: "batch_activity w f c1 = put (CommandComplete (''SELECT '' @ digits10 (length (sorted_conns w c1)))) c2"
    by (simp add: batch_activity_def c2_def)
  show ?thesis
  proof (cases "c_panic c2")
    case True
    then show ?thesis by (simp add: eq answers_panic)
  next
    case False
    then obtain rows where rows: "says c1 rows c2" "data_rows rows" "length rows = length (sorted_conns w c1)"
      using answers_activity_fold [OF l1] unfolding c2_def answers_def by blast
    have "suffix (itoa (int (length rows))) (''SELECT '' @ digits10 (length (sorted_conns w c1)))"
      by (simp add: rows(3) itoa_def suffix_def)
    then show ?thesis
      unfolding eq using rows_end_tag [OF says_trans [OF h(1) rows(1)] l h(2) rows(2) _ says_refl] answersI by blast
  qed
qed

lemma says_activity_header:
  "c_limit c = None \<Longrightarrow> \<exists>fs. says c [RowDescription fs] (fst (sendPgStatActivityRowDescriptionWithFormats f c))"
  unfolding sendPgStatActivityRowDescriptionWithFormats_def by (simp add: emit_open) (blast intro: says_put)

lemma says_cursors_header:
  "c_limit c = None \<Longrightarrow> \<exists>fs. says c [RowDescription fs] (fst (sendPgCursorsRowDescriptionWithFormats f c))"
  unfolding sendPgCursorsRowDescriptionWithFormats_def by (simp add: emit_open) (blast intro: says_put)

text \<open>Whether a cursor exists: a row or none.\<close>

lemma answers_cursor_row:
  assumes h: "says c h c1" "row_header h" and l: "c_limit c = None"
  shows "answers c (put (CommandComplete ''SELECT 0'') c1) succeeded"
    "answers c (put (CommandComplete ''SELECT 1'') (fst (sendPgCursorsRow w f c1))) succeeded"
proof -
  have l1: "c_limit c1 = None" using limit_says [OF h(1)] l by simp
  have "says c (h @ [CommandComplete ''SELECT 0'']) (put (CommandComplete ''SELECT 0'') c1)"
    by (rule says_trans [OF h(1) says_put [OF l1]])
  moreover have "succeeded (h @ [CommandComplete ''SELECT 0''])" using h(2) unfolding succeeded_def by force
  ultimately show "answers c (put (CommandComplete ''SELECT 0'') c1) succeeded" by (rule answersI)
  have "itoa 1 = ''1''" by (simp add: itoa_def digits10.simps [of 1] digit_char_def) code_simp
  then have tag: "suffix (itoa (int (length [DataRow cells]))) ''SELECT 1''" for cells by (simp add: suffix_def)
  have row: "c_panic (fst (sendPgCursorsRow w f c1)) \<or> (\<exists>cells. says c1 [DataRow cells] (fst (sendPgCursorsRow w f c1)))"
    using answers_data_row [OF l1, of "w_lib w" "[VInt64 1]" f "[23]"] unfolding sendPgCursorsRow_def answers_def by meson
  then show "answers c (put (CommandComplete ''SELECT 1'') (fst (sendPgCursorsRow w f c1))) succeeded"
  proof
    assume "\<exists>cells. says c1 [DataRow cells] (fst (sendPgCursorsRow w f c1))"
    then obtain cells where "says c1 [DataRow cells] (fst (sendPgCursorsRow w f c1))" ..
    from rows_end_tag [OF says_trans [OF h(1) this] l h(2) data_rows_simps(3) tag says_refl]
    show ?thesis by (auto intro: answersI)
  qed (simp add: answers_panic)
qed

section \<open>Statements of a batch\<close>

lemma stmt_answered_select:
  assumes l: "c_limit c = None"
  shows "stmt_answered c (batch_select w q t c)"
proof -
  obtain c1 r1 where r1: "recovering w (run_query w q []) c = (c1, r1)" by fastforce
  have s1: "says c [] c1" using quiet_recovering [OF quiet_run_query] r1 by (rule quiet_runD)
  have l1: "c_limit c1 = None" using limit_says [OF s1] l by simp
  show ?thesis
  proof (cases "\<exists>rs cols types. r1 = Inr rs \<and> rs_Columns rs = Inr cols \<and> rs_ColumnTypes rs = Inr types")
    case False
    have "stmt_answered c (internal_error err c1, True, None)" for err
      by (rule stmt_failed [OF says_quiet [OF s1 says_internal_error [OF l1]] failed_error])
    moreover have "stmt_answered c (statement_error w err c1, True, None)" for err
      using stmt_failed [OF says_quiet [OF s1] failed_error] says_statement_error [OF l1] by blast
    ultimately show ?thesis using False r1 by (auto simp: batch_select_def split: sum.splits)
  next
    case True
    then obtain rs cols types where rs: "r1 = Inr rs" "rs_Columns rs = Inr cols" "rs_ColumnTypes rs = Inr types" by blast
    obtain c2 ok where d: "sendRowDescription cols types c1 = (c2, ok)" by fastforce
    obtain c3 n rest e where sr: "send_rows (w_lib w) [] (type_oids types) None 0 (rs_rows rs) c2 = (c3, n, rest, e)"
      using prod_cases4 by blast
    consider "\<not> ok" "c_panic c2" | "ok" "e = WriteError" "c_panic c3"
      | h rows where "ok" "e \<noteq> WriteError" "says c1 (h @ rows) c3" "row_header h" "data_rows rows" "n = int (length rows)"
      using header_and_rows [of True cols types "[]" c1 c2 ok, OF _ l1 sr] d by (auto simp: sendRowDescription_def)
    then show ?thesis
    proof cases
      case 3
      note tail = says_quiet [OF s1 3(3)] l 3(4,5)
      have err: "stmt_answered c (sendError s' d' x c3, True, None)" for s' d' x
        using rows_end_error(3) [OF tail] stmt_failed by metis
      have tag: "stmt_answered c (put (CommandComplete (buildCommandTagFromRowCount t n)) (updateTxStatus t c3), False, None)"
        using rows_end_tag [OF tail _ says_updateTxStatus, of "buildCommandTagFromRowCount t n"] suffix_tags(1) [of n t] 3(6)
          stmt_succeeded by metis
      show ?thesis using r1 rs d sr 3(1,2) err tag by (cases e) (simp_all add: batch_select_def)
    qed (use r1 rs d sr in \<open>simp_all add: batch_select_def stmt_panic\<close>)
  qed
qed

lemma stmt_answered_error: "c_limit c = None \<Longrightarrow> stmt_answered c (sendError s d t c, True, None)"
  by (rule stmt_failed [OF says_error failed_error])

lemma stmt_answered_tag: "c_limit c = None \<Longrightarrow> stmt_answered c (put (CommandComplete t) c, False, None)"
  by (rule stmt_succeeded [OF says_put succeeded_tag])

lemma stmt_answered_command:
  assumes "quiet_run run" "c_limit c = None"
  shows "stmt_answered c (case exec_command w run t c of (c1, e) \<Rightarrow> (c1, e, None))"
  using says_exec_command [OF assms] by (cases "exec_command w run t c") (auto simp: stmt_answered_def)

lemma stmt_answered_transpiled: "c_limit c = None \<Longrightarrow> stmt_answered c (batch_transpiled w result c)"
  unfolding batch_transpiled_def Let_def
  by (simp add: stmt_answered_error stmt_answered_tag stmt_answered_select stmt_answered_command [OF quiet_run_exec] split: option.split)

lemma says_validate: "validateWithDuckDB w query c = (c', e) \<Longrightarrow> says c [] c'"
  unfolding validateWithDuckDB_def by (auto split: if_splits prod.splits sum.splits dest: says_exec)

lemma stmt_answered_quiet: "says c [] c1 \<Longrightarrow> stmt_answered c1 r \<Longrightarrow> stmt_answered c r"
  unfolding stmt_answered_def using says_quiet by blast

lemma stmt_answersI: "answers c c' succeeded \<Longrightarrow> stmt_answered c (c', False, None)"
  by (auto simp: answers_def stmt_answered_def)

text \<open>What the connection checks before it runs a statement: the translation, and the syntax where that gives up.\<close>

lemma validated:
  assumes "(if b then validateWithDuckDB w query c else (c, None)) = (c1, r)" "c_limit c = None"
  shows "says c [] c1" "c_limit c1 = None"
proof -
  show "says c [] c1" using assms(1) says_validate by (auto split: if_splits)
  from limit_says [OF this] show "c_limit c1 = None" using assms(2) by simp
qed

lemma stmt_answered_cursors:
  assumes l: "c_limit c = None"
  shows "stmt_answered c (batch_cursors w name c, False, None)"
proof -
  obtain fs where "says c [RowDescription fs] (fst (sendPgCursorsRowDescriptionWithFormats [] c))"
    using says_cursors_header [OF l] by blast
  from answers_cursor_row [OF this row_header_simps(2) l] show ?thesis
    by (auto simp: batch_cursors_def Let_def intro: stmt_answersI)
qed

lemma stmt_answered_activity:
  assumes l: "c_limit c = None"
  shows "stmt_answered c (batch_activity w f (fst (sendPgStatActivityRowDescriptionWithFormats f c)), False, None)"
proof -
  obtain fs where "says c [RowDescription fs] (fst (sendPgStatActivityRowDescriptionWithFormats f c))"
    using says_activity_header [OF l] by blast
  from answers_batch_activity [OF this row_header_simps(2) l] show ?thesis by (rule stmt_answersI)
qed

lemma stmt_answered_single:
  assumes l: "c_limit c = None"
  shows "stmt_answered c (executeSingleStatement w q c)"
proof (cases "w_parseCursor w q")
  case (Some stmt)
  then show ?thesis
    using stmt_answered_fetch [OF l] stmt_answered_declare [OF l] stmt_answered_close [OF l]
    by (cases stmt) (auto simp: executeSingleStatement_def split: prod.split)
next
  case None
  show ?thesis
  proof (cases "w_Transpile w False q")
    case (Inl err)
    then show ?thesis
      using None l by (simp add: executeSingleStatement_def syntax_error_def stmt_answered_cursors stmt_answered_activity
          stmt_answered_error split: option.split)
  next
    case (Inr result)
    obtain c1 r1 where v: "(if tr_FallbackToNative result then validateWithDuckDB w q c else (c, None)) = (c1, r1)" by fastforce
    note c1 = validated [OF v l]
    have "stmt_answered c (syntax_error err c1, True, None)" "stmt_answered c (batch_transpiled w result c1)" for err
      using stmt_answered_quiet [OF c1(1)] stmt_answered_error [OF c1(2)] stmt_answered_transpiled [OF c1(2)]
      by (simp_all add: syntax_error_def)
    then show ?thesis
      using None Inr v l by (simp add: executeSingleStatement_def stmt_answered_cursors stmt_answered_activity split: option.split)
  qed
qed

section \<open>A query message\<close>

text \<open>A query of several statements: no COPY.\<close>

definition batched :: "'d conn \<Rightarrow> 'd conn \<times> string option \<Rightarrow> bool" where
  "batched c r \<longleftrightarrow>
     c_panic (fst r) \<or>
     snd r = None \<and> (\<exists>ms. says c (ms @ [ReadyForQuery (c_txStatus (fst r))]) (fst r) \<and> batch_answer ms)"

lemma batched_answered: "batched c r \<Longrightarrow> answered c r"
  unfolding batched_def answered_def by blast

lemma batched_panic: "c_panic c1 \<Longrightarrow> batched c (c1, x)"
  by (simp add: batched_def)

lemma batched_ready:
  assumes "says c ms c1" "c_limit c = None" "batch_answer ms"
  shows "batched c (ready c1, None)"
proof -
  have "says c1 [ReadyForQuery (c_txStatus c1)] (ready c1)"
    using limit_says [OF assms(1)] assms(2) by (simp add: ready_def says_put)
  then have "says c (ms @ [ReadyForQuery (c_txStatus (ready c1))]) (ready c1)"
    using says_trans [OF assms(1)] by (simp add: ready_def)
  then show ?thesis using assms(3) by (auto simp: batched_def)
qed

lemma batched_after:
  assumes "says c ms c1" "succeeded ms" "batched c1 r"
  shows "batched c r"
proof -
  consider "c_panic (fst r)" | us where "snd r = None" "says c1 (us @ [ReadyForQuery (c_txStatus (fst r))]) (fst r)" "batch_answer us"
    using assms(3) unfolding batched_def by blast
  then show ?thesis
  proof cases
    case 2
    have "says c ((ms @ us) @ [ReadyForQuery (c_txStatus (fst r))]) (fst r)"
      using says_trans [OF assms(1) 2(2)] by simp
    then show ?thesis using 2(1) batch_more [OF assms(2) 2(3)] unfolding batched_def by blast
  qed (simp add: batched_def)
qed

lemma answered_error: "c_limit c = None \<Longrightarrow> answered c (ready (sendError s d t c), None)"
  by (rule answered_ready(1) [OF says_error _ batch_error [OF failed_error]])

lemma answered_tag: "c_limit c = None \<Longrightarrow> answered c (ready (put (CommandComplete t) c), None)"
  by (rule answered_ready(1) [OF says_put _ batch_one [OF succeeded_tag]])

lemma stmt_batched:
  assumes "stmt_answered c (c1, e, x)" "c_limit c = None"
  shows "batched c (ready c1, None)"
proof -
  consider "c_panic c1" | ms where "says c ms c1" "if e then failed ms else succeeded ms"
    using assms(1) unfolding stmt_answered_def by auto
  then show ?thesis
  proof cases
    case 2
    then have "batch_answer ms" by (auto split: if_splits intro: batch_error batch_one)
    then show ?thesis using batched_ready [OF 2(1) assms(2)] by blast
  qed (simp add: batched_panic)
qed

lemmas stmt_ready = batched_answered [OF stmt_batched]

lemma batched_loop: "c_limit c = None \<Longrightarrow> batched c (batch_loop w stmts c)"
proof (induction w stmts c rule: batch_loop.induct)
  case (1 w c)
  then show ?case using batched_ready [OF says_refl _ batch_none] by simp
next
  case (2 w err stmts c)
  then show ?case using batched_ready [OF says_error _ batch_error [OF failed_error]] by (simp add: syntax_error_def)
next
  case (3 w sql stmts c)
  obtain c1 e x where r: "executeSingleStatement w sql c = (c1, e, x)" using prod_cases3 by blast
  have a: "stmt_answered c (c1, e, x)" using stmt_answered_single [OF "3.prems"] r by metis
  consider "c_panic c1" | "\<not> c_panic c1" "x = None" "e" | ms where "says c ms c1" "succeeded ms" "\<not> c_panic c1" "\<not> e" "x = None"
    using a by (cases e) (auto simp: stmt_answered_def)
  then show ?case
  proof cases
    case 1
    then show ?thesis using r by (auto simp: batched_panic split: bool.split option.split)
  next
    case 2
    then show ?thesis using r stmt_batched [OF a "3.prems"] by simp
  next
    case ms: 3
    then show ?thesis
      using r batched_after [OF ms(1,2) "3.IH"] limit_says [OF ms(1)] "3.prems" by simp
  qed
qed

lemmas answered_batch = batched_answered [OF batched_loop]

lemma answered_cursor:
  assumes l: "c_limit c = None"
  shows "answered c (query_cursor w stmt c)"
proof (cases stmt)
  case (FetchStmt name fwd m mv)
  obtain c1 e x where r: "fetch_cursor w name fwd m mv c = (c1, e, x)" using prod_cases3 by blast
  have a: "stmt_answered c (c1, e, x)" using stmt_answered_fetch [OF l] r by metis
  then have "x \<noteq> None \<Longrightarrow> answered c (c1, x)" by (auto simp: stmt_answered_def answered_panic)
  then show ?thesis using FetchStmt r stmt_ready [OF a l] by (cases x) (simp_all add: query_cursor_def)
qed (use stmt_ready [OF stmt_answered_declare [OF l] l] stmt_ready [OF stmt_answered_close [OF l] l]
      in \<open>simp_all add: query_cursor_def, metis prod.collapse, metis prod.collapse\<close>)

lemma panic_ready_answers: "answers c c1 succeeded \<Longrightarrow> c_limit c = None \<Longrightarrow> answered c (ready c1, None)"
  using answered_ready(1) [OF _ _ batch_one] by (auto simp: answers_def answered_panic)

lemma data_row_refused: "c_limit c = None \<Longrightarrow> sendDataRowWithFormats lib vs f oids c = (c1, False) \<Longrightarrow> c_panic c1"
  by (auto simp: sendDataRowWithFormats_def panic_def emit_def Let_def split: if_splits)

lemma answered_handlePgCursorsQuery:
  assumes l: "c_limit c = None"
  shows "answered c (handlePgCursorsQuery w name c)"
proof -
  define c1 where "c1 = fst (sendPgCursorsRowDescriptionWithFormats [] c)"
  have c1: "sendPgCursorsRowDescriptionWithFormats [] c = (c1, True)"
    by (simp add: c1_def sendPgCursorsRowDescriptionWithFormats_def emit_open [OF l])
  obtain fs where fs: "says c [RowDescription fs] c1" using says_cursors_header [OF l] c1_def by blast
  have l1: "c_limit c1 = None" using limit_says [OF fs] l by simp
  note rows = answers_cursor_row(1) [OF fs row_header_simps(2) l] answers_cursor_row(2) [OF fs row_header_simps(2) l, of w "[]"]
  show ?thesis
    using panic_ready_answers [OF rows(1) l] panic_ready_answers [OF rows(2) l] c1 data_row_refused [OF l1]
    by (auto simp: handlePgCursorsQuery_def sendPgCursorsRow_def answered_panic split: prod.split bool.split)
qed

lemma activity_rows_fold:
  "activity_rows w f is c = (c1, True) \<Longrightarrow> c1 = foldl (\<lambda>c i. fst (sendPgStatActivityDataRow w i f c)) c is"
  by (induction "is" arbitrary: c) (auto split: prod.splits bool.splits)

lemma activity_rows_refused: "c_limit c = None \<Longrightarrow> activity_rows w f is c = (c1, False) \<Longrightarrow> c_panic c1"
proof (induction "is" arbitrary: c)
  case (Cons i "is")
  obtain c2 ok where r: "sendPgStatActivityDataRow w i f c = (c2, ok)" by fastforce
  have s: "ok \<Longrightarrow> c_limit c2 = None"
    using says_data_row [OF r [unfolded sendPgStatActivityDataRow_def] Cons.prems(1)] limit_says Cons.prems(1) by fastforce
  show ?case
    using Cons.prems r s Cons.IH data_row_refused [OF Cons.prems(1)] by (cases ok) (auto simp: sendPgStatActivityDataRow_def)
qed simp

lemma answered_handlePgStatActivity:
  assumes l: "c_limit c = None"
  shows "answered c (handlePgStatActivity w c)"
proof -
  define c1 where "c1 = fst (sendPgStatActivityRowDescriptionWithFormats [] c)"
  have c1: "sendPgStatActivityRowDescriptionWithFormats [] c = (c1, True)"
    by (simp add: c1_def sendPgStatActivityRowDescriptionWithFormats_def emit_open [OF l])
  obtain fs where fs: "says c [RowDescription fs] c1" using says_activity_header [OF l] c1_def by blast
  have l1: "c_limit c1 = None" "sorted_conns w c1 = sorted_conns w c"
    using limit_says [OF fs] l
    by (simp_all add: c1_def sorted_conns_def sendPgStatActivityRowDescriptionWithFormats_def put_def emit_def)
  obtain c2 ok where r: "activity_rows w [] (sorted_conns w c) c1 = (c2, ok)" by fastforce
  have "answered c (ready (batch_activity w [] c1), None)"
    using panic_ready_answers [OF answers_batch_activity [OF fs row_header_simps(2) l] l] .
  then show ?thesis
    using c1 r activity_rows_fold [of w "[]" "sorted_conns w c" c1 c2] activity_rows_refused [OF l1(1), of w "[]" "sorted_conns w c" c2] l1(2)
    by (cases ok) (simp_all add: handlePgStatActivity_def batch_activity_def answered_panic)
qed

lemma answered_command:
  "quiet_run run \<Longrightarrow> c_limit c = None \<Longrightarrow> answered c (ready (fst (exec_command w run t c)), None)"
  using stmt_answered_command [of run c w t] stmt_ready [of c "fst (exec_command w run t c)"] by (simp add: case_prod_unfold)

lemma answered_executeQueryDirect: "c_limit c = None \<Longrightarrow> answered c (executeQueryDirect w query t c)"
  by (simp add: executeQueryDirect_def answered_command [OF quiet_exec] answered_executeSelectQuery)

lemma answered_query_transpiled:
  "scans w \<Longrightarrow> c_limit c = None \<Longrightarrow> answered c (query_transpiled w result c)"
  unfolding query_transpiled_def Let_def
  by (simp add: answered_handleCopy answered_error answered_tag answered_executeMultiStatement answered_executeSelectQuery
      answered_command [OF quiet_run_exec] split: option.split)

lemma answered_handleQuery:
  assumes sc: "scans w" and l: "c_limit c = None"
  shows "answered c (handleQuery w body c)"
proof -
  define query where "query = TrimSpace (trim_nul body)"
  have copy: "answered c (handleCopy w query c)" by (rule answered_handleCopy [OF l sc])
  have empty: "answered c (ready (put EmptyQueryResponse c), None)"
    by (rule answered_ready(1) [OF says_put [OF l] l batch_one [OF succeeded_empty]])
  have transpiled: "answered c
      (case w_Transpile w False query of
         Inl err \<Rightarrow> (ready (syntax_error err c), None)
       | Inr result \<Rightarrow>
           (case (if tr_FallbackToNative result then validateWithDuckDB w query c else (c, None)) of
              (c1, Some err) \<Rightarrow> (ready (syntax_error err c1), None)
            | (c1, None) \<Rightarrow> query_transpiled w result c1))"
  proof (cases "w_Transpile w False query")
    case (Inl err)
    then show ?thesis using answered_error [OF l] by (simp add: syntax_error_def)
  next
    case (Inr result)
    obtain c1 r1 where v: "(if tr_FallbackToNative result then validateWithDuckDB w query c else (c, None)) = (c1, r1)" by fastforce
    note c1 = validated [OF v l]
    have "answered c (ready (syntax_error err c1), None)" "answered c (query_transpiled w result c1)" for err
      using answered_quiet [OF c1(1)] answered_error [OF c1(2)] answered_query_transpiled [OF sc c1(2)]
      by (simp_all add: syntax_error_def)
    then show ?thesis using Inr v by (simp split: option.split)
  qed
  show ?thesis
    unfolding handleQuery_def Let_def query_def [symmetric]
    by (simp add: empty copy transpiled l answered_cursor answered_handlePgCursorsQuery answered_handlePgStatActivity
        answered_executeQueryDirect answered_batch handleMultiStatementQuery_def split: option.split)
qed

end
