(* ===== verification/Bare_World.thy ===== *)
theory Bare_World
  imports Client_Conn
begin

text \<open>
  A world in which nothing works, and a connection that has just begun: concrete values of the parameters, to be updated
  where an example needs more.
\<close>

definition bare_world :: "golib \<Rightarrow> 'd world" where
  "bare_world lib =
     \<lparr>w_Exec = (\<lambda>d q args. (d, Inl ''unknown'')), w_Query = (\<lambda>d q args. (d, Inl ''unknown'')), w_ctxDone = (\<lambda>d. False),
      w_parseCursor = (\<lambda>q. None), w_parseStatements = (\<lambda>q. None), w_Transpile = (\<lambda>b q. Inl ''syntax error''),
      w_AlterView = (\<lambda>q. None), w_DropView = (\<lambda>q. None), w_listConns = (\<lambda>d. []), w_progressFn = None,
      w_writeErr = ''broken pipe'', w_readErr = ''EOF'', w_readEOF = True, w_CreateTemp = (\<lambda>d. (d, Inl ''no space'')),
      w_WriteFile = (\<lambda>d f b. (d, Some ''no space'')), w_RemoveFile = (\<lambda>d f. d), w_csv = (\<lambda>delim b. ([], ''EOF'')),
      w_append = None, w_upload = None, w_quote = id, w_fold = id, w_lib = lib\<rparr>"

definition no_stmt :: preparedStmt where
  "no_stmt =
     \<lparr>ps_query = [], ps_convertedQuery = [], ps_paramTypes = [], ps_numParams = 0, ps_isIgnoredSet = False,
      ps_isNoOp = False, ps_noOpTag = [], ps_described = False, ps_statements = [], ps_cleanupStatements = [],
      ps_cursorOp = cursorOpNone, ps_cursorName = [], ps_cursorQuery = [], ps_fetchCount = 0\<rparr>"

definition new_conn :: "'d \<Rightarrow> frontend list \<Rightarrow> 'd conn" where
  "new_conn d ms =
     \<lparr>c_stmts = (\<lambda>_. None), c_store = (\<lambda>_. no_stmt), c_fresh = 0, c_portals = (\<lambda>_. None), c_cursors = (\<lambda>_. None),
      c_txStatus = txStatusIdle, c_names = \<lparr>cn_passthrough = True, cn_logicalCatalogMapping = False, cn_database = []\<rparr>,
      c_in = ms, c_out = [], c_limit = None, c_failed = False, c_db = d, c_calls = [], c_panic = False\<rparr>"

lemma new_conn_simps [simp]:
  "c_limit (new_conn d ms) = None" "c_failed (new_conn d ms) = False" "c_out (new_conn d ms) = []" "c_in (new_conn d ms) = ms"
  "c_db (new_conn d ms) = d" "c_txStatus (new_conn d ms) = txStatusIdle" "c_stmts (new_conn d ms) n = None"
  "c_portals (new_conn d ms) n = None"
  by (simp_all add: new_conn_def)

end
