(* ===== verification/Protocol.thy ===== *)
theory Protocol
  imports Protocol_Simple Bare_World
begin

text \<open>
  The protocol of PostgreSQL as a machine, and the connection as an implementation of it: whatever the client sends,
  the connection answers as the machine allows, and the statements and portals it keeps are those of the machine.
\<close>

section \<open>The machine\<close>

text \<open>A prepared statement is its text; a portal is the text of its statement with the values of the parameters, their
  formats and the formats of the results. A portal keeps its statement when the name is given to another.\<close>

record pg_state =
  pg_stmts :: "string \<Rightarrow> string option"
  pg_portals :: "string \<Rightarrow> (string \<times> bytes option list \<times> int list \<times> int list) option"
  pg_tx :: txStatus

definition bind_message :: "bytes \<Rightarrow> (string \<times> string \<times> int list \<times> bytes option list \<times> int list) parsed" where
  "bind_message body =
     bind_parsed (readCString body) (\<lambda>portalName b1.
     bind_parsed (readCString b1) (\<lambda>stmtName b2.
     bind_parsed (bind_rest b2) (\<lambda>(formats, values, results) b3. Parsed (portalName, stmtName, formats, values, results) b3)))"

definition execute_message :: "bytes \<Rightarrow> (string \<times> int) parsed" where
  "execute_message body =
     bind_parsed (readCString body) (\<lambda>portalName b1.
     bind_parsed (read_int32 b1) (\<lambda>maxRows b2. Parsed (portalName, maxRows) b2))"

definition row_answer :: "backend \<Rightarrow> bool" where
  "row_answer m \<longleftrightarrow> m = NoData \<or> (\<exists>fs. m = RowDescription fs) \<or> (\<exists>s d t. m = ErrorResponse s d t)"

text \<open>The answer to a message, and the state after it. Only a query and an execution change the status of the
  transaction; a failed message changes nothing else.\<close>

inductive pg_reply :: "frontend \<Rightarrow> pg_state \<Rightarrow> backend list \<Rightarrow> pg_state \<Rightarrow> bool" where
  query: "batch_answer us \<or> copied_out us \<Longrightarrow>
    pg_reply (MsgQuery, body) s (us @ [ReadyForQuery t]) (s\<lparr>pg_tx := t\<rparr>)"
| parse: "parse_message body = Parsed (name, text, types) rest \<Longrightarrow>
    pg_reply (MsgParse, body) s [ParseComplete] (s\<lparr>pg_stmts := (pg_stmts s)(name \<mapsto> text)\<rparr>)"
| parse_error: "pg_reply (MsgParse, body) s [ErrorResponse sv cd ms] s"
| bind: "bind_message body = Parsed (portal, name, formats, values, results) rest \<Longrightarrow> pg_stmts s name = Some text \<Longrightarrow>
    pg_reply (MsgBind, body) s [BindComplete] (s\<lparr>pg_portals := (pg_portals s)(portal \<mapsto> (text, values, formats, results))\<rparr>)"
| bind_error: "\<forall>portal name formats values results rest.
      bind_message body = Parsed (portal, name, formats, values, results) rest \<longrightarrow> pg_stmts s name = None \<Longrightarrow>
    pg_reply (MsgBind, body) s [ErrorResponse sv cd ms] s"
| describe_statement: "length body \<ge> 2 \<Longrightarrow> hd body = CHR ''S'' \<Longrightarrow> pg_stmts s (trim_nul (tl body)) \<noteq> None \<Longrightarrow> row_answer m \<Longrightarrow>
    pg_reply (MsgDescribe, body) s [ParameterDescription types, m] s"
| describe_portal: "length body \<ge> 2 \<Longrightarrow> hd body = CHR ''P'' \<Longrightarrow> row_answer m \<Longrightarrow> pg_reply (MsgDescribe, body) s [m] s"
| describe_error: "length body \<ge> 2 \<and> hd body = CHR ''S'' \<longrightarrow> pg_stmts s (trim_nul (tl body)) = None \<Longrightarrow>
    pg_reply (MsgDescribe, body) s [ErrorResponse sv cd ms] s"
| execute: "execute_message body = Parsed (portal, maxRows) rest \<Longrightarrow> pg_portals s portal \<noteq> None \<Longrightarrow> succeeded us \<or> failed us \<Longrightarrow>
    pg_reply (MsgExecute, body) s us (s\<lparr>pg_tx := t\<rparr>)"
| execute_error: "\<forall>portal maxRows rest. execute_message body = Parsed (portal, maxRows) rest \<longrightarrow> pg_portals s portal = None \<Longrightarrow>
    pg_reply (MsgExecute, body) s [ErrorResponse sv cd ms] s"
| close: "length body \<ge> 2 \<Longrightarrow>
    s' = (if hd body = CHR ''S'' then s\<lparr>pg_stmts := (pg_stmts s)(trim_nul (tl body) := None)\<rparr>
          else if hd body = CHR ''P'' then s\<lparr>pg_portals := (pg_portals s)(trim_nul (tl body) := None)\<rparr> else s) \<Longrightarrow>
    pg_reply (MsgClose, body) s [CloseComplete] s'"
| close_error: "length body < 2 \<Longrightarrow> pg_reply (MsgClose, body) s [ErrorResponse sv cd ms] s"
| sync: "pg_reply (MsgSync, body) s [ReadyForQuery (pg_tx s)] s"
| ignored: "t \<notin> {MsgQuery, MsgParse, MsgBind, MsgDescribe, MsgExecute, MsgSync, MsgClose, MsgTerminate} \<Longrightarrow> pg_reply (t, body) s [] s"

text \<open>A step reads one message, or a query that copies from the client with the data of the client.\<close>

inductive pg_step :: "frontend list \<Rightarrow> pg_state \<Rightarrow> backend list \<Rightarrow> pg_state \<Rightarrow> frontend list \<Rightarrow> bool" where
  reply: "pg_reply m s out s' \<Longrightarrow> pg_step (m # ms) s out s' ms"
| copy_in: "copy_dialog used rest t out \<Longrightarrow>
    pg_step ((MsgQuery, body) # used @ rest) s (CopyInResponse n b # out) (s\<lparr>pg_tx := t\<rparr>) rest"

inductive pg_run :: "frontend list \<Rightarrow> pg_state \<Rightarrow> backend list \<Rightarrow> pg_state \<Rightarrow> bool" where
  run_end: "pg_run [] s [] s"
| run_leave: "pg_run ((MsgTerminate, body) # ms) s [] s"
| run_step: "pg_step ms s out s1 ms1 \<Longrightarrow> pg_run ms1 s1 outs s2 \<Longrightarrow> pg_run ms s (out @ outs) s2"

section \<open>The state of a connection\<close>

definition abs_conn :: "'d conn \<Rightarrow> pg_state" where
  "abs_conn c =
     \<lparr>pg_stmts = (\<lambda>n. map_option (\<lambda>a. ps_query (c_store c a)) (c_stmts c n)),
      pg_portals = (\<lambda>n. map_option (\<lambda>p. (ps_query (c_store c (po_stmt p)), po_paramValues p, po_paramFormats p, po_resultFormats p))
        (c_portals c n)),
      pg_tx = c_txStatus c\<rparr>"

definition wf_conn :: "'d conn \<Rightarrow> bool" where
  "wf_conn c \<longleftrightarrow>
     (\<forall>n a. c_stmts c n = Some a \<longrightarrow> a < c_fresh c) \<and> (\<forall>n p. c_portals c n = Some p \<longrightarrow> po_stmt p < c_fresh c)"

text \<open>What a handler leaves alone, beside what it writes.\<close>

definition serves :: "'d conn \<Rightarrow> backend list \<Rightarrow> 'd conn \<Rightarrow> bool" where
  "serves c out c' \<longleftrightarrow>
     c_out c' = c_out c @ out \<and> c_limit c' = c_limit c \<and> c_failed c' = c_failed c \<and> c_in c' = c_in c \<and> (wf_conn c \<longrightarrow> wf_conn c')"

text \<open>A step that keeps the status of the transaction too.\<close>

definition tells :: "'d conn \<Rightarrow> backend list \<Rightarrow> 'd conn \<Rightarrow> bool" where
  "tells c ms c' \<longleftrightarrow> says c ms c' \<and> c_txStatus c' = c_txStatus c"

lemma serves_says: "says c ms c' \<Longrightarrow> serves c ms c'"
  by (simp add: serves_def says_def wf_conn_def)

lemma abs_says: "says c ms c' \<Longrightarrow> abs_conn c' = (abs_conn c)\<lparr>pg_tx := c_txStatus c'\<rparr>"
  by (simp add: abs_conn_def says_def)

lemma serves_tells: "tells c ms c' \<Longrightarrow> serves c ms c' \<and> abs_conn c' = abs_conn c"
  by (auto simp: tells_def serves_says) (simp add: abs_conn_def says_def)

lemma tells_refl: "tells c [] c"
  by (simp add: tells_def)

lemma tells_quiet: "tells c [] c1 \<Longrightarrow> tells c1 ms c2 \<Longrightarrow> tells c ms c2"
  unfolding tells_def using says_quiet by metis

lemma tells_after: "tells c [m] c1 \<Longrightarrow> tells c1 [m'] c2 \<Longrightarrow> tells c [m, m'] c2"
  unfolding tells_def using says_trans by fastforce

lemma tells_put: "c_limit c = None \<Longrightarrow> tells c [m] (put m c)"
  by (simp add: tells_def says_put)

lemma tells_error: "c_limit c = None \<Longrightarrow> tells c [ErrorResponse s d t] (sendError s d t c)"
  by (simp add: sendError_def tells_put)

lemma tells_exec: "exec w q a c = (c', r) \<Longrightarrow> tells c [] c'"
  by (auto simp: tells_def says_exec) (auto simp: exec_def split: prod.splits)

lemma tells_run_query: "run_query w q a c = (c', r) \<Longrightarrow> tells c [] c'"
  by (auto simp: tells_def says_run_query) (auto simp: run_query_def split: prod.splits)

lemma tells_row_description:
  "sendRowDescriptionWithFormats cols types f c = (c', ok) \<Longrightarrow> c_limit c = None \<Longrightarrow> c_panic c' \<or> (\<exists>fs. tells c [RowDescription fs] c')"
  by (auto simp: sendRowDescriptionWithFormats_def panic_def emit_open split: if_splits intro: tells_put)

lemma tells_validate: "validateWithDuckDB w query c = (c', e) \<Longrightarrow> tells c [] c'"
  unfolding validateWithDuckDB_def by (auto split: if_splits prod.splits sum.splits dest: tells_exec simp: tells_refl)

lemma limit_tells: "tells c ms c' \<Longrightarrow> c_limit c' = c_limit c"
  by (simp add: tells_def says_def)

section \<open>The handlers\<close>

definition replies :: "frontend \<Rightarrow> 'd conn \<Rightarrow> 'd conn \<Rightarrow> bool" where
  "replies m c c' \<longleftrightarrow> c_panic c' \<or> (\<exists>out. serves c out c' \<and> pg_reply m (abs_conn c) out (abs_conn c'))"

lemma replies_tells: "tells c out c' \<Longrightarrow> pg_reply m (abs_conn c) out (abs_conn c) \<Longrightarrow> replies m c c'"
  unfolding replies_def using serves_tells by metis

text \<open>Parse.\<close>

lemma replies_store:
  assumes "parse_message body = Parsed (name, text, types) rest" "tells c [] c1" "c_limit c = None" "ps_query ps = text" "wf_conn c"
  shows "replies (MsgParse, body) c (store_stmt name ps c1)"
proof -
  have c1: "c_limit c1 = None" "c_stmts c1 = c_stmts c" "c_store c1 = c_store c" "c_portals c1 = c_portals c" "c_fresh c1 = c_fresh c"
    "c_txStatus c1 = c_txStatus c" "c_out c1 = c_out c" "c_failed c1 = c_failed c" "c_in c1 = c_in c"
    using assms(2,3) by (auto simp: tells_def says_def)
  have fresh: "po_stmt p \<noteq> c_fresh c" if "c_portals c n = Some p" for n p using assms(5) that unfolding wf_conn_def by fastforce
  have old: "a \<noteq> c_fresh c" if "c_stmts c n = Some a" for n a using assms(5) that unfolding wf_conn_def by fastforce
  have "abs_conn (store_stmt name ps c1) = (abs_conn c)\<lparr>pg_stmts := (pg_stmts (abs_conn c))(name \<mapsto> text)\<rparr>"
    using c1 assms(4) fresh old
    by (auto simp: abs_conn_def store_stmt_def put_def emit_def fun_eq_iff intro!: option.map_cong0 split: option.splits)
  moreover have "serves c [ParseComplete] (store_stmt name ps c1)"
    using c1 assms(3) by (auto simp: serves_def store_stmt_def put_def emit_def wf_conn_def less_Suc_eq)
  ultimately show ?thesis using parse [OF assms(1)] unfolding replies_def by metis
qed

lemma replies_parse_error:
  assumes "tells c [] c1" "c_limit c = None"
  shows "replies (MsgParse, body) c (sendError s d t c1)"
  using replies_tells [OF tells_quiet [OF assms(1) tells_error] parse_error] limit_tells [OF assms(1)] assms(2) by simp

lemma replies_handleParse:
  assumes l: "c_limit c = None" and wf: "wf_conn c"
  shows "replies (MsgParse, body) c (handleParse w body c)"
proof (cases "parse_message body")
  case Malformed
  then show ?thesis using replies_parse_error [OF tells_refl l] by (simp add: handleParse_def)
next
  case Panics
  then show ?thesis by (simp add: handleParse_def replies_def panic_def)
next
  case (Parsed x rest)
  obtain name query types where x: "x = (name, query, types)" using prod_cases3 by blast
  note p = Parsed [unfolded x]
  have store: "replies (MsgParse, body) c (store_stmt name ps c1)" if "tells c [] c1" "ps_query ps = query" for ps c1
    by (rule replies_store [OF p that(1) l that(2) wf])
  have err: "replies (MsgParse, body) c (sendError s d t c1)" if "tells c [] c1" for s d t c1
    by (rule replies_parse_error [OF that l])
  have transpiled: "replies (MsgParse, body) c (parse_transpiled w name query types result c)" for result
  proof -
    obtain c1 e where v: "(if tr_FallbackToNative result then validateWithDuckDB w query c else (c, None)) = (c1, e)" by fastforce
    have t: "tells c [] c1" using v tells_validate tells_refl by (auto split: if_splits)
    show ?thesis
      unfolding parse_transpiled_def v
      by (auto simp: syntax_error_def plain_stmt_def store [OF t] err [OF t] err [OF tells_refl] split: option.split)
  qed
  have cursor: "replies (MsgParse, body) c (parse_cursor w name query stmt c)" for stmt
    using store [OF tells_refl] err [OF tells_refl] by (auto simp: parse_cursor_def plain_stmt_def split: cursor_stmt.split)
  show ?thesis
    using p store [OF tells_refl] err [OF tells_refl] transpiled cursor
    by (auto simp: handleParse_def parse_statement_def syntax_error_def plain_stmt_def split: option.split sum.split)
qed

text \<open>Bind.\<close>

lemma bind_message_eq:
  "bind_message body =
     (case bind_parsed (readCString body) (\<lambda>portalName b1.
             bind_parsed (readCString b1) (\<lambda>stmtName b2. Parsed (portalName, stmtName) b2)) of
        Malformed \<Rightarrow> Malformed
      | Panics \<Rightarrow> Panics
      | Parsed (portalName, stmtName) rest \<Rightarrow>
          bind_parsed (bind_rest rest) (\<lambda>(formats, values, results) b3. Parsed (portalName, stmtName, formats, values, results) b3))"
  by (simp add: bind_message_def bind_parsed_def split: parsed.split)

lemma replies_handleBind:
  assumes l: "c_limit c = None"
  shows "replies (MsgBind, body) c (handleBind w body c)"
proof -
  define h where "h = bind_parsed (readCString body) (\<lambda>portalName b1.
             bind_parsed (readCString b1) (\<lambda>stmtName b2. Parsed (portalName, stmtName) b2))"
  note eq = bind_message_eq [of body, folded h_def]
  have err: "replies (MsgBind, body) c (sendError s d t c)"
    if "\<forall>portal name formats values results rest.
      bind_message body = Parsed (portal, name, formats, values, results) rest \<longrightarrow> pg_stmts (abs_conn c) name = None" for s d t
    by (rule replies_tells [OF tells_error [OF l] bind_error [OF that]])
  show ?thesis
  proof (cases h)
    case Malformed
    then show ?thesis using err eq by (simp add: handleBind_def h_def [symmetric])
  next
    case Panics
    then show ?thesis by (simp add: handleBind_def h_def [symmetric] replies_def panic_def)
  next
    case (Parsed x rest)
    obtain portal name where x: "x = (portal, name)" by fastforce
    show ?thesis
    proof (cases "c_stmts c name")
      case None
      have "replies (MsgBind, body) c (sendError s d t c)" for s d t
        by (rule err) (auto simp: eq Parsed x None abs_conn_def bind_parsed_def split: parsed.splits)
      then show ?thesis using Parsed x None by (simp add: handleBind_def h_def [symmetric])
    next
      case (Some a)
      show ?thesis
      proof (cases "bind_rest rest")
        case Malformed
        have "replies (MsgBind, body) c (sendError s d t c)" for s d t
          by (rule err) (simp add: eq Parsed x Malformed bind_parsed_def)
        then show ?thesis using Parsed x Some Malformed by (simp add: handleBind_def h_def [symmetric])
      next
        case Panics
        then show ?thesis using Parsed x Some by (simp add: handleBind_def h_def [symmetric] replies_def panic_def)
      next
        case r: (Parsed y rest')
        obtain formats vals results where y: "y = (formats, vals, results)" using prod_cases3 by blast
        have b: "bind_message body = Parsed (portal, name, formats, vals, results) rest'"
          by (simp add: eq Parsed x r y bind_parsed_def)
        define c' where "c' = handleBind w body c"
        have c': "c' = put BindComplete (c\<lparr>c_portals := (c_portals c)(portal \<mapsto>
            \<lparr>po_stmt = a, po_paramValues = vals, po_paramFormats = formats, po_resultFormats = results,
             po_described = ps_described (c_store c a)\<rparr>)\<rparr>)"
          using Parsed x Some r y by (simp add: c'_def handleBind_def h_def [symmetric])
        have "abs_conn c' = (abs_conn c)\<lparr>pg_portals := (pg_portals (abs_conn c))(portal \<mapsto> (ps_query (c_store c a), vals, formats, results))\<rparr>"
          by (auto simp: c' abs_conn_def put_def emit_def fun_eq_iff l)
        moreover have "serves c [BindComplete] c'"
          using Some by (auto simp: c' serves_def put_def emit_def wf_conn_def l)
        moreover have "pg_stmts (abs_conn c) name = Some (ps_query (c_store c a))" by (simp add: abs_conn_def Some)
        ultimately have "replies (MsgBind, body) c c'" using bind [OF b] unfolding replies_def by metis
        then show ?thesis by (simp add: c'_def)
      qed
    qed
  qed
qed

text \<open>Close.\<close>

lemma replies_handleClose:
  assumes l: "c_limit c = None"
  shows "replies (MsgClose, body) c (handleClose body c)"
proof (cases "length body < 2")
  case True
  then show ?thesis using replies_tells [OF tells_error [OF l] close_error] by (simp add: handleClose_def)
next
  case False
  define c' where "c' = handleClose body c"
  have "serves c [CloseComplete] c'"
    using False by (auto simp: c'_def handleClose_def serves_def put_def emit_def wf_conn_def l Let_def)
  moreover have "abs_conn c' = (if hd body = CHR ''S'' then (abs_conn c)\<lparr>pg_stmts := (pg_stmts (abs_conn c))(trim_nul (tl body) := None)\<rparr>
      else if hd body = CHR ''P'' then (abs_conn c)\<lparr>pg_portals := (pg_portals (abs_conn c))(trim_nul (tl body) := None)\<rparr> else abs_conn c)"
    using False by (auto simp: c'_def handleClose_def abs_conn_def put_def emit_def l Let_def fun_eq_iff)
  ultimately show ?thesis using close [of body] False unfolding replies_def c'_def by (metis not_less)
qed

text \<open>Describe.\<close>

definition described :: "'d conn \<Rightarrow> 'd conn \<Rightarrow> bool" where
  "described c c' \<longleftrightarrow> c_panic c' \<or> (\<exists>m. tells c [m] c' \<and> row_answer m)"

lemma described_put: "tells c [] c1 \<Longrightarrow> c_limit c = None \<Longrightarrow> row_answer m \<Longrightarrow> described c (put m c1)"
  unfolding described_def using tells_quiet [OF _ tells_put] limit_tells by metis

lemma row_answers [simp]: "row_answer NoData" "row_answer (RowDescription fs)" "row_answer (ErrorResponse s d t)"
  by (auto simp: row_answer_def)

lemma described_error: "c_limit c = None \<Longrightarrow> described c (sendError s d t c)"
  unfolding sendError_def by (rule described_put [OF tells_refl]) simp_all

lemma described_row_description:
  assumes "tells c [] c1" "c_limit c = None"
  shows "described c (fst (sendRowDescriptionWithFormats cols types f c1))"
  using tells_row_description [of cols types f c1] limit_tells [OF assms(1)] assms(2) tells_quiet [OF assms(1)]
  unfolding described_def by (metis prod.collapse row_answers(2))

lemma tells_getCursorSchema: "getCursorSchema w name c = (c', r) \<Longrightarrow> tells c [] c'"
  by (auto simp: tells_def says_getCursorSchema)
    (auto simp: getCursorSchema_def openCursor_def run_query_def split: option.splits prod.splits sum.splits if_splits)

lemma described_fetch:
  assumes l: "c_limit c = None"
  shows "described c (fst (describe_fetch w ps f c))"
proof -
  obtain c1 r where g: "getCursorSchema w (ps_cursorName ps) c = (c1, r)" by fastforce
  note t = tells_getCursorSchema [OF g]
  show ?thesis
    using g described_put [OF t l, of NoData] described_row_description [OF t l]
    by (auto simp: describe_fetch_def split: sum.split)
qed

lemma described_rows:
  assumes l: "c_limit c = None"
  shows "described c (fst (describe_rows w ps args f c))"
proof -
  have no: "described c (put NoData c)" by (rule described_put [OF tells_refl l]) simp
  show ?thesis
  proof (cases args)
    case (Inl err)
    then show ?thesis using no described_error [OF l] by (simp add: describe_rows_def params_error_def)
  next
    case (Inr vs)
    obtain c1 r where g: "run_query w (describe_query (ps_convertedQuery ps)) vs c = (c1, r)" by fastforce
    note t = tells_run_query [OF g]
    show ?thesis
      using no Inr g described_error [OF l] described_put [OF t l, of NoData] described_row_description [OF t l]
      by (auto simp: describe_rows_def split: sum.split)
  qed
qed

lemma described_stmt:
  assumes l: "c_limit c = None"
  shows "described c (fst (describe_stmt w ps args f c))"
proof -
  have no: "described c (put NoData c)" by (rule described_put [OF tells_refl l]) simp
  have "described c (fst (sendPgCursorsRowDescriptionWithFormats f c))" "described c (fst (sendPgStatActivityRowDescriptionWithFormats f c))"
    by (simp_all add: sendPgCursorsRowDescriptionWithFormats_def sendPgStatActivityRowDescriptionWithFormats_def emit_open [OF l]
        described_put [OF tells_refl l])
  then show ?thesis
    using no described_fetch [OF l] described_rows [OF l] by (simp add: describe_stmt_def split: cursorOp.split)
qed

lemma marked:
  "serves c out c1 \<Longrightarrow> serves c out (mark_stmt a c1)" "abs_conn (mark_stmt a c1) = abs_conn c1"
  by (auto simp: serves_def mark_stmt_def wf_conn_def abs_conn_def fun_eq_iff intro!: option.map_cong0)

lemma marked_portal:
  assumes "c_portals c1 name = Some p"
  shows "serves c out c1 \<Longrightarrow> serves c out (mark_portal name p c1)" "abs_conn (mark_portal name p c1) = abs_conn c1"
    "c_panic (mark_portal name p c1) = c_panic c1"
  using assms by (auto simp: serves_def mark_portal_def wf_conn_def abs_conn_def fun_eq_iff)

lemma panic_mark_stmt: "c_panic (mark_stmt a c) = c_panic c"
  by (simp add: mark_stmt_def)

lemma replies_described:
  assumes "described c c1" "\<And>m. row_answer m \<Longrightarrow> pg_reply msg (abs_conn c) [m] (abs_conn c)"
  shows "replies msg c c1"
  using assms replies_tells unfolding described_def replies_def by metis

lemma replies_mark: "replies m c c1 \<Longrightarrow> replies m c (mark_stmt a c1)"
  unfolding replies_def using marked panic_mark_stmt by metis

lemma replies_mark_portal: "replies m c c1 \<Longrightarrow> c_portals c1 name = Some p \<Longrightarrow> replies m c (mark_portal name p c1)"
  unfolding replies_def using marked_portal by metis

lemma replies_describe_S:
  assumes l: "c_limit c = None" and b: "length body \<ge> 2" "hd body = CHR ''S''"
  shows "replies (MsgDescribe, body) c (describe_S w (trim_nul (tl body)) c)"
proof (cases "c_stmts c (trim_nul (tl body))")
  case None
  then have "pg_stmts (abs_conn c) (trim_nul (tl body)) = None" by (simp add: abs_conn_def)
  then show ?thesis
    using None replies_tells [OF tells_error [OF l] describe_error] by (simp add: describe_S_def)
next
  case (Some a)
  define ps where "ps = c_store c a"
  define c1 where "c1 = sendParameterDescription (parameter_types ps) c"
  obtain c2 d where r: "describe_stmt w ps (Inr (replicate (nat (ps_numParams ps)) VNil)) [] c1 = (c2, d)" by fastforce
  obtain ts where t: "tells c [ParameterDescription ts] c1"
    unfolding c1_def sendParameterDescription_def using tells_put [OF l] by blast
  have l1: "c_limit c1 = None" using limit_tells [OF t] l by simp
  have "described c1 c2" using described_stmt [OF l1] r by (metis fst_conv)
  moreover have "pg_stmts (abs_conn c) (trim_nul (tl body)) \<noteq> None" by (simp add: abs_conn_def Some)
  ultimately have "replies (MsgDescribe, body) c c2"
    using replies_tells [OF tells_after [OF t] describe_statement [OF b]] unfolding described_def by (auto simp: replies_def)
  from this replies_mark [OF this] show ?thesis
    using r Some by (simp add: describe_S_def ps_def [symmetric] c1_def [symmetric] Let_def)
qed

lemma replies_describe_P:
  assumes l: "c_limit c = None" and b: "length body \<ge> 2" "hd body = CHR ''P''"
  shows "replies (MsgDescribe, body) c (describe_P w (trim_nul (tl body)) c)"
proof -
  define name where "name = trim_nul (tl body)"
  have row: "replies (MsgDescribe, body) c c1" if "described c c1" for c1
    by (rule replies_described [OF that describe_portal [OF b]])
  show ?thesis
  proof (cases "c_portals c name")
    case None
    obtain c1 r where g: "getCursorSchema w name c = (c1, r)" by fastforce
    note t = tells_getCursorSchema [OF g]
    show ?thesis
      using None g row [OF described_error [OF l]] row [OF described_put [OF t l]] row [OF described_row_description [OF t l]]
      by (auto simp: describe_P_def name_def [symmetric] sendRowDescription_def split: sum.split)
  next
    case (Some p)
    define ps where "ps = c_store c (po_stmt p)"
    obtain c1 d where r: "describe_stmt w ps (decodeParams ps p) (po_resultFormats p) c = (c1, d)" by fastforce
    have desc: "described c c1" using described_stmt [OF l] r by (metis fst_conv)
    have "replies (MsgDescribe, body) c (mark_portal name p c1)"
    proof (cases "c_panic c1")
      case True
      then show ?thesis by (simp add: replies_def mark_portal_def)
    next
      case False
      then have "c_portals c1 name = Some p" using desc Some by (auto simp: described_def tells_def says_def)
      then show ?thesis by (rule replies_mark_portal [OF row [OF desc]])
    qed
    from this replies_mark [OF this] show ?thesis
      using r Some row [OF desc] by (simp add: describe_P_def name_def [symmetric] ps_def [symmetric] Let_def)
  qed
qed

lemma replies_handleDescribe:
  assumes l: "c_limit c = None"
  shows "replies (MsgDescribe, body) c (handleDescribe w body c)"
proof (cases "length body \<ge> 2 \<and> hd body \<in> {CHR ''S'', CHR ''P''}")
  case True
  then show ?thesis
    using replies_describe_S [OF l] replies_describe_P [OF l] by (auto simp: handleDescribe_def Let_def)
next
  case False
  then have "replies (MsgDescribe, body) c (sendError s d t c)" for s d t
    by (intro replies_tells [OF tells_error [OF l] describe_error]) auto
  then show ?thesis using False by (auto simp: handleDescribe_def Let_def)
qed

text \<open>Execute.\<close>

definition executed :: "'d conn \<Rightarrow> 'd conn \<Rightarrow> bool" where
  "executed c c' \<longleftrightarrow> c_panic c' \<or> (\<exists>ms. says c ms c' \<and> (succeeded ms \<or> failed ms))"

lemma executed_tag: "says c [] c1 \<Longrightarrow> c_limit c = None \<Longrightarrow> executed c (put (CommandComplete t) c1)"
  unfolding executed_def using says_quiet [OF _ says_put] limit_says succeeded_tag by metis

lemma executed_error: "says c [] c1 \<Longrightarrow> c_limit c = None \<Longrightarrow> executed c (sendError s d t c1)"
  unfolding executed_def using says_quiet [OF _ says_error] limit_says failed_error by metis

lemma executed_quiet: "says c [] c1 \<Longrightarrow> executed c1 c2 \<Longrightarrow> executed c c2"
  unfolding executed_def using says_quiet by metis

lemma executed_stmt: "stmt_answered c (c1, e, x) \<Longrightarrow> executed c c1"
  unfolding stmt_answered_def executed_def by (auto split: if_splits)

lemma executed_answers: "answers c c1 succeeded \<Longrightarrow> executed c c1"
  unfolding answers_def executed_def by blast

lemma executed_says: "says c ms c1 \<Longrightarrow> succeeded ms \<or> failed ms \<Longrightarrow> executed c c1"
  unfolding executed_def by blast

lemma executed_portal_rows:
  assumes l: "c_limit c = None" and fin: "\<And>x. says x [] (finish x)"
  shows "executed c (portal_rows w cols types rs f dsc maxRows finish t c)"
proof (cases "length types > length cols")
  case True
  then show ?thesis by (simp add: portal_rows_def executed_def panic_def)
next
  case False
  obtain c1 ok where h: "(if \<not> dsc \<and> cols \<noteq> [] then sendRowDescriptionWithFormats cols types f c else (c, True)) = (c1, ok)" by fastforce
  obtain c2 n rest e where sr: "send_rows (w_lib w) f (padded_oids cols types) (if maxRows > 0 then Some maxRows else None) 0 (rs_rows rs) c1
      = (c2, n, rest, e)" using prod_cases4 by blast
  consider "\<not> ok" "c_panic c1" | "ok" "e = WriteError" "c_panic c2"
    | hd' rows where "ok" "e \<noteq> WriteError" "says c (hd' @ rows) c2" "row_header hd'" "data_rows rows" "n = int (length rows)"
    using header_and_rows [OF h l sr] by blast
  then show ?thesis
  proof cases
    case 3
    note tail = 3(3) l 3(4,5)
    have "executed c (internal_error x c2)" "executed c (cursor_error w x c2)" for x
      using rows_end_error [OF tail] executed_says by metis+
    moreover have "executed c (put (CommandComplete (buildCommandTagFromRowCount t n)) (finish c2))"
      using rows_end_tag [OF tail _ fin, of "buildCommandTagFromRowCount t n"] suffix_tags(1) [of n t] 3(6) executed_says by metis
    ultimately show ?thesis
      unfolding portal_rows_def h using False sr 3(1,2) by (cases e) (auto split: option.split)
  qed (use False sr in \<open>auto simp: portal_rows_def h executed_def\<close>)
qed

lemma executed_stream:
  assumes l: "c_limit c = None"
  shows "executed c (streamRowsToClientExtended w rs t f dsc c)"
proof -
  have "executed c (internal_error err c)" for err
    using executed_says [OF says_internal_error [OF l]] failed_error by blast
  then show ?thesis
    using executed_portal_rows [OF l, of id] by (auto simp: streamRowsToClientExtended_def split: sum.split)
qed

lemma executed_multi:
  assumes l: "c_limit c = None"
  shows "executed c (executeMultiStatementExtended w ss cl args f dsc c)"
proof (cases "ss = []")
  case True
  then show ?thesis
    using executed_says [OF says_put [OF l]] succeeded_empty by (auto simp: executeMultiStatementExtended_def)
next
  case False
  obtain st cu where u: "unwrapped (c_txStatus c) ss cl = (st, cu)" by fastforce
  obtain c1 r1 where r1: "run_setup w args (butlast st) c = (c1, r1)" by fastforce
  have s1: "says c [] c1" using quiet_run_setup [OF r1] .
  have fail: "executed c (sequence_error w cu err c2)" if "says c [] c2" for c2 err
    using executed_says [OF says_quiet [OF that says_sequence_error]] failed_error limit_says [OF that] l by metis
  obtain c2 r2 where r2: "run_query w (last st) args c1 = (c2, r2)" by fastforce
  obtain c3 r3 where r3: "exec w (last st) args c1 = (c3, r3)" by fastforce
  have s2: "says c [] c2" "says c [] c3" using says_quiet [OF s1] says_run_query [OF r2] says_exec [OF r3] by blast+
  have clean: "says c [] (executeCleanup w cu x)" if "says c [] x" for x using says_quiet [OF that says_executeCleanup] .
  have rows: "executed c (streamRowsToClientExtended w rs t f dsc (executeCleanup w cu c2))" for rs t
    using executed_quiet [OF clean [OF s2(1)] executed_stream] limit_says [OF clean [OF s2(1)]] l by simp
  show ?thesis
    using False u r1 r2 r3 fail [OF s1] fail [OF s2(1)] fail [OF s2(2)] executed_tag [OF clean [OF s2(2)] l] rows
    by (cases r1; cases r2; cases r3) (auto simp: executeMultiStatementExtended_def Let_def)
qed

lemma executed_declare:
  assumes l: "c_limit c = None"
  shows "executed c (handleDeclareCursorExtended ps c)"
  using executed_tag [OF says_quiet [OF says_closeCursor(1) says_cursors] l] by (simp add: handleDeclareCursorExtended_def Let_def)

lemma head_written:
  assumes "(if b then sendRowDescriptionWithFormats cols types f c else (c, True)) = (c1, ok)" "c_limit c = None"
  shows "\<not> ok \<and> c_panic c1 \<or> ok \<and> (\<exists>h. says c h c1 \<and> row_header h)"
proof (cases b)
  case True
  then have "sendRowDescriptionWithFormats cols types f c = (c1, ok)" using assms(1) by simp
  from says_row_description [OF this assms(2)] show ?thesis using row_header_simps(2) by blast
next
  case False
  then show ?thesis using assms(1) by (auto intro: exI [of _ "[]"])
qed

lemma executed_fetch:
  assumes l: "c_limit c = None"
  shows "executed c (handleFetchCursorExtended w ps p c)"
proof (cases "c_cursors c (ps_cursorName ps)")
  case None
  then show ?thesis using executed_error [OF says_refl l] by (simp add: handleFetchCursorExtended_def)
next
  case (Some cu)
  obtain c1 r1 where r1: "openCursor w (ps_cursorName ps) cu c = (c1, r1)" by fastforce
  have s1: "says c [] c1" using says_openCursor [OF r1] .
  have l1: "c_limit c1 = None" using limit_says [OF s1] l by simp
  show ?thesis
  proof (cases r1)
    case (Inl err)
    have "executed c1 (cursor_error w err c1)" using says_cursor_error [OF l1] executed_says failed_error by metis
    then show ?thesis using Some r1 Inl executed_quiet [OF s1] by (simp add: handleFetchCursorExtended_def)
  next
    case (Inr rs)
    obtain c2 ok where h: "(if \<not> po_described p \<and> projr (rs_Columns rs) \<noteq> []
        then sendRowDescriptionWithFormats (projr (rs_Columns rs)) (projr (rs_ColumnTypes rs)) (po_resultFormats p) c1
        else (c1, True)) = (c2, ok)" by fastforce
    obtain c3 r3 where f: "fetch_rows w (ps_cursorName ps) cu rs (po_resultFormats p) (ps_fetchCount ps) c2 = (c3, r3)" by fastforce
    have head: "\<not> ok \<and> c_panic c2 \<or> ok \<and> (\<exists>h. says c1 h c2 \<and> row_header h)"
      by (rule head_written [OF h l1])
    have "executed c1 (if ok then case r3 of Fetched n \<Rightarrow> put (CommandComplete (''FETCH '' @ itoa n)) c3 | _ \<Rightarrow> c3 else c2)"
    proof (cases ok)
      case False
      then show ?thesis using head by (simp add: executed_def)
    next
      case True
      then obtain hs where hs: "says c1 hs c2" "row_header hs" using head by blast
      consider "r3 = FetchBroken" "c_panic c3" | ms where "r3 = FetchFailed" "says c1 ms c3" "failed ms"
        | rows where "r3 = Fetched (int (length rows))" "says c1 (hs @ rows) c3" "data_rows rows"
        using says_fetch_rows [OF f hs l1] by blast
      then show ?thesis
      proof cases
        case 3
        then show ?thesis
          using rows_end_tag [OF 3(2) l1 hs(2) 3(3) suffix_tags(2) says_refl] True executed_says by fastforce
      qed (use True in \<open>auto simp: executed_def\<close>)
    qed
    then show ?thesis
      using Some r1 Inr h f executed_quiet [OF s1] by (cases ok; cases r3) (simp_all add: handleFetchCursorExtended_def)
  qed
qed

lemma executed_cursors:
  assumes l: "c_limit c = None"
  shows "executed c (handlePgCursorsQueryExtended w ps p c)"
proof -
  define c1 where "c1 = (if ps_described ps then c else fst (sendPgCursorsRowDescriptionWithFormats (po_resultFormats p) c))"
  obtain h where h: "says c h c1" "row_header h"
    using says_cursors_header [OF l, of "po_resultFormats p"] row_header_simps says_refl [of c] unfolding c1_def by metis
  show ?thesis
    using executed_answers [OF answers_cursor_row(1) [OF h l]] executed_answers [OF answers_cursor_row(2) [OF h l]]
    by (simp add: handlePgCursorsQueryExtended_def c1_def [symmetric] Let_def)
qed

lemma executed_activity:
  assumes l: "c_limit c = None"
  shows "executed c (handlePgStatActivityExtended w ps p c)"
proof -
  define c1 where "c1 = (if ps_described ps \<or> po_described p then c else fst (sendPgStatActivityRowDescriptionWithFormats (po_resultFormats p) c))"
  obtain h where h: "says c h c1" "row_header h"
    using says_activity_header [OF l, of "po_resultFormats p"] row_header_simps says_refl [of c] unfolding c1_def by metis
  show ?thesis
    using executed_answers [OF answers_batch_activity [OF h l]] by (simp add: handlePgStatActivityExtended_def c1_def [symmetric])
qed

lemma executed_statement:
  assumes l: "c_limit c = None"
  shows "executed c (execute_statement w ps p maxRows args c)"
proof -
  define t where "t = getCommandType (to_upper (TrimSpace (ps_query ps)))"
  obtain c0 e0 where r0: "exec_command w (run_exec w (ps_convertedQuery ps) args) t c = (c0, e0)" by fastforce
  have command: "executed c c0" using says_exec_command [OF quiet_run_exec l r0] executed_says by (auto split: if_splits)
  obtain c1 r1 where r1: "recovering w (run_query w (ps_convertedQuery ps) args) c = (c1, r1)" by fastforce
  have s1: "says c [] c1" using quiet_recovering [OF quiet_run_query] r1 by (rule quiet_runD)
  have l1: "c_limit c1 = None" using limit_says [OF s1] l by simp
  have err: "executed c (statement_error w e c1)" "executed c (internal_error e c1)" for e
    using says_statement_error [OF l1] says_internal_error [OF l1] executed_says [OF says_quiet [OF s1]] failed_error by metis+
  have rows: "executed c (portal_rows w cols types rs f dsc maxRows (updateTxStatus t) t c1)" for cols types rs f dsc
    by (rule executed_quiet [OF s1 executed_portal_rows [OF l1 says_updateTxStatus]])
  show ?thesis
    using executed_tag [OF says_refl l] executed_multi [OF l] command r0 r1 err rows
    by (auto simp: execute_statement_def Let_def t_def [symmetric] split: sum.split)
qed

lemma executed_portal:
  assumes l: "c_limit c = None"
  shows "executed c (execute_portal w ps p maxRows c)"
proof -
  have "executed c (fst (close_cursor w name c))" for name
    using stmt_answered_close [OF l] executed_stmt by (metis prod.collapse)
  moreover have "executed c (put EmptyQueryResponse c)" using executed_says [OF says_put [OF l]] succeeded_empty by blast
  ultimately show ?thesis
    using executed_declare [OF l] executed_fetch [OF l] executed_cursors [OF l] executed_activity [OF l]
      executed_statement [OF l] executed_error [OF says_refl l]
    by (auto simp: execute_portal_def params_error_def split: cursorOp.split sum.split)
qed

lemma replies_handleExecute:
  assumes l: "c_limit c = None"
  shows "replies (MsgExecute, body) c (handleExecute w body c)"
proof -
  have err: "replies (MsgExecute, body) c (sendError s d t c)"
    if "\<forall>portal maxRows rest. execute_message body = Parsed (portal, maxRows) rest \<longrightarrow> pg_portals (abs_conn c) portal = None" for s d t
    by (rule replies_tells [OF tells_error [OF l] execute_error [OF that]])
  show ?thesis
  proof (cases "\<exists>portal maxRows rest. execute_message body = Parsed (portal, maxRows) rest")
    case False
    then have "replies (MsgExecute, body) c (sendError s d t c)" for s d t by (intro err) simp
    moreover have "handleExecute w body c = sendError ''ERROR'' ''08P01'' ''invalid Execute message'' c"
      using False unfolding handleExecute_def execute_message_def by (auto split: parsed.split)
    ultimately show ?thesis by simp
  next
    case True
    then obtain portal maxRows rest where m: "execute_message body = Parsed (portal, maxRows) rest" by blast
    note h = handleExecute_def [of w body c, folded execute_message_def, unfolded m]
    show ?thesis
    proof (cases "c_portals c portal")
      case None
      then have "replies (MsgExecute, body) c (sendError s d t c)" for s d t by (intro err) (simp add: m abs_conn_def)
      then show ?thesis using h None by simp
    next
      case (Some p)
      define c' where "c' = execute_portal w (c_store c (po_stmt p)) p maxRows c"
      have "executed c c'" unfolding c'_def by (rule executed_portal [OF l])
      moreover have "replies (MsgExecute, body) c c'" if "says c us c'" "succeeded us \<or> failed us" for us
        using execute [OF m _ that(2), of "abs_conn c" "c_txStatus c'"] serves_says [OF that(1)] abs_says [OF that(1)] Some
        unfolding replies_def by (auto simp: abs_conn_def)
      ultimately have "replies (MsgExecute, body) c c'" by (auto simp: executed_def replies_def)
      then show ?thesis using h Some by (simp add: c'_def)
    qed
  qed
qed

section \<open>The loop\<close>

lemmas msg_types = MsgQuery_def MsgTerminate_def MsgParse_def MsgBind_def MsgDescribe_def MsgExecute_def MsgSync_def MsgClose_def

text \<open>A query: its answers, or the dialogue of a copy from the client.\<close>

lemma step_handleQuery:
  assumes sc: "scans w" and l: "c_limit c = None" and r: "handleQuery w body c = (c1, e)" and np: "\<not> c_panic c1"
  shows "(e = None \<or> c_failed c1 \<or> c_in c1 = []) \<and> length (c_in c1) \<le> length (c_in c) \<and>
    (\<exists>out. serves (c\<lparr>c_in := c_in c1\<rparr>) out c1 \<and> pg_step ((MsgQuery, body) # c_in c) (abs_conn c) out (abs_conn c1) (c_in c1))"
proof -
  have a: "answered c (c1, e)" using answered_handleQuery [OF sc l, of body] r by simp
  have e: "e = None \<or> c_failed c1 \<or> c_in c1 = []" using a np by (auto simp: answered_def)
  consider us where "says c (us @ [ReadyForQuery (c_txStatus c1)]) c1" "batch_answer us \<or> copied_out us" | "copied_in c c1"
    using a np by (auto simp: answered_def)
  then show ?thesis
  proof cases
    case 1
    have i: "c_in c1 = c_in c" using 1(1) by (simp add: says_def)
    then have "serves (c\<lparr>c_in := c_in c1\<rparr>) (us @ [ReadyForQuery (c_txStatus c1)]) c1" using serves_says [OF 1(1)] by simp
    moreover have "pg_step ((MsgQuery, body) # c_in c) (abs_conn c) (us @ [ReadyForQuery (c_txStatus c1)]) (abs_conn c1) (c_in c1)"
      using reply [OF query [OF 1(2)]] abs_says [OF 1(1)] i by metis
    ultimately show ?thesis using e i by auto
  next
    case 2
    then obtain n b used rest out where d: "c_in c = used @ rest" "says (c\<lparr>c_in := rest\<rparr>) (CopyInResponse n b # out) c1"
      "copy_dialog used rest (c_txStatus c1) out" unfolding copied_in_def by blast
    have i: "c_in c1 = rest" using d(2) by (simp add: says_def)
    have "abs_conn (c\<lparr>c_in := rest\<rparr>) = abs_conn c" by (simp add: abs_conn_def)
    then have "pg_step ((MsgQuery, body) # c_in c) (abs_conn c) (CopyInResponse n b # out) (abs_conn c1) (c_in c1)"
      using copy_in [OF d(3)] abs_says [OF d(2)] d(1) i by metis
    then show ?thesis using e i d(1) serves_says [OF d(2)] by auto
  qed
qed

text \<open>One round of the loop.\<close>

lemma step_handle_message:
  assumes sc: "scans w" and c: "c_limit c = None" "\<not> c_failed c" "wf_conn c"
    and r: "handle_message w m c = (c1, stop)" and np: "\<not> c_panic c1" and nt: "fst m \<noteq> MsgTerminate"
  shows "length (c_in c1) \<le> length (c_in c) \<and> (stop \<longrightarrow> c_in c1 = []) \<and>
    (\<exists>out. serves (c\<lparr>c_in := c_in c1\<rparr>) out c1 \<and> pg_step (m # c_in c) (abs_conn c) out (abs_conn c1) (c_in c1))"
proof (cases "fst m = MsgQuery")
  case True
  obtain c2 e where q: "handleQuery w (snd m) c = (c2, e)" by fastforce
  have c2: "c2 = c1" "stop \<longrightarrow> e \<noteq> None" using r True q by (auto simp: handle_message_def split: option.splits)
  note s = step_handleQuery [OF sc c(1) q [unfolded c2] np]
  have "\<not> c_failed c1" using s c(2) by (auto simp: serves_def)
  moreover have "(MsgQuery, snd m) = m" using True by (cases m) auto
  ultimately show ?thesis using s c2(2) by auto
next
  case False
  obtain t body where m: "m = (t, body)" by fastforce
  have ready: "pg_reply (MsgSync, body) (abs_conn c) [ReadyForQuery (c_txStatus c)] (abs_conn c)"
    using sync [of body "abs_conn c"] by (simp add: abs_conn_def)
  note handlers = replies_handleParse [OF c(1,3)] replies_handleBind [OF c(1)] replies_handleDescribe [OF c(1)]
    replies_handleExecute [OF c(1)] replies_handleClose [OF c(1)] replies_tells [OF tells_put [OF c(1)] ready]
  have "replies m c c1 \<and> \<not> stop"
    using r False nt unfolding m
    by (auto simp: handle_message_def msg_types handlers [unfolded msg_types] emit_open [OF c(1)]
        intro: replies_tells [OF tells_refl ignored] split: if_splits)
  then obtain out where o: "serves c out c1" "pg_reply m (abs_conn c) out (abs_conn c1)" "\<not> stop"
    using np unfolding replies_def by blast
  have "c_in c1 = c_in c" using o(1) by (simp add: serves_def)
  then show ?thesis using o reply [OF o(2)] by auto
qed

lemma run_message_rounds:
  assumes sc: "scans w"
  shows "c_limit c = None \<Longrightarrow> \<not> c_failed c \<Longrightarrow> wf_conn c \<Longrightarrow> length (c_in c) \<le> n \<Longrightarrow> \<not> c_panic (message_rounds n w c) \<Longrightarrow>
    \<exists>out. c_out (message_rounds n w c) = c_out c @ out \<and> pg_run (c_in c) (abs_conn c) out (abs_conn (message_rounds n w c))"
proof (induction n arbitrary: c)
  case 0
  then show ?case using run_end by auto
next
  case (Suc n)
  show ?case
  proof (cases "c_in c")
    case Nil
    then show ?thesis using run_end by auto
  next
    case (Cons m ms)
    define c0 where "c0 = c\<lparr>c_in := ms\<rparr>"
    obtain c1 stop where r: "handle_message w m c0 = (c1, stop)" by fastforce
    have loop: "message_rounds (Suc n) w c = (if stop \<or> c_panic c1 then c1 else message_rounds n w c1)"
      using Cons r by (simp add: c0_def)
    have np: "\<not> c_panic c1" using Suc.prems(5) loop by (auto split: if_splits)
    have c0: "c_limit c0 = None" "\<not> c_failed c0" "wf_conn c0" "abs_conn c0 = abs_conn c" "c_out c0 = c_out c" "c_in c0 = ms"
      using Suc.prems(1-3) by (auto simp: c0_def wf_conn_def abs_conn_def)
    show ?thesis
    proof (cases "fst m = MsgTerminate")
      case True
      then have "c1 = c0 \<and> stop" using r by (simp add: handle_message_def msg_types)
      moreover have "pg_run (m # ms) (abs_conn c) [] (abs_conn c)" using run_leave True by (metis prod.collapse)
      ultimately show ?thesis using loop Cons c0 by auto
    next
      case False
      from step_handle_message [OF sc c0(1-3) r np False]
      obtain out where o: "serves (c0\<lparr>c_in := c_in c1\<rparr>) out c1" "pg_step (c_in c) (abs_conn c) out (abs_conn c1) (c_in c1)"
        "length (c_in c1) \<le> length ms" "stop \<longrightarrow> c_in c1 = []" using Cons c0 by auto
      have wf: "wf_conn (c0\<lparr>c_in := c_in c1\<rparr>)" using c0(3) by (simp add: wf_conn_def)
      have c1: "c_limit c1 = None" "\<not> c_failed c1" "wf_conn c1" "c_out c1 = c_out c @ out"
        using o(1) wf c0 by (auto simp: serves_def)
      show ?thesis
      proof (cases stop)
        case True
        have "pg_run (c_in c) (abs_conn c) (out @ []) (abs_conn c1)"
          by (rule run_step [OF o(2)]) (simp add: True o(4) run_end)
        then show ?thesis using loop True c1(4) by auto
      next
        case ns: False
        then have "\<not> c_panic (message_rounds n w c1)" using Suc.prems(5) loop np by simp
        from Suc.IH [OF c1(1-3) _ this] obtain outs where os: "c_out (message_rounds n w c1) = c_out c1 @ outs"
          "pg_run (c_in c1) (abs_conn c1) outs (abs_conn (message_rounds n w c1))"
          using o(3) Suc.prems(4) Cons by auto
        show ?thesis using run_step [OF o(2) os(2)] os(1) c1(4) loop ns np by auto
      qed
    qed
  qed
qed


text \<open>A parser that knows only the end of all cursors, and a client that prepares, binds and executes that statement.\<close>

definition cursor_world :: "golib \<Rightarrow> unit world" where
  "cursor_world lib = (bare_world lib)\<lparr>w_parseCursor := (\<lambda>q. if q = ''CLOSE ALL'' then Some (ClosePortalStmt []) else None)\<rparr>"

definition close_all :: "frontend list" where
  "close_all =
     [(MsgParse, [CHR 0x00] @ ''CLOSE ALL'' @ replicate 3 (CHR 0x00)), (MsgBind, replicate 8 (CHR 0x00)),
      (MsgExecute, replicate 5 (CHR 0x00)), (MsgSync, []), (MsgTerminate, [])]"

lemma close_all_answers:
  "let c = messageLoop (cursor_world lib) (new_conn () close_all)
   in c_panic c = False \<and> c_out c = [ParseComplete, BindComplete, CommandComplete ''CLOSE CURSOR'', ReadyForQuery txStatusIdle]"
  by code_simp


end
