(* ===== verification/Copy_Guarantees.thy ===== *)
theory Copy_Guarantees
  imports Copy_In Binary_Roundtrip Bare_World
begin

text \<open>
  What COPY does with the data: the stream to a worker, and the binary format there and back.
\<close>

section \<open>The stream\<close>

text \<open>The data of the client's messages, without the markers of the end.\<close>

definition payload :: "frontend list \<Rightarrow> bytes" where
  "payload ms = concat (map snd (filter (\<lambda>m. \<not> end_marker (snd m)) ms))"

definition data_messages :: "frontend list \<Rightarrow> bool" where
  "data_messages ms \<longleftrightarrow> (\<forall>m \<in> set ms. fst m = MsgCopyData)"

definition chunked :: "bytes list \<Rightarrow> bool" where
  "chunked bs \<longleftrightarrow> (\<forall>b \<in> set bs. b \<noteq> [] \<and> length b \<le> CopyFromStdinChunkSize)"

lemma payload_simps [simp]:
  "payload [] = []"
  "payload (m # ms) = (if end_marker (snd m) then payload ms else snd m @ payload ms)"
  by (simp_all add: payload_def)

lemma data_messages_simps [simp]:
  "data_messages []" "data_messages (m # ms) \<longleftrightarrow> fst m = MsgCopyData \<and> data_messages ms"
  by (simp_all add: data_messages_def)

lemma chunked_simps [simp]:
  "chunked []" "chunked (b # bs) \<longleftrightarrow> b \<noteq> [] \<and> length b \<le> CopyFromStdinChunkSize \<and> chunked bs"
  by (simp_all add: chunked_def)

lemma next_data_messages:
  assumes "data_messages ds"
  shows "payload ds = [] \<and> next_data w r (ds @ tail) = next_data w r tail \<or>
    (\<exists>b ds'. next_data w r (ds @ tail) = (None, r\<lparr>rd_pending := b\<rparr>, ds' @ tail) \<and> b \<noteq> [] \<and> payload ds = b @ payload ds' \<and>
       data_messages ds' \<and> length b + sum_list (map (length \<circ> snd) ds') \<le> sum_list (map (length \<circ> snd) ds))"
  using assms
proof (induction ds)
  case (Cons m ds)
  show ?case
  proof (cases "end_marker (snd m) \<or> snd m = []")
    case True
    then have eq: "payload (m # ds) = payload ds" "next_data w r ((m # ds) @ tail) = next_data w r (ds @ tail)"
      using Cons.prems by auto
    have "data_messages ds" using Cons.prems by simp
    from Cons.IH [OF this] show ?thesis
    proof (elim disjE exE conjE, goal_cases)
      case (2 b ds')
      then show ?case unfolding eq by (intro disjI2 exI [of _ b] exI [of _ ds']) simp
    qed (simp only: eq simp_thms)
  next
    case False
    then have "next_data w r ((m # ds) @ tail) = (None, r\<lparr>rd_pending := snd m\<rparr>, ds @ tail)" using Cons.prems by simp
    then show ?thesis using False Cons.prems by auto
  qed
qed simp

text \<open>What follows the data decides how the stream ends.\<close>

definition stream_end :: "'d world \<Rightarrow> frontend list \<Rightarrow> string option" where
  "stream_end w tail =
     (case fst (next_data w new_reader tail) of
        Some (ReadError err) \<Rightarrow> Some (''read csv stream: '' @ err)
      | _ \<Rightarrow> None)"

lemma next_data_tail:
  assumes "tail = [] \<or> fst (hd tail) \<noteq> MsgCopyData"
  shows "\<exists>e r' ms. next_data w r tail = (Some e, r', ms) \<and> fst (next_data w new_reader tail) = Some e"
  using assms by (cases tail) (auto split: copy_stop.split)

lemma wire_Read_pending:
  assumes "rd_pending r \<noteq> []"
  shows "wire_Read w k r ms = (take k (rd_pending r), None, r\<lparr>rd_pending := drop k (rd_pending r)\<rparr>, ms)"
  using assms by (simp add: wire_Read_def take_pending_def)

lemma send_chunks_pending:
  assumes "rd_pending r \<noteq> []" and send: "\<And>d b. up_send up d b = (g d b, None)"
  shows "send_chunks w up d r ms =
    send_chunks w up (g d (take CopyFromStdinChunkSize (rd_pending r)))
      (r\<lparr>rd_pending := drop CopyFromStdinChunkSize (rd_pending r)\<rparr>) ms"
  using assms(1) by (subst send_chunks.simps) (simp add: wire_Read_pending send CopyFromStdinChunkSize_def)

lemma send_chunks_refill:
  assumes "rd_pending r = []" "\<not> rd_done r" "next_data w r ms = (None, r1, ms1)" "rd_pending r1 \<noteq> []"
  shows "send_chunks w up d r ms = send_chunks w up d r1 ms1"
proof -
  have "wire_Read w k r ms = wire_Read w k r1 ms1" for k using assms by (simp add: wire_Read_def)
  then show ?thesis by (subst (1 2) send_chunks.simps) simp
qed

lemma send_chunks_exact:
  assumes send: "\<And>d b. up_send up d b = (g d b, None)" and tail: "tail = [] \<or> fst (hd tail) \<noteq> MsgCopyData"
  shows "data_messages ds \<Longrightarrow> \<not> rd_done r \<Longrightarrow>
    \<exists>bs r' ms. send_chunks w up d r (ds @ tail) = (foldl g d bs, stream_end w tail, r', ms) \<and>
      concat bs = rd_pending r @ payload ds \<and> chunked bs"
proof (induction "unread r ds" arbitrary: d r ds rule: less_induct)
  case less
  show ?case
  proof (cases "rd_pending r = []")
    case False
    define r1 where "r1 = r\<lparr>rd_pending := drop CopyFromStdinChunkSize (rd_pending r)\<rparr>"
    define b where "b = take CopyFromStdinChunkSize (rd_pending r)"
    have "unread r1 ds < unread r ds"
      using False by (cases "rd_pending r") (auto simp: unread_def r1_def CopyFromStdinChunkSize_def)
    from less.hyps [OF this, of "g d b"] obtain bs r' ms where
      "send_chunks w up (g d b) r1 (ds @ tail) = (foldl g (g d b) bs, stream_end w tail, r', ms)"
      "concat bs = rd_pending r1 @ payload ds" "chunked bs"
      using less.prems by (auto simp: r1_def)
    moreover have "b \<noteq> []" "length b \<le> CopyFromStdinChunkSize" "b @ rd_pending r1 = rd_pending r"
      using False by (auto simp: b_def r1_def CopyFromStdinChunkSize_def)
    ultimately show ?thesis
      using send_chunks_pending [OF False send, of w d "ds @ tail", folded r1_def b_def]
      by (auto intro!: exI [of _ "b # bs"] simp flip: append_assoc)
  next
    case True
    consider "payload ds = []" "next_data w r (ds @ tail) = next_data w r tail"
      | b ds' where "next_data w r (ds @ tail) = (None, r\<lparr>rd_pending := b\<rparr>, ds' @ tail)" "b \<noteq> []" "payload ds = b @ payload ds'"
        "data_messages ds'" "length b + sum_list (map (length \<circ> snd) ds') \<le> sum_list (map (length \<circ> snd) ds)"
      using next_data_messages [OF less.prems(1), of w r tail] by blast
    then show ?thesis
    proof cases
      case 1
      obtain e r' ms where n: "next_data w r tail = (Some e, r', ms)" "fst (next_data w new_reader tail) = Some e"
        using next_data_tail [OF tail] by blast
      have "send_chunks w up d r (ds @ tail) = (d, stream_end w tail, r', ms)"
        using True less.prems(2) 1 n by (subst send_chunks.simps) (simp add: wire_Read_def stream_end_def split: read_error.split)
      then show ?thesis using 1 True by (auto intro!: exI [of _ "[]"])
    next
      case 2
      define r1 where "r1 = r\<lparr>rd_pending := drop CopyFromStdinChunkSize b\<rparr>"
      define b1 where "b1 = take CopyFromStdinChunkSize b"
      have "unread r1 ds' < unread r ds"
        using 2(2,5) True by (cases b) (auto simp: unread_def r1_def CopyFromStdinChunkSize_def comp_def)
      from less.hyps [OF this 2(4), of "g d b1"] obtain bs r' ms where
        "send_chunks w up (g d b1) r1 (ds' @ tail) = (foldl g (g d b1) bs, stream_end w tail, r', ms)"
        "concat bs = rd_pending r1 @ payload ds'" "chunked bs"
        using less.prems by (auto simp: r1_def)
      moreover have "b1 \<noteq> []" "length b1 \<le> CopyFromStdinChunkSize" "b1 @ rd_pending r1 = b"
        using 2(2) by (auto simp: b1_def r1_def CopyFromStdinChunkSize_def)
      moreover have "send_chunks w up d r (ds @ tail) = send_chunks w up (g d b1) r1 (ds' @ tail)"
        using send_chunks_refill [OF True less.prems(2) 2(1)] send_chunks_pending [OF _ send, of "r\<lparr>rd_pending := b\<rparr>"] 2(2)
        by (simp add: r1_def b1_def)
      ultimately show ?thesis using 2(3) True by (auto intro!: exI [of _ "b1 # bs"] simp flip: append_assoc)
    qed
  qed
qed

lemma stream_end_None:
  assumes "tail = [] \<or> fst (hd tail) \<noteq> MsgCopyData"
  shows "stream_end w tail = None \<longleftrightarrow> tail = [] \<and> w_readEOF w \<or> tail \<noteq> [] \<and> fst (hd tail) = MsgCopyDone"
  using assms by (cases tail) (auto simp: stream_end_def copy_stop_def)

lemma db_answer [simp]: "c_db (fst (copy_error code message c)) = c_db c" "c_db (fst (copy_tag n c)) = c_db c"
  by (simp_all add: copy_error_def copy_tag_def sendError_def ready_def put_def emit_def setTxError_def)

lemma streamed_db:
  "c_db (fst (handleCopyInRemoteStreaming w up opts c)) =
     fst (CopyFromStdin w up (BuildDuckDBCopyFromSQL (cf_TableName opts) (cf_ColumnList opts) CopyFromStdinPathPlaceholder opts)
            new_reader (c_in c) (c_db c))"
  by (auto simp: handleCopyInRemoteStreaming_def Let_def split: prod.split sum.split)

text \<open>
  \<^bold>\<open>C18\<close>. Copying from the client through a worker. The worker gets exactly the bytes of the data messages, in
  order and without the end markers, in chunks that are not empty and not longer than the buffer. The upload is completed,
  so that the worker loads the data, if and only if the client then says that the data are complete, or ends its
  connection cleanly; it is given up if the client cancels, sends anything else, or its connection breaks. So a client that
  only disappears in the middle of its data has the part that arrived loaded as if it were the whole.
\<close>

theorem copy_stream_exact:
  assumes "c_in c = ds @ tail" "data_messages ds" "tail = [] \<or> fst (hd tail) \<noteq> MsgCopyData"
    and "\<forall>d b. up_send up d b = (g d b, None)"
    and "up_open up (c_db c) (BuildDuckDBCopyFromSQL (cf_TableName opts) (cf_ColumnList opts) CopyFromStdinPathPlaceholder opts) =
      (d0, None)"
  shows "\<exists>bs. concat bs = payload ds \<and> chunked bs \<and>
    c_db (fst (handleCopyInRemoteStreaming w up opts c)) =
      up_cancel up (if tail = [] \<and> w_readEOF w \<or> tail \<noteq> [] \<and> fst (hd tail) = MsgCopyDone
        then fst (up_finish up (foldl g d0 bs)) else foldl g d0 bs)"
proof -
  have "\<not> rd_done new_reader" "rd_pending new_reader = []" by (simp_all add: new_reader_def)
  then obtain bs r ms where "send_chunks w up d0 new_reader (ds @ tail) = (foldl g d0 bs, stream_end w tail, r, ms)"
    "concat bs = payload ds" "chunked bs"
    using send_chunks_exact [OF _ assms(3,2), of up g new_reader w d0] assms(4) by auto
  then show ?thesis
    using assms(1,5) stream_end_None [OF assms(3), of w]
    by (intro exI [of _ bs]) (auto simp: streamed_db CopyFromStdin_def split: option.split prod.split)
qed

text \<open>An upload that keeps the chunks, and what it has loaded at the end.\<close>

definition kept_upload :: "(bytes list \<times> bytes option) upload" where
  "kept_upload =
     \<lparr>up_open = (\<lambda>d sql. (d, None)), up_send = (\<lambda>d b. ((fst d @ [b], snd d), None)),
      up_finish = (\<lambda>d. ((fst d, Some (concat (fst d))), Inr 1)), up_cancel = id\<rparr>"

theorem copy_stream_exact_witness:
  "\<forall>lib opts. snd (c_db (fst (handleCopyInRemoteStreaming (bare_world lib) kept_upload opts
     (new_conn ([], None) [(MsgCopyData, ''1,2''), (MsgCopyData, ''3,'')])))) = Some ''1,23,''"
proof (intro allI)
  fix lib opts
  define ms where "ms = [(MsgCopyData, ''1,2''), (MsgCopyData, ''3,'')]"
  define g :: "bytes list \<times> bytes option \<Rightarrow> bytes \<Rightarrow> bytes list \<times> bytes option" where "g = (\<lambda>d b. (fst d @ [b], snd d))"
  have fold: "fst (foldl g d bs) = fst d @ bs" for d bs by (induction bs arbitrary: d) (simp_all add: g_def)
  obtain bs where "concat bs = payload ms"
    "c_db (fst (handleCopyInRemoteStreaming (bare_world lib) kept_upload opts (new_conn ([], None) ms))) =
      fst (up_finish kept_upload (foldl g ([], None) bs))"
    using copy_stream_exact [of "new_conn ([], None) ms" ms "[]" kept_upload g opts "([], None)" "bare_world lib"]
    by (auto simp: kept_upload_def g_def new_conn_def bare_world_def ms_def)
  then show "snd (c_db (fst (handleCopyInRemoteStreaming (bare_world lib) kept_upload opts
     (new_conn ([], None) [(MsgCopyData, ''1,2''), (MsgCopyData, ''3,'')])))) = Some ''1,23,''"
    by (simp add: kept_upload_def fold end_marker_def ms_def)
qed

section \<open>The binary format\<close>

text \<open>The values that come back as they were, under the type that says so: times at UTC with whole microseconds.\<close>

fun plain_value :: "govalue \<Rightarrow> int \<Rightarrow> bool" where
  "plain_value VNil oid \<longleftrightarrow> True"
| "plain_value (VBool b) oid \<longleftrightarrow> oid = OidBool"
| "plain_value (VInt16 i) oid \<longleftrightarrow> oid = OidInt2"
| "plain_value (VInt32 i) oid \<longleftrightarrow> oid = OidInt4"
| "plain_value (VInt64 i) oid \<longleftrightarrow> oid = OidInt8"
| "plain_value (VFloat32 f) oid \<longleftrightarrow> oid = OidFloat4"
| "plain_value (VFloat64 f) oid \<longleftrightarrow> oid = OidFloat8"
| "plain_value (VBytes b) oid \<longleftrightarrow> oid = OidBytea \<and> length b < 2 ^ 31"
| "plain_value (VString s) oid \<longleftrightarrow> oid \<in> {OidText, OidVarchar} \<and> length s < 2 ^ 31"
| "plain_value (VTime t off) oid \<longleftrightarrow>
     oid \<in> {OidTimestamp, OidTimestamptz} \<and> off = 0 \<and> 1000 dvd t \<and> \<bar>t div 1000 - pgEpochMicros\<bar> < 2 ^ 63"
| "plain_value _ oid \<longleftrightarrow> False"

lemmas copy_value_defs = encodeBinary_def encodeScalar_def decodeBinaryCopy_def arrayElementOIDs_def oid_defs OidBpchar_def OidName_def

definition copies :: "golib \<Rightarrow> govalue \<Rightarrow> int \<Rightarrow> bool" where
  "copies lib v oid \<longleftrightarrow> (\<exists>b. encodeBinary lib v oid = Enc b \<and> decodeBinaryCopy b oid = Inr v \<and> length b < 2 ^ 31)"

lemma put_be_ne [simp]: "k > 0 \<Longrightarrow> put_be k w \<noteq> []"
  by (metis length_put_be list.size(3) less_irrefl)

lemma copies_word:
  "copies lib (VInt16 i2) OidInt2" "copies lib (VInt32 i4) OidInt4" "copies lib (VInt64 i8) OidInt8"
  "copies lib (VFloat32 f4) OidFloat4" "copies lib (VFloat64 f8) OidFloat8" "copies lib (VBool b) OidBool"
  by (simp_all add: copies_def copy_value_defs decodeInt2_def decodeInt4_def decodeInt8_def decodeFloat4_def decodeFloat8_def
      decodeBool_def)

lemma copies_text:
  "length b < 2 ^ 31 \<Longrightarrow> copies lib (VBytes b) OidBytea" "length s < 2 ^ 31 \<Longrightarrow> copies lib (VString s) OidText"
  "length s < 2 ^ 31 \<Longrightarrow> copies lib (VString s) OidVarchar"
  by (simp_all add: copies_def copy_value_defs encodeText_def normalizeDriverValue_def)

lemma copies_time:
  assumes "oid \<in> {OidTimestamp, OidTimestamptz}" "1000 dvd t" "\<bar>t div 1000 - pgEpochMicros\<bar> < 2 ^ 63"
  shows "copies lib (VTime t 0) oid"
proof -
  have b: "timestamp_bytes t = put_be 8 (of_int (t div 1000 - pgEpochMicros) :: 64 word)" by (simp add: timestamp_bytes_def)
  have "- (2 ^ 63) \<le> t div 1000 - pgEpochMicros" "t div 1000 - pgEpochMicros < 2 ^ 63" using assms(3) by linarith+
  from decode_micros [OF this] have "decodeTimestamp (timestamp_bytes t) = Inr t" using assms(2) unfolding b by simp
  moreover have "timestamp_bytes t \<noteq> []" "length (timestamp_bytes t) < 2 ^ 31" by (simp_all add: timestamp_bytes_def)
  moreover have "encodeBinary lib (VTime t 0) oid = Enc (timestamp_bytes t)"
    using assms(1) by (auto simp: encodeBinary_def encodeScalar_def arrayElementOIDs_def oid_defs)
  moreover have "decodeBinaryCopy bs oid = map_sum id (\<lambda>t. VTime t 0) (decodeTimestamp bs)" if "bs \<noteq> []" for bs
    using assms(1) that by (auto simp: decodeBinaryCopy_def oid_defs)
  ultimately show ?thesis unfolding copies_def by (metis id_apply map_sum.simps(2))
qed

lemma plain_value_copies: "plain_value v oid \<Longrightarrow> v = VNil \<or> copies lib v oid"
  by (cases "(v, oid)" rule: plain_value.cases) (auto simp: copies_word copies_text copies_time)

text \<open>The fields of a tuple, from the \<open>i\<close>th on.\<close>

definition plain_row :: "int list \<Rightarrow> govalue list \<Rightarrow> bool" where
  "plain_row oids vs \<longleftrightarrow> length vs = length oids \<and> (\<forall>i < length oids. plain_value (vs ! i) (oids ! i))"

abbreviation "field_text lib oids vs i \<equiv> cell_bytes (cell (tuple_field lib oids i (vs ! i)))"

lemma copy_field_back:
  assumes "plain_row oids vs" "i < length oids"
    and more: "copy_fields oids (i + 1) n rest = Copied (us, rest')"
  shows "copy_fields oids i (Suc n) (field_text lib oids vs i @ rest) = Copied (vs ! i # us, rest')"
proof (cases "vs ! i = VNil")
  case True
  then have "field_text lib oids vs i = put_be 4 (- 1 :: 32 word)" by (simp add: tuple_field_def cell_bytes_def)
  then show ?thesis using True more by simp
next
  case False
  then obtain b where b: "encodeBinary lib (vs ! i) (oids ! i) = Enc b" "decodeBinaryCopy b (oids ! i) = Inr (vs ! i)" "length b < 2 ^ 31"
    using assms(1,2) plain_value_copies unfolding plain_row_def copies_def by blast
  then have "field_text lib oids vs i = put_be 4 (of_nat (length b) :: 32 word) @ b"
    using False assms(2) by (simp add: tuple_field_def cell_bytes_def)
  moreover have "sint (of_nat (length b) :: 32 word) = int (length b)"
    using b(3) by (simp add: signed_of_nat signed_take_bit_int_eq_self)
  ultimately show ?thesis using b(2) assms(2) more by simp
qed

lemma copy_fields_back:
  assumes "plain_row oids vs"
  shows "i \<le> length oids \<Longrightarrow>
    copy_fields oids i (length oids - i) (concat (map (field_text lib oids vs) [i..<length oids]) @ rest) = Copied (drop i vs, rest)"
proof (induction "length oids - i" arbitrary: i)
  case 0
  then show ?case using assms by (simp add: plain_row_def)
next
  case (Suc n)
  then have i: "i < length oids" "n = length oids - (i + 1)" by auto
  have "copy_fields oids (i + 1) n (concat (map (field_text lib oids vs) [i + 1..<length oids]) @ rest) = Copied (drop (i + 1) vs, rest)"
    using Suc.hyps(1) [OF i(2)] i by simp
  from copy_field_back [OF assms i(1) this] show ?case
    using i assms by (simp add: upt_conv_Cons Suc.hyps(2) [symmetric] plain_row_def Cons_nth_drop_Suc)
qed

definition tuple_bytes :: "golib \<Rightarrow> int list \<Rightarrow> govalue list \<Rightarrow> bytes" where
  "tuple_bytes lib oids vs = put_be 2 (of_nat (length vs) :: 16 word) @ concat (map (field_text lib oids vs) [0..<length vs])"

lemma encodeTuple_plain:
  assumes "plain_row oids vs"
  shows "encodeTuple lib oids vs = Some (tuple_bytes lib oids vs)"
proof -
  have "tuple_field lib oids i (vs ! i) \<noteq> EncPanic" if "i < length vs" for i
    using assms that plain_value_copies [of "vs ! i" "oids ! i" lib] by (auto simp: plain_row_def tuple_field_def copies_def)
  then have "EncPanic \<notin> set (map (\<lambda>i. tuple_field lib oids i (vs ! i)) [0..<length vs])" by fastforce
  then show ?thesis by (simp add: encodeTuple_def tuple_bytes_def Let_def comp_def)
qed

lemma copy_tuples_back:
  assumes "\<forall>vs \<in> set rows. plain_row oids vs" "length oids < 2 ^ 15"
  shows "copy_tuples oids (length oids) (concat (map (tuple_bytes lib oids) rows) @ [CHR 0xFF, CHR 0xFF]) = Copied rows"
  using assms(1)
proof (induction rows)
  case Nil
  have "get_word 2 [CHR 0xFF, CHR 0xFF] = Some (- 1 :: 16 word)" by code_simp
  then show ?case by (subst copy_tuples.simps) simp
next
  case (Cons vs rows)
  have p: "plain_row oids vs" and n: "length vs = length oids" using Cons.prems by (auto simp: plain_row_def)
  define rest where "rest = concat (map (tuple_bytes lib oids) rows) @ [CHR 0xFF, CHR 0xFF]"
  have "sint (of_nat (length oids) :: 16 word) = int (length oids)"
    using assms(2) by (simp add: signed_of_nat signed_take_bit_int_eq_self)
  moreover have "copy_fields oids 0 (length oids) (concat (map (field_text lib oids vs) [0..<length oids]) @ rest) = Copied (vs, rest)"
    using copy_fields_back [OF p, of 0 lib rest] by simp
  moreover have "copy_tuples oids (length oids) rest = Copied rows" using Cons by (simp add: rest_def)
  ultimately have "copy_tuples oids (length oids) (tuple_bytes lib oids vs @ rest) = Copied (vs # rows)"
    by (subst copy_tuples.simps) (simp add: tuple_bytes_def n)
  then show ?case by (simp add: rest_def)
qed

lemma parse_copy_back:
  assumes "\<forall>vs \<in> set rows. plain_row oids vs" "length oids < 2 ^ 15"
  shows "parse_copy_data oids (length oids) (binaryHeader @ concat (map (tuple_bytes lib oids) rows) @ [CHR 0xFF, CHR 0xFF]) = Copied rows"
proof -
  have h: "length binaryHeader = 19" "take 11 binaryHeader = copySignature" "take 4 (drop 15 binaryHeader) = replicate 4 (CHR 0x00)"
    by code_simp+
  have "unat (get_be (replicate 4 (CHR 0x00)) :: 32 word) = 0" by code_simp
  then show ?thesis using copy_tuples_back [OF assms] h by (simp add: parse_copy_data_def)
qed

text \<open>What the loop over the rows writes.\<close>

lemma copy_rows_plain:
  assumes "\<forall>vs \<in> set rows. plain_row oids vs" "c_limit c = None" "n \<ge> 0"
  shows "\<exists>bs c'. copy_rows (binary_line lib oids) n (map Inr rows) c = (c', n + int (length rows), RowsEnd) \<and>
    c_out c' = c_out c @ map CopyData bs \<and> c_limit c' = None \<and> c_txStatus c' = c_txStatus c \<and>
    concat bs = (if n = 0 \<and> rows \<noteq> [] then binaryHeader else []) @ concat (map (tuple_bytes lib oids) rows)"
  using assms
proof (induction rows arbitrary: n c)
  case (Cons vs rows)
  define b where "b = (if n = 0 then binaryHeader else []) @ tuple_bytes lib oids vs"
  define c1 where "c1 = c\<lparr>c_out := c_out c @ [CopyData b]\<rparr>"
  have line: "binary_line lib oids (n = 0) vs = Some b"
    using encodeTuple_plain Cons.prems(1) by (simp add: binary_line_def b_def)
  have e: "emit (CopyData b) c = (c1, True)" using Cons.prems(2) by (simp add: emit_def c1_def)
  obtain bs c' where "copy_rows (binary_line lib oids) (n + 1) (map Inr rows) c1 = (c', n + 1 + int (length rows), RowsEnd)"
    "c_out c' = c_out c1 @ map CopyData bs" "c_limit c' = None" "c_txStatus c' = c_txStatus c1"
    "concat bs = concat (map (tuple_bytes lib oids) rows)"
    using Cons.IH [of c1 "n + 1"] Cons.prems by (auto simp: c1_def)
  then show ?case using line e by (intro exI [of _ "b # bs"] exI [of _ c']) (simp add: c1_def b_def)
qed simp

lemma handleCopyOutBinary_plain:
  assumes rows: "\<forall>vs \<in> set rows. plain_row (type_oids colTypes) vs" and l: "c_limit c = None"
    and rs: "rs_ColumnTypes rs = Inr colTypes" "rs_rows rs = map Inr rows" "rs_Err rs = None"
  shows "\<exists>bs. c_out (fst (handleCopyOutBinary w rs cols c)) = c_out c @ CopyOutResponse (of_nat (length cols)) False #
      map CopyData bs @ [CopyDone, CommandComplete (''COPY '' @ itoa (int (length rows))), ReadyForQuery (c_txStatus c)] \<and>
    concat bs = binaryHeader @ concat (map (tuple_bytes (w_lib w) (type_oids colTypes)) rows) @ [CHR 0xFF, CHR 0xFF]"
proof -
  define c1 where "c1 = c\<lparr>c_out := c_out c @ [CopyOutResponse (of_nat (length cols)) False]\<rparr>"
  have e: "emit (CopyOutResponse (of_nat (length cols)) False) c = (c1, True)" using l by (simp add: emit_def c1_def)
  obtain bs c2 where r: "copy_rows (binary_line (w_lib w) (type_oids colTypes)) 0 (map Inr rows) c1 = (c2, int (length rows), RowsEnd)"
    "c_out c2 = c_out c1 @ map CopyData bs" "c_limit c2 = None" "c_txStatus c2 = c_txStatus c1"
    "concat bs = (if rows \<noteq> [] then binaryHeader else []) @ concat (map (tuple_bytes (w_lib w) (type_oids colTypes)) rows)"
    using copy_rows_plain [OF rows, of c1 0 "w_lib w"] l by (auto simp: c1_def)
  define b where "b = (if rows = [] then binaryHeader else []) @ [CHR 0xFF, CHR 0xFF]"
  have "c_out (fst (handleCopyOutBinary w rs cols c)) = c_out c2 @ [CopyData b, CopyDone,
      CommandComplete (''COPY '' @ itoa (int (length rows))), ReadyForQuery (c_txStatus c2)]"
    using e r(1,3) rs by (simp add: handleCopyOutBinary_def copy_out_end_def copy_tag_def ready_def put_def emit_def b_def)
  then show ?thesis using r(2,4,5) by (intro exI [of _ "bs @ [b]"]) (auto simp: c1_def b_def)
qed

lemma buffer_messages:
  "buffer_data False buf (map (Pair MsgCopyData) bs @ (MsgCopyDone, x) # rest) = (buf @ concat bs, Finished, rest)"
  by (induction bs arbitrary: buf) (auto simp: copy_stop_def MsgCopyData_def MsgCopyDone_def)

lemma handleCopyInBinary_loads:
  assumes "c_limit c = None" "c_in c = map (Pair MsgCopyData) bs @ (MsgCopyDone, x) # rest"
    and "parse_copy_data (type_oids colTypes) (length cols) (concat bs) = Copied rows" "rows \<noteq> []"
    and "cf_ColumnList opts = []" "w_append w = Some fn" "fn (c_db c) (splitQualifiedName (cf_TableName opts)) rows = (d, Inr n)"
  shows "c_db (fst (handleCopyInBinary w opts cols colTypes c)) = d"
  using assms buffer_messages [of "[]"]
  by (simp add: handleCopyInBinary_def emit_def parseBinaryCopyAndInsert_def appendWithDuckDBAppender_def copy_loaded_def)

text \<open>
  \<^bold>\<open>C19\<close>. Copying a table out and in again in binary form. For rows of booleans, integers, floating-point
  numbers, bytes, texts, times to the microsecond and nulls, COPY TO STDOUT writes its header, data, end and tag, and
  ready, and when a client sends those very data messages to COPY FROM STDIN of another server, the bulk loader there gets
  exactly the rows.
\<close>

theorem copy_binary_roundtrip:
  assumes "\<forall>vs \<in> set rows. plain_row (type_oids colTypes) vs" "rows \<noteq> []" "length cols = length colTypes" "length cols < 2 ^ 15"
    and "rs_ColumnTypes rs = Inr colTypes" "rs_rows rs = map Inr rows" "rs_Err rs = None" "c_limit c = None"
    and "w_append w2 = Some fn" "cf_ColumnList opts = []"
  shows "\<exists>bs. c_out (fst (handleCopyOutBinary w rs cols c)) = c_out c @ CopyOutResponse (of_nat (length cols)) False #
      map CopyData bs @ [CopyDone, CommandComplete (''COPY '' @ itoa (int (length rows))), ReadyForQuery (c_txStatus c)] \<and>
    (\<forall>c2 rest d n. c_limit c2 = None \<longrightarrow> c_in c2 = map (Pair MsgCopyData) bs @ (MsgCopyDone, []) # rest \<longrightarrow>
       fn (c_db c2) (splitQualifiedName (cf_TableName opts)) rows = (d, Inr n) \<longrightarrow>
       c_db (fst (handleCopyInBinary w2 opts cols colTypes c2)) = d)"
proof -
  obtain bs where bs: "c_out (fst (handleCopyOutBinary w rs cols c)) = c_out c @ CopyOutResponse (of_nat (length cols)) False #
      map CopyData bs @ [CopyDone, CommandComplete (''COPY '' @ itoa (int (length rows))), ReadyForQuery (c_txStatus c)]"
    "concat bs = binaryHeader @ concat (map (tuple_bytes (w_lib w) (type_oids colTypes)) rows) @ [CHR 0xFF, CHR 0xFF]"
    using handleCopyOutBinary_plain [OF assms(1,8,5,6,7)] by blast
  have n: "length (type_oids colTypes) = length cols" using assms(3) by (simp add: type_oids_def)
  have p: "parse_copy_data (type_oids colTypes) (length cols) (concat bs) = Copied rows"
    using parse_copy_back [OF assms(1)] assms(4) bs(2) n by metis
  show ?thesis
    using bs(1) handleCopyInBinary_loads [OF _ _ p assms(2,10,9)] by (intro exI [of _ bs] conjI allI impI)
qed

theorem copy_binary_roundtrip_witness:
  "\<forall>lib opts. \<exists>bs. c_out (fst (handleCopyOutBinary (bare_world lib)
      \<lparr>rs_Columns = Inr [''a'', ''b''], rs_ColumnTypes = Inr [''INTEGER'', ''VARCHAR''],
       rs_rows = [Inr [VInt32 7, VNil], Inr [VNil, VString ''x'']], rs_Err = None\<rparr> [''a'', ''b''] (new_conn () []))) =
      CopyOutResponse 2 False # map CopyData bs @ [CopyDone, CommandComplete ''COPY 2'', ReadyForQuery txStatusIdle] \<and>
    c_db (fst (handleCopyInBinary ((bare_world lib)\<lparr>w_append := Some (\<lambda>d t rows. (rows, Inr 2))\<rparr>) (opts\<lparr>cf_ColumnList := []\<rparr>)
      [''a'', ''b''] [''INTEGER'', ''VARCHAR''] (new_conn [] (map (Pair MsgCopyData) bs @ [(MsgCopyDone, [])])))) =
      [[VInt32 7, VNil], [VNil, VString ''x'']]"
proof (intro allI)
  fix lib and opts :: CopyFromOptions
  define w2 where "w2 = (bare_world lib)\<lparr>w_append := Some (\<lambda>d (t :: string list) rows. (rows, Inr 2))\<rparr>"
  define rows where "rows = [[VInt32 7, VNil], [VNil, VString ''x'']]"
  define rs where "rs = \<lparr>rs_Columns = Inr [''a'', ''b''], rs_ColumnTypes = Inr [''INTEGER'', ''VARCHAR''],
       rs_rows = [Inr [VInt32 7, VNil], Inr [VNil, VString ''x'']], rs_Err = None\<rparr>"
  have oids: "type_oids [''INTEGER'', ''VARCHAR''] = [OidInt4, OidVarchar]" by code_simp
  have plain: "\<forall>vs \<in> set rows. plain_row (type_oids [''INTEGER'', ''VARCHAR'']) vs"
    by (simp add: rows_def oids plain_row_def less_Suc_eq)
  have two: "itoa (int (length rows)) = ''2''" by (simp add: rows_def itoa_def digits10.simps digit_char_def) code_simp
  have w2: "w_append w2 = Some (\<lambda>d t rows. (rows, Inr 2))" by (simp add: w2_def)
  obtain bs where bs: "c_out (fst (handleCopyOutBinary (bare_world lib) rs [''a'', ''b''] (new_conn () []))) =
      CopyOutResponse 2 False # map CopyData bs @ [CopyDone, CommandComplete ''COPY 2'', ReadyForQuery txStatusIdle]"
    "\<And>c2 rest. c_limit c2 = None \<Longrightarrow> c_in c2 = map (Pair MsgCopyData) bs @ (MsgCopyDone, []) # rest \<Longrightarrow>
       c_db (fst (handleCopyInBinary w2 (opts\<lparr>cf_ColumnList := []\<rparr>) [''a'', ''b''] [''INTEGER'', ''VARCHAR''] c2)) = rows"
    using copy_binary_roundtrip [OF plain, of "[''a'', ''b'']" rs "new_conn () []" w2 _ "opts\<lparr>cf_ColumnList := []\<rparr>" "bare_world lib",
        OF _ _ _ _ _ _ _ w2] two by (auto simp: rs_def rows_def)
  from bs(1) bs(2) [of "new_conn [] (map (Pair MsgCopyData) bs @ [(MsgCopyDone, [])])" "[]"]
  show "\<exists>bs. c_out (fst (handleCopyOutBinary (bare_world lib)
      \<lparr>rs_Columns = Inr [''a'', ''b''], rs_ColumnTypes = Inr [''INTEGER'', ''VARCHAR''],
       rs_rows = [Inr [VInt32 7, VNil], Inr [VNil, VString ''x'']], rs_Err = None\<rparr> [''a'', ''b''] (new_conn () []))) =
      CopyOutResponse 2 False # map CopyData bs @ [CopyDone, CommandComplete ''COPY 2'', ReadyForQuery txStatusIdle] \<and>
    c_db (fst (handleCopyInBinary ((bare_world lib)\<lparr>w_append := Some (\<lambda>d t rows. (rows, Inr 2))\<rparr>) (opts\<lparr>cf_ColumnList := []\<rparr>)
      [''a'', ''b''] [''INTEGER'', ''VARCHAR''] (new_conn [] (map (Pair MsgCopyData) bs @ [(MsgCopyDone, [])])))) =
      [[VInt32 7, VNil], [VNil, VString ''x'']]"
    by (auto simp: rs_def rows_def w2_def)
qed

end
