(* ===== verification/Memory_Rebalancer.thy ===== *)
theory Memory_Rebalancer
  imports Prelude "HOL-Library.Word"
begin

text \<open>
  The memory rebalancer (\<^verbatim>\<open>controlplane/memory_rebalancer.go\<close>): the limits of memory and threads that every
  session gets, the statements that set them, and the coalescing of requests. The size of the memory and the number of
  processors are those of the machine.
\<close>

definition minMemoryPerSession :: "64 word" where
  "minMemoryPerSession = 256 * 1024 * 1024"

text \<open>The channel of pending requests holds at most one.\<close>

record MemoryRebalancer =
  mr_memoryBudget :: "64 word"
  mr_threadBudget :: int
  mr_enabled :: bool
  mr_pending :: bool
  mr_stopped :: bool

definition NewMemoryRebalancer :: "64 word \<Rightarrow> int \<Rightarrow> 64 word \<Rightarrow> int \<Rightarrow> bool \<Rightarrow> MemoryRebalancer" where
  "NewMemoryRebalancer systemMemory numCPU memoryBudget threadBudget enabled =
     \<lparr>mr_memoryBudget =
        (if memoryBudget = 0 then if systemMemory > 0 then systemMemory * 3 div 4 else 4 * 1024 * 1024 * 1024 else memoryBudget),
      mr_threadBudget = (if threadBudget = 0 then numCPU else threadBudget),
      mr_enabled = enabled, mr_pending = False, mr_stopped = False\<rparr>"

definition memoryLimit :: "64 word \<Rightarrow> 64 word" where
  "memoryLimit budget = (if budget < minMemoryPerSession then minMemoryPerSession else budget)"

definition formatBytes :: "64 word \<Rightarrow> string" where
  "formatBytes b = itoa (int (unat (b div (1024 * 1024)))) @ ''MB''"

definition MemoryLimit :: "MemoryRebalancer \<Rightarrow> string" where
  "MemoryLimit r = formatBytes (memoryLimit (mr_memoryBudget r))"

definition PerSessionThreads :: "MemoryRebalancer \<Rightarrow> int" where
  "PerSessionThreads r = mr_threadBudget r"

definition DefaultMaxWorkers :: "MemoryRebalancer \<Rightarrow> int" where
  "DefaultMaxWorkers r = int (unat (mr_memoryBudget r div minMemoryPerSession))"

definition StopRebalancer :: "MemoryRebalancer \<Rightarrow> MemoryRebalancer" where
  "StopRebalancer r = r\<lparr>mr_stopped := True\<rparr>"

definition RequestRebalance :: "MemoryRebalancer \<Rightarrow> MemoryRebalancer" where
  "RequestRebalance r = (if \<not> mr_enabled r then r else r\<lparr>mr_pending := True\<rparr>)"

text \<open>The statements for one session.\<close>

definition SetInitialLimits :: "MemoryRebalancer \<Rightarrow> string list" where
  "SetInitialLimits r =
     [''SET memory_limit = '' @ [CHR 0x27] @ MemoryLimit r @ [CHR 0x27], ''SET threads = '' @ itoa (PerSessionThreads r)]"

definition doRebalance :: "MemoryRebalancer \<Rightarrow> 'p list \<Rightarrow> ('p \<times> string) list" where
  "doRebalance r sessions = concat (map (\<lambda>p. map (Pair p) (SetInitialLimits r)) sessions)"

text \<open>One round of the loop: it waits for a request, lets further ones coalesce with it, and rebalances. The sessions are
  those there are when it does.\<close>

definition debounce_round :: "MemoryRebalancer \<Rightarrow> 'p list \<Rightarrow> MemoryRebalancer \<times> ('p \<times> string) list" where
  "debounce_round r sessions =
     (if mr_stopped r \<or> \<not> mr_pending r then (r, []) else (r\<lparr>mr_pending := False\<rparr>, doRebalance r sessions))"

end
