(* ===== verification/Session_Manager.thy ===== *)
theory Session_Manager
  imports Memory_Rebalancer
begin

text \<open>
  The session manager of a control plane (\<^verbatim>\<open>controlplane/session_mgr.go\<close>,
  \<^verbatim>\<open>controlplane/session_lifecycle.go\<close>): the sessions and the workers they run on, the slots of
  connections and the clients that wait for one, and the bookkeeping that lets a drain wait for what is under way.

  Each function below that takes and returns the manager is one critical section of its lock. The lifecycle has a lock of
  its own; its flag is only ever set, and no section looks at it after it has acted, so a close within a section is a close
  after it.
\<close>

section \<open>State\<close>

datatype sm_error = ErrTooManyConnections | ErrSessionManagerDraining | ErrOther string

record SessionProgress =
  sp_Percentage :: "64 word"
  sp_Rows :: "64 word"
  sp_TotalRows :: "64 word"
  sp_Stalled :: bool

text \<open>The flag says that the executor has been marked dead.\<close>

record ManagedSession =
  ss_PID :: "32 word"
  ss_WorkerID :: int
  ss_Protocol :: string
  ss_SessionToken :: string
  ss_dead :: bool
  ss_connCloser :: "nat option"
  ss_lease :: "string option"
  ss_queryProgress :: "SessionProgress option"

record connectionWaiter =
  wt_ready :: bool
  wt_granted :: bool
  wt_err :: "sm_error option"

text \<open>The contexts that have been cancelled are kept beside the functions that cancel them.\<close>

record sessionLifecycle =
  lc_closed :: bool
  lc_nextID :: int
  lc_active :: int
  lc_cancels :: "int set"
  lc_cancelled :: "int set"

record SessionManager =
  sm_sessions :: "32 word \<Rightarrow> ManagedSession option"
  sm_byWorker :: "int \<Rightarrow> 32 word list"
  sm_rebalancer :: "MemoryRebalancer option"
  sm_lifecycle :: sessionLifecycle
  sm_nextPID :: "32 word"
  sm_maxConnections :: int
  sm_activeSlots :: int
  sm_waiters :: "nat list"
  sm_waiter :: "nat \<Rightarrow> connectionWaiter"
  sm_newWaiter :: nat
  sm_limiter :: bool

definition newSessionLifecycle :: sessionLifecycle where
  "newSessionLifecycle = \<lparr>lc_closed = False, lc_nextID = 0, lc_active = 0, lc_cancels = {}, lc_cancelled = {}\<rparr>"

definition NewSessionManager :: "MemoryRebalancer option \<Rightarrow> SessionManager" where
  "NewSessionManager rebalancer =
     \<lparr>sm_sessions = (\<lambda>_. None), sm_byWorker = (\<lambda>_. []), sm_rebalancer = rebalancer, sm_lifecycle = newSessionLifecycle,
      sm_nextPID = 1000, sm_maxConnections = 0, sm_activeSlots = 0, sm_waiters = [],
      sm_waiter = (\<lambda>_. \<lparr>wt_ready = False, wt_granted = False, wt_err = None\<rparr>), sm_newWaiter = 0, sm_limiter = False\<rparr>"

section \<open>The lifecycle\<close>

definition begin_creation :: "sessionLifecycle \<Rightarrow> (sessionLifecycle \<times> int) option" where
  "begin_creation l =
     (if lc_closed l then None
      else let nid = lc_nextID l + 1
           in Some (l\<lparr>lc_nextID := nid, lc_cancels := insert nid (lc_cancels l), lc_active := lc_active l + 1\<rparr>, nid))"

definition end_creation :: "int \<Rightarrow> sessionLifecycle \<Rightarrow> sessionLifecycle" where
  "end_creation nid l =
     l\<lparr>lc_cancels := lc_cancels l - {nid}, lc_active := lc_active l - 1, lc_cancelled := insert nid (lc_cancelled l)\<rparr>"

definition beginCleanup :: "sessionLifecycle \<Rightarrow> sessionLifecycle" where
  "beginCleanup l = l\<lparr>lc_active := lc_active l + 1\<rparr>"

definition finishCleanup :: "sessionLifecycle \<Rightarrow> sessionLifecycle" where
  "finishCleanup l = l\<lparr>lc_active := lc_active l - 1\<rparr>"

definition close_lifecycle :: "sessionLifecycle \<Rightarrow> sessionLifecycle" where
  "close_lifecycle l = l\<lparr>lc_closed := True, lc_cancelled := lc_cancelled l \<union> lc_cancels l\<rparr>"

abbreviation isClosed :: "SessionManager \<Rightarrow> bool" where
  "isClosed sm \<equiv> lc_closed (sm_lifecycle sm)"

section \<open>Slots\<close>

text \<open>The waiters that are left, those that get a slot, and the slots then in use.\<close>

fun grant_loop :: "int \<Rightarrow> nat list \<Rightarrow> int \<Rightarrow> nat list \<times> nat list \<times> int" where
  "grant_loop maxConnections [] slots = ([], [], slots)"
| "grant_loop maxConnections (w # ws) slots =
     (if maxConnections \<le> 0 \<or> slots < maxConnections
      then case grant_loop maxConnections ws (slots + 1) of (left, gs, slots') \<Rightarrow> (left, w # gs, slots')
      else (w # ws, [], slots))"

definition grant_waiters :: "nat list \<Rightarrow> (nat \<Rightarrow> connectionWaiter) \<Rightarrow> nat \<Rightarrow> connectionWaiter" where
  "grant_waiters gs f w = (if w \<in> set gs then (f w)\<lparr>wt_granted := True, wt_ready := True\<rparr> else f w)"

definition grantWaitersLocked :: "SessionManager \<Rightarrow> SessionManager" where
  "grantWaitersLocked sm =
     (if isClosed sm then sm
      else case grant_loop (sm_maxConnections sm) (sm_waiters sm) (sm_activeSlots sm) of
             (left, gs, slots) \<Rightarrow>
               sm\<lparr>sm_waiters := left, sm_activeSlots := slots, sm_waiter := grant_waiters gs (sm_waiter sm)\<rparr>)"

definition failWaitersLocked :: "sm_error \<Rightarrow> SessionManager \<Rightarrow> SessionManager" where
  "failWaitersLocked err sm =
     sm\<lparr>sm_waiters := [],
        sm_waiter := (\<lambda>w. if w \<in> set (sm_waiters sm) then (sm_waiter sm w)\<lparr>wt_err := Some err, wt_ready := True\<rparr> else sm_waiter sm w)\<rparr>"

definition removeWaiterLocked :: "nat \<Rightarrow> SessionManager \<Rightarrow> SessionManager" where
  "removeWaiterLocked w sm = sm\<lparr>sm_waiters := remove1 w (sm_waiters sm)\<rparr>"

definition SetMaxConnections :: "int \<Rightarrow> SessionManager \<Rightarrow> SessionManager" where
  "SetMaxConnections n sm = grantWaitersLocked (sm\<lparr>sm_maxConnections := n\<rparr>)"

definition SetConnectionLimiter :: "bool \<Rightarrow> SessionManager \<Rightarrow> SessionManager" where
  "SetConnectionLimiter limiter sm = sm\<lparr>sm_limiter := limiter\<rparr>"

definition ReservePID :: "SessionManager \<Rightarrow> SessionManager \<times> 32 word" where
  "ReservePID sm = (sm\<lparr>sm_nextPID := sm_nextPID sm + 1\<rparr>, sm_nextPID sm + 1)"

text \<open>Taking a slot without a limiter: refused, taken, or a place in the queue.\<close>

datatype slot = Refused | Taken | Queued nat

definition acquire_local :: "SessionManager \<Rightarrow> SessionManager \<times> slot" where
  "acquire_local sm =
     (if isClosed sm then (sm, Refused)
      else if sm_maxConnections sm \<le> 0 \<or> sm_activeSlots sm < sm_maxConnections sm
      then (sm\<lparr>sm_activeSlots := sm_activeSlots sm + 1\<rparr>, Taken)
      else let w = sm_newWaiter sm
           in (sm\<lparr>sm_waiters := sm_waiters sm @ [w], sm_newWaiter := w + 1,
                  sm_waiter := (sm_waiter sm)(w := \<lparr>wt_ready = False, wt_granted = False, wt_err = None\<rparr>)\<rparr>, Queued w))"

text \<open>A wait that the context ends: whether the slot had been granted all the same.\<close>

definition wait_cancelled :: "nat \<Rightarrow> SessionManager \<Rightarrow> SessionManager \<times> bool" where
  "wait_cancelled w sm = (if wt_granted (sm_waiter sm w) then (sm, True) else (removeWaiterLocked w sm, False))"

definition release_slot :: "SessionManager \<Rightarrow> SessionManager" where
  "release_slot sm =
     grantWaitersLocked (if sm_activeSlots sm > 0 then sm\<lparr>sm_activeSlots := sm_activeSlots sm - 1\<rparr> else sm)"

definition connectionLeaseReleaseMaxAttempts :: nat where
  "connectionLeaseReleaseMaxAttempts = 3"

text \<open>The number of attempts at giving a lease back; the argument says whether an attempt fails.\<close>

fun release_attempts :: "nat \<Rightarrow> (nat \<Rightarrow> bool) \<Rightarrow> nat \<Rightarrow> nat" where
  "release_attempts 0 fails attempt = attempt - 1"
| "release_attempts (Suc n) fails attempt = (if fails attempt then release_attempts n fails (attempt + 1) else attempt)"

definition releaseConnectionLeaseWithRetry :: "(nat \<Rightarrow> bool) \<Rightarrow> nat" where
  "releaseConnectionLeaseWithRetry fails = release_attempts connectionLeaseReleaseMaxAttempts fails 1"

section \<open>Sessions\<close>

definition resolveSessionLimits :: "string \<Rightarrow> int \<Rightarrow> SessionManager \<Rightarrow> string \<times> int" where
  "resolveSessionLimits limit threads sm =
     (case sm_rebalancer sm of
        None \<Rightarrow> (limit, threads)
      | Some r \<Rightarrow> (if limit = [] then MemoryLimit r else limit, if threads \<le> 0 then PerSessionThreads r else threads))"

definition request_rebalance :: "SessionManager \<Rightarrow> SessionManager" where
  "request_rebalance sm = sm\<lparr>sm_rebalancer := map_option RequestRebalance (sm_rebalancer sm)\<rparr>"

text \<open>A session that a worker has created is registered, unless the manager is draining.\<close>

definition register_session :: "ManagedSession \<Rightarrow> SessionManager \<Rightarrow> SessionManager option" where
  "register_session s sm =
     (if isClosed sm then None
      else Some (sm\<lparr>sm_sessions := (sm_sessions sm)(ss_PID s \<mapsto> s),
                    sm_byWorker := (sm_byWorker sm)(ss_WorkerID s := sm_byWorker sm (ss_WorkerID s) @ [ss_PID s])\<rparr>))"

definition removeSessionFromWorkerLocked :: "int \<Rightarrow> 32 word \<Rightarrow> SessionManager \<Rightarrow> SessionManager" where
  "removeSessionFromWorkerLocked workerID pid sm =
     sm\<lparr>sm_byWorker := (sm_byWorker sm)(workerID := remove1 pid (sm_byWorker sm workerID))\<rparr>"

definition detachSessionLocked :: "32 word \<Rightarrow> SessionManager \<Rightarrow> (ManagedSession \<times> SessionManager) option" where
  "detachSessionLocked pid sm =
     (case sm_sessions sm pid of
        None \<Rightarrow> None
      | Some s \<Rightarrow>
          let sm1 = removeSessionFromWorkerLocked (ss_WorkerID s) pid (sm\<lparr>sm_sessions := (sm_sessions sm)(pid := None)\<rparr>);
              sm2 = (if ss_lease s = None \<and> sm_activeSlots sm1 > 0 then sm1\<lparr>sm_activeSlots := sm_activeSlots sm1 - 1\<rparr> else sm1)
          in Some (s, grantWaitersLocked sm2))"

text \<open>The session is taken off and the cleanup is counted in one section.\<close>

definition detach_for_cleanup :: "32 word \<Rightarrow> SessionManager \<Rightarrow> (ManagedSession \<times> SessionManager) option" where
  "detach_for_cleanup pid sm =
     map_option (\<lambda>(s, sm1). (s, sm1\<lparr>sm_lifecycle := beginCleanup (sm_lifecycle sm1)\<rparr>)) (detachSessionLocked pid sm)"

text \<open>What is done outside the locks, in this order.\<close>

datatype effect =
    ExecutorClose "32 word"
  | WorkerDestroySession int string
  | ReleaseWorkerCall int
  | RetireIfNoSessionsCall int
  | LeaseRelease string
  | ConnClose nat
  | ErrorToClient "32 word"

definition lease_effects :: "string option \<Rightarrow> effect list" where
  "lease_effects lease = (case lease of None \<Rightarrow> [] | Some l \<Rightarrow> [LeaseRelease l])"

text \<open>The cleanup of \<^verbatim>\<open>DestroySession\<close>: the worker is released only when its session is gone.\<close>

definition destroy_effects :: "bool \<Rightarrow> ManagedSession \<Rightarrow> effect list" where
  "destroy_effects alive s =
     ExecutorClose (ss_PID s) # (if alive then [WorkerDestroySession (ss_WorkerID s) (ss_SessionToken s)] else []) @
     ReleaseWorkerCall (ss_WorkerID s) # lease_effects (ss_lease s)"

definition crash_effects :: "ManagedSession \<Rightarrow> effect list" where
  "crash_effects s =
     ExecutorClose (ss_PID s) # (case ss_connCloser s of None \<Rightarrow> [] | Some conn \<Rightarrow> [ConnClose conn]) @ lease_effects (ss_lease s)"

definition cleanupUnregisteredWorkerSession :: "bool \<Rightarrow> int \<Rightarrow> string \<Rightarrow> effect list" where
  "cleanupUnregisteredWorkerSession alive workerID token =
     (if alive then [WorkerDestroySession workerID token] else []) @ [ReleaseWorkerCall workerID]"

section \<open>Crashes, and what is known about sessions\<close>

definition mark_dead :: "32 word list \<Rightarrow> SessionManager \<Rightarrow> SessionManager" where
  "mark_dead pids sm =
     sm\<lparr>sm_sessions := (\<lambda>pid. if pid \<in> set pids then map_option (\<lambda>s. s\<lparr>ss_dead := True\<rparr>) (sm_sessions sm pid) else sm_sessions sm pid)\<rparr>"

definition forget_worker :: "int \<Rightarrow> SessionManager \<Rightarrow> SessionManager" where
  "forget_worker workerID sm = sm\<lparr>sm_byWorker := (sm_byWorker sm)(workerID := [])\<rparr>"

definition SetConnCloser :: "32 word \<Rightarrow> nat \<Rightarrow> SessionManager \<Rightarrow> SessionManager" where
  "SetConnCloser pid conn sm =
     sm\<lparr>sm_sessions := (sm_sessions sm)(pid := map_option (\<lambda>s. s\<lparr>ss_connCloser := Some conn\<rparr>) (sm_sessions sm pid))\<rparr>"

definition SetProtocol :: "32 word \<Rightarrow> string \<Rightarrow> SessionManager \<Rightarrow> SessionManager" where
  "SetProtocol pid protocol sm =
     sm\<lparr>sm_sessions := (sm_sessions sm)(pid := map_option (\<lambda>s. s\<lparr>ss_Protocol := protocol\<rparr>) (sm_sessions sm pid))\<rparr>"

definition UpdateProgress :: "int \<Rightarrow> (string \<Rightarrow> SessionProgress option) \<Rightarrow> SessionManager \<Rightarrow> SessionManager" where
  "UpdateProgress workerID progress sm =
     sm\<lparr>sm_sessions := (\<lambda>pid.
        if pid \<in> set (sm_byWorker sm workerID)
        then map_option (\<lambda>s. case progress (take 16 (ss_SessionToken s)) of
                               None \<Rightarrow> s | Some p \<Rightarrow> s\<lparr>ss_queryProgress := Some p\<rparr>) (sm_sessions sm pid)
        else sm_sessions sm pid)\<rparr>"

definition GetProgress :: "32 word \<Rightarrow> SessionManager \<Rightarrow> SessionProgress option" where
  "GetProgress pid sm = Option.bind (sm_sessions sm pid) ss_queryProgress"

definition SessionCountForWorker :: "int \<Rightarrow> SessionManager \<Rightarrow> nat" where
  "SessionCountForWorker workerID sm = length (sm_byWorker sm workerID)"

definition WorkerIDForPID :: "32 word \<Rightarrow> SessionManager \<Rightarrow> int" where
  "WorkerIDForPID pid sm = (case sm_sessions sm pid of Some s \<Rightarrow> ss_WorkerID s | None \<Rightarrow> - 1)"

end
