(* ===== verification/Session_Drain.thy ===== *)
theory Session_Drain
  imports Session_Manager "HOL-Library.Multiset"
begin

text \<open>
  The session manager at work: any number of sessions being created, destroyed and lost with their workers at the same
  time, while the limit of connections changes and the manager drains. A thread is a call of the manager at the point it has
  reached; a step is one critical section, or a call outside the locks with its outcome.
\<close>

section \<open>Threads\<close>

text \<open>A creation: it has begun; it asks the limiter; it asks for a slot; it waits for one; it has a slot, or a lease of the
  limiter; it has a worker too; it has failed and gives back what it has; it is about to end.\<close>

datatype thread =
    Starting int "32 word" string
  | Limiting int "32 word" string
  | Entering int "32 word" string
  | Waiting int "32 word" string nat
  | Holding int "32 word" string "string option"
  | OnWorker int "32 word" string "string option" int bool
  | Releasing int "string option"
  | Ending int
  | Cleaning ManagedSession
  | Crashing int "32 word list"
  | CrashCleaning int ManagedSession "32 word list"
  | DrainLoop
  | DrainSnapshot
  | DrainDestroying "32 word list"
  | DrainCleaning ManagedSession "32 word list"
  | DrainWaiting
  | Drained

text \<open>The PIDs that have been given to callers and not yet used, and the number of PIDs ever given, are kept beside.\<close>

record sm_run =
  rn_sm :: SessionManager
  rn_threads :: "thread multiset"
  rn_reserved :: "32 word set"
  rn_issued :: nat
  rn_effects :: "effect list"

definition new_run :: "MemoryRebalancer option \<Rightarrow> sm_run" where
  "new_run rebalancer =
     \<lparr>rn_sm = NewSessionManager rebalancer, rn_threads = {#}, rn_reserved = {}, rn_issued = 0, rn_effects = []\<rparr>"

definition go :: "SessionManager \<Rightarrow> thread multiset \<Rightarrow> effect list \<Rightarrow> sm_run \<Rightarrow> sm_run" where
  "go sm T es r = r\<lparr>rn_sm := sm, rn_threads := T, rn_effects := rn_effects r @ es\<rparr>"

text \<open>A session created on a worker: its PID is the caller's or the next one.\<close>

definition session_pid :: "32 word \<Rightarrow> SessionManager \<Rightarrow> SessionManager \<times> 32 word" where
  "session_pid pid sm = (if pid = 0 then ReservePID sm else (sm, pid))"

definition new_session :: "32 word \<Rightarrow> int \<Rightarrow> string \<Rightarrow> string \<Rightarrow> string option \<Rightarrow> ManagedSession" where
  "new_session pid workerID protocol token lease =
     \<lparr>ss_PID = pid, ss_WorkerID = workerID, ss_Protocol = protocol, ss_SessionToken = token, ss_dead = False,
      ss_connCloser = None, ss_lease = lease, ss_queryProgress = None\<rparr>"

definition slot_thread :: "int \<Rightarrow> 32 word \<Rightarrow> string \<Rightarrow> slot \<Rightarrow> thread" where
  "slot_thread nid pid protocol x =
     (case x of Refused \<Rightarrow> Ending nid | Taken \<Rightarrow> Holding nid pid protocol None | Queued w \<Rightarrow> Waiting nid pid protocol w)"

definition release_connection_slot :: "string option \<Rightarrow> SessionManager \<Rightarrow> SessionManager" where
  "release_connection_slot lease sm = (case lease of None \<Rightarrow> release_slot sm | Some l \<Rightarrow> sm)"

definition with_lifecycle :: "(sessionLifecycle \<Rightarrow> sessionLifecycle) \<Rightarrow> SessionManager \<Rightarrow> SessionManager" where
  "with_lifecycle f sm = sm\<lparr>sm_lifecycle := f (sm_lifecycle sm)\<rparr>"

section \<open>Steps\<close>

inductive sm_step :: "sm_run \<Rightarrow> sm_run \<Rightarrow> bool" where
  reserve: "ReservePID (rn_sm r) = (sm, pid) \<Longrightarrow>
    sm_step r (r\<lparr>rn_sm := sm, rn_reserved := insert pid (rn_reserved r), rn_issued := rn_issued r + 1\<rparr>)"
| begin_create: "begin_creation (sm_lifecycle (rn_sm r)) = Some (l, nid) \<Longrightarrow> pid = 0 \<or> pid \<in> rn_reserved r \<Longrightarrow>
    sm_step r ((go ((rn_sm r)\<lparr>sm_lifecycle := l\<rparr>) (add_mset (Starting nid pid protocol) (rn_threads r)) [] r)
      \<lparr>rn_reserved := rn_reserved r - {pid}\<rparr>)"
| acquire_refused: "rn_threads r = add_mset (Starting nid pid protocol) T \<Longrightarrow> isClosed (rn_sm r) \<Longrightarrow>
    sm_step r (go (rn_sm r) (add_mset (Ending nid) T) [] r)"
| acquire_limiter: "rn_threads r = add_mset (Starting nid pid protocol) T \<Longrightarrow> \<not> isClosed (rn_sm r) \<Longrightarrow>
    sm_step r (go (rn_sm r)
      (add_mset (if sm_limiter (rn_sm r) then Limiting nid pid protocol else Entering nid pid protocol) T) [] r)"
| limiter_fails: "rn_threads r = add_mset (Limiting nid pid protocol) T \<Longrightarrow> sm_step r (go (rn_sm r) (add_mset (Ending nid) T) [] r)"
| limiter_grants: "rn_threads r = add_mset (Limiting nid pid protocol) T \<Longrightarrow>
    sm_step r (if isClosed (rn_sm r) then go (rn_sm r) (add_mset (Ending nid) T) [LeaseRelease l] r
      else go (rn_sm r) (add_mset (Holding nid pid protocol (Some l)) T) [] r)"
| enter: "rn_threads r = add_mset (Entering nid pid protocol) T \<Longrightarrow> acquire_local (rn_sm r) = (sm, x) \<Longrightarrow>
    sm_step r (go sm (add_mset (slot_thread nid pid protocol x) T) [] r)"
| wait_ready: "rn_threads r = add_mset (Waiting nid pid protocol w) T \<Longrightarrow> wt_ready (sm_waiter (rn_sm r) w) \<Longrightarrow>
    sm_step r (go (rn_sm r)
      (add_mset (if wt_err (sm_waiter (rn_sm r) w) = None then Holding nid pid protocol None else Ending nid) T) [] r)"
| wait_ended: "rn_threads r = add_mset (Waiting nid pid protocol w) T \<Longrightarrow> wait_cancelled w (rn_sm r) = (sm, g) \<Longrightarrow>
    sm_step r (go sm (add_mset (if g then Holding nid pid protocol None else Ending nid) T) [] r)"
| no_worker: "rn_threads r = add_mset (Holding nid pid protocol lease) T \<Longrightarrow>
    sm_step r (go (rn_sm r) (add_mset (Releasing nid lease) T) [] r)"
| got_worker: "rn_threads r = add_mset (Holding nid pid protocol lease) T \<Longrightarrow>
    sm_step r (go (rn_sm r) (add_mset (OnWorker nid pid protocol lease workerID retireOnFailure) T) [] r)"
| no_session: "rn_threads r = add_mset (OnWorker nid pid protocol lease workerID retireOnFailure) T \<Longrightarrow>
    sm_step r (go (rn_sm r) (add_mset (Releasing nid lease) T) (if retireOnFailure then [RetireIfNoSessionsCall workerID] else []) r)"
| got_session: "rn_threads r = add_mset (OnWorker nid pid protocol lease workerID retireOnFailure) T \<Longrightarrow>
    session_pid pid (rn_sm r) = (sm, pid') \<Longrightarrow>
    sm_step r ((case register_session (new_session pid' workerID protocol token lease) sm of
        None \<Rightarrow> go sm (add_mset (Releasing nid lease) T) (cleanupUnregisteredWorkerSession alive workerID token) r
      | Some sm' \<Rightarrow> go (request_rebalance sm') (add_mset (Ending nid) T) [] r)
        \<lparr>rn_issued := rn_issued r + (if pid = 0 then 1 else 0)\<rparr>)"
| release: "rn_threads r = add_mset (Releasing nid lease) T \<Longrightarrow>
    sm_step r (go (release_connection_slot lease (rn_sm r)) (add_mset (Ending nid) T) (lease_effects lease) r)"
| end_create: "rn_threads r = add_mset (Ending nid) T \<Longrightarrow>
    sm_step r (go (with_lifecycle (end_creation nid) (rn_sm r)) T [] r)"
| destroy: "detach_for_cleanup pid (rn_sm r) = Some (s, sm) \<Longrightarrow> sm_step r (go sm (add_mset (Cleaning s) (rn_threads r)) [] r)"
| destroyed: "rn_threads r = add_mset (Cleaning s) T \<Longrightarrow>
    sm_step r (go (request_rebalance (with_lifecycle finishCleanup (rn_sm r))) T (destroy_effects alive s) r)"
| crash: "sm_step r (go (mark_dead (sm_byWorker (rn_sm r) workerID) (rn_sm r))
    (add_mset (Crashing workerID (sm_byWorker (rn_sm r) workerID)) (rn_threads r)) [] r)"
| crash_detach: "rn_threads r = add_mset (Crashing workerID (pid # pids)) T \<Longrightarrow>
    sm_step r (case detach_for_cleanup pid (rn_sm r) of
        None \<Rightarrow> go (rn_sm r) (add_mset (Crashing workerID pids) T) [ErrorToClient pid] r
      | Some (s, sm) \<Rightarrow> go sm (add_mset (CrashCleaning workerID s pids) T) [ErrorToClient pid] r)"
| crash_cleaned: "rn_threads r = add_mset (CrashCleaning workerID s pids) T \<Longrightarrow>
    sm_step r (go (with_lifecycle finishCleanup (rn_sm r)) (add_mset (Crashing workerID pids) T) (crash_effects s) r)"
| crash_over: "rn_threads r = add_mset (Crashing workerID []) T \<Longrightarrow>
    sm_step r (go (request_rebalance (forget_worker workerID (rn_sm r))) T [] r)"
| set_max: "sm_step r (r\<lparr>rn_sm := SetMaxConnections n (rn_sm r)\<rparr>)"
| set_limiter: "sm_step r (r\<lparr>rn_sm := SetConnectionLimiter b (rn_sm r)\<rparr>)"
| set_closer: "sm_step r (r\<lparr>rn_sm := SetConnCloser pid conn (rn_sm r)\<rparr>)"
| set_protocol: "sm_step r (r\<lparr>rn_sm := SetProtocol pid protocol (rn_sm r)\<rparr>)"
| progress: "sm_step r (r\<lparr>rn_sm := UpdateProgress workerID p (rn_sm r)\<rparr>)"
| drain: "sm_step r (go (rn_sm r) (add_mset DrainLoop (rn_threads r)) [] r)"
| drain_close: "rn_threads r = add_mset DrainLoop T \<Longrightarrow>
    sm_step r (go (with_lifecycle close_lifecycle (rn_sm r)) (add_mset DrainSnapshot T) [] r)"
| drain_snapshot: "rn_threads r = add_mset DrainSnapshot T \<Longrightarrow> set pids = dom (sm_sessions (rn_sm r)) \<Longrightarrow> distinct pids \<Longrightarrow>
    sm_step r (go (failWaitersLocked ErrSessionManagerDraining (rn_sm r))
      (add_mset (if pids = [] then DrainWaiting else DrainDestroying pids) T) [] r)"
| drain_destroy: "rn_threads r = add_mset (DrainDestroying (pid # pids)) T \<Longrightarrow>
    sm_step r (case detach_for_cleanup pid (rn_sm r) of
        None \<Rightarrow> go (rn_sm r) (add_mset (DrainDestroying pids) T) [] r
      | Some (s, sm) \<Rightarrow> go sm (add_mset (DrainCleaning s pids) T) [] r)"
| drain_cleaned: "rn_threads r = add_mset (DrainCleaning s pids) T \<Longrightarrow>
    sm_step r (go (request_rebalance (with_lifecycle finishCleanup (rn_sm r))) (add_mset (DrainDestroying pids) T) (destroy_effects alive s) r)"
| drain_again: "rn_threads r = add_mset (DrainDestroying []) T \<Longrightarrow> sm_step r (go (rn_sm r) (add_mset DrainLoop T) [] r)"
| drain_over: "rn_threads r = add_mset DrainWaiting T \<Longrightarrow> lc_active (sm_lifecycle (rn_sm r)) \<le> 0 \<Longrightarrow>
    sm_step r (go (with_lifecycle close_lifecycle (rn_sm r)) (add_mset Drained T) [] r)"

inductive sm_reach :: "MemoryRebalancer option \<Rightarrow> sm_run \<Rightarrow> bool" for rebalancer where
  start: "sm_reach rebalancer (new_run rebalancer)"
| more: "sm_reach rebalancer r \<Longrightarrow> sm_step r r' \<Longrightarrow> sm_reach rebalancer r'"

section \<open>What a thread has\<close>

fun slots_of :: "thread \<Rightarrow> int" where
  "slots_of (Holding nid pid protocol lease) = (if lease = None then 1 else 0)"
| "slots_of (OnWorker nid pid protocol lease workerID retire) = (if lease = None then 1 else 0)"
| "slots_of (Releasing nid lease) = (if lease = None then 1 else 0)"
| "slots_of _ = 0"

fun active_of :: "thread \<Rightarrow> int" where
  "active_of (Crashing workerID pids) = 0"
| "active_of DrainLoop = 0"
| "active_of DrainSnapshot = 0"
| "active_of (DrainDestroying pids) = 0"
| "active_of DrainWaiting = 0"
| "active_of Drained = 0"
| "active_of _ = 1"

fun waits_on :: "thread \<Rightarrow> nat multiset" where
  "waits_on (Waiting nid pid protocol w) = {#w#}"
| "waits_on _ = {#}"

fun pid_of :: "thread \<Rightarrow> 32 word multiset" where
  "pid_of (Starting nid pid protocol) = (if pid = 0 then {#} else {#pid#})"
| "pid_of (Limiting nid pid protocol) = (if pid = 0 then {#} else {#pid#})"
| "pid_of (Entering nid pid protocol) = (if pid = 0 then {#} else {#pid#})"
| "pid_of (Waiting nid pid protocol w) = (if pid = 0 then {#} else {#pid#})"
| "pid_of (Holding nid pid protocol lease) = (if pid = 0 then {#} else {#pid#})"
| "pid_of (OnWorker nid pid protocol lease workerID retire) = (if pid = 0 then {#} else {#pid#})"
| "pid_of _ = {#}"

definition total :: "(thread \<Rightarrow> 'a::comm_monoid_add) \<Rightarrow> thread multiset \<Rightarrow> 'a" where
  "total f T = sum_mset (image_mset f T)"

lemma total_simps [simp]: "total f {#} = 0" "total f (add_mset t T) = f t + total f T"
  by (simp_all add: total_def)

text \<open>The sessions that were given a slot, and the slots in use by threads: those that have one and those that wait and have
  just been granted one.\<close>

definition local_sessions :: "SessionManager \<Rightarrow> 32 word set" where
  "local_sessions sm = {pid. \<exists>s. sm_sessions sm pid = Some s \<and> ss_lease s = None}"

definition granted_slots :: "SessionManager \<Rightarrow> thread multiset \<Rightarrow> int" where
  "granted_slots sm T = int (size (filter_mset (\<lambda>w. wt_granted (sm_waiter sm w)) (total waits_on T)))"

definition issued_pids :: "nat \<Rightarrow> 32 word set" where
  "issued_pids n = (\<lambda>i. word_of_nat (1000 + i)) ` {1..n}"

section \<open>Frames\<close>

lemma go_simps [simp]:
  "rn_sm (go sm T es r) = sm" "rn_threads (go sm T es r) = T" "rn_reserved (go sm T es r) = rn_reserved r"
  "rn_issued (go sm T es r) = rn_issued r"
  by (simp_all add: go_def)

lemma grant_frame [simp]:
  "sm_sessions (grantWaitersLocked sm) = sm_sessions sm" "sm_lifecycle (grantWaitersLocked sm) = sm_lifecycle sm"
  "sm_nextPID (grantWaitersLocked sm) = sm_nextPID sm" "sm_maxConnections (grantWaitersLocked sm) = sm_maxConnections sm"
  "sm_newWaiter (grantWaitersLocked sm) = sm_newWaiter sm" "sm_byWorker (grantWaitersLocked sm) = sm_byWorker sm"
  by (simp_all add: grantWaitersLocked_def split: prod.split)

lemma release_frame [simp]:
  "sm_sessions (release_connection_slot lease sm) = sm_sessions sm"
  "sm_lifecycle (release_connection_slot lease sm) = sm_lifecycle sm"
  "sm_nextPID (release_connection_slot lease sm) = sm_nextPID sm"
  by (simp_all add: release_connection_slot_def release_slot_def split: option.split)

lemma rebalance_frame [simp]:
  "sm_sessions (request_rebalance sm) = sm_sessions sm" "sm_lifecycle (request_rebalance sm) = sm_lifecycle sm"
  "sm_nextPID (request_rebalance sm) = sm_nextPID sm" "sm_waiters (request_rebalance sm) = sm_waiters sm"
  "sm_waiter (request_rebalance sm) = sm_waiter sm" "sm_activeSlots (request_rebalance sm) = sm_activeSlots sm"
  "sm_maxConnections (request_rebalance sm) = sm_maxConnections sm" "sm_newWaiter (request_rebalance sm) = sm_newWaiter sm"
  by (simp_all add: request_rebalance_def)

lemma lifecycle_frame [simp]:
  "sm_sessions (with_lifecycle f sm) = sm_sessions sm" "sm_lifecycle (with_lifecycle f sm) = f (sm_lifecycle sm)"
  "sm_nextPID (with_lifecycle f sm) = sm_nextPID sm" "sm_waiters (with_lifecycle f sm) = sm_waiters sm"
  "sm_waiter (with_lifecycle f sm) = sm_waiter sm" "sm_activeSlots (with_lifecycle f sm) = sm_activeSlots sm"
  "sm_maxConnections (with_lifecycle f sm) = sm_maxConnections sm" "sm_newWaiter (with_lifecycle f sm) = sm_newWaiter sm"
  by (simp_all add: with_lifecycle_def)

lemma lifecycle_simps [simp]:
  "lc_closed (end_creation nid l) = lc_closed l" "lc_active (end_creation nid l) = lc_active l - 1"
  "lc_closed (finishCleanup l) = lc_closed l" "lc_active (finishCleanup l) = lc_active l - 1"
  "lc_closed (beginCleanup l) = lc_closed l" "lc_active (beginCleanup l) = lc_active l + 1"
  "lc_closed (close_lifecycle l)" "lc_active (close_lifecycle l) = lc_active l"
  by (simp_all add: end_creation_def finishCleanup_def beginCleanup_def close_lifecycle_def)

lemma acquire_frame:
  assumes "acquire_local sm = (sm', x)"
  shows "sm_sessions sm' = sm_sessions sm" "sm_lifecycle sm' = sm_lifecycle sm" "sm_nextPID sm' = sm_nextPID sm"
  using assms by (auto simp: acquire_local_def Let_def split: if_splits)

lemma cancelled_frame:
  assumes "wait_cancelled w sm = (sm', g)"
  shows "sm_sessions sm' = sm_sessions sm" "sm_lifecycle sm' = sm_lifecycle sm" "sm_nextPID sm' = sm_nextPID sm"
  using assms by (auto simp: wait_cancelled_def removeWaiterLocked_def split: if_splits)

lemma detach_frame:
  assumes "detach_for_cleanup pid sm = Some (s, sm')"
  shows "sm_sessions sm pid = Some s" "sm_sessions sm' = (sm_sessions sm)(pid := None)"
    "sm_lifecycle sm' = beginCleanup (sm_lifecycle sm)" "sm_nextPID sm' = sm_nextPID sm"
  using assms
  by (auto simp: detach_for_cleanup_def detachSessionLocked_def removeSessionFromWorkerLocked_def Let_def split: option.splits if_splits)

lemma detach_None: "detach_for_cleanup pid sm = None \<longleftrightarrow> sm_sessions sm pid = None"
  by (simp add: detach_for_cleanup_def detachSessionLocked_def Let_def split: option.split)

lemma register_frame:
  assumes "register_session s sm = Some sm'"
  shows "sm_sessions sm' = (sm_sessions sm)(ss_PID s \<mapsto> s)" "sm_lifecycle sm' = sm_lifecycle sm" "sm_nextPID sm' = sm_nextPID sm"
    "\<not> isClosed sm" "sm_waiters sm' = sm_waiters sm" "sm_waiter sm' = sm_waiter sm" "sm_activeSlots sm' = sm_activeSlots sm"
    "sm_maxConnections sm' = sm_maxConnections sm" "sm_newWaiter sm' = sm_newWaiter sm"
  using assms by (auto simp: register_session_def split: if_splits)

lemma begin_frame:
  assumes "begin_creation l = Some (l', nid)"
  shows "\<not> lc_closed l" "\<not> lc_closed l'" "lc_active l' = lc_active l + 1"
  using assms by (auto simp: begin_creation_def Let_def split: if_splits)

lemma session_frames [simp]:
  "sm_lifecycle (mark_dead pids sm) = sm_lifecycle sm" "sm_lifecycle (forget_worker workerID sm) = sm_lifecycle sm"
  "sm_lifecycle (SetConnCloser pid conn sm) = sm_lifecycle sm" "sm_lifecycle (SetProtocol pid protocol sm) = sm_lifecycle sm"
  "sm_lifecycle (UpdateProgress workerID p sm) = sm_lifecycle sm" "sm_lifecycle (SetMaxConnections n sm) = sm_lifecycle sm"
  "sm_lifecycle (SetConnectionLimiter b sm) = sm_lifecycle sm" "sm_lifecycle (failWaitersLocked err sm) = sm_lifecycle sm"
  by (simp_all add: mark_dead_def forget_worker_def SetConnCloser_def SetProtocol_def UpdateProgress_def SetMaxConnections_def
      SetConnectionLimiter_def failWaitersLocked_def)

lemma session_pid_frame:
  assumes "session_pid pid sm = (sm', pid')"
  shows "sm_sessions sm' = sm_sessions sm" "sm_lifecycle sm' = sm_lifecycle sm" "sm_waiters sm' = sm_waiters sm"
    "sm_waiter sm' = sm_waiter sm" "sm_activeSlots sm' = sm_activeSlots sm" "sm_maxConnections sm' = sm_maxConnections sm"
    "sm_newWaiter sm' = sm_newWaiter sm"
  using assms by (auto simp: session_pid_def ReservePID_def split: if_splits)

section \<open>What is under way\<close>

lemma active_counted:
  assumes "sm_step r r'" "lc_active (sm_lifecycle (rn_sm r)) = total active_of (rn_threads r)"
  shows "lc_active (sm_lifecycle (rn_sm r')) = total active_of (rn_threads r')"
  using assms
proof (cases rule: sm_step.cases)
  case (enter nid pid protocol T sm x)
  then show ?thesis using assms(2) acquire_frame [OF enter(3)] by (cases x) (simp_all add: slot_thread_def)
next
  case (got_session nid pid protocol lease workerID retireOnFailure T sm pid' token alive)
  then show ?thesis using assms(2) session_pid_frame [OF got_session(3)] register_frame by (auto split: option.splits)
qed (auto simp: ReservePID_def begin_frame cancelled_frame detach_frame split: option.splits)

section \<open>PIDs\<close>

text \<open>A PID belongs to one caller, thread or session, as long as the counter has not come round.\<close>

definition pids_in_use :: "sm_run \<Rightarrow> 32 word multiset" where
  "pids_in_use r = mset_set (rn_reserved r) + total pid_of (rn_threads r) + mset_set (dom (sm_sessions (rn_sm r)))"

definition few_pids :: "sm_run \<Rightarrow> bool" where
  "few_pids r \<longleftrightarrow> rn_issued r < 2 ^ 32 - 1001"

definition inv_pids :: "sm_run \<Rightarrow> bool" where
  "inv_pids r \<longleftrightarrow>
     finite (rn_reserved r) \<and> finite (dom (sm_sessions (rn_sm r))) \<and> sm_nextPID (rn_sm r) = word_of_nat (1000 + rn_issued r) \<and>
     (few_pids r \<longrightarrow> pids_in_use r \<subseteq># mset_set (issued_pids (rn_issued r)))"

lemma issued_finite [simp]: "finite (issued_pids n)"
  by (simp add: issued_pids_def)

lemma issued_Suc: "issued_pids (Suc n) = insert (word_of_nat (1001 + n)) (issued_pids n)"
  by (auto simp: issued_pids_def atLeastAtMostSuc_conv)

lemma small_pids:
  assumes "j < 2 ^ 32" "k < 2 ^ 32" "(word_of_nat j :: 32 word) = word_of_nat k"
  shows "j = k"
proof -
  have "unat (word_of_nat i :: 32 word) = i" if "i < 2 ^ 32" for i
    using that by (simp add: unat_of_nat take_bit_nat_eq_self)
  then show ?thesis using assms by metis
qed

lemma issued_fresh:
  assumes n: "n < 2 ^ 32 - 1001"
  shows "word_of_nat (1001 + n) \<notin> issued_pids n" "(0 :: 32 word) \<notin> issued_pids n" "(word_of_nat (1001 + n) :: 32 word) \<noteq> 0"
proof -
  show "word_of_nat (1001 + n) \<notin> issued_pids n"
  proof
    assume "word_of_nat (1001 + n) \<in> issued_pids n"
    then obtain i where i: "i \<le> n" "(word_of_nat (1001 + n) :: 32 word) = word_of_nat (1000 + i)" unfolding issued_pids_def by auto
    have "1001 + n = 1000 + i" by (rule small_pids [OF _ _ i(2)]) (use n i(1) in simp_all)
    then show False using i(1) by simp
  qed
  have zero: "(word_of_nat k :: 32 word) \<noteq> 0" if "0 < k" "k < 2 ^ 32" for k
    using small_pids [OF that(2), of 0] that(1) by auto
  show "(0 :: 32 word) \<notin> issued_pids n"
  proof
    assume "(0 :: 32 word) \<in> issued_pids n"
    then obtain i where i: "i \<le> n" "(word_of_nat (1000 + i) :: 32 word) = 0" unfolding issued_pids_def by force
    then show False using zero [of "1000 + i"] n by simp
  qed
  show "(word_of_nat (1001 + n) :: 32 word) \<noteq> 0" by (rule zero) (use n in simp_all)
qed

lemma inv_pids_less:
  assumes "inv_pids r" "finite (rn_reserved r')" "finite (dom (sm_sessions (rn_sm r')))" "sm_nextPID (rn_sm r') = sm_nextPID (rn_sm r)"
    "rn_issued r' = rn_issued r" "few_pids r \<Longrightarrow> pids_in_use r' \<subseteq># pids_in_use r"
  shows "inv_pids r'"
  using assms unfolding inv_pids_def few_pids_def by (metis subset_mset.order_trans)

lemma inv_pids_new:
  assumes i: "inv_pids r" and "finite (rn_reserved r')" "finite (dom (sm_sessions (rn_sm r')))"
    and n: "sm_nextPID (rn_sm r') = sm_nextPID (rn_sm r) + 1" "rn_issued r' = rn_issued r + 1"
    and u: "pids_in_use r' \<subseteq># add_mset (sm_nextPID (rn_sm r) + 1) (pids_in_use r)"
  shows "inv_pids r'"
proof -
  have p: "sm_nextPID (rn_sm r) + 1 = word_of_nat (1001 + rn_issued r)" using i by (simp add: inv_pids_def)
  have "pids_in_use r' \<subseteq># mset_set (issued_pids (rn_issued r'))" if "few_pids r'"
  proof -
    have few: "few_pids r" and b: "rn_issued r < 2 ^ 32 - 1001" using that n(2) by (simp_all add: few_pids_def)
    then have "pids_in_use r \<subseteq># mset_set (issued_pids (rn_issued r))" using i by (simp add: inv_pids_def)
    then show ?thesis using u issued_fresh(1) [OF b] n(2) p by (simp add: issued_Suc) (meson mset_subset_eq_add_mset_cancel subset_mset.order_trans)
  qed
  then show ?thesis using assms(2,3) n p by (simp add: inv_pids_def)
qed

lemma pid_owner:
  assumes "inv_pids r" "few_pids r" "rn_threads r = add_mset t T" "pid \<in># pid_of t"
  shows "pid \<notin> dom (sm_sessions (rn_sm r))"
proof
  assume d: "pid \<in> dom (sm_sessions (rn_sm r))"
  have f: "finite (dom (sm_sessions (rn_sm r)))" and sub: "pids_in_use r \<subseteq># mset_set (issued_pids (rn_issued r))"
    using assms(1,2) by (simp_all add: inv_pids_def)
  have "1 \<le> count (pid_of t) pid" using assms(4) by (simp add: Suc_le_eq)
  moreover have "count (pids_in_use r) pid = count (mset_set (rn_reserved r)) pid + count (pid_of t) pid + count (total pid_of T) pid + 1"
    using assms(3) d f by (simp add: pids_in_use_def count_mset_set(1))
  ultimately have "count (pids_in_use r) pid \<ge> 2" by linarith
  moreover have "count (mset_set (issued_pids (rn_issued r))) pid \<le> 1" by (simp add: count_mset_set')
  ultimately show False using mset_subset_eq_count [OF sub, of pid] by simp
qed

lemma dom_frames [simp]:
  "dom (sm_sessions (mark_dead pids sm)) = dom (sm_sessions sm)" "dom (sm_sessions (forget_worker workerID sm)) = dom (sm_sessions sm)"
  "dom (sm_sessions (SetConnCloser pid conn sm)) = dom (sm_sessions sm)"
  "dom (sm_sessions (SetProtocol pid protocol sm)) = dom (sm_sessions sm)"
  "dom (sm_sessions (UpdateProgress workerID p sm)) = dom (sm_sessions sm)"
  "dom (sm_sessions (SetMaxConnections n sm)) = dom (sm_sessions sm)"
  "dom (sm_sessions (SetConnectionLimiter b sm)) = dom (sm_sessions sm)"
  "dom (sm_sessions (failWaitersLocked err sm)) = dom (sm_sessions sm)"
  by (auto simp: mark_dead_def forget_worker_def SetConnCloser_def SetProtocol_def UpdateProgress_def SetMaxConnections_def
      SetConnectionLimiter_def failWaitersLocked_def dom_def split: if_splits option.splits)

lemma nextPID_frames [simp]:
  "sm_nextPID (mark_dead pids sm) = sm_nextPID sm" "sm_nextPID (forget_worker workerID sm) = sm_nextPID sm"
  "sm_nextPID (SetConnCloser pid conn sm) = sm_nextPID sm" "sm_nextPID (SetProtocol pid protocol sm) = sm_nextPID sm"
  "sm_nextPID (UpdateProgress workerID p sm) = sm_nextPID sm" "sm_nextPID (SetMaxConnections n sm) = sm_nextPID sm"
  "sm_nextPID (SetConnectionLimiter b sm) = sm_nextPID sm" "sm_nextPID (failWaitersLocked err sm) = sm_nextPID sm"
  by (simp_all add: mark_dead_def forget_worker_def SetConnCloser_def SetProtocol_def UpdateProgress_def SetMaxConnections_def
      SetConnectionLimiter_def failWaitersLocked_def)

lemma mset_set_smaller: "finite A \<Longrightarrow> mset_set (A - B) \<subseteq># mset_set A"
  by (intro subset_imp_msubset_mset_set) auto

lemma mset_set_insert_le: "finite A \<Longrightarrow> mset_set (insert x A) \<subseteq># add_mset x (mset_set A)"
  by (cases "x \<in> A") (simp_all add: insert_absorb subset_mset.less_imp_le)

lemma pids_got_session:
  assumes i: "inv_pids r" and T: "rn_threads r = add_mset (OnWorker nid pid protocol lease workerID retire) T"
    and p: "session_pid pid (rn_sm r) = (sm, pid')"
    and r': "rn_reserved r' = rn_reserved r" "rn_issued r' = rn_issued r + (if pid = 0 then 1 else 0)" "sm_nextPID (rn_sm r') = sm_nextPID sm"
    and c: "sm_sessions (rn_sm r') = sm_sessions sm \<or> dom (sm_sessions (rn_sm r')) = insert pid' (dom (sm_sessions sm))"
    and t: "total pid_of (rn_threads r') = total pid_of T"
  shows "inv_pids r'"
proof -
  note f = session_pid_frame [OF p]
  have fin: "finite (rn_reserved r')" "finite (dom (sm_sessions (rn_sm r')))" using i c r' f by (auto simp: inv_pids_def)
  have d: "mset_set (dom (sm_sessions (rn_sm r'))) \<subseteq># add_mset pid' (mset_set (dom (sm_sessions (rn_sm r))))"
    using c f i mset_set_insert_le [of "dom (sm_sessions (rn_sm r))" pid'] by (auto simp: inv_pids_def subset_mset.less_imp_le)
  show ?thesis
  proof (cases "pid = 0")
    case True
    have "sm_nextPID (rn_sm r') = sm_nextPID (rn_sm r) + 1" "pid' = sm_nextPID (rn_sm r) + 1"
      using True p r' by (auto simp: session_pid_def ReservePID_def)
    then show ?thesis using inv_pids_new [OF i fin] True d r' T t by (simp add: pids_in_use_def)
  next
    case False
    have "sm_nextPID (rn_sm r') = sm_nextPID (rn_sm r)" "pid' = pid" using False p r' by (auto simp: session_pid_def)
    then show ?thesis using inv_pids_less [OF i fin] False d r' T t by (simp add: pids_in_use_def)
  qed
qed

lemma pids_begin:
  assumes i: "inv_pids r" and "few_pids r" "pid = 0 \<or> pid \<in> rn_reserved r"
  shows "mset_set (rn_reserved r - {pid}) + (if pid = 0 then {#} else {#pid#}) \<subseteq># mset_set (rn_reserved r)"
proof (cases "pid = 0")
  case True
  then show ?thesis using i mset_set_smaller by (simp add: inv_pids_def)
next
  case False
  then have "rn_reserved r = insert pid (rn_reserved r - {pid})" using assms(3) by blast
  then have "mset_set (rn_reserved r) = add_mset pid (mset_set (rn_reserved r - {pid}))"
    using i by (metis Diff_iff finite_Diff insertI1 inv_pids_def mset_set.insert)
  then show ?thesis using False by simp
qed

lemma pids_kept:
  assumes "sm_step r r'" and i: "inv_pids r"
  shows "inv_pids r'"
proof -
  have fin [simp]: "finite (rn_reserved r)" "finite (dom (sm_sessions (rn_sm r)))" using i by (simp_all add: inv_pids_def)
  have smaller [simp]: "mset_set (A - B) \<subseteq># mset_set A" if "finite A" for A B :: "32 word set" by (rule mset_set_smaller [OF that])
  show ?thesis
    using assms(1)
  proof (cases rule: sm_step.cases)
    case (reserve sm pid)
    then show ?thesis using mset_set_insert_le [of "rn_reserved r" pid]
      by (auto intro!: inv_pids_new [OF i] simp: ReservePID_def pids_in_use_def)
  next
    case (begin_create l nid pid protocol)
    have "pids_in_use r' \<subseteq># pids_in_use r" if "few_pids r"
      using begin_create(1) pids_begin [OF i that begin_create(3)] by (auto simp: pids_in_use_def)
    then show ?thesis using begin_create(1) by (auto intro!: inv_pids_less [OF i])
  next
    case (enter nid pid protocol T sm x)
    then show ?thesis using acquire_frame [OF enter(3)]
      by (cases x) (auto intro!: inv_pids_less [OF i] simp: slot_thread_def pids_in_use_def)
  next
    case (wait_ended nid pid protocol w T sm g)
    then show ?thesis using cancelled_frame [OF wait_ended(3)] by (auto intro!: inv_pids_less [OF i] simp: pids_in_use_def)
  next
    case (got_session nid pid protocol lease workerID retireOnFailure T sm pid' token alive)
    show ?thesis
      by (rule pids_got_session [OF i got_session(2,3)])
        (auto simp: got_session(1) new_session_def dest: register_frame(1,3) split: option.split)
  next
    case (destroy pid s sm)
    then show ?thesis using detach_frame [OF destroy(2)] by (auto intro!: inv_pids_less [OF i] simp: pids_in_use_def)
  next
    case (crash_detach workerID pid pids T)
    then show ?thesis by (auto intro!: inv_pids_less [OF i] simp: pids_in_use_def detach_frame split: option.splits)
  next
    case (drain_destroy pid pids T)
    then show ?thesis by (auto intro!: inv_pids_less [OF i] simp: pids_in_use_def detach_frame split: option.splits)
  qed (auto intro!: inv_pids_less [OF i] simp: pids_in_use_def)
qed

section \<open>Slots\<close>

lemma grant_loop_spec:
  "grant_loop m ws a = (left, gs, a') \<Longrightarrow>
     ws = gs @ left \<and> a' = a + int (length gs) \<and> (left \<noteq> [] \<longrightarrow> 0 < m \<and> m \<le> a') \<and> (gs \<noteq> [] \<longrightarrow> m \<le> 0 \<or> a' \<le> m)"
proof (induction m ws a arbitrary: left gs a' rule: grant_loop.induct)
  case (2 m w ws a)
  show ?case
  proof (cases "m \<le> 0 \<or> a < m")
    case True
    obtain l g b where g: "grant_loop m ws (a + 1) = (l, g, b)" using prod_cases3 by blast
    then show ?thesis using "2.IH" [OF True g] "2.prems" True by auto
  next
    case False
    then show ?thesis using "2.prems" by auto
  qed
qed simp

definition slots_ok :: "SessionManager \<Rightarrow> thread multiset \<Rightarrow> bool" where
  "slots_ok sm T \<longleftrightarrow> sm_activeSlots sm = int (card (local_sessions sm)) + total slots_of T + granted_slots sm T"

definition waiters_ok :: "SessionManager \<Rightarrow> thread multiset \<Rightarrow> bool" where
  "waiters_ok sm T \<longleftrightarrow>
     mset (sm_waiters sm) \<subseteq># total waits_on T \<and> (\<forall>w. count (total waits_on T) w \<le> 1) \<and>
     (\<forall>w \<in># total waits_on T. w < sm_newWaiter sm) \<and>
     (\<forall>w \<in> set (sm_waiters sm). \<not> wt_granted (sm_waiter sm w) \<and> wt_err (sm_waiter sm w) = None) \<and>
     (\<forall>w. wt_granted (sm_waiter sm w) \<longrightarrow> wt_err (sm_waiter sm w) = None) \<and>
     (\<forall>w. wt_ready (sm_waiter sm w) \<longrightarrow> wt_granted (sm_waiter sm w) \<or> wt_err (sm_waiter sm w) \<noteq> None)"

text \<open>Nobody waits while there is a free slot.\<close>

definition queue_ok :: "SessionManager \<Rightarrow> bool" where
  "queue_ok sm \<longleftrightarrow> (\<not> isClosed sm \<and> sm_waiters sm \<noteq> [] \<longrightarrow> 0 < sm_maxConnections sm \<and> sm_maxConnections sm \<le> sm_activeSlots sm)"

lemma size_filter_new:
  assumes "mset gs \<subseteq># M" "\<forall>w. count M w \<le> 1" "\<forall>w \<in> set gs. \<not> P w"
  shows "size (filter_mset (\<lambda>w. P w \<or> w \<in> set gs) M) = size (filter_mset P M) + length gs"
proof -
  obtain N where N: "M = mset gs + N" using assms(1) by (auto simp: mset_subset_eq_exists_conv)
  have apart: "w \<notin> set gs" if "w \<in># N" for w
  proof
    assume "w \<in> set gs"
    then have "1 \<le> count (mset gs) w" "1 \<le> count N w" using that by (simp_all add: Suc_le_eq)
    moreover have "count (mset gs) w + count N w \<le> 1" using assms(2) by (metis N count_union)
    ultimately show False by linarith
  qed
  have "filter_mset (\<lambda>w. P w \<or> w \<in> set gs) (mset gs) = mset gs" "filter_mset P (mset gs) = {#}"
    using assms(3) by (auto simp: filter_mset_eq_conv filter_mset_eq_mempty_iff)
  moreover have "filter_mset (\<lambda>w. P w \<or> w \<in> set gs) N = filter_mset P N" using apart by (auto intro: filter_mset_cong)
  ultimately show ?thesis by (simp add: N)
qed

lemma distinct_sub:
  assumes "mset xs \<subseteq># M" "\<forall>w. count M w \<le> 1"
  shows "distinct xs"
proof -
  have "count (mset xs) a = (if a \<in> set xs then 1 else 0)" for a
    using mset_subset_eq_count [OF assms(1), of a] assms(2) [rule_format, of a]
    by (auto simp: count_eq_zero_iff intro: le_antisym)
  then show ?thesis by (simp add: distinct_count_atmost_1)
qed

lemma grant_ok:
  assumes s: "slots_ok sm T" and w: "waiters_ok sm T"
  shows "slots_ok (grantWaitersLocked sm) T \<and> waiters_ok (grantWaitersLocked sm) T \<and> queue_ok (grantWaitersLocked sm)"
proof (cases "isClosed sm")
  case True
  then show ?thesis using assms by (simp add: grantWaitersLocked_def queue_ok_def)
next
  case False
  obtain left gs a where g: "grant_loop (sm_maxConnections sm) (sm_waiters sm) (sm_activeSlots sm) = (left, gs, a)"
    using prod_cases3 by blast
  define sm' where "sm' = grantWaitersLocked sm"
  have sm': "sm' = sm\<lparr>sm_waiters := left, sm_activeSlots := a, sm_waiter := grant_waiters gs (sm_waiter sm)\<rparr>"
    using False g by (simp add: sm'_def grantWaitersLocked_def)
  note spec = grant_loop_spec [OF g]
  have all: "mset (gs @ left) \<subseteq># total waits_on T" using w spec by (simp add: waiters_ok_def)
  then have part: "mset gs \<subseteq># total waits_on T" "mset left \<subseteq># total waits_on T"
    using mset_subset_eq_add_left [of "mset gs" "mset left"] mset_subset_eq_add_right [of "mset left" "mset gs"]
    unfolding mset_append by (blast intro: subset_mset.order_trans)+
  have gs: "\<forall>w \<in> set gs. \<not> wt_granted (sm_waiter sm w)" "\<forall>w \<in> set gs. wt_err (sm_waiter sm w) = None"
    using w spec by (auto simp: waiters_ok_def)
  have dist: "distinct (gs @ left)" using distinct_sub [OF all] w by (simp add: waiters_ok_def)
  have "granted_slots sm' T = granted_slots sm T + int (length gs)"
  proof -
    have "(\<lambda>w. wt_granted (sm_waiter sm' w)) = (\<lambda>w. wt_granted (sm_waiter sm w) \<or> w \<in> set gs)"
      by (auto simp: sm' grant_waiters_def)
    then show ?thesis using size_filter_new [OF part(1) _ gs(1)] w by (simp add: granted_slots_def waiters_ok_def)
  qed
  then have "slots_ok sm' T" using s spec by (simp add: slots_ok_def sm' local_sessions_def)
  moreover have "waiters_ok sm' T"
    using w spec gs dist part by (auto simp: waiters_ok_def sm' grant_waiters_def)
  moreover have "queue_ok sm'" using spec by (auto simp: queue_ok_def sm')
  ultimately show ?thesis by (simp add: sm'_def)
qed

definition inv_slots :: "SessionManager \<Rightarrow> thread multiset \<Rightarrow> bool" where
  "inv_slots sm T \<longleftrightarrow> slots_ok sm T \<and> waiters_ok sm T \<and> queue_ok sm"

lemma granted_add [simp]:
  "granted_slots sm {#} = 0"
  "granted_slots sm (add_mset t T) = int (size (filter_mset (\<lambda>w. wt_granted (sm_waiter sm w)) (waits_on t))) + granted_slots sm T"
  by (simp_all add: granted_slots_def)

lemma slots_nonneg: "0 \<le> total slots_of T" "0 \<le> granted_slots sm T"
proof -
  have "0 \<le> slots_of t" for t by (cases t rule: slots_of.cases) auto
  then show "0 \<le> total slots_of T" by (induction T) (simp_all add: add_nonneg_nonneg)
qed (simp add: granted_slots_def)

text \<open>A thread that goes on with what it has.\<close>

lemma slots_swap:
  assumes "inv_slots sm (add_mset t T)" "slots_of t' = slots_of t" "waits_on t' = waits_on t"
  shows "inv_slots sm (add_mset t' T)"
  using assms by (simp add: inv_slots_def slots_ok_def waiters_ok_def)

lemma slots_drop:
  "inv_slots sm (add_mset t T) \<Longrightarrow> slots_of t = 0 \<Longrightarrow> waits_on t = {#} \<Longrightarrow> inv_slots sm T"
  "inv_slots sm T \<Longrightarrow> slots_of t = 0 \<Longrightarrow> waits_on t = {#} \<Longrightarrow> inv_slots sm (add_mset t T)"
  by (simp_all add: inv_slots_def slots_ok_def waiters_ok_def)

text \<open>A manager that differs only in what does not concern slots.\<close>

lemma slots_same:
  assumes "inv_slots sm T" "local_sessions sm' = local_sessions sm" "sm_waiters sm' = sm_waiters sm" "sm_waiter sm' = sm_waiter sm"
    "sm_activeSlots sm' = sm_activeSlots sm" "sm_maxConnections sm' = sm_maxConnections sm" "sm_newWaiter sm' = sm_newWaiter sm"
    "isClosed sm \<Longrightarrow> isClosed sm'"
  shows "inv_slots sm' T"
  using assms by (auto simp: inv_slots_def slots_ok_def waiters_ok_def queue_ok_def granted_slots_def)

lemma inv_slots_grant: "slots_ok sm T \<Longrightarrow> waiters_ok sm T \<Longrightarrow> inv_slots (grantWaitersLocked sm) T"
  using grant_ok by (simp add: inv_slots_def)

lemma slots_release:
  assumes i: "inv_slots sm (add_mset (Releasing nid lease) T)"
  shows "inv_slots (release_connection_slot lease sm) (add_mset (Ending nid) T)"
proof (cases lease)
  case None
  have "0 < sm_activeSlots sm" using i None slots_nonneg(1) [of T] slots_nonneg(2) [of sm T] by (simp add: inv_slots_def slots_ok_def)
  then have "release_connection_slot lease sm = grantWaitersLocked (sm\<lparr>sm_activeSlots := sm_activeSlots sm - 1\<rparr>)"
    using None by (simp add: release_connection_slot_def release_slot_def)
  moreover have "slots_ok (sm\<lparr>sm_activeSlots := sm_activeSlots sm - 1\<rparr>) (add_mset (Ending nid) T)"
    "waiters_ok (sm\<lparr>sm_activeSlots := sm_activeSlots sm - 1\<rparr>) (add_mset (Ending nid) T)"
    using i None by (simp_all add: inv_slots_def slots_ok_def waiters_ok_def local_sessions_def granted_slots_def)
  ultimately show ?thesis using inv_slots_grant by simp
next
  case (Some l)
  then show ?thesis using slots_drop(1) [OF i] slots_drop(2) [of sm T "Ending nid"] by (simp add: release_connection_slot_def)
qed

lemma slots_detach:
  assumes i: "inv_slots sm T" and f: "finite (dom (sm_sessions sm))" and d: "detach_for_cleanup pid sm = Some (s, sm')"
  shows "inv_slots sm' T"
proof -
  have s: "sm_sessions sm pid = Some s" using detach_frame(1) [OF d] .
  define sm1 where "sm1 = removeSessionFromWorkerLocked (ss_WorkerID s) pid (sm\<lparr>sm_sessions := (sm_sessions sm)(pid := None)\<rparr>)"
  define sm2 where "sm2 = (if ss_lease s = None \<and> sm_activeSlots sm1 > 0 then sm1\<lparr>sm_activeSlots := sm_activeSlots sm1 - 1\<rparr> else sm1)"
  have sm': "sm' = (grantWaitersLocked sm2)\<lparr>sm_lifecycle := beginCleanup (sm_lifecycle sm2)\<rparr>"
    using d s by (auto simp: detach_for_cleanup_def detachSessionLocked_def Let_def simp flip: sm1_def sm2_def)
  have fin: "finite (local_sessions sm)" using f by (rule finite_subset [rotated]) (auto simp: local_sessions_def)
  have loc: "local_sessions sm2 = local_sessions sm - {pid}"
    by (auto simp: sm2_def sm1_def removeSessionFromWorkerLocked_def local_sessions_def)
  have same: "sm_waiters sm2 = sm_waiters sm" "sm_waiter sm2 = sm_waiter sm" "sm_newWaiter sm2 = sm_newWaiter sm"
    by (simp_all add: sm2_def sm1_def removeSessionFromWorkerLocked_def)
  have "sm_activeSlots sm2 = sm_activeSlots sm - (if ss_lease s = None then 1 else 0) \<and>
      int (card (local_sessions sm2)) = int (card (local_sessions sm)) - (if ss_lease s = None then 1 else 0)"
  proof (cases "ss_lease s = None")
    case True
    then have "pid \<in> local_sessions sm" using s by (simp add: local_sessions_def)
    from card.remove [OF fin this] have c: "int (card (local_sessions sm)) = 1 + int (card (local_sessions sm - {pid}))"
      by (simp only: of_nat_Suc)
    then have "0 < sm_activeSlots sm" using i slots_nonneg(1) [of T] slots_nonneg(2) [of sm T] by (simp add: inv_slots_def slots_ok_def)
    then show ?thesis using True unfolding loc c by (simp add: sm2_def sm1_def removeSessionFromWorkerLocked_def)
  next
    case False
    then have "pid \<notin> local_sessions sm" using s by (simp add: local_sessions_def)
    then show ?thesis using False loc by (simp add: sm2_def sm1_def removeSessionFromWorkerLocked_def)
  qed
  then have "slots_ok sm2 T" "waiters_ok sm2 T" using i same by (auto simp: inv_slots_def slots_ok_def waiters_ok_def granted_slots_def)
  from inv_slots_grant [OF this] show ?thesis by (rule slots_same) (simp_all add: sm' local_sessions_def)
qed

text \<open>A waiter that goes: its place in the queue is gone before.\<close>

lemma sub_without: "w \<notin># A \<Longrightarrow> A \<subseteq># add_mset w M \<Longrightarrow> A \<subseteq># M"
  using subset_eq_diff_conv [of A "{#w#}" M] by (simp add: diff_single_trivial)

lemma waiter_gone:
  assumes "waiters_ok sm (add_mset t T)" "waits_on t = {#w#}" "waits_on t' = {#}" "w \<notin> set (sm_waiters sm)"
  shows "waiters_ok sm (add_mset t' T)"
proof -
  have "mset (sm_waiters sm) \<subseteq># total waits_on T" using sub_without [of w "mset (sm_waiters sm)"] assms by (simp add: waiters_ok_def)
  moreover have "count (total waits_on T) v \<le> 1" for v
  proof -
    have "count (total waits_on T) v \<le> count (total waits_on (add_mset t T)) v" by simp
    also have "\<dots> \<le> 1" using assms(1) unfolding waiters_ok_def by blast
    finally show ?thesis .
  qed
  ultimately show ?thesis using assms unfolding waiters_ok_def by simp
qed

lemma slots_enter:
  assumes i: "inv_slots sm (add_mset (Entering nid pid protocol) T)" and a: "acquire_local sm = (sm', x)"
  shows "inv_slots sm' (add_mset (slot_thread nid pid protocol x) T)"
proof (cases x)
  case Refused
  then have "sm' = sm" using a by (auto simp: acquire_local_def Let_def split: if_splits)
  then show ?thesis using slots_swap [OF i] Refused by (simp add: slot_thread_def)
next
  case Taken
  then have sm': "sm' = sm\<lparr>sm_activeSlots := sm_activeSlots sm + 1\<rparr>" and "\<not> isClosed sm"
    and "sm_maxConnections sm \<le> 0 \<or> sm_activeSlots sm < sm_maxConnections sm"
    using a by (auto simp: acquire_local_def Let_def split: if_splits)
  then have "sm_waiters sm = []" using i by (auto simp: inv_slots_def queue_ok_def)
  then show ?thesis
    using i Taken by (simp add: sm' slot_thread_def inv_slots_def slots_ok_def waiters_ok_def queue_ok_def local_sessions_def granted_slots_def)
next
  case (Queued w)
  then have w: "w = sm_newWaiter sm" and full: "0 < sm_maxConnections sm" "sm_maxConnections sm \<le> sm_activeSlots sm"
    and sm': "sm' = sm\<lparr>sm_waiters := sm_waiters sm @ [w], sm_newWaiter := w + 1,
        sm_waiter := (sm_waiter sm)(w := \<lparr>wt_ready = False, wt_granted = False, wt_err = None\<rparr>)\<rparr>"
    using a by (auto simp: acquire_local_def Let_def split: if_splits)
  have fresh: "w \<notin># total waits_on T" using i w by (auto simp: inv_slots_def waiters_ok_def)
  then have "filter_mset (\<lambda>v. wt_granted (sm_waiter sm' v)) (total waits_on T) =
      filter_mset (\<lambda>v. wt_granted (sm_waiter sm v)) (total waits_on T)"
    by (intro filter_mset_cong) (auto simp: sm')
  then have "slots_ok sm' (add_mset (Waiting nid pid protocol w) T)"
    using i by (simp add: sm' inv_slots_def slots_ok_def granted_slots_def local_sessions_def)
  moreover have "w \<notin> set (sm_waiters sm)" using i fresh mset_subset_eqD by (fastforce simp: inv_slots_def waiters_ok_def)
  then have "waiters_ok sm' (add_mset (Waiting nid pid protocol w) T)"
    using i fresh w by (auto simp: sm' inv_slots_def waiters_ok_def count_eq_zero_iff)
  ultimately show ?thesis using full Queued by (simp add: slot_thread_def inv_slots_def queue_ok_def sm')
qed

lemma slots_ready:
  assumes i: "inv_slots sm (add_mset (Waiting nid pid protocol w) T)" and r: "wt_ready (sm_waiter sm w)"
  shows "inv_slots sm (add_mset (if wt_err (sm_waiter sm w) = None then Holding nid pid protocol None else Ending nid) T)"
proof -
  have w: "wt_granted (sm_waiter sm w) \<longleftrightarrow> wt_err (sm_waiter sm w) = None" "w \<notin> set (sm_waiters sm)"
    using i r by (auto simp: inv_slots_def waiters_ok_def)
  have "waiters_ok sm (add_mset t' T)" if "waits_on t' = {#}" for t'
    by (rule waiter_gone [OF _ _ that w(2)]) (use i in \<open>auto simp: inv_slots_def\<close>)
  then show ?thesis using i w(1) by (auto simp: inv_slots_def slots_ok_def)
qed

lemma slots_wait_ended:
  assumes i: "inv_slots sm (add_mset (Waiting nid pid protocol w) T)" and c: "wait_cancelled w sm = (sm', g)"
  shows "inv_slots sm' (add_mset (if g then Holding nid pid protocol None else Ending nid) T)"
proof (cases g)
  case True
  then have g: "sm' = sm" "wt_granted (sm_waiter sm w)" using c by (auto simp: wait_cancelled_def split: if_splits)
  then have "w \<notin> set (sm_waiters sm)" using i by (auto simp: inv_slots_def waiters_ok_def)
  then have "waiters_ok sm (add_mset (Holding nid pid protocol None) T)"
    by (rule waiter_gone [rotated 3]) (use i in \<open>auto simp: inv_slots_def\<close>)
  then show ?thesis using i g True by (simp add: inv_slots_def slots_ok_def)
next
  case False
  then have g: "sm' = sm\<lparr>sm_waiters := remove1 w (sm_waiters sm)\<rparr>" "\<not> wt_granted (sm_waiter sm w)"
    using c by (auto simp: wait_cancelled_def removeWaiterLocked_def split: if_splits)
  have d: "distinct (sm_waiters sm)" using i distinct_sub unfolding inv_slots_def waiters_ok_def by blast
  have "mset (remove1 w (sm_waiters sm)) \<subseteq># mset (sm_waiters sm)" by simp
  also have "\<dots> \<subseteq># total waits_on (add_mset (Waiting nid pid protocol w) T)" using i unfolding inv_slots_def waiters_ok_def by blast
  finally have "mset (remove1 w (sm_waiters sm)) \<subseteq># total waits_on (add_mset (Waiting nid pid protocol w) T)" .
  moreover have "set (remove1 w (sm_waiters sm)) \<subseteq> set (sm_waiters sm)" by (rule set_remove1_subset)
  ultimately have "waiters_ok sm' (add_mset (Waiting nid pid protocol w) T)"
    using i g(1) unfolding inv_slots_def waiters_ok_def by auto
  from waiter_gone [OF this, of w "Ending nid"] have "waiters_ok sm' (add_mset (Ending nid) T)" using g(1) d by simp
  moreover have "queue_ok sm'" using i unfolding g(1) inv_slots_def queue_ok_def by (cases "sm_waiters sm") auto
  ultimately show ?thesis using i g False by (simp add: inv_slots_def slots_ok_def local_sessions_def granted_slots_def)
qed

lemma slots_fail_waiters:
  assumes i: "inv_slots sm T"
  shows "inv_slots (failWaitersLocked err sm) T"
proof -
  have "wt_granted (sm_waiter (failWaitersLocked err sm) w) = wt_granted (sm_waiter sm w)" for w by (simp add: failWaitersLocked_def)
  then have "granted_slots (failWaitersLocked err sm) T = granted_slots sm T" by (simp add: granted_slots_def)
  then have "slots_ok (failWaitersLocked err sm) T" using i by (simp add: inv_slots_def slots_ok_def local_sessions_def failWaitersLocked_def)
  moreover have "waiters_ok (failWaitersLocked err sm) T" using i by (auto simp: inv_slots_def waiters_ok_def failWaitersLocked_def)
  ultimately show ?thesis by (simp add: inv_slots_def queue_ok_def failWaitersLocked_def)
qed

lemma slots_set_max:
  assumes "inv_slots sm T"
  shows "inv_slots (SetMaxConnections n sm) T"
  unfolding SetMaxConnections_def
  by (rule inv_slots_grant) (use assms in \<open>auto simp: inv_slots_def slots_ok_def waiters_ok_def local_sessions_def granted_slots_def\<close>)

lemma slots_registered:
  assumes i: "inv_slots sm (add_mset (OnWorker nid pid protocol lease workerID retire) T)" and f: "finite (dom (sm_sessions sm))"
    and n: "sm_sessions sm (ss_PID s) = None" "ss_lease s = lease" and r: "register_session s sm = Some sm'"
  shows "inv_slots sm' (add_mset (Ending nid) T)"
proof -
  note fr = register_frame [OF r]
  have fin: "finite (local_sessions sm)" using f by (rule finite_subset [rotated]) (auto simp: local_sessions_def)
  have "local_sessions sm' = (if lease = None then insert (ss_PID s) (local_sessions sm) else local_sessions sm)"
    using n by (auto simp: local_sessions_def fr(1))
  moreover have "ss_PID s \<notin> local_sessions sm" using n by (simp add: local_sessions_def)
  ultimately have "int (card (local_sessions sm')) = int (card (local_sessions sm)) + (if lease = None then 1 else 0)"
    using fin by simp
  then have "slots_ok sm' (add_mset (Ending nid) T)" using i fr by (simp add: inv_slots_def slots_ok_def granted_slots_def)
  then show ?thesis using i fr by (simp add: inv_slots_def waiters_ok_def queue_ok_def)
qed

lemma local_sessions_alt: "local_sessions sm = {pid. map_option ss_lease (sm_sessions sm pid) = Some None}"
  by (auto simp: local_sessions_def)

lemma lease_update_progress [simp]:
  "map_option ss_lease (sm_sessions (UpdateProgress workerID p sm) pid) = map_option ss_lease (sm_sessions sm pid)"
  by (cases "sm_sessions sm pid") (auto simp: UpdateProgress_def split: option.split)

lemma local_frames [simp]:
  "local_sessions (mark_dead pids sm) = local_sessions sm" "local_sessions (forget_worker workerID sm) = local_sessions sm"
  "local_sessions (SetConnCloser pid conn sm) = local_sessions sm" "local_sessions (SetProtocol pid protocol sm) = local_sessions sm"
  "local_sessions (UpdateProgress workerID p sm) = local_sessions sm" "local_sessions (SetConnectionLimiter b sm) = local_sessions sm"
  "local_sessions (request_rebalance sm) = local_sessions sm" "local_sessions (with_lifecycle f sm) = local_sessions sm"
  "local_sessions (sm\<lparr>sm_lifecycle := l\<rparr>) = local_sessions sm" "local_sessions (sm\<lparr>sm_nextPID := n\<rparr>) = local_sessions sm"
  by (auto simp: local_sessions_alt) (auto simp: mark_dead_def forget_worker_def SetConnCloser_def SetProtocol_def
      SetConnectionLimiter_def split: option.splits if_splits)

text \<open>Whatever changes only the sessions' details, the lifecycle or the limiter.\<close>

lemma slots_details:
  assumes "inv_slots sm T"
  shows "inv_slots (mark_dead pids sm) T" "inv_slots (forget_worker workerID sm) T" "inv_slots (SetConnCloser pid conn sm) T"
    "inv_slots (SetProtocol pid protocol sm) T" "inv_slots (UpdateProgress workerID p sm) T" "inv_slots (SetConnectionLimiter b sm) T"
    "inv_slots (request_rebalance sm) T" "inv_slots (sm\<lparr>sm_nextPID := n\<rparr>) T"
    "(\<And>l. lc_closed l \<Longrightarrow> lc_closed (f l)) \<Longrightarrow> inv_slots (with_lifecycle f sm) T"
    "(isClosed sm \<Longrightarrow> lc_closed l) \<Longrightarrow> inv_slots (sm\<lparr>sm_lifecycle := l\<rparr>) T"
  by (rule slots_same [OF assms]; (simp; fail | simp add: mark_dead_def forget_worker_def SetConnCloser_def SetProtocol_def
      UpdateProgress_def SetConnectionLimiter_def))+

lemma new_pid_free:
  assumes "inv_pids r" "few_pids r"
  shows "sm_sessions (rn_sm r) (sm_nextPID (rn_sm r) + 1) = None"
proof (rule ccontr)
  assume "sm_sessions (rn_sm r) (sm_nextPID (rn_sm r) + 1) \<noteq> None"
  then have "sm_nextPID (rn_sm r) + 1 \<in># pids_in_use r" using assms(1) by (auto simp: pids_in_use_def inv_pids_def)
  then have "sm_nextPID (rn_sm r) + 1 \<in> issued_pids (rn_issued r)" using assms mset_subset_eqD by (fastforce simp: inv_pids_def)
  then show False using issued_fresh(1) [of "rn_issued r"] assms by (simp add: inv_pids_def few_pids_def)
qed

lemma slots_got_session:
  assumes i: "inv_slots (rn_sm r) (rn_threads r)" and p: "inv_pids r" and few: "few_pids r"
    and T: "rn_threads r = add_mset (OnWorker nid pid protocol lease workerID retire) T" and n: "session_pid pid (rn_sm r) = (sm, pid')"
  shows "inv_slots sm (add_mset (Releasing nid lease) T)"
    and "register_session (new_session pid' workerID protocol token lease) sm = Some sm' \<Longrightarrow> inv_slots sm' (add_mset (Ending nid) T)"
proof -
  note fr = session_pid_frame [OF n]
  have i': "inv_slots sm (add_mset (OnWorker nid pid protocol lease workerID retire) T)"
    using i unfolding T by (rule slots_same) (simp_all add: fr local_sessions_def)
  then show "inv_slots sm (add_mset (Releasing nid lease) T)" by (rule slots_swap) simp_all
  have "sm_sessions sm pid' = None"
  proof (cases "pid = 0")
    case True
    then show ?thesis using new_pid_free [OF p few] n by (auto simp: session_pid_def ReservePID_def)
  next
    case False
    then show ?thesis using pid_owner [OF p few T, of pid] n by (auto simp: session_pid_def)
  qed
  then have free: "sm_sessions sm (ss_PID (new_session pid' workerID protocol token lease)) = None" by (simp add: new_session_def)
  have f: "finite (dom (sm_sessions sm))" using p fr by (simp add: inv_pids_def)
  assume "register_session (new_session pid' workerID protocol token lease) sm = Some sm'"
  from slots_registered [OF i' f free _ this] show "inv_slots sm' (add_mset (Ending nid) T)" by (simp add: new_session_def)
qed

lemma slots_kept:
  assumes "sm_step r r'" and i: "inv_slots (rn_sm r) (rn_threads r)" and p: "inv_pids r" and few: "few_pids r'"
  shows "inv_slots (rn_sm r') (rn_threads r')"
proof -
  have f: "finite (dom (sm_sessions (rn_sm r)))" using p by (simp add: inv_pids_def)
  have rest: "inv_slots (rn_sm r) T" if "rn_threads r = add_mset t T" "slots_of t = 0" "waits_on t = {#}" for t T
    using slots_drop(1) [of "rn_sm r" t T] i that by simp
  have swap: "inv_slots (rn_sm r) (add_mset t' T)"
    if "rn_threads r = add_mset t T" "slots_of t' = slots_of t" "waits_on t' = waits_on t" for t t' T
    using slots_swap [of "rn_sm r" t T t'] i that by simp
  show ?thesis
    using assms(1)
  proof (cases rule: sm_step.cases)
    case (got_session nid pid protocol lease workerID retireOnFailure T sm pid' token alive)
    have "few_pids r" using few got_session(1) by (auto simp: few_pids_def split: option.splits if_splits)
    from slots_got_session [OF i p this got_session(2,3)] show ?thesis
      using got_session(1) by (auto intro: slots_details split: option.split)
  next
    case (enter nid pid protocol T sm x)
    then show ?thesis using slots_enter i by simp
  next
    case (wait_ready nid pid protocol w T)
    then show ?thesis using slots_ready i by simp
  next
    case (wait_ended nid pid protocol w T sm g)
    then show ?thesis using slots_wait_ended i by simp
  next
    case (release nid lease T)
    then show ?thesis using slots_release i by simp
  next
    case (crash_detach workerID pid pids T)
    have "inv_slots (rn_sm r) T" by (rule rest [OF crash_detach(2)]) simp_all
    then show ?thesis using slots_detach [OF _ f, of T pid] crash_detach(1) by (auto intro!: slots_drop(2) split: option.split)
  next
    case (drain_destroy pid pids T)
    have "inv_slots (rn_sm r) T" by (rule rest [OF drain_destroy(2)]) simp_all
    then show ?thesis using slots_detach [OF _ f, of T pid] drain_destroy(1) by (auto intro!: slots_drop(2) split: option.split)
  next
    case (destroy pid s sm)
    then show ?thesis using slots_detach [OF i f destroy(2)] by (simp add: slots_drop(2))
  next
    case (drain_snapshot T pids)
    have "inv_slots (rn_sm r) T" by (rule rest [OF drain_snapshot(2)]) simp_all
    then show ?thesis using drain_snapshot(1) by (auto intro!: slots_drop(2) slots_fail_waiters)
  next
    case (set_max n)
    then show ?thesis using slots_set_max [OF i] by simp
  next
    case (begin_create l nid pid protocol)
    then show ?thesis using begin_frame [OF begin_create(2)] i by (auto intro!: slots_drop(2) slots_details(10))
  next
    case (limiter_grants nid pid protocol T l)
    then show ?thesis using swap [OF limiter_grants(2)] by simp
  next
    case (no_worker nid pid protocol lease T)
    then show ?thesis using swap [OF no_worker(2)] by simp
  next
    case (got_worker nid pid protocol lease T workerID retireOnFailure)
    then show ?thesis using swap [OF got_worker(2)] by simp
  next
    case (no_session nid pid protocol lease workerID retireOnFailure T)
    then show ?thesis using swap [OF no_session(2)] by simp
  qed (use i in \<open>auto simp: ReservePID_def intro!: slots_details slots_drop(2) intro: rest\<close>)
qed

text \<open>No step takes more slots than the limit allows.\<close>

definition within_limit :: "int \<Rightarrow> SessionManager \<Rightarrow> bool" where
  "within_limit before sm \<longleftrightarrow>
     (sm_activeSlots sm > before \<longrightarrow> sm_maxConnections sm \<le> 0 \<or> sm_activeSlots sm \<le> sm_maxConnections sm)"

lemma grant_limit:
  assumes "sm_activeSlots sm \<le> before"
  shows "within_limit before (grantWaitersLocked sm)"
proof (cases "isClosed sm")
  case True
  then show ?thesis using assms by (simp add: grantWaitersLocked_def within_limit_def)
next
  case False
  obtain left gs a where g: "grant_loop (sm_maxConnections sm) (sm_waiters sm) (sm_activeSlots sm) = (left, gs, a)"
    using prod_cases3 by blast
  then show ?thesis
    using False assms grant_loop_spec [OF g] by (auto simp: grantWaitersLocked_def within_limit_def)
qed

lemma detach_limit:
  assumes "detach_for_cleanup pid sm = Some (s, sm')"
  shows "within_limit (sm_activeSlots sm) sm'"
proof -
  have "within_limit n (sm\<lparr>sm_lifecycle := l\<rparr>) = within_limit n sm" for n sm l by (simp add: within_limit_def)
  then show ?thesis
    using assms
    by (auto simp: detach_for_cleanup_def detachSessionLocked_def removeSessionFromWorkerLocked_def Let_def
        split: option.splits if_splits intro!: grant_limit)
qed

lemma release_limit: "within_limit (sm_activeSlots sm) (release_connection_slot lease sm)"
  by (cases lease) (simp_all add: release_connection_slot_def release_slot_def grant_limit within_limit_def [of _ sm])

lemma step_limit:
  assumes "sm_step r r'"
  shows "within_limit (sm_activeSlots (rn_sm r)) (rn_sm r')"
  using assms
proof (cases rule: sm_step.cases)
  case (enter nid pid protocol T sm x)
  then show ?thesis by (auto simp: acquire_local_def within_limit_def Let_def split: if_splits)
next
  case (wait_ended nid pid protocol w T sm g)
  then show ?thesis by (auto simp: wait_cancelled_def removeWaiterLocked_def within_limit_def split: if_splits)
next
  case (got_session nid pid protocol lease workerID retireOnFailure T sm pid' token alive)
  then show ?thesis
    using session_pid_frame [OF got_session(3)] register_frame by (auto simp: within_limit_def split: option.splits)
next
  case (release nid lease T)
  then show ?thesis using release_limit by simp
next
  case (set_max n)
  then show ?thesis by (auto simp: SetMaxConnections_def intro: grant_limit)
qed (auto simp: ReservePID_def detach_limit split: option.split; simp add: within_limit_def mark_dead_def forget_worker_def SetConnCloser_def
    SetProtocol_def UpdateProgress_def SetConnectionLimiter_def failWaitersLocked_def)+

lemma reach_ok:
  "sm_reach rebalancer r \<Longrightarrow> inv_pids r \<and> lc_active (sm_lifecycle (rn_sm r)) = total active_of (rn_threads r) \<and>
     (few_pids r \<longrightarrow> inv_slots (rn_sm r) (rn_threads r))"
proof (induction rule: sm_reach.induct)
  case start
  then show ?case
    by (simp add: new_run_def NewSessionManager_def newSessionLifecycle_def inv_pids_def pids_in_use_def inv_slots_def slots_ok_def
        waiters_ok_def queue_ok_def local_sessions_def)
next
  case (more r r')
  have "rn_issued r \<le> rn_issued r'"
    using more.hyps(2) by (cases rule: sm_step.cases) (auto split: option.split)
  then have "few_pids r' \<longrightarrow> few_pids r" by (auto simp: few_pids_def)
  then show ?case using more pids_kept active_counted slots_kept by blast
qed

section \<open>Draining\<close>

fun after_close :: "thread \<Rightarrow> bool" where
  "after_close DrainSnapshot \<longleftrightarrow> True"
| "after_close (DrainDestroying pids) \<longleftrightarrow> True"
| "after_close (DrainCleaning s pids) \<longleftrightarrow> True"
| "after_close DrainWaiting \<longleftrightarrow> True"
| "after_close Drained \<longleftrightarrow> True"
| "after_close _ \<longleftrightarrow> False"

definition empty_manager :: "SessionManager \<Rightarrow> bool" where
  "empty_manager sm \<longleftrightarrow> sm_sessions sm = (\<lambda>_. None) \<and> sm_waiters sm = []"

definition inv_drain :: "sm_run \<Rightarrow> bool" where
  "inv_drain r \<longleftrightarrow>
     (\<forall>t \<in># rn_threads r. after_close t \<longrightarrow> isClosed (rn_sm r)) \<and>
     (DrainWaiting \<in># rn_threads r \<or> Drained \<in># rn_threads r \<longrightarrow> empty_manager (rn_sm r)) \<and>
     (Drained \<in># rn_threads r \<longrightarrow> lc_active (sm_lifecycle (rn_sm r)) = 0)"

lemma closed_stays:
  assumes "sm_step r r'" "isClosed (rn_sm r)"
  shows "isClosed (rn_sm r')"
  using assms
  by (cases rule: sm_step.cases)
    (auto simp: ReservePID_def begin_frame acquire_frame cancelled_frame detach_frame session_pid_frame register_session_def split: option.splits)

lemma empty_stays:
  assumes "sm_step r r'" "isClosed (rn_sm r)" "empty_manager (rn_sm r)"
  shows "empty_manager (rn_sm r')"
  using assms
proof (cases rule: sm_step.cases)
  case (got_session nid pid protocol lease workerID retireOnFailure T sm pid' token alive)
  then show ?thesis using assms(2,3) session_pid_frame [OF got_session(3)] by (simp add: register_session_def empty_manager_def)
next
  case (enter nid pid protocol T sm x)
  then show ?thesis using assms(2,3) by (simp add: acquire_local_def)
next
  case (crash_detach workerID pid pids T)
  then show ?thesis using assms(3) detach_None [of pid "rn_sm r"] by (simp add: empty_manager_def)
next
  case (drain_destroy pid pids T)
  then show ?thesis using assms(3) detach_None [of pid "rn_sm r"] by (simp add: empty_manager_def)
next
  case (destroy pid s sm)
  then show ?thesis using assms(3) detach_None [of pid "rn_sm r"] by (simp add: empty_manager_def)
next
  case (release nid lease T)
  then show ?thesis
    using assms(2,3) by (cases lease) (auto simp: release_connection_slot_def release_slot_def grantWaitersLocked_def empty_manager_def)
next
  case (set_max n)
  then show ?thesis using assms(2,3) by (simp add: SetMaxConnections_def grantWaitersLocked_def empty_manager_def)
qed (auto simp: ReservePID_def wait_cancelled_def removeWaiterLocked_def begin_creation_def empty_manager_def mark_dead_def forget_worker_def
    SetConnCloser_def SetProtocol_def UpdateProgress_def SetConnectionLimiter_def failWaitersLocked_def split: if_splits)

lemma active_nonneg: "0 \<le> total active_of T"
proof -
  have "0 \<le> active_of t" for t by (cases t rule: active_of.cases) auto
  then show ?thesis by (induction T) (simp_all add: add_nonneg_nonneg)
qed

text \<open>When nothing is under way and there is no session, nothing can begin.\<close>

lemma quiet_stays:
  assumes "sm_step r r'" "isClosed (rn_sm r)" "empty_manager (rn_sm r)" "lc_active (sm_lifecycle (rn_sm r)) = 0"
    and a: "lc_active (sm_lifecycle (rn_sm r)) = total active_of (rn_threads r)"
  shows "lc_active (sm_lifecycle (rn_sm r')) = 0"
proof -
  have none: "active_of t = 0" if "rn_threads r = add_mset t T" for t T
    using a assms(4) that active_nonneg [of T] by (cases t) auto
  show ?thesis
    using assms(1)
  proof (cases rule: sm_step.cases)
    case (got_session nid pid protocol lease workerID retireOnFailure T sm pid' token alive)
    then show ?thesis using none [OF got_session(2)] by simp
  next
    case (destroy pid s sm)
    then show ?thesis using assms(3) detach_None [of pid "rn_sm r"] by (simp add: empty_manager_def)
  next
    case (crash_detach workerID pid pids T)
    then show ?thesis using assms(3,4) detach_None [of pid "rn_sm r"] by (simp add: empty_manager_def)
  next
    case (drain_destroy pid pids T)
    then show ?thesis using assms(3,4) detach_None [of pid "rn_sm r"] by (simp add: empty_manager_def)
  qed (use assms(2,4) none in \<open>auto simp: ReservePID_def begin_creation_def acquire_frame cancelled_frame dest: none split: if_splits\<close>)
qed

lemma drain_kept:
  assumes st: "sm_step r r'" and d: "inv_drain r" and a: "lc_active (sm_lifecycle (rn_sm r)) = total active_of (rn_threads r)"
  shows "inv_drain r'"
proof -
  have old: "isClosed (rn_sm r')" if "t \<in># rn_threads r" "after_close t" for t
    using closed_stays [OF st] d that by (auto simp: inv_drain_def)
  have closed: "isClosed (rn_sm r)" if "DrainWaiting \<in># rn_threads r \<or> Drained \<in># rn_threads r"
    using d that unfolding inv_drain_def by (metis after_close.simps(4,5))
  have old_empty: "empty_manager (rn_sm r')" if "DrainWaiting \<in># rn_threads r \<or> Drained \<in># rn_threads r"
    using empty_stays [OF st closed [OF that]] d that by (auto simp: inv_drain_def)
  have old_quiet: "lc_active (sm_lifecycle (rn_sm r')) = 0" if "Drained \<in># rn_threads r"
    using quiet_stays [OF st closed _ _ a] d that by (auto simp: inv_drain_def)
  have key: ?thesis if "\<exists>t \<in># rn_threads r'. after_close t \<Longrightarrow> \<exists>t \<in># rn_threads r. after_close t"
    "DrainWaiting \<in># rn_threads r' \<Longrightarrow> DrainWaiting \<in># rn_threads r" "Drained \<in># rn_threads r' \<Longrightarrow> Drained \<in># rn_threads r"
    unfolding inv_drain_def using that old old_empty old_quiet by blast
  show ?thesis
    using st
  proof (cases rule: sm_step.cases)
    case (drain_close T)
    then show ?thesis using old_empty old_quiet by (auto simp: inv_drain_def)
  next
    case (drain_snapshot T pids)
    have "isClosed (rn_sm r')" by (rule old [of DrainSnapshot]) (simp_all add: drain_snapshot(2))
    moreover have "empty_manager (rn_sm r')" if "pids = []"
      using that drain_snapshot by (auto simp: empty_manager_def failWaitersLocked_def)
    ultimately show ?thesis
      using old_empty old_quiet drain_snapshot(1,2) by (auto simp: inv_drain_def)
  next
    case (drain_over T)
    have "isClosed (rn_sm r')" "empty_manager (rn_sm r')" using old [of DrainWaiting] old_empty by (simp_all add: drain_over(2))
    moreover have "lc_active (sm_lifecycle (rn_sm r')) = 0" using drain_over a active_nonneg [of "rn_threads r"] by simp
    ultimately show ?thesis by (simp add: inv_drain_def)
  qed (rule key; auto simp: slot_thread_def split: option.splits slot.splits if_splits)+
qed

lemma reach_drain: "sm_reach rebalancer r \<Longrightarrow> inv_drain r"
proof (induction rule: sm_reach.induct)
  case start
  then show ?case by (simp add: inv_drain_def new_run_def)
next
  case (more r r')
  then show ?case using drain_kept reach_ok by blast
qed

lemma active_zero: "total active_of T = 0 \<Longrightarrow> \<forall>t \<in># T. active_of t = 0"
proof (induction T)
  case (add t T)
  have "0 \<le> active_of t" by (cases t rule: active_of.cases) auto
  then show ?case using add active_nonneg [of T] by auto
qed simp

lemma idle_threads: "\<forall>t \<in># T. active_of t = 0 \<Longrightarrow> total slots_of T = 0 \<and> total waits_on T = {#}"
proof (induction T)
  case (add t T)
  then show ?case by (cases t) auto
qed simp

text \<open>
  \<^bold>\<open>C13\<close>. The slots of a session manager. However sessions are created, destroyed and lost with their workers at the
  same time, and however the limit is changed meanwhile, the slots in use are exactly the sessions that were admitted without
  a lease of the cluster and the creations that have been given a slot and have not yet used or returned it; nobody waits
  while a slot is free; and no step takes slots beyond the limit. PIDs are told apart as long as fewer than about four
  thousand million have been given.
\<close>

theorem slots_accounted:
  assumes "sm_reach rebalancer r" "few_pids r"
  shows "sm_activeSlots (rn_sm r) =
      int (card (local_sessions (rn_sm r))) + total slots_of (rn_threads r) + granted_slots (rn_sm r) (rn_threads r) \<and>
    (\<not> isClosed (rn_sm r) \<and> sm_waiters (rn_sm r) \<noteq> [] \<longrightarrow>
      0 < sm_maxConnections (rn_sm r) \<and> sm_maxConnections (rn_sm r) \<le> sm_activeSlots (rn_sm r)) \<and>
    (\<forall>r'. sm_step r r' \<and> sm_activeSlots (rn_sm r) < sm_activeSlots (rn_sm r') \<longrightarrow>
      sm_maxConnections (rn_sm r') \<le> 0 \<or> sm_activeSlots (rn_sm r') \<le> sm_maxConnections (rn_sm r'))"
  using reach_ok [OF assms(1)] assms(2) step_limit unfolding inv_slots_def slots_ok_def queue_ok_def within_limit_def by blast

theorem slots_accounted_witness:
  "\<exists>r. sm_reach None r \<and> sm_activeSlots (rn_sm r) = 1 \<and> total slots_of (rn_threads r) = 1 \<and> card (local_sessions (rn_sm r)) = 0 \<and>
     granted_slots (rn_sm r) (rn_threads r) = 0"
proof -
  define sm1 where "sm1 = SetMaxConnections 1 (NewSessionManager None)"
  define r1 where "r1 = (new_run None)\<lparr>rn_sm := sm1\<rparr>"
  have r1: "sm_reach None r1" using more [OF start set_max, of None 1] by (simp add: r1_def sm1_def new_run_def)
  obtain l nid where l: "begin_creation (sm_lifecycle sm1) = Some (l, nid)" "\<not> lc_closed l"
    by (auto simp: sm1_def NewSessionManager_def newSessionLifecycle_def begin_creation_def)
  define sm2 where "sm2 = sm1\<lparr>sm_lifecycle := l\<rparr>"
  define r2 where "r2 = (go sm2 {#Starting nid 0 ''postgres''#} [] r1)\<lparr>rn_reserved := {}\<rparr>"
  have r2: "sm_reach None r2"
    using more [OF r1 begin_create [of r1 l nid 0]] l(1) by (simp add: r2_def sm2_def r1_def new_run_def)
  have sm2: "\<not> isClosed sm2" "\<not> sm_limiter sm2" "sm_activeSlots sm2 = 0" "sm_maxConnections sm2 = 1" "sm_sessions sm2 = (\<lambda>_. None)"
    using l(2) by (simp_all add: sm2_def sm1_def SetMaxConnections_def grantWaitersLocked_def NewSessionManager_def newSessionLifecycle_def)
  define r3 where "r3 = go sm2 {#Entering nid 0 ''postgres''#} [] r2"
  have r3: "sm_reach None r3" using more [OF r2 acquire_limiter [of r2 nid 0 "''postgres''" "{#}"]] sm2 by (simp add: r2_def r3_def)
  define sm4 where "sm4 = sm2\<lparr>sm_activeSlots := 1\<rparr>"
  define r4 where "r4 = go sm4 {#Holding nid 0 ''postgres'' None#} [] r3"
  have "acquire_local sm2 = (sm4, Taken)" using sm2 by (simp add: acquire_local_def sm4_def)
  then have r4: "sm_reach None r4"
    using more [OF r3 enter [of r3 nid 0 "''postgres''" "{#}" sm4 Taken]] by (simp add: r3_def r4_def slot_thread_def)
  have "few_pids r4" by (simp add: r4_def r3_def r2_def r1_def new_run_def few_pids_def)
  from slots_accounted [OF r4 this] show ?thesis
    using r4 sm2(5) by (auto intro!: exI [of _ r4] simp: r4_def sm4_def local_sessions_def)
qed

text \<open>
  \<^bold>\<open>C12\<close>. Draining is complete. Once \<^verbatim>\<open>DestroyAllSessions\<close> has returned there is no session, no creation and no
  cleanup under way, nobody waiting and no slot in use, and it stays so: no step leads out of it, although sessions may have
  been created, destroyed and lost while it ran.
\<close>

theorem drain_complete:
  assumes "sm_reach rebalancer r" "few_pids r" "Drained \<in># rn_threads r"
  shows "sm_sessions (rn_sm r) = (\<lambda>_. None) \<and> sm_waiters (rn_sm r) = [] \<and> sm_activeSlots (rn_sm r) = 0 \<and>
    (\<forall>t \<in># rn_threads r. active_of t = 0) \<and> (\<forall>r'. sm_step r r' \<longrightarrow> Drained \<in># rn_threads r')"
proof -
  have d: "empty_manager (rn_sm r)" "lc_active (sm_lifecycle (rn_sm r)) = 0"
    using reach_drain [OF assms(1)] assms(3) by (auto simp: inv_drain_def)
  then have none: "\<forall>t \<in># rn_threads r. active_of t = 0" using reach_ok [OF assms(1)] active_zero by simp
  have "sm_activeSlots (rn_sm r) = 0"
    using reach_ok [OF assms(1)] assms(2) idle_threads [OF none] d(1)
    by (simp add: inv_slots_def slots_ok_def granted_slots_def local_sessions_def empty_manager_def)
  moreover have "Drained \<in># rn_threads r'" if "sm_step r r'" for r'
    using that assms(3) by (cases rule: sm_step.cases) (auto split: option.splits)
  ultimately show ?thesis using d(1) none by (simp add: empty_manager_def)
qed

theorem drain_complete_witness:
  "\<exists>r. sm_reach None r \<and> Drained \<in># rn_threads r \<and> sm_activeSlots (rn_sm r) = 0 \<and> (\<forall>r'. sm_step r r' \<longrightarrow> Drained \<in># rn_threads r')"
proof -
  define sm0 where "sm0 = NewSessionManager None"
  define sm1 where "sm1 = with_lifecycle close_lifecycle sm0"
  define r1 where "r1 = go sm0 {#DrainLoop#} [] (new_run None)"
  have r1: "sm_reach None r1" using more [OF start drain] by (simp add: r1_def sm0_def new_run_def)
  define r2 where "r2 = go sm1 {#DrainSnapshot#} [] r1"
  have r2: "sm_reach None r2" using more [OF r1 drain_close [of r1 "{#}"]] by (simp add: r1_def r2_def sm1_def)
  define r3 where "r3 = go (failWaitersLocked ErrSessionManagerDraining sm1) {#DrainWaiting#} [] r2"
  have r3: "sm_reach None r3"
    using more [OF r2 drain_snapshot [of r2 "{#}" "[]"]] by (simp add: r2_def r3_def sm1_def sm0_def NewSessionManager_def)
  define r4 where "r4 = go (with_lifecycle close_lifecycle (rn_sm r3)) {#Drained#} [] r3"
  have r4: "sm_reach None r4"
    using more [OF r3 drain_over [of r3 "{#}"]] by (simp add: r3_def r4_def sm1_def sm0_def NewSessionManager_def newSessionLifecycle_def)
  have "few_pids r4" "Drained \<in># rn_threads r4" by (simp_all add: r4_def r3_def r2_def r1_def new_run_def few_pids_def)
  from drain_complete [OF r4 this] show ?thesis using r4 \<open>Drained \<in># rn_threads r4\<close> by blast
qed

end
