(* ===== verification/Spec2Isabelle.thy ===== *)
theory Spec2Isabelle
  imports Worker_Capacity Worker_Lifecycle Control_Plane_Store Connection_Limiter Janitor_Safety
    Auth_Policy Worker_State Tenant_Secrets Flight_Auth Connection_Startup Array_Text Binary_Roundtrip Protocol Copy_Guarantees
    Session_Drain
begin

text \<open>
  duckgres is a PostgreSQL server in front of DuckDB. Clients speak the PostgreSQL wire protocol; the server parses and
  rewrites their statements and runs them on DuckDB. In the multi-tenant deployment a \<^emph>\<open>control plane\<close> (any number of
  replicas) accepts the connections, finds out which organisation a client belongs to, and runs each session on a
  \<^emph>\<open>worker\<close>, a pod with DuckDB that was started beforehand and serves one organisation at a time. The replicas share a
  database, the \<^emph>\<open>config store\<close>: its configuration tables say which organisations, users and warehouses there are, and
  its runtime tables hold the workers, the control planes, the queue and the leases of connections. One replica is the
  leader and runs the \<^emph>\<open>janitor\<close>, which retires workers whose owner is gone. This development models these parts as they
  are written under \<^verbatim>\<open>src/\<close> and proves what they promise each other and the client.

  \<^bold>\<open>Conventions.\<close> Pure Go functions are functions; a struct is a record, a Go string or byte slice the list of its
  bytes, a map a partial function or an association list in the order it is walked, an \<^verbatim>\<open>int32\<close> or \<^verbatim>\<open>uint64\<close> a word where
  its width matters. A method that changes its receiver returns it; an error is a value, a panic an outcome or a flag of the
  state. SQL statements and transactions are one atomic step on lists of rows; an operation takes the clock it reads and the
  database's verdict. Critical sections of a lock are one step each, and what may run at the same time is a step relation.
  Code that is not under \<^verbatim>\<open>src/\<close> is a parameter: the database, the parser of PostgreSQL's grammar, bcrypt, the floating
  point and time formats of Go's library (\<open>golib\<close>), files, CSV, the stream to a worker (the fields of \<open>world\<close>).

  \<^bold>\<open>The shared ground.\<close> \<open>Prelude\<close> (times, Go's string functions, the relational operations that the SQL is written with),
  \<open>Bytes\<close> (big-endian words, readers), \<open>Runes\<close> (UTF-8), \<open>Go_Regexp\<close> (leftmost-first matching).

  \<^bold>\<open>The config store\<close> (\<^verbatim>\<open>controlplane/configstore\<close>). \<open>Config_Models\<close> and \<open>Runtime_Models\<close> are the tables of
  \<^verbatim>\<open>models.go\<close>. \<open>Worker_Store\<close> has every operation on worker rows of \<^verbatim>\<open>store.go\<close> and \<^verbatim>\<open>lifecycle_store.go\<close>: claims,
  take-over, slot creation, fenced updates. \<open>Worker_Fencing\<close> states the contract of a row over time (the locale
  \<open>fenced_update\<close>, interpreted for each conditional update) and shows that all operations keep it; \<open>Worker_Guarantees\<close> and
  \<open>Worker_Capacity\<close> draw the conclusions: the history of a row is monotone, a superseded lease never writes, no two claims
  get one worker at one epoch, an outdated observation never retires, the limits hold. \<open>Worker_Lifecycle\<close> is
  \<^verbatim>\<open>controlplane/worker_lifecycle.go\<close> over its store interface (the locale \<open>lifecycle_store\<close>, interpreted by the config
  store): only terminal workers are deleted. \<open>Control_Plane_Store\<close> has the other runtime tables. \<open>Org_Connections\<close> and
  \<open>Org_Admission\<close> are the admission queue (\<^verbatim>\<open>org_connections.go\<close>) with its retries: leases within the limit, first come
  first served. \<open>Connection_Limiter\<close> is the polling loop of \<^verbatim>\<open>controlplane/connection_limiter.go\<close> over the locale
  \<open>org_connection_store\<close>; it returns and leaves nothing behind. \<open>Org_Resolution\<close> and \<open>Org_Tenancy\<close> are the configuration
  snapshot and the lookups that decide the organisation of a client; \<open>Tenant_Secrets\<close> is \<^verbatim>\<open>tenant_refs.go\<close>.

  \<^bold>\<open>The control plane\<close> (\<^verbatim>\<open>controlplane\<close>). \<open>Janitor\<close> and \<open>Janitor_Safety\<close> are one tick of \<^verbatim>\<open>janitor.go\<close> and the heartbeat
  of \<^verbatim>\<open>runtime_tracker.go\<close>, other control planes acting between the calls: orphans are retired, live workers spared.
  \<open>Worker_State\<close> is \<^verbatim>\<open>worker_state.go\<close>: a worker serves one tenant. \<open>Warm_Capacity\<close> has the targets of warm workers.
  \<open>Raw_Startup\<close>, \<open>SNI_Routing\<close> and \<open>Connection_Startup\<close> are \<^verbatim>\<open>handleConnection\<close> of \<^verbatim>\<open>control.go\<close> from the first byte
  to the end of the connection, as the trace of its calls: no session without a login, every reservation given back, which
  packets panic. \<open>Flight_Auth\<close> has the Flight ingress. \<open>Memory_Rebalancer\<close> and \<open>Session_Manager\<close> are the critical sections
  of \<^verbatim>\<open>memory_rebalancer.go\<close>, \<^verbatim>\<open>session_mgr.go\<close> and \<^verbatim>\<open>session_lifecycle.go\<close>; \<open>Session_Drain\<close> runs any number of creations,
  destructions, crashes and drains at once and shows that slots are accounted for and that a drain that returns has left
  nothing.

  \<^bold>\<open>Authentication\<close> (\<^verbatim>\<open>server/auth\<close>). \<open>Rate_Limiter\<close> and \<open>Auth_Policy\<close>: the limits hold, bans are enforced, a password is
  accepted exactly if it is the user's.

  \<^bold>\<open>The wire and the values\<close> (\<^verbatim>\<open>server/wire\<close>, \<^verbatim>\<open>server/types.go\<close>). \<open>Wire\<close> reads and writes every message.
  \<open>Text_Format\<close>, \<open>Binary_Types\<close> and \<open>Binary_Decode\<close> are the text and binary forms of values; \<open>Array_Text\<close>,
  \<open>Numeric_Roundtrip\<close> and \<open>Binary_Roundtrip\<close> show what reads back as it was. \<open>Startup_Options\<close> is
  \<^verbatim>\<open>server/startup_options.go\<close>.

  \<^bold>\<open>The connection\<close> (\<^verbatim>\<open>server/conn.go\<close>). \<open>SQL_Scan\<close>, \<open>SQL_Rewrite\<close> and \<open>Query_Errors\<close> classify and change the text of
  statements and errors. \<open>Client_Conn\<close> is the state of a connection; \<open>Cursors\<close>, \<open>Copy_Options\<close>, \<open>Copy\<close>, \<open>Copy_In\<close>,
  \<open>Simple_Query\<close> and \<open>Extended_Query\<close> are all its handlers and the message loop. \<open>Protocol_Answers\<close>, \<open>Protocol_Copy\<close>,
  \<open>Protocol_Simple\<close> and \<open>Protocol\<close> show that the loop implements an abstract machine of the PostgreSQL protocol.
  \<open>Copy_Guarantees\<close> shows what COPY does with the data. \<open>Bare_World\<close> has concrete parameters for examples.

  \<^bold>\<open>Bounds and fuel.\<close> The message loop is bounded by the number of messages that are there, since each round takes one.
  The loops of COPY and of the scanners go down on the bytes left. The retries of transactions, statements and lease releases
  have the limits of the code. The polling loops take the list of their rounds. PIDs are words; the results on sessions hold
  until the counter of PIDs comes round.

  \<^bold>\<open>Not modelled.\<close> The transpiler rewrites the tree of the \<^verbatim>\<open>pg_query\<close> library, whose types are not part of the sources.
  The worker service, the catalog emulation, DuckLake and Iceberg hand SQL text to DuckDB or Arrow arrays to their
  libraries. The Kubernetes pool, the activation of workers, the provisioner and the admin interface are calls to
  Kubernetes, AWS and HTTP libraries around store operations that are modelled. TLS certificates, metrics, traces, the query
  log, process start and hand-over are work of the operating system and of libraries. The resolution of settings from
  flags, environment and file, the cache proxy, the org router with its reserved pools and the scheduler of credential
  refreshes could be modelled in the same way and are not.
\<close>

end
